(* ===== verification/Prelude.thy ===== *)
theory Prelude
  imports Main
    "HOL-Library.State_Monad"
    "HOL-Library.Char_ord"
    "HOL-Library.List_Lexorder"
begin

text \<open>
  What every component shares: the parts of Go's standard library the sources
  call (package strings, path, sort and the integer printer), the order of Go
  strings (bytewise lexicographic, which is the order of \<^typ>\<open>string\<close> here),
  insertion sort for \<^verbatim>\<open>sort.Slice\<close>, and generic lemmas on lists.
  A Go string is a list of bytes, and a \<^typ>\<open>char\<close> is a byte, so \<^typ>\<open>string\<close>
  is Go's string. Rune-wise operations (ToLower, strings.Map, TrimSpace) are
  written for ASCII text, the alphabet of Kubernetes names and labels.
\<close>

named_theorems go_string \<open>facts about the modelled part of package strings\<close>
named_theorems go_list \<open>facts about lists, sorting and deduplication\<close>


section \<open>Package strings\<close>

definition HasPrefix :: "string \<Rightarrow> string \<Rightarrow> bool" where
  "HasPrefix s p = (take (length p) s = p)"

definition HasSuffix :: "string \<Rightarrow> string \<Rightarrow> bool" where
  "HasSuffix s p = (drop (length s - length p) s = p)"

definition TrimPrefix :: "string \<Rightarrow> string \<Rightarrow> string" where
  "TrimPrefix s p = (if HasPrefix s p then drop (length p) s else s)"

definition TrimSuffix :: "string \<Rightarrow> string \<Rightarrow> string" where
  "TrimSuffix s p = (if HasSuffix s p then take (length s - length p) s else s)"

fun Contains :: "string \<Rightarrow> string \<Rightarrow> bool" where
  "Contains [] p = (p = [])"
| "Contains (c # s) p = (HasPrefix (c # s) p \<or> Contains s p)"

definition TrimLeft :: "string \<Rightarrow> string \<Rightarrow> string" where
  "TrimLeft s cutset = dropWhile (\<lambda>c. c \<in> set cutset) s"

definition TrimRight :: "string \<Rightarrow> string \<Rightarrow> string" where
  "TrimRight s cutset = rev (dropWhile (\<lambda>c. c \<in> set cutset) (rev s))"

definition Trim :: "string \<Rightarrow> string \<Rightarrow> string" where
  "Trim s cutset = TrimRight (TrimLeft s cutset) cutset"

definition ascii_space :: string where
  "ascii_space = [CHR 0x09, CHR 0x0A, CHR 0x0B, CHR 0x0C, CHR 0x0D, CHR '' '']"

definition TrimSpace :: "string \<Rightarrow> string" where
  "TrimSpace s = Trim s ascii_space"

function ReplaceAll :: "string \<Rightarrow> string \<Rightarrow> string \<Rightarrow> string" where
  "ReplaceAll s old new =
     (if old = [] then new @ concat (map (\<lambda>c. c # new) s)
      else case s of
        [] \<Rightarrow> []
      | c # cs \<Rightarrow>
          if HasPrefix s old then new @ ReplaceAll (drop (length old) s) old new
          else c # ReplaceAll cs old new)"
  by pat_completeness auto
termination
  by (relation "measure (\<lambda>(s, old, new). length s)") auto

declare ReplaceAll.simps [simp del]

function split_from :: "string \<Rightarrow> string \<Rightarrow> string \<Rightarrow> string list" where
  "split_from sep acc s =
     (case s of
        [] \<Rightarrow> [rev acc]
      | c # cs \<Rightarrow>
          if sep \<noteq> [] \<and> HasPrefix s sep then rev acc # split_from sep [] (drop (length sep) s)
          else split_from sep (c # acc) cs)"
  by pat_completeness auto
termination
  by (relation "measure (\<lambda>(sep, acc, s). length s)") auto

declare split_from.simps [simp del]

definition Split :: "string \<Rightarrow> string \<Rightarrow> string list" where
  "Split s sep = (if sep = [] then map (\<lambda>c. [c]) s else split_from sep [] s)"

fun Join :: "string list \<Rightarrow> string \<Rightarrow> string" where
  "Join [] sep = []"
| "Join [x] sep = x"
| "Join (x # y # xs) sep = x @ sep @ Join (y # xs) sep"

definition is_digit :: "char \<Rightarrow> bool" where
  "is_digit c \<longleftrightarrow> CHR ''0'' \<le> c \<and> c \<le> CHR ''9''"

definition is_lower :: "char \<Rightarrow> bool" where
  "is_lower c \<longleftrightarrow> CHR ''a'' \<le> c \<and> c \<le> CHR ''z''"

definition is_upper :: "char \<Rightarrow> bool" where
  "is_upper c \<longleftrightarrow> CHR ''A'' \<le> c \<and> c \<le> CHR ''Z''"

definition lower_char :: "char \<Rightarrow> char" where
  "lower_char c = (if is_upper c then char_of (of_char c + 32 :: nat) else c)"

definition ToLower :: "string \<Rightarrow> string" where
  "ToLower s = map lower_char s"

definition EqualFold :: "string \<Rightarrow> string \<Rightarrow> bool" where
  "EqualFold s t = (ToLower s = ToLower t)"

definition digit_char :: "nat \<Rightarrow> char" where
  "digit_char d = char_of (48 + d)"

fun Itoa :: "nat \<Rightarrow> string" where
  "Itoa n = (if n < 10 then [digit_char n] else Itoa (n div 10) @ [digit_char (n mod 10)])"

declare Itoa.simps [simp del]

text \<open>\<^verbatim>\<open>fmt.Sprintf\<close> for the verbs the sources use. The arguments are already printed;
  \<^verbatim>\<open>%q\<close> adds the quotes and escapes of a printable ASCII string.\<close>

definition Quote :: "string \<Rightarrow> string" where
  "Quote s = [CHR 0x22]
     @ concat (map (\<lambda>c. if c = CHR 0x22 \<or> c = CHR 0x5C then [CHR 0x5C, c] else [c]) s)
     @ [CHR 0x22]"

fun Sprintf :: "string \<Rightarrow> string list \<Rightarrow> string" where
  "Sprintf [] args = []"
| "Sprintf [c] args = [c]"
| "Sprintf (c # d # f) args =
     (if c \<noteq> CHR ''%'' then c # Sprintf (d # f) args
      else if d = CHR ''%'' then CHR ''%'' # Sprintf f args
      else case args of
        [] \<Rightarrow> ''%!'' @ [d] @ ''(MISSING)'' @ Sprintf f []
      | a # rest \<Rightarrow> (if d = CHR ''q'' then Quote a else a) @ Sprintf f rest)"

definition digit_value :: "char \<Rightarrow> nat" where
  "digit_value c = of_char c - 48"

definition Atoi_nat :: "string \<Rightarrow> nat" where
  "Atoi_nat s = foldl (\<lambda>n c. 10 * n + digit_value c) 0 s"


section \<open>Package path\<close>

text \<open>\<^verbatim>\<open>path.Clean\<close> works on the slash-separated components: empty and \<^verbatim>\<open>.\<close> components
  vanish, \<^verbatim>\<open>..\<close> removes the component before it, a \<^verbatim>\<open>..\<close> that has nothing to remove is
  dropped in a rooted path and kept in a relative one, and an empty result is \<^verbatim>\<open>.\<close>.\<close>

fun clean_step :: "bool \<Rightarrow> string list \<Rightarrow> string \<Rightarrow> string list" where
  "clean_step rooted stk x =
     (if x = [] \<or> x = ''.'' then stk
      else if x = ''..'' then
        (case stk of
           [] \<Rightarrow> (if rooted then [] else [''..''])
         | x0 # rest \<Rightarrow> (if x0 = ''..'' then ''..'' # stk else rest))
      else x # stk)"

definition path_Clean :: "string \<Rightarrow> string" where
  "path_Clean p =
     (let rooted = HasPrefix p ''/'';
          comps = rev (foldl (clean_step rooted) [] (Split p ''/''));
          out = (if rooted then ''/'' else []) @ Join comps ''/''
      in if out = [] then ''.'' else out)"

definition path_Join :: "string list \<Rightarrow> string" where
  "path_Join elems =
     (let ne = filter (\<lambda>e. e \<noteq> []) elems
      in if ne = [] then [] else path_Clean (Join ne ''/''))"

definition path_Base :: "string \<Rightarrow> string" where
  "path_Base p =
     (if p = [] then ''.''
      else let q = TrimRight p ''/''
           in if q = [] then ''/'' else last (Split q ''/''))"


section \<open>Package sort\<close>

text \<open>\<^verbatim>\<open>sort.Slice\<close> with a comparison that is a strict total order on the elements has
  one result; insertion sort (what Go runs on short slices) computes it.\<close>

fun insert_by :: "('a \<Rightarrow> 'a \<Rightarrow> bool) \<Rightarrow> 'a \<Rightarrow> 'a list \<Rightarrow> 'a list" where
  "insert_by lt x [] = [x]"
| "insert_by lt x (y # ys) = (if lt y x then y # insert_by lt x ys else x # y # ys)"

definition sort_Slice :: "('a \<Rightarrow> 'a \<Rightarrow> bool) \<Rightarrow> 'a list \<Rightarrow> 'a list" where
  "sort_Slice lt xs = foldr (insert_by lt) xs []"

text \<open>The keys of a Go map used as a set, sorted: \<^verbatim>\<open>for k := range m\<close> followed by
  \<^verbatim>\<open>sort.Strings\<close>.\<close>

definition sorted_keys :: "string list \<Rightarrow> string list" where
  "sorted_keys xs = sort (remdups xs)"


section \<open>Lemmas on lists\<close>

lemma set_insert_by [simp, go_list]: "set (insert_by lt x ys) = insert x (set ys)"
  by (induction ys) auto

lemma distinct_insert_by [simp, go_list]:
  "distinct (insert_by lt x ys) \<longleftrightarrow> x \<notin> set ys \<and> distinct ys"
  by (induction ys) auto

lemma mset_set_sort_Slice [simp, go_list]: "set (sort_Slice lt xs) = set xs"
  by (induction xs) (auto simp: sort_Slice_def)

lemma distinct_sort_Slice [simp, go_list]: "distinct (sort_Slice lt xs) = distinct xs"
proof (induction xs)
  case (Cons x xs)
  then show ?case using mset_set_sort_Slice[of lt xs] by (simp add: sort_Slice_def)
qed (simp add: sort_Slice_def)

lemma set_sorted_keys [simp, go_list]: "set (sorted_keys xs) = set xs"
  by (simp add: sorted_keys_def)

lemma distinct_sorted_keys [simp, go_list]: "distinct (sorted_keys xs)"
  by (simp add: sorted_keys_def)

lemma sorted_sorted_keys [simp, go_list]: "sorted (sorted_keys xs)"
  by (simp add: sorted_keys_def)

lemma sorted_keys_unique:
  "sorted_keys xs = sorted_keys ys \<longleftrightarrow> set xs = set ys"
  by (metis distinct_sorted_keys set_sorted_keys sorted_distinct_set_unique sorted_sorted_keys)

lemma sorted_keys_cong_set: "set xs = set ys \<Longrightarrow> sorted_keys xs = sorted_keys ys"
  by (simp add: sorted_keys_unique)

lemma sort_Slice_sorted_wrt:
  assumes "\<And>x y. x \<in> set xs \<Longrightarrow> y \<in> set xs \<Longrightarrow> x \<noteq> y \<Longrightarrow> lt x y \<or> lt y x"
    and "\<And>x y z. x \<in> set xs \<Longrightarrow> y \<in> set xs \<Longrightarrow> z \<in> set xs \<Longrightarrow>
           x \<noteq> y \<Longrightarrow> y \<noteq> z \<Longrightarrow> lt x y \<Longrightarrow> lt y z \<Longrightarrow> lt x z"
    and "distinct xs"
  shows "sorted_wrt lt (sort_Slice lt xs)"
proof -
  have ins: "sorted_wrt lt (insert_by lt x ys)"
    if "sorted_wrt lt ys" "distinct (x # ys)" "set (x # ys) \<subseteq> set xs" for x ys
    using that
  proof (induction ys)
    case (Cons y ys)
    have mem: "x \<in> set xs" "y \<in> set xs" and xy: "x \<noteq> y" using Cons.prems by auto
    show ?case
    proof (cases "lt y x")
      case True
      then show ?thesis using Cons by auto
    next
      case False
      then have "lt x y" using assms(1)[OF mem xy] by blast
      then show ?thesis
        using Cons.prems False mem xy by (auto intro: assms(2)[of x y])
    qed
  qed simp
  have "set ys \<subseteq> set xs \<Longrightarrow> distinct ys \<Longrightarrow> sorted_wrt lt (foldr (insert_by lt) ys [])" for ys
  proof (induction ys)
    case (Cons y ys)
    have "set (sort_Slice lt ys) = set ys" "distinct (sort_Slice lt ys) = distinct ys" by simp_all
    then show ?case using Cons ins[of "foldr (insert_by lt) ys []" y]
      by (simp add: sort_Slice_def)
  qed simp
  then show ?thesis using assms(3) by (simp add: sort_Slice_def)
qed


section \<open>Lemmas on strings\<close>

lemma HasPrefix_append [simp, go_string]: "HasPrefix (p @ s) p"
  by (simp add: HasPrefix_def)

lemma HasPrefix_iff [go_string]: "HasPrefix s p \<longleftrightarrow> (\<exists>t. s = p @ t)"
  by (metis HasPrefix_append HasPrefix_def append_take_drop_id)

lemma TrimPrefix_split: "HasPrefix s p \<Longrightarrow> s = p @ TrimPrefix s p"
  by (auto simp: TrimPrefix_def HasPrefix_iff)

lemma HasPrefix_Cons [simp]: "HasPrefix (c # s) (d # p) \<longleftrightarrow> c = d \<and> HasPrefix s p"
  by (auto simp: HasPrefix_def)

lemma HasPrefix_Nil [simp]: "HasPrefix s []" "HasPrefix [] p \<longleftrightarrow> p = []"
  by (auto simp: HasPrefix_def)

lemma HasSuffix_iff [go_string]: "HasSuffix s p \<longleftrightarrow> (\<exists>t. s = t @ p)"
proof
  assume "HasSuffix s p"
  then show "\<exists>t. s = t @ p"
    by (metis HasSuffix_def append_take_drop_id)
qed (auto simp: HasSuffix_def)

lemma TrimPrefix_append [simp, go_string]: "TrimPrefix (p @ s) p = s"
  by (simp add: TrimPrefix_def)

lemma Contains_iff [go_string]: "Contains s p \<longleftrightarrow> (\<exists>a b. s = a @ p @ b)"
proof (induction s)
  case (Cons c s)
  show ?case
  proof
    assume "Contains (c # s) p"
    then consider "HasPrefix (c # s) p" | "Contains s p" by auto
    then show "\<exists>a b. c # s = a @ p @ b"
    proof cases
      case 1
      then show ?thesis by (metis HasPrefix_iff append_Nil)
    next
      case 2
      then obtain a b where "s = a @ p @ b" using Cons by blast
      then have "c # s = (c # a) @ p @ b" by simp
      then show ?thesis by blast
    qed
  next
    assume "\<exists>a b. c # s = a @ p @ b"
    then obtain a b where ab: "c # s = a @ p @ b" by blast
    show "Contains (c # s) p"
    proof (cases a)
      case Nil
      then show ?thesis using ab by (metis Contains.simps(2) HasPrefix_append append_Nil)
    next
      case (Cons x a')
      then have "s = a' @ p @ b" using ab by simp
      then show ?thesis using Cons.IH by auto
    qed
  qed
qed auto

lemma ReplaceAll_Nil [simp]: "old \<noteq> [] \<Longrightarrow> ReplaceAll [] old new = []"
  by (simp add: ReplaceAll.simps)

lemma ReplaceAll_hit:
  "old \<noteq> [] \<Longrightarrow> HasPrefix s old \<Longrightarrow> ReplaceAll s old new = new @ ReplaceAll (drop (length old) s) old new"
  by (subst ReplaceAll.simps) (auto split: list.splits)

lemma ReplaceAll_miss:
  "old \<noteq> [] \<Longrightarrow> \<not> HasPrefix (c # cs) old \<Longrightarrow> ReplaceAll (c # cs) old new = c # ReplaceAll cs old new"
  by (simp add: ReplaceAll.simps[of "c # cs"])

text \<open>Replacing a single character is a map when the replacement is a single character too.\<close>

lemma ReplaceAll_char:
  "ReplaceAll s [a] [b] = map (\<lambda>c. if c = a then b else c) s"
proof (induction s)
  case (Cons c s)
  then show ?case
    by (cases "c = a") (simp_all add: ReplaceAll_hit ReplaceAll_miss)
qed simp

lemma set_TrimLeft [go_string]: "set (TrimLeft s cs) \<subseteq> set s"
  by (auto simp: TrimLeft_def dest: set_dropWhileD)

lemma set_TrimRight [go_string]: "set (TrimRight s cs) \<subseteq> set s"
  by (auto simp: TrimRight_def dest: set_dropWhileD)

lemma set_Trim [go_string]: "set (Trim s cs) \<subseteq> set s"
  unfolding Trim_def using set_TrimLeft set_TrimRight by blast

lemma length_TrimRight [go_string]: "length (TrimRight s cs) \<le> length s"
  by (metis TrimRight_def length_dropWhile_le length_rev)

lemma length_Trim [go_string]: "length (Trim s cs) \<le> length s"
  by (metis TrimLeft_def Trim_def le_trans length_TrimRight length_dropWhile_le)

lemma last_TrimRight [go_string]:
  "TrimRight s cs \<noteq> [] \<Longrightarrow> last (TrimRight s cs) \<notin> set cs"
  by (metis TrimRight_def hd_dropWhile last_rev rev.simps(1))

lemma TrimRight_prefix: "\<exists>t. s = TrimRight s cs @ t \<and> set t \<subseteq> set cs"
proof -
  let ?P = "\<lambda>c. c \<in> set cs"
  have "rev s = takeWhile ?P (rev s) @ dropWhile ?P (rev s)" by simp
  then have "s = TrimRight s cs @ rev (takeWhile ?P (rev s))"
    unfolding TrimRight_def by (metis rev_append rev_rev_ident)
  moreover have "set (rev (takeWhile ?P (rev s))) \<subseteq> set cs"
    by (auto dest: set_takeWhileD)
  ultimately show ?thesis by blast
qed

lemma hd_TrimRight [go_string]: "TrimRight s cs \<noteq> [] \<Longrightarrow> hd (TrimRight s cs) = hd s"
  by (metis TrimRight_prefix hd_append2)

lemma hd_Trim [go_string]: "Trim s cs \<noteq> [] \<Longrightarrow> hd (Trim s cs) \<notin> set cs"
  unfolding Trim_def
  by (metis TrimLeft_def TrimRight_prefix append_is_Nil_conv hd_TrimRight hd_dropWhile)

lemma last_Trim [go_string]: "Trim s cs \<noteq> [] \<Longrightarrow> last (Trim s cs) \<notin> set cs"
  unfolding Trim_def by (rule last_TrimRight)

lemma TrimRight_id: "s = [] \<or> last s \<notin> set cs \<Longrightarrow> TrimRight s cs = s"
  by (cases s rule: rev_cases) (auto simp: TrimRight_def)

lemma TrimLeft_id: "s = [] \<or> hd s \<notin> set cs \<Longrightarrow> TrimLeft s cs = s"
  by (cases s) (auto simp: TrimLeft_def)

lemma Trim_id: "s = [] \<or> hd s \<notin> set cs \<and> last s \<notin> set cs \<Longrightarrow> Trim s cs = s"
  by (auto simp: Trim_def TrimLeft_id TrimRight_id)

lemma digit_char_numeral [simp]:
  "digit_char 0 = CHR ''0''" "digit_char (Suc 0) = CHR ''1''" "digit_char 2 = CHR ''2''"
  "digit_char 3 = CHR ''3''" "digit_char 4 = CHR ''4''" "digit_char 5 = CHR ''5''"
  "digit_char 6 = CHR ''6''" "digit_char 7 = CHR ''7''" "digit_char 8 = CHR ''8''"
  "digit_char 9 = CHR ''9''"
  by code_simp+

lemma digit_value_digit_char [simp]: "d < 10 \<Longrightarrow> digit_value (digit_char d) = d"
  by (simp add: digit_value_def digit_char_def)

lemma is_digit_digit_char [simp]: "d < 10 \<Longrightarrow> is_digit (digit_char d)"
  by (auto simp: is_digit_def digit_char_def less_eq_char_def)

lemma Atoi_nat_snoc [simp]: "Atoi_nat (s @ [c]) = 10 * Atoi_nat s + digit_value c"
  by (simp add: Atoi_nat_def)

lemma Atoi_Itoa [simp, go_string]: "Atoi_nat (Itoa n) = n"
proof (induction n rule: Itoa.induct)
  case (1 n)
  show ?case
  proof (cases "n < 10")
    case True
    then show ?thesis by (simp add: Itoa.simps[of n] Atoi_nat_def)
  next
    case False
    then show ?thesis using 1 by (subst Itoa.simps) simp
  qed
qed

lemma Itoa_digits [simp, go_string]: "\<forall>c \<in> set (Itoa n). is_digit c"
proof (induction n rule: Itoa.induct)
  case (1 n)
  then show ?case by (cases "n < 10") (subst Itoa.simps; auto)+
qed

lemma Itoa_nonempty [simp, go_string]: "Itoa n \<noteq> []"
  by (subst Itoa.simps) simp

lemma Itoa_inject [simp]: "Itoa m = Itoa n \<longleftrightarrow> m = n"
  by (metis Atoi_Itoa)

lemma split_from_free:
  "sep \<notin> set x \<Longrightarrow> split_from [sep] acc x = [rev acc @ x]"
proof (induction x arbitrary: acc)
  case (Cons c x)
  then show ?case by (subst split_from.simps) auto
qed (simp add: split_from.simps)

lemma split_from_sep:
  "sep \<notin> set x \<Longrightarrow> split_from [sep] acc (x @ sep # s) = (rev acc @ x) # split_from [sep] [] s"
proof (induction x arbitrary: acc)
  case Nil
  show ?case by (subst split_from.simps) simp
next
  case (Cons c x)
  then show ?case by (subst split_from.simps) auto
qed

lemma Split_Join:
  "xs \<noteq> [] \<Longrightarrow> \<forall>x \<in> set xs. sep \<notin> set x \<Longrightarrow> Split (Join xs [sep]) [sep] = xs"
proof (induction xs)
  case (Cons x xs)
  show ?case
  proof (cases xs)
    case Nil
    then show ?thesis using Cons by (simp add: Split_def split_from_free)
  next
    case (Cons y ys)
    then have "Split (Join (x # xs) [sep]) [sep] = x # Split (Join xs [sep]) [sep]"
      using Cons.prems by (simp add: Split_def split_from_sep)
    then show ?thesis using Cons Cons.IH Cons.prems by simp
  qed
qed simp

end
