(* ===== verification/KeyLock.thy ===== *)
theory KeyLock
  imports Prelude
begin

text \<open>
  The per-key lock of the reconcilers (internal/controller/key_locker.go). Each
  atomic action of \<^verbatim>\<open>Lock\<close> and of the unlock closure it returns is one step of a
  goroutine, and the steps of different goroutines interleave: the LoadOrStore
  on the sync.Map, the atomic increment, the acquisition of the mutex, its
  release, the atomic decrement and the Delete. A refLock is an address of a
  heap of (mutex owner, reference count) pairs, so that a lock a goroutine still
  holds a pointer to survives its removal from the map.
\<close>

section \<open>State\<close>

type_synonym tid = nat
type_synonym lock_id = nat

record refLock =
  mu :: "tid option"
  ref :: int

text \<open>Where a goroutine is between two atomic actions.\<close>

datatype pc =
    Idle
  | Loaded string lock_id
  | Waiting string lock_id
  | Held string lock_id
  | Unlocked string lock_id
  | Dropping string lock_id

record KeyLocker =
  locks :: "string \<Rightarrow> lock_id option"
  heap :: "lock_id \<Rightarrow> refLock"
  fresh :: lock_id
  pcs :: "tid \<Rightarrow> pc"

definition new_refLock :: refLock where
  "new_refLock = \<lparr>mu = None, ref = 0\<rparr>"

definition NewKeyLocker :: KeyLocker where
  "NewKeyLocker = \<lparr>locks = (\<lambda>_. None), heap = (\<lambda>_. new_refLock), fresh = 0, pcs = (\<lambda>_. Idle)\<rparr>"

text \<open>The composite key: the parts joined with a colon.\<close>

definition combinedKey :: "string list \<Rightarrow> string" where
  "combinedKey parts = Join parts '':''"


section \<open>Atomic actions\<close>

definition LoadOrStore :: "tid \<Rightarrow> string \<Rightarrow> KeyLocker \<Rightarrow> KeyLocker" where
  "LoadOrStore t k s =
     (case locks s k of
        Some l \<Rightarrow> s\<lparr>pcs := (pcs s)(t := Loaded k l)\<rparr>
      | None \<Rightarrow>
          s\<lparr>locks := (locks s)(k := Some (fresh s)),
            heap := (heap s)(fresh s := new_refLock),
            fresh := Suc (fresh s),
            pcs := (pcs s)(t := Loaded k (fresh s))\<rparr>)"

definition add_ref :: "int \<Rightarrow> lock_id \<Rightarrow> KeyLocker \<Rightarrow> KeyLocker" where
  "add_ref d l s = s\<lparr>heap := (heap s)(l := (heap s l)\<lparr>ref := ref (heap s l) + d\<rparr>)\<rparr>"

definition set_mu :: "tid option \<Rightarrow> lock_id \<Rightarrow> KeyLocker \<Rightarrow> KeyLocker" where
  "set_mu w l s = s\<lparr>heap := (heap s)(l := (heap s l)\<lparr>mu := w\<rparr>)\<rparr>"

definition set_pc :: "tid \<Rightarrow> pc \<Rightarrow> KeyLocker \<Rightarrow> KeyLocker" where
  "set_pc t p s = s\<lparr>pcs := (pcs s)(t := p)\<rparr>"

inductive lock_step :: "KeyLocker \<Rightarrow> KeyLocker \<Rightarrow> bool" where
  load: "pcs s t = Idle \<Longrightarrow> lock_step s (LoadOrStore t k s)"
| incr: "pcs s t = Loaded k l \<Longrightarrow> lock_step s (set_pc t (Waiting k l) (add_ref 1 l s))"
| acquire: "pcs s t = Waiting k l \<Longrightarrow> mu (heap s l) = None \<Longrightarrow>
    lock_step s (set_pc t (Held k l) (set_mu (Some t) l s))"
| release: "pcs s t = Held k l \<Longrightarrow> lock_step s (set_pc t (Unlocked k l) (set_mu None l s))"
| decr: "pcs s t = Unlocked k l \<Longrightarrow>
    lock_step s (set_pc t (if ref (heap s l) - 1 = 0 then Dropping k l else Idle) (add_ref (-1) l s))"
| delete: "pcs s t = Dropping k l \<Longrightarrow>
    lock_step s (set_pc t Idle (s\<lparr>locks := (locks s)(k := None)\<rparr>))"

inductive lock_reach :: "KeyLocker \<Rightarrow> bool" where
  init: "lock_reach NewKeyLocker"
| step: "lock_reach s \<Longrightarrow> lock_step s s' \<Longrightarrow> lock_reach s'"

inductive_simps lock_step_simps: "lock_step s s'"
inductive_cases lock_stepE: "lock_step s s'"

lemmas lock_defs = LoadOrStore_def add_ref_def set_mu_def set_pc_def


section \<open>Invariants\<close>

text \<open>The goroutines a lock's counter counts: those between their increment and their decrement.\<close>

fun counted :: "lock_id \<Rightarrow> pc \<Rightarrow> bool" where
  "counted l (Waiting k m) = (m = l)"
| "counted l (Held k m) = (m = l)"
| "counted l (Unlocked k m) = (m = l)"
| "counted l p = False"

fun uses :: "pc \<Rightarrow> lock_id option" where
  "uses Idle = None"
| "uses (Loaded k l) = Some l"
| "uses (Waiting k l) = Some l"
| "uses (Held k l) = Some l"
| "uses (Unlocked k l) = Some l"
| "uses (Dropping k l) = Some l"

definition counted_set :: "KeyLocker \<Rightarrow> lock_id \<Rightarrow> tid set" where
  "counted_set s l = {t. counted l (pcs s t)}"

text \<open>Pointers are allocated; a mutex is owned by exactly the goroutine that holds it; a counter
  counts its goroutines.\<close>

definition inv_alloc :: "KeyLocker \<Rightarrow> bool" where
  "inv_alloc s \<longleftrightarrow>
     (\<forall>t l. uses (pcs s t) = Some l \<longrightarrow> l < fresh s) \<and> (\<forall>k l. locks s k = Some l \<longrightarrow> l < fresh s)"

definition inv_owner :: "KeyLocker \<Rightarrow> bool" where
  "inv_owner s \<longleftrightarrow> (\<forall>l t. mu (heap s l) = Some t \<longleftrightarrow> (\<exists>k. pcs s t = Held k l))"

definition inv_ref :: "KeyLocker \<Rightarrow> bool" where
  "inv_ref s \<longleftrightarrow>
     (\<forall>l. finite (counted_set s l) \<and> ref (heap s l) = int (card (counted_set s l)))"

lemma inv_alloc_step: "lock_step s s' \<Longrightarrow> inv_alloc s \<Longrightarrow> inv_alloc s'"
  by (induction rule: lock_step.induct)
    (auto simp: inv_alloc_def lock_defs less_Suc_eq split: option.splits if_splits,
      (metis uses.simps)+)

lemma held_uses: "pcs s t = Held k l \<Longrightarrow> uses (pcs s t) = Some l"
  by simp

lemma counted_uses: "counted l p \<Longrightarrow> uses p = Some l"
  by (cases p) auto

lemma inv_owner_step:
  assumes "lock_step s s'" "inv_alloc s" "inv_owner s"
  shows "inv_owner s'"
  using assms
proof (induction rule: lock_step.induct)
  case (load s t k)
  have "pcs s u \<noteq> Held k' (fresh s)" for u k'
    using load(2) held_uses[of s u] unfolding inv_alloc_def by blast
  then show ?case
    using load by (auto simp: inv_owner_def lock_defs new_refLock_def split: option.splits)
qed (auto simp: inv_owner_def lock_defs, (metis option.distinct(1) option.inject)+)

lemma counted_set_fresh: "inv_alloc s \<Longrightarrow> counted_set s (fresh s) = {}"
  by (auto simp: counted_set_def inv_alloc_def dest!: counted_uses)

lemma counted_set_simps [simp]:
  "counted_set (set_pc t p s) l = (if counted l p then insert t (counted_set s l) else counted_set s l - {t})"
  "counted_set (add_ref d m s) l = counted_set s l"
  "counted_set (set_mu w m s) l = counted_set s l"
  "counted_set (s\<lparr>locks := ls\<rparr>) l = counted_set s l"
  "counted_set (LoadOrStore t k s) l = counted_set s l - {t}"
  by (auto simp: counted_set_def lock_defs split: option.splits if_splits)

lemma ref_simps [simp]:
  "heap (set_pc t p s) = heap s"
  "ref (heap (add_ref d m s) l) = (if l = m then ref (heap s l) + d else ref (heap s l))"
  "ref (heap (set_mu w m s) l) = ref (heap s l)"
  by (simp_all add: lock_defs)

lemma ref_LoadOrStore:
  "inv_alloc s \<Longrightarrow> inv_ref s \<Longrightarrow> ref (heap (LoadOrStore t k s) l) = ref (heap s l)"
  using counted_set_fresh[of s]
  by (auto simp: LoadOrStore_def new_refLock_def inv_ref_def split: option.splits)

lemma inv_ref_step:
  assumes "lock_step s s'" "inv_alloc s" "inv_ref s"
  shows "inv_ref s'"
  using assms
proof (induction rule: lock_step.induct)
  case (load s t k)
  have "t \<notin> counted_set s l" for l using load by (simp add: counted_set_def)
  then show ?case using load by (simp add: inv_ref_def ref_LoadOrStore)
next
  case (incr s t k l)
  have "t \<notin> counted_set s m" for m using incr by (simp add: counted_set_def)
  then show ?case using incr by (simp add: inv_ref_def)
next
  case (acquire s t k l)
  have "t \<in> counted_set s m \<longleftrightarrow> m = l" for m using acquire by (auto simp: counted_set_def)
  then show ?case using acquire by (simp add: inv_ref_def insert_absorb)
next
  case (release s t k l)
  have "t \<in> counted_set s m \<longleftrightarrow> m = l" for m using release by (auto simp: counted_set_def)
  then show ?case using release by (simp add: inv_ref_def insert_absorb)
next
  case (decr s t k l)
  have mem: "t \<in> counted_set s m \<longleftrightarrow> m = l" for m using decr by (auto simp: counted_set_def)
  then have "0 < card (counted_set s l)" using decr by (auto simp: inv_ref_def card_gt_0_iff)
  then have "int (card (counted_set s l - {t})) = int (card (counted_set s l)) - 1"
    using mem by (simp add: of_nat_diff)
  then show ?case using decr mem by (auto simp: inv_ref_def)
next
  case (delete s t k l)
  have "t \<notin> counted_set s m" for m using delete by (simp add: counted_set_def)
  then show ?case using delete by (simp add: inv_ref_def)
qed

lemma lock_reach_inv:
  "lock_reach s \<Longrightarrow> inv_alloc s \<and> inv_owner s \<and> inv_ref s"
proof (induction rule: lock_reach.induct)
  case init
  then show ?case
    by (simp add: inv_alloc_def inv_owner_def inv_ref_def NewKeyLocker_def new_refLock_def counted_set_def)
next
  case (step s s')
  then show ?case using inv_alloc_step inv_owner_step inv_ref_step by blast
qed


section \<open>Exclusion\<close>

lemma held_owner: "inv_owner s \<Longrightarrow> pcs s t = Held k l \<Longrightarrow> mu (heap s l) = Some t"
  unfolding inv_owner_def by blast


text \<open>A goroutine waiting for a mutex either can take it at once or waits for a goroutine that is
  inside the critical section and can leave it.\<close>

lemma waiting_not_stuck:
  assumes "lock_reach s" "pcs s t = Waiting k l"
  shows "lock_step s (set_pc t (Held k l) (set_mu (Some t) l s))
       \<or> (\<exists>u k'. u \<noteq> t \<and> pcs s u = Held k' l \<and> lock_step s (set_pc u (Unlocked k' l) (set_mu None l s)))"
proof (cases "mu (heap s l)")
  case None
  then show ?thesis using assms(2) lock_step.acquire by blast
next
  case (Some u)
  then obtain k' where "pcs s u = Held k' l"
    using lock_reach_inv[OF assms(1)] unfolding inv_owner_def by blast
  moreover have "u \<noteq> t" using assms(2) calculation by auto
  ultimately show ?thesis using lock_step.release[of s u k' l] by blast
qed

text \<open>Runs in which no entry of the map is removed.\<close>

inductive lock_reach_kept :: "KeyLocker \<Rightarrow> bool" where
  init: "lock_reach_kept NewKeyLocker"
| step: "lock_reach_kept s \<Longrightarrow> lock_step s s' \<Longrightarrow> locks s \<subseteq>\<^sub>m locks s' \<Longrightarrow> lock_reach_kept s'"

lemma lock_reach_kept_reach: "lock_reach_kept s \<Longrightarrow> lock_reach s"
  by (induction rule: lock_reach_kept.induct) (auto intro: lock_reach.intros)

fun key_of :: "pc \<Rightarrow> (string \<times> lock_id) option" where
  "key_of (Loaded k l) = Some (k, l)"
| "key_of (Waiting k l) = Some (k, l)"
| "key_of (Held k l) = Some (k, l)"
| "key_of p = None"

lemma step_key_of:
  assumes "lock_step s s'" "\<forall>t k l. key_of (pcs s t) = Some (k, l) \<longrightarrow> locks s k = Some l"
    and "locks s \<subseteq>\<^sub>m locks s'" "key_of (pcs s' t) = Some (k, l)"
  shows "locks s' k = Some l"
  using assms
proof (induction rule: lock_step.induct)
  case (load s u k')
  then show ?case
    by (cases "t = u"; cases "locks s k'")
      (auto simp: LoadOrStore_def map_le_def dom_def split: if_splits)
next
  case (incr s u k' l')
  then have "locks s k' = Some l'" by (metis key_of.simps)
  then show ?case using incr by (auto simp: lock_defs split: if_splits)
next
  case (acquire s u k' l')
  then have "locks s k' = Some l'" by (metis key_of.simps)
  then show ?case using acquire by (auto simp: lock_defs split: if_splits)
next
  case (delete s u k' l')
  then have "locks s k' = None" by (auto simp: lock_defs map_le_def dom_def)
  then show ?case using delete by (auto simp: lock_defs split: if_splits)
qed (auto simp: lock_defs split: if_splits)

lemma kept_key_of:
  "lock_reach_kept s \<Longrightarrow> \<forall>t k l. key_of (pcs s t) = Some (k, l) \<longrightarrow> locks s k = Some l"
proof (induction rule: lock_reach_kept.induct)
  case (step s s')
  then show ?case using step_key_of by blast
qed (simp add: NewKeyLocker_def)


text \<open>C30: As long as no entry has been removed from the map, at most one goroutine at a time is
  between Lock and unlock for a given key.\<close>

theorem key_exclusive_while_kept:
  assumes "lock_reach_kept s" "pcs s t = Held k l" "pcs s u = Held k m"
  shows "t = u"
proof -
  have "locks s k = Some l" "locks s k = Some m"
    using kept_key_of[OF assms(1)] assms(2,3) by (metis key_of.simps(3))+
  then have "l = m" by simp
  then show ?thesis
    using lock_reach_inv[OF lock_reach_kept_reach[OF assms(1)]] assms(2,3) held_owner
    by (metis option.inject)
qed

text \<open>The state after one goroutine has run through Lock: the entry exists, with one reference.\<close>

definition held_state :: KeyLocker where
  "held_state =
    (let s1 = LoadOrStore 0 ''k'' NewKeyLocker;
         s2 = set_pc 0 (Waiting ''k'' 0) (add_ref 1 0 s1)
     in set_pc 0 (Held ''k'' 0) (set_mu (Some 0) 0 s2))"

lemma held_state_kept: "lock_reach_kept held_state"
proof -
  let ?s1 = "LoadOrStore 0 ''k'' NewKeyLocker"
  let ?s2 = "set_pc 0 (Waiting ''k'' 0) (add_ref 1 0 ?s1)"
  have "lock_reach_kept ?s1"
    by (rule lock_reach_kept.step[OF lock_reach_kept.init lock_step.load])
      (simp_all add: NewKeyLocker_def LoadOrStore_def map_le_def)
  then have "lock_reach_kept ?s2"
    by (rule lock_reach_kept.step[OF _ lock_step.incr]) (simp_all add: NewKeyLocker_def lock_defs)
  then show ?thesis unfolding held_state_def Let_def
    by (rule lock_reach_kept.step[OF _ lock_step.acquire])
      (simp_all add: NewKeyLocker_def lock_defs new_refLock_def)
qed

lemma held_state_pcs: "pcs held_state 0 = Held ''k'' 0"
  by (simp add: held_state_def Let_def lock_defs)


theorem key_exclusive_while_kept_witness:
  "lock_reach_kept held_state \<and> pcs held_state 0 = Held ''k'' 0 \<and> (0::tid) = 0"
  using key_exclusive_while_kept[OF held_state_kept held_state_pcs held_state_pcs]
    held_state_kept held_state_pcs by simp

section \<open>Two holders of one key\<close>

text \<open>A schedule of three goroutines on the key k: goroutine 1 loads the entry goroutine 0 is about
  to delete, goroutine 2 arrives after the deletion and creates a second refLock.\<close>

definition race_state :: "string \<Rightarrow> KeyLocker" where
  "race_state k =
    (let s1 = LoadOrStore 0 k NewKeyLocker;
         s2 = set_pc 0 (Waiting k 0) (add_ref 1 0 s1);
         s3 = set_pc 0 (Held k 0) (set_mu (Some 0) 0 s2);
         s4 = set_pc 0 (Unlocked k 0) (set_mu None 0 s3);
         s5 = set_pc 0 (Dropping k 0) (add_ref (-1) 0 s4);
         s6 = LoadOrStore 1 k s5;
         s7 = set_pc 0 Idle (s6\<lparr>locks := (locks s6)(k := None)\<rparr>);
         s8 = LoadOrStore 2 k s7;
         s9 = set_pc 2 (Waiting k 1) (add_ref 1 1 s8);
         s10 = set_pc 2 (Held k 1) (set_mu (Some 2) 1 s9);
         s11 = set_pc 1 (Waiting k 0) (add_ref 1 0 s10)
     in set_pc 1 (Held k 0) (set_mu (Some 1) 0 s11))"

lemma decr_to_zero:
  "lock_reach s \<Longrightarrow> pcs s t = Unlocked k l \<Longrightarrow> ref (heap s l) = 1 \<Longrightarrow>
     lock_reach (set_pc t (Dropping k l) (add_ref (-1) l s))"
  using lock_reach.step[OF _ lock_step.decr, of s t k l] by simp

lemmas lock_run =
  lock_reach.step[OF _ lock_step.load] lock_reach.step[OF _ lock_step.incr]
  lock_reach.step[OF _ lock_step.acquire] lock_reach.step[OF _ lock_step.release]
  lock_reach.step[OF _ lock_step.delete] decr_to_zero lock_reach.init

lemma race_reachable: "lock_reach (race_state k)"
  unfolding race_state_def Let_def
  by (intro lock_run) (simp_all add: lock_defs NewKeyLocker_def new_refLock_def)

text \<open>C29: Per-key exclusion can fail: there is a reachable state in which two different goroutines
  both hold the lock of the same key, because the entry one of them loaded was deleted before it
  incremented the counter.\<close>

theorem key_exclusion_broken:
  "\<exists>s t u l m. lock_reach s \<and> t \<noteq> u \<and> pcs s t = Held k l \<and> pcs s u = Held k m"
proof -
  have "pcs (race_state k) 1 = Held k 0" "pcs (race_state k) 2 = Held k 1"
    by (simp_all add: race_state_def Let_def lock_defs NewKeyLocker_def)
  then show ?thesis using race_reachable[of k]
    by (metis Suc_1 n_not_Suc_n)
qed

end
