(* ===== verification/Errors.thy ===== *)
theory Errors
  imports Prelude
begin

text \<open>
  The error values of the operator: the wrapping tree that \<^verbatim>\<open>fmt.Errorf\<close> with
  \<^verbatim>\<open>%w\<close>, \<^verbatim>\<open>RetryAfterError\<close>, \<^verbatim>\<open>ValidationError\<close> and \<^verbatim>\<open>DeferredError\<close>
  (internal/common/errors/errors.go) build, the traversal \<^verbatim>\<open>errors.As\<close> makes of it,
  and the classifiers of internal/common/errors.go and
  internal/controller/errors.go that decide between retrying, reporting the
  cluster unreachable and giving up. The error types of the Kubernetes client
  and of the VAST REST client are the constructors \<open>StatusError\<close> and
  \<open>VastError\<close>, with the reason or the HTTP status code the sources inspect.
\<close>

section \<open>The error tree\<close>

type_synonym duration = int

datatype err =
    Plain string
  | Wrap string err string
  | ValidationError string
  | RetryAfterError err duration
  | DeferredError "err list"
  | DeadlineExceeded
  | OpError string
  | StatusError string string
  | VastError nat string
  | Sentinel string

definition Errorf :: "string \<Rightarrow> string list \<Rightarrow> err" where
  "Errorf f args = Plain (Sprintf f args)"

definition Errorf_w :: "string \<Rightarrow> string list \<Rightarrow> err \<Rightarrow> err" where
  "Errorf_w f args e = Wrap (Sprintf f args) e []"

definition NewRetryAfterError :: "err \<Rightarrow> duration \<Rightarrow> err" where
  "NewRetryAfterError cause delay = RetryAfterError cause delay"

definition NewValidationError :: "string \<Rightarrow> string list \<Rightarrow> err" where
  "NewValidationError f args = ValidationError (Sprintf f args)"

text \<open>\<^verbatim>\<open>itoa\<close>: digits are written from the end of a buffer while the number is positive.\<close>

function itoa_loop :: "int \<Rightarrow> string \<Rightarrow> string" where
  "itoa_loop n buf =
     (if n > 0 then itoa_loop (n div 10) (digit_char (nat (n mod 10)) # buf) else buf)"
  by pat_completeness auto
termination
  by (relation "measure (\<lambda>(n, buf). nat n)") auto

declare itoa_loop.simps [simp del]

definition itoa :: "int \<Rightarrow> string" where
  "itoa n = (if n = 0 then ''0'' else itoa_loop n [])"

text \<open>\<open>Error_string\<close> is the \<^verbatim>\<open>Error()\<close> method of each constructor.\<close>

fun Error_string :: "err \<Rightarrow> string" where
  "Error_string (Plain m) = m"
| "Error_string (Wrap pre e post) = pre @ Error_string e @ post"
| "Error_string (ValidationError m) = m"
| "Error_string (RetryAfterError e d) = Error_string e"
| "Error_string (DeferredError es) =
     (case es of
        [e] \<Rightarrow> Error_string e
      | _ \<Rightarrow> TrimRight
          (itoa (int (length es)) @ '' errors occurred:'' @ [CHR 0x0A]
           @ concat (map (\<lambda>e. ''  - '' @ Error_string e @ [CHR 0x0A]) es)) [CHR 0x0A])"
| "Error_string DeadlineExceeded = ''context deadline exceeded''"
| "Error_string (OpError m) = m"
| "Error_string (StatusError reason m) = m"
| "Error_string (VastError code m) = m"
| "Error_string (Sentinel m) = m"

text \<open>\<^verbatim>\<open>Unwrap\<close>: one error, or the list a DeferredError holds.\<close>

fun unwrap :: "err \<Rightarrow> err list" where
  "unwrap (Wrap pre e post) = [e]"
| "unwrap (RetryAfterError e d) = [e]"
| "unwrap (DeferredError es) = es"
| "unwrap e = []"

text \<open>\<^verbatim>\<open>errors.As\<close>: the error itself, then depth first through what it unwraps to.\<close>

fun first_some :: "('a \<Rightarrow> 'b option) \<Rightarrow> 'a list \<Rightarrow> 'b option" where
  "first_some f [] = None"
| "first_some f (x # xs) = (case f x of Some y \<Rightarrow> Some y | None \<Rightarrow> first_some f xs)"

lemma first_some_cong [fundef_cong]:
  "xs = ys \<Longrightarrow> (\<And>x. x \<in> set ys \<Longrightarrow> f x = g x) \<Longrightarrow> first_some f xs = first_some g ys"
  by (induction ys arbitrary: xs) (auto split: option.splits)

lemma first_some_None [simp]: "first_some f xs = None \<longleftrightarrow> (\<forall>x \<in> set xs. f x = None)"
  by (induction xs) (auto split: option.splits)

lemma first_some_SomeD: "first_some f xs = Some y \<Longrightarrow> \<exists>x \<in> set xs. f x = Some y"
  by (induction xs) (auto split: option.splits)

lemma unwrap_size [termination_simp]: "x \<in> set (unwrap e) \<Longrightarrow> size x < size e"
  by (cases e) (auto simp: less_Suc_eq_le size_list_estimation')

function errors_As :: "(err \<Rightarrow> 'a option) \<Rightarrow> err \<Rightarrow> 'a option" where
  "errors_As P e =
     (case P e of Some x \<Rightarrow> Some x | None \<Rightarrow> first_some (errors_As P) (unwrap e))"
  by pat_completeness auto
termination
  by (relation "measure (\<lambda>(P, e). size e)") (auto simp: unwrap_size)

declare errors_As.simps [simp del]

definition as_retryable :: "err \<Rightarrow> duration option" where
  "as_retryable e = (case e of RetryAfterError c d \<Rightarrow> Some d | _ \<Rightarrow> None)"

definition as_validation :: "err \<Rightarrow> string option" where
  "as_validation e = (case e of ValidationError m \<Rightarrow> Some m | _ \<Rightarrow> None)"

definition as_deadline :: "err \<Rightarrow> unit option" where
  "as_deadline e = (case e of DeadlineExceeded \<Rightarrow> Some () | _ \<Rightarrow> None)"

definition as_opError :: "err \<Rightarrow> string option" where
  "as_opError e = (case e of OpError m \<Rightarrow> Some m | _ \<Rightarrow> None)"

definition as_status :: "err \<Rightarrow> string option" where
  "as_status e = (case e of StatusError r m \<Rightarrow> Some r | _ \<Rightarrow> None)"

definition as_vast :: "err \<Rightarrow> nat option" where
  "as_vast e = (case e of VastError c m \<Rightarrow> Some c | _ \<Rightarrow> None)"


section \<open>DeferredError\<close>

definition DeferredError_Add :: "err list \<Rightarrow> err option \<Rightarrow> err list" where
  "DeferredError_Add es e = (case e of None \<Rightarrow> es | Some x \<Rightarrow> es @ [x])"

definition DeferredError_IsEmpty :: "err list \<Rightarrow> bool" where
  "DeferredError_IsEmpty es = (length es = 0)"

definition DeferredError_Merge :: "err list \<Rightarrow> err list \<Rightarrow> err list" where
  "DeferredError_Merge es other = es @ other"

definition DeferredError_Err :: "err list \<Rightarrow> err option" where
  "DeferredError_Err es = (if DeferredError_IsEmpty es then None else Some (DeferredError es))"


section \<open>Classifiers\<close>

definition networkErrSubstrings :: "string list" where
  "networkErrSubstrings =
     [''dial tcp'', ''i/o timeout'', ''connection refused'', ''connection reset'',
      ''no route to host'', ''network is unreachable'', ''connection timed out'',
      ''context deadline exceeded'', ''timed out after'', ''EOF'']"

definition IsNetworkError :: "err option \<Rightarrow> bool" where
  "IsNetworkError eo =
     (case eo of
        None \<Rightarrow> False
      | Some e \<Rightarrow>
          errors_As as_deadline e \<noteq> None \<or> errors_As as_opError e \<noteq> None
          \<or> (\<exists>sub \<in> set networkErrSubstrings. Contains (Error_string e) sub))"

definition isValidationError :: "err option \<Rightarrow> bool" where
  "isValidationError eo = (case eo of None \<Rightarrow> False | Some e \<Rightarrow> errors_As as_validation e \<noteq> None)"

definition isPermanentError :: "err option \<Rightarrow> bool" where
  "isPermanentError eo =
     (case eo of
        None \<Rightarrow> False
      | Some e \<Rightarrow> \<not> IsNetworkError (Some e) \<and> errors_As as_retryable e = None)"

text \<open>\<^verbatim>\<open>apierrors.IsNotFound\<close> and its relatives read the reason of the StatusError found by
  \<^verbatim>\<open>errors.As\<close>.\<close>

definition ReasonForError :: "err \<Rightarrow> string" where
  "ReasonForError e = (case errors_As as_status e of Some r \<Rightarrow> r | None \<Rightarrow> [])"

abbreviation IsNotFound :: "err \<Rightarrow> bool" where
  "IsNotFound e \<equiv> ReasonForError e = ''NotFound''"

abbreviation IsAlreadyExists :: "err \<Rightarrow> bool" where
  "IsAlreadyExists e \<equiv> ReasonForError e = ''AlreadyExists''"


section \<open>Lemmas\<close>

lemma errors_As_hit: "P e = Some x \<Longrightarrow> errors_As P e = Some x"
  by (subst errors_As.simps) simp

lemma errors_As_None_iff:
  "errors_As P e = None \<longleftrightarrow> P e = None \<and> (\<forall>x \<in> set (unwrap e). errors_As P x = None)"
  by (subst errors_As.simps) (auto split: option.splits)

lemma errors_As_descend:
  "x \<in> set (unwrap e) \<Longrightarrow> errors_As P x \<noteq> None \<Longrightarrow> errors_As P e \<noteq> None"
  by (metis errors_As_None_iff)

lemma errors_As_leaf [simp]:
  "errors_As P (Plain m) = P (Plain m)"
  "errors_As P (ValidationError m) = P (ValidationError m)"
  "errors_As P DeadlineExceeded = P DeadlineExceeded"
  "errors_As P (OpError m) = P (OpError m)"
  "errors_As P (StatusError r m) = P (StatusError r m)"
  "errors_As P (VastError c m) = P (VastError c m)"
  "errors_As P (Sentinel m) = P (Sentinel m)"
  by (subst errors_As.simps; simp split: option.splits)+

lemma errors_As_Wrap:
  "P (Wrap a e b) = None \<Longrightarrow> errors_As P (Wrap a e b) = errors_As P e"
  by (subst errors_As.simps) (simp split: option.splits)

lemma errors_As_Wrap_simps [simp]:
  "errors_As as_retryable (Wrap a e b) = errors_As as_retryable e"
  "errors_As as_validation (Wrap a e b) = errors_As as_validation e"
  "errors_As as_deadline (Wrap a e b) = errors_As as_deadline e"
  "errors_As as_opError (Wrap a e b) = errors_As as_opError e"
  "errors_As as_status (Wrap a e b) = errors_As as_status e"
  "errors_As as_vast (Wrap a e b) = errors_As as_vast e"
  by (simp_all add: errors_As_Wrap as_retryable_def as_validation_def as_deadline_def
      as_opError_def as_status_def as_vast_def)

lemma errors_As_retryable_RetryAfter [simp]:
  "errors_As as_retryable (RetryAfterError e d) = Some d"
  by (rule errors_As_hit) (simp add: as_retryable_def)

lemma Contains_appendI: "Contains s p \<Longrightarrow> Contains (a @ s @ b) p"
proof -
  assume "Contains s p"
  then obtain u v where "s = u @ p @ v" by (auto simp: Contains_iff)
  then have "a @ s @ b = (a @ u) @ p @ (v @ b)" by simp
  then show ?thesis unfolding Contains_iff by blast
qed

lemma Contains_TrimRight:
  assumes "Contains s p" "p \<noteq> []" "last p \<notin> set cs"
  shows "Contains (TrimRight s cs) p"
proof -
  obtain u v where s: "s = u @ p @ v" using assms(1) by (auto simp: Contains_iff)
  have "TrimRight s cs = u @ p @ TrimRight v cs"
  proof -
    obtain q x where p: "p = q @ [x]" using assms(2) by (cases p rule: rev_cases) auto
    have "x \<notin> set cs" using assms(3) p by simp
    then show ?thesis by (simp add: s p TrimRight_def dropWhile_append)
  qed
  then show ?thesis unfolding Contains_iff by blast
qed

lemma networkErrSubstrings_shape:
  "sub \<in> set networkErrSubstrings \<Longrightarrow> sub \<noteq> [] \<and> last sub \<noteq> CHR 0x0A"
  by (auto simp: networkErrSubstrings_def)

lemma Error_string_unwrap:
  assumes "x \<in> set (unwrap e)" "Contains (Error_string x) p" "p \<noteq> []" "last p \<noteq> CHR 0x0A"
  shows "Contains (Error_string e) p"
proof (cases e)
  case (DeferredError es)
  show ?thesis
  proof (cases "length es = 1")
    case True
    then obtain y where "es = [y]" by (cases es) auto
    then show ?thesis using assms DeferredError by simp
  next
    case False
    let ?line = "\<lambda>y. ''  - '' @ Error_string y @ [CHR 0x0A]"
    let ?hdr = "itoa (int (length es)) @ '' errors occurred:'' @ [CHR 0x0A]"
    obtain l r where es: "es = l @ x # r" using assms(1) DeferredError by (auto dest: split_list)
    have str: "Error_string e = TrimRight (?hdr @ concat (map ?line es)) [CHR 0x0A]"
      using False DeferredError by (auto split: list.splits)
    have "?hdr @ concat (map ?line es)
        = (?hdr @ concat (map ?line l) @ ''  - '') @ Error_string x
          @ ([CHR 0x0A] @ concat (map ?line r))"
      by (simp add: es)
    then have "Contains (?hdr @ concat (map ?line es)) p"
      using Contains_appendI[OF assms(2)] by metis
    then show ?thesis using assms(3,4) unfolding str by (intro Contains_TrimRight) auto
  qed
qed (use assms in \<open>auto intro: Contains_appendI\<close>)

lemma itoa_loop_digits:
  "0 < n \<Longrightarrow> itoa_loop n buf = Itoa (nat n) @ buf"
proof (induction n buf rule: itoa_loop.induct)
  case (1 n buf)
  have step: "itoa_loop n buf = itoa_loop (n div 10) (digit_char (nat (n mod 10)) # buf)"
    using 1(2) by (subst itoa_loop.simps) simp
  show ?case
  proof (cases "n < 10")
    case True
    then have "itoa_loop (n div 10) (digit_char (nat (n mod 10)) # buf) = [digit_char (nat n)] @ buf"
      using 1(2) by (subst itoa_loop.simps) simp
    then show ?thesis using True 1(2) step by (subst Itoa.simps) simp
  next
    case False
    then have "itoa_loop (n div 10) (digit_char (nat (n mod 10)) # buf)
        = Itoa (nat (n div 10)) @ [digit_char (nat (n mod 10))] @ buf"
      using 1 by simp
    moreover have "Itoa (nat n) = Itoa (nat (n div 10)) @ [digit_char (nat (n mod 10))]"
      using False by (subst Itoa.simps) (auto simp: nat_div_distrib nat_mod_distrib)
    ultimately show ?thesis using step by simp
  qed
qed

lemma itoa_of_nat [simp]: "itoa (int n) = Itoa n"
proof (cases "n = 0")
  case True
  then show ?thesis by (simp add: itoa_def Itoa.simps[of 0])
next
  case False
  then show ?thesis using itoa_loop_digits[of "int n" "[]"] by (simp add: itoa_def)
qed

lemma itoa_negative: "n < 0 \<Longrightarrow> itoa n = []"
  by (simp add: itoa_def itoa_loop.simps)

section \<open>Properties\<close>

lemma errors_As_Some_unwrap:
  "x \<in> set (unwrap e) \<Longrightarrow> errors_As P x \<noteq> None \<Longrightarrow> errors_As P e \<noteq> None"
  by (metis errors_As_None_iff)

text \<open>C35: A connectivity failure stays recognisable however it is reported: wrapping a network error
  with fmt.Errorf, in a RetryAfterError or among other errors in a DeferredError gives an error that
  IsNetworkError still recognises, so it is never classified as permanent.\<close>

theorem IsNetworkError_unwrap:
  assumes "x \<in> set (unwrap e)" "IsNetworkError (Some x)"
  shows "IsNetworkError (Some e) \<and> \<not> isPermanentError (Some e)"
proof -
  have "IsNetworkError (Some e)"
  proof (cases "errors_As as_deadline x \<noteq> None \<or> errors_As as_opError x \<noteq> None")
    case True
    then have "errors_As as_deadline e \<noteq> None \<or> errors_As as_opError e \<noteq> None"
      using errors_As_Some_unwrap[OF assms(1), of as_deadline]
        errors_As_Some_unwrap[OF assms(1), of as_opError] by blast
    then show ?thesis by (auto simp: IsNetworkError_def)
  next
    case False
    then obtain sub where "sub \<in> set networkErrSubstrings" "Contains (Error_string x) sub"
      using assms(2) by (auto simp: IsNetworkError_def)
    then have "Contains (Error_string e) sub"
      using Error_string_unwrap[OF assms(1)] networkErrSubstrings_shape by blast
    then show ?thesis using \<open>sub \<in> _\<close> by (auto simp: IsNetworkError_def)
  qed
  then show ?thesis by (simp add: isPermanentError_def)
qed

theorem IsNetworkError_unwrap_witness:
  "IsNetworkError (Some (DeferredError [Plain ''x'', Plain ''dial tcp 10.0.0.1:443'']))
   \<and> \<not> isPermanentError (Some (DeferredError [Plain ''x'', Plain ''dial tcp 10.0.0.1:443'']))"
  by (rule IsNetworkError_unwrap[of "Plain ''dial tcp 10.0.0.1:443''"])
    (simp_all add: IsNetworkError_def networkErrSubstrings_def)

text \<open>C36: DeferredError collects exactly the non-nil errors it was given: after any sequence of Add
  calls, Err is nil iff every added error was nil, and otherwise unwraps to the added errors in
  order, so errors.As finds a retry request in it iff one of them carries one.\<close>

theorem DeferredError_collects:
  "(DeferredError_Err (foldl DeferredError_Add [] eos) = None \<longleftrightarrow> (\<forall>eo \<in> set eos. eo = None))
   \<and> (\<forall>d. DeferredError_Err (foldl DeferredError_Add [] eos) = Some d \<longrightarrow>
            unwrap d = List.map_filter id eos
            \<and> (errors_As as_retryable d \<noteq> None \<longleftrightarrow>
               (\<exists>e. Some e \<in> set eos \<and> errors_As as_retryable e \<noteq> None)))"
proof -
  have collect: "foldl DeferredError_Add acc eos = acc @ List.map_filter id eos" for acc
    by (induction eos arbitrary: acc) (auto simp: DeferredError_Add_def List.map_filter_simps split: option.splits)
  have mem: "e \<in> set (List.map_filter id eos) \<longleftrightarrow> Some e \<in> set eos" for e
    by (auto simp: List.map_filter_def image_iff split: option.splits)
  have nil: "List.map_filter id eos = [] \<longleftrightarrow> (\<forall>eo \<in> set eos. eo = None)"
    using mem by (metis empty_iff last_in_set list.set(1) not_None_eq)
  have ret: "errors_As as_retryable (DeferredError es) \<noteq> None \<longleftrightarrow>
      (\<exists>e \<in> set es. errors_As as_retryable e \<noteq> None)" for es
    by (subst errors_As_None_iff) (auto simp: as_retryable_def)
  show ?thesis
    unfolding collect
    using nil ret mem by (auto simp: DeferredError_Err_def DeferredError_IsEmpty_def)
qed

theorem DeferredError_collects_witness:
  "\<exists>d. DeferredError_Err (foldl DeferredError_Add [] [None, Some (RetryAfterError (Plain ''busy'') 15)]) = Some d
     \<and> errors_As as_retryable d \<noteq> None"
proof -
  let ?eos = "[None, Some (RetryAfterError (Plain ''busy'') 15)]"
  obtain d where d: "DeferredError_Err (foldl DeferredError_Add [] ?eos) = Some d"
    using DeferredError_collects[of ?eos] by fastforce
  moreover have "errors_As as_retryable d \<noteq> None"
    using DeferredError_collects[of ?eos] d by fastforce
  ultimately show ?thesis by blast
qed

end
