(* ===== verification/CommandLine.thy ===== *)
theory CommandLine
  imports Errors
begin

text \<open>
  The command line of the manager (internal/cmd/namespace): root flags, then one or more namespaces,
  each with its flags.
\<close>

record invocation =
  Namespace :: string
  Flags :: "string list"

text \<open>A flag without an equals sign takes the next argument as its value, unless that is a flag or
  the name of a namespace.\<close>

definition takes_value :: "string list \<Rightarrow> string \<Rightarrow> string list \<Rightarrow> bool" where
  "takes_value names arg args =
     (\<not> Contains arg ''='' \<and> args \<noteq> [] \<and> \<not> HasPrefix (hd args) ''-'' \<and> hd args \<notin> set names)"

definition flush :: "string list \<Rightarrow> invocation option \<Rightarrow> invocation list \<Rightarrow> err + invocation list" where
  "flush names current invocations =
     (case current of
        None \<Rightarrow> Inr invocations
      | Some iv \<Rightarrow>
          if Namespace iv \<notin> set names then Inl (Errorf ''unknown namespace %q'' [Namespace iv])
          else Inr (invocations @ [iv]))"

function parse_args ::
  "string list \<Rightarrow> invocation option \<Rightarrow> invocation list \<Rightarrow> string list \<Rightarrow> err + invocation list" where
  "parse_args names current invocations [] = flush names current invocations"
| "parse_args names current invocations (arg # args) =
     (if arg \<in> set names then
        (case flush names current invocations of
           Inl x \<Rightarrow> Inl x
         | Inr invs \<Rightarrow> parse_args names (Some \<lparr>Namespace = arg, Flags = []\<rparr>) invs args)
      else case current of
          None \<Rightarrow> Inl (Errorf ''expected namespace name, got %q'' [arg])
        | Some iv \<Rightarrow>
            if \<not> HasPrefix arg ''-'' then
              Inl (Errorf ''namespace %q does not take positional arguments, got %q'' [Namespace iv, arg])
            else if takes_value names arg args then
              parse_args names (Some (iv\<lparr>Flags := Flags iv @ [arg, hd args]\<rparr>)) invocations (tl args)
            else parse_args names (Some (iv\<lparr>Flags := Flags iv @ [arg]\<rparr>)) invocations args)"
  by pat_completeness auto
termination
  by (relation "measure (\<lambda>(_, _, _, args). length args)") auto

definition parseInvocations :: "string list \<Rightarrow> string list \<Rightarrow> err + invocation list" where
  "parseInvocations args names =
     (case parse_args names None [] args of
        Inl x \<Rightarrow> Inl x
      | Inr [] \<Rightarrow> Inl (Errorf ''at least one namespace invocation is required'' [])
      | Inr invs \<Rightarrow> Inr invs)"

function splitLeadingFlags :: "string list \<Rightarrow> string list \<Rightarrow> string list \<times> string list" where
  "splitLeadingFlags [] names = ([], [])"
| "splitLeadingFlags (arg # args) names =
     (if \<not> HasPrefix arg ''-'' then ([], arg # args)
      else if takes_value names arg args then
        (let (rootFlags, rest) = splitLeadingFlags (tl args) names in (arg # hd args # rootFlags, rest))
      else (let (rootFlags, rest) = splitLeadingFlags args names in (arg # rootFlags, rest)))"
  by pat_completeness auto
termination
  by (relation "measure (length \<circ> fst)") auto

definition hasHelp :: "string list \<Rightarrow> bool" where
  "hasHelp args = list_ex (\<lambda>a. a = ''-h'' \<or> a = ''--help'') args"


section \<open>Parsing loses nothing\<close>

definition print_invocation :: "invocation \<Rightarrow> string list" where
  "print_invocation iv = Namespace iv # Flags iv"

text \<open>The flags of an invocation are flags and values of flags, and no namespace is among them.\<close>

fun flag_list :: "string list \<Rightarrow> string list \<Rightarrow> bool" where
  "flag_list names [] = True"
| "flag_list names (arg # args) =
     (arg \<notin> set names \<and> HasPrefix arg ''-''
      \<and> (if takes_value names arg args then flag_list names (tl args) else flag_list names args))"


definition wf_invocation :: "string list \<Rightarrow> invocation \<Rightarrow> bool" where
  "wf_invocation names iv = (Namespace iv \<in> set names \<and> flag_list names (Flags iv))"

definition print_all :: "invocation list \<Rightarrow> string list" where
  "print_all ivs = concat (map print_invocation ivs)"

abbreviation print_current :: "invocation option \<Rightarrow> string list" where
  "print_current current \<equiv> (case current of None \<Rightarrow> [] | Some iv \<Rightarrow> print_invocation iv)"

lemma takes_value_dash: "HasPrefix (hd ys) ''-'' \<Longrightarrow> \<not> takes_value names arg ys"
  by (simp add: takes_value_def)

lemma takes_value_Nil [simp]: "\<not> takes_value names arg []"
  by (simp add: takes_value_def)

lemma takes_value_Cons [simp]:
  "takes_value names arg (x # xs) = (\<not> Contains arg ''='' \<and> \<not> HasPrefix x ''-'' \<and> x \<notin> set names)"
  by (simp add: takes_value_def)

lemma flag_list_append:
  assumes "HasPrefix (hd ys) ''-''"
  shows "flag_list names (xs @ ys) = (flag_list names xs \<and> flag_list names ys)"
proof (induction names xs rule: flag_list.induct)
  case (2 names arg args)
  then show ?case by (cases args) (auto simp: takes_value_dash[OF assms])
qed simp

lemma parse_args_print:
  "parse_args names current ivs args = Inr res \<Longrightarrow>
     print_all res = print_all ivs @ print_current current @ args"
proof (induction names current ivs args arbitrary: res rule: parse_args.induct)
  case (1 names current ivs)
  then show ?case
    by (auto simp: flush_def print_all_def split: option.splits if_splits)
next
  case (2 names current ivs arg args)
  show ?case
  proof (cases "arg \<in> set names")
    case True
    with 2 show ?thesis
      by (auto simp: flush_def print_all_def print_invocation_def split: option.splits if_splits sum.splits)
  next
    case False
    with 2 show ?thesis
      by (cases args) (auto simp: print_invocation_def takes_value_def split: option.splits if_splits)
  qed
qed

lemma flag_list_one:
  "arg \<notin> set names \<Longrightarrow> HasPrefix arg ''-'' \<Longrightarrow> flag_list names [arg]"
  by (simp add: takes_value_def)

lemma flag_list_two:
  assumes "arg \<notin> set names" "HasPrefix arg ''-''" "takes_value names arg args"
  shows "flag_list names [arg, hd args]"
  using assms by (auto simp: takes_value_def)

lemma parse_args_wf:
  "parse_args names current ivs args = Inr res \<Longrightarrow> list_all (wf_invocation names) ivs \<Longrightarrow>
     pred_option (\<lambda>iv. flag_list names (Flags iv)) current \<Longrightarrow> list_all (wf_invocation names) res"
proof (induction names current ivs args arbitrary: res rule: parse_args.induct)
  case (1 names current ivs)
  then show ?case by (auto simp: flush_def wf_invocation_def split: option.splits if_splits)
next
  case (2 names current ivs arg args)
  show ?case
  proof (cases "arg \<in> set names")
    case True
    with 2 show ?thesis
      by (auto simp: flush_def wf_invocation_def split: option.splits if_splits sum.splits)
  next
    case False
    with 2 show ?thesis
      by (auto simp: flag_list_append flag_list_one flag_list_two split: option.splits if_splits
               simp del: flag_list.simps)
  qed
qed

lemma takes_value_names: "args \<noteq> [] \<longrightarrow> hd args \<in> set names \<Longrightarrow> \<not> takes_value names arg args"
  by (auto simp: takes_value_def)

lemma parse_flags:
  "flag_list names fs \<Longrightarrow> args \<noteq> [] \<longrightarrow> hd args \<in> set names \<Longrightarrow>
    parse_args names (Some iv) ivs (fs @ args) = parse_args names (Some (iv\<lparr>Flags := Flags iv @ fs\<rparr>)) ivs args"
proof (induction names fs arbitrary: iv rule: flag_list.induct)
  case (2 names arg fs)
  note arg = 2(3)
  show ?case
  proof (cases "takes_value names arg fs")
    case True
    then obtain v fs' where fs: "fs = v # fs'" by (cases fs) auto
    have "parse_args names (Some iv) ivs (arg # fs @ args)
            = parse_args names (Some (iv\<lparr>Flags := Flags iv @ [arg, v]\<rparr>)) ivs (fs' @ args)"
      using True arg fs by simp
    also have "\<dots> = parse_args names (Some (iv\<lparr>Flags := Flags iv @ arg # fs\<rparr>)) ivs args"
      using 2(1)[OF True, of "iv\<lparr>Flags := Flags iv @ [arg, v]\<rparr>"] True arg fs 2(4) by simp
    finally show ?thesis by simp
  next
    case False
    then have "\<not> takes_value names arg (fs @ args)"
      using takes_value_names[OF 2(4), of arg] by (cases fs) simp_all
    then have "parse_args names (Some iv) ivs (arg # fs @ args)
            = parse_args names (Some (iv\<lparr>Flags := Flags iv @ [arg]\<rparr>)) ivs (fs @ args)"
      using arg by simp
    also have "\<dots> = parse_args names (Some (iv\<lparr>Flags := Flags iv @ arg # fs\<rparr>)) ivs args"
      using 2(2)[OF False, of "iv\<lparr>Flags := Flags iv @ [arg]\<rparr>"] False arg 2(4) by simp
    finally show ?thesis by simp
  qed
qed simp

lemma print_all_hd: "list_all (wf_invocation names) ivs \<Longrightarrow> print_all ivs \<noteq> [] \<longrightarrow> hd (print_all ivs) \<in> set names"
  by (cases ivs) (simp_all add: print_all_def print_invocation_def wf_invocation_def)

lemma parse_printed:
  "list_all (wf_invocation names) todo \<Longrightarrow> pred_option (\<lambda>iv. Namespace iv \<in> set names) current \<Longrightarrow>
     parse_args names current ivs (print_all todo)
       = Inr (ivs @ (case current of None \<Rightarrow> [] | Some iv \<Rightarrow> [iv]) @ todo)"
proof (induction todo arbitrary: current ivs)
  case Nil
  then show ?case by (cases current) (simp_all add: print_all_def flush_def)
next
  case (Cons iv todo)
  have wf: "Namespace iv \<in> set names" "flag_list names (Flags iv)"
    using Cons.prems(1) by (simp_all add: wf_invocation_def)
  have eq: "print_all (iv # todo) = Namespace iv # Flags iv @ print_all todo"
    by (simp add: print_all_def print_invocation_def)
  obtain ivs' where fl: "flush names current ivs = Inr ivs'"
      "ivs' = ivs @ (case current of None \<Rightarrow> [] | Some iv \<Rightarrow> [iv])"
    using Cons.prems(2) by (cases current) (simp_all add: flush_def)
  have "parse_args names (Some \<lparr>Namespace = Namespace iv, Flags = []\<rparr>) ivs' (Flags iv @ print_all todo)
          = parse_args names (Some iv) ivs' (print_all todo)"
    using parse_flags[OF wf(2), of "print_all todo"] print_all_hd[of names todo] Cons.prems(1)
    by (cases iv) simp
  also have "\<dots> = Inr (ivs' @ iv # todo)"
    using Cons.IH[of "Some iv" ivs'] Cons.prems(1) wf(1) by simp
  finally show ?case using wf(1) fl by (simp add: eq)
qed

text \<open>C40: Parsing the arguments is the inverse of printing invocations: a parse succeeds iff the arguments
  are the concatenation, in order, of one or more well-formed invocations (a known namespace followed
  by flags and their values), and it returns exactly those.\<close>

theorem parseInvocations_print:
  "parseInvocations args names = Inr ivs \<longleftrightarrow>
     ivs \<noteq> [] \<and> list_all (wf_invocation names) ivs \<and> args = print_all ivs"
proof
  assume "parseInvocations args names = Inr ivs"
  then have "parse_args names None [] args = Inr ivs" "ivs \<noteq> []"
    by (auto simp: parseInvocations_def split: sum.splits list.splits)
  then show "ivs \<noteq> [] \<and> list_all (wf_invocation names) ivs \<and> args = print_all ivs"
    using parse_args_print[of names None "[]" args ivs] parse_args_wf[of names None "[]" args ivs]
    by (simp add: print_all_def)
next
  assume "ivs \<noteq> [] \<and> list_all (wf_invocation names) ivs \<and> args = print_all ivs"
  then show "parseInvocations args names = Inr ivs"
    using parse_printed[of names ivs None "[]"] by (auto simp: parseInvocations_def split: list.split)
qed

end
