(* ===== verification/EventReporter.thy ===== *)
theory EventReporter
  imports Errors
begin

text \<open>
  The event reporter (internal/common/events): the recorders, the reporter that fans out to them, and the reporter
  bound to a resource and its parents. The reconcilers use it through the actions of the theory World, which keep the
  requests and whether a warning was emitted; here is what becomes of one event. The sinks, zap and the broadcaster of
  client-go, are the values of \<open>sink\<close>: what a recorder hands to them, in order.
\<close>


section \<open>Recorders\<close>

definition EventTypeNormal :: string where "EventTypeNormal = ''Normal''"
definition EventTypeWarning :: string where "EventTypeWarning = ''Warning''"

datatype level = Info | Warn

record 'o event =
  ev_Object :: 'o
  ev_Type :: string
  ev_Reason :: string
  ev_Message :: string

text \<open>A line of a logger, and an event of the recorder of a component.\<close>

datatype ('l, 'o) sink = LogLine 'l level "'o event" | K8sEvent string "'o event"

datatype 'l recorder = logRecorder 'l | k8sEventRecorder string | k8sMultiEventRecorder "'l recorder list"

text \<open>The recorders of the package never fail, so the joined error of the multi recorder is nil.\<close>

fun record_event :: "'l recorder \<Rightarrow> 'o event \<Rightarrow> ('l, 'o) sink list" where
  "record_event (logRecorder l) ev = [LogLine l (if ev_Type ev = EventTypeWarning then Warn else Info) ev]"
| "record_event (k8sEventRecorder component) ev = [K8sEvent component ev]"
| "record_event (k8sMultiEventRecorder rs) ev = concat (map (\<lambda>r. record_event r ev) rs)"

fun is_log :: "'l recorder \<Rightarrow> bool" where
  "is_log (logRecorder _) = True"
| "is_log _ = False"


section \<open>The reporter\<close>

type_synonym 'l reporter = "'l recorder list"

text \<open>The recorder options in order; the first that fails ends the construction.\<close>

fun NewEventReporter :: "(err + 'l recorder) list \<Rightarrow> err + 'l reporter" where
  "NewEventReporter [] = Inr []"
| "NewEventReporter (opt # opts) = (case opt of
       Inl x \<Rightarrow> Inl (Errorf_w ''failed to create recorder: '' [] x)
     | Inr r \<Rightarrow> (case NewEventReporter opts of Inl x \<Rightarrow> Inl x | Inr rs \<Rightarrow> Inr (r # rs)))"

definition NewEventReporterForManager :: "err option \<Rightarrow> 'l \<Rightarrow> string \<Rightarrow> err + 'l reporter" where
  "NewEventReporterForManager clientset logger component = (case clientset of
       Some x \<Rightarrow> Inl (Errorf_w ''failed to create Kubernetes client: '' [] x)
     | None \<Rightarrow> NewEventReporter [Inr (k8sEventRecorder component), Inr (logRecorder logger)])"

definition reporter_Event :: "'l reporter \<Rightarrow> 'o event \<Rightarrow> ('l, 'o) sink list" where
  "reporter_Event er ev = concat (map (\<lambda>r. record_event r ev) er)"

definition eventK8sOnly :: "'l reporter \<Rightarrow> 'o event \<Rightarrow> ('l, 'o) sink list" where
  "eventK8sOnly er ev = concat (map (\<lambda>r. if is_log r then [] else record_event r ev) er)"

fun reporter_Logger :: "'l \<Rightarrow> 'l reporter \<Rightarrow> 'l" where
  "reporter_Logger nop [] = nop"
| "reporter_Logger nop (r # rs) = (case r of logRecorder l \<Rightarrow> l | _ \<Rightarrow> reporter_Logger nop rs)"

definition withLogger :: "'l \<Rightarrow> 'l reporter \<Rightarrow> 'l reporter" where
  "withLogger l er = map (\<lambda>r. if is_log r then logRecorder l else r) er"


section \<open>The bound reporter\<close>

record ('l, 'o) BoundReporter =
  br_er :: "'l reporter"
  br_objects :: "'o list"
  br_warned :: bool

definition reporter_For :: "'l reporter \<Rightarrow> 'o \<Rightarrow> ('l, 'o) BoundReporter" where
  "reporter_For er obj = \<lparr>br_er = er, br_objects = [obj], br_warned = False\<rparr>"

definition bound_WithLogger :: "'l \<Rightarrow> ('l, 'o) BoundReporter \<Rightarrow> ('l, 'o) BoundReporter" where
  "bound_WithLogger l br = \<lparr>br_er = withLogger l (br_er br), br_objects = br_objects br, br_warned = False\<rparr>"

definition Bind :: "'o \<Rightarrow> ('l, 'o) BoundReporter \<Rightarrow> ('l, 'o) BoundReporter" where
  "Bind parent br = \<lparr>br_er = br_er br, br_objects = br_objects br @ [parent], br_warned = False\<rparr>"

definition bound_Event :: "('l, 'o) BoundReporter \<Rightarrow> string \<Rightarrow> string \<Rightarrow> string \<Rightarrow> ('l, 'o) sink list" where
  "bound_Event br type reason message = (case br_objects br of
       [] \<Rightarrow> []
     | obj # parents \<Rightarrow>
         reporter_Event (br_er br) \<lparr>ev_Object = obj, ev_Type = type, ev_Reason = reason, ev_Message = message\<rparr>
         @ concat (map (\<lambda>p. eventK8sOnly (br_er br)
             \<lparr>ev_Object = p, ev_Type = type, ev_Reason = reason, ev_Message = message\<rparr>) parents))"

definition bound_Warning ::
  "string \<Rightarrow> string \<Rightarrow> ('l, 'o) BoundReporter \<Rightarrow> ('l, 'o) sink list \<times> ('l, 'o) BoundReporter" where
  "bound_Warning reason message br = (bound_Event br EventTypeWarning reason message, br\<lparr>br_warned := True\<rparr>)"

definition bound_Normal ::
  "string \<Rightarrow> string \<Rightarrow> ('l, 'o) BoundReporter \<Rightarrow> ('l, 'o) sink list \<times> ('l, 'o) BoundReporter" where
  "bound_Normal reason message br = (bound_Event br EventTypeNormal reason message, br)"

definition HasWarned :: "('l, 'o) BoundReporter \<Rightarrow> bool" where
  "HasWarned br = br_warned br"


section \<open>One log line, one event per object\<close>

fun logs :: "('l, 'o) sink list \<Rightarrow> ('l \<times> 'o) list" where
  "logs [] = []"
| "logs (LogLine l _ ev # ss) = (l, ev_Object ev) # logs ss"
| "logs (_ # ss) = logs ss"

fun sent :: "('l, 'o) sink list \<Rightarrow> (string \<times> 'o) list" where
  "sent [] = []"
| "sent (K8sEvent c ev # ss) = (c, ev_Object ev) # sent ss"
| "sent (_ # ss) = sent ss"

lemma logs_append: "logs (xs @ ys) = logs xs @ logs ys"
  by (induction xs rule: logs.induct) simp_all

lemma sent_append: "sent (xs @ ys) = sent xs @ sent ys"
  by (induction xs rule: sent.induct) simp_all

lemma manager_reporter:
  "NewEventReporterForManager None l c = Inr [k8sEventRecorder c, logRecorder l]"
  by (simp add: NewEventReporterForManager_def)

lemma parents_silent:
  "logs (concat (map (\<lambda>p. eventK8sOnly [k8sEventRecorder c, logRecorder l] (ev p)) ps)) = []"
  "sent (concat (map (\<lambda>p. eventK8sOnly [k8sEventRecorder c, logRecorder l] (ev p)) ps)) = map (\<lambda>p. (c, ev_Object (ev p))) ps"
  by (induction ps) (simp_all add: eventK8sOnly_def)

text \<open>The reporter of a reconciler, bound to its resource and any number of parents, writes one line to the
  reconciler's logger, about the resource, and sends one Kubernetes event to each bound object, in the order of the
  binding.\<close>

lemma bound_event_fanout:
  assumes "NewEventReporterForManager None l0 c = Inr er"
    and "br = fold Bind parents (bound_WithLogger l (reporter_For er obj))"
  shows "logs (bound_Event br type reason message) = [(l, obj)]"
    and "sent (bound_Event br type reason message) = map (Pair c) (obj # parents)"
    and "br_warned br = False"
proof -
  have er: "er = [k8sEventRecorder c, logRecorder l0]" using assms(1) by (simp add: manager_reporter)
  have br: "br = \<lparr>br_er = [k8sEventRecorder c, logRecorder l], br_objects = obj # parents, br_warned = False\<rparr>"
    unfolding assms(2) er
  proof (induction parents rule: rev_induct)
    case Nil show ?case by (simp add: bound_WithLogger_def reporter_For_def withLogger_def)
  next
    case (snoc p ps) then show ?case by (simp add: Bind_def)
  qed
  show "logs (bound_Event br type reason message) = [(l, obj)]"
    by (simp add: br bound_Event_def reporter_Event_def logs_append parents_silent)
  show "sent (bound_Event br type reason message) = map (Pair c) (obj # parents)"
    by (simp add: br bound_Event_def reporter_Event_def sent_append parents_silent)
  show "br_warned br = False" by (simp add: br)
qed

text \<open>Binding a parent or another logger starts a reporter that has not warned, whatever the old one did.\<close>

lemma binding_forgets_warnings:
  "\<not> HasWarned (Bind p (snd (bound_Warning reason message br)))"
  "\<not> HasWarned (bound_WithLogger l (snd (bound_Warning reason message br)))"
  by (simp_all add: HasWarned_def Bind_def bound_WithLogger_def)

end
