(* ===== verification/Durations.thy ===== *)
theory Durations
  imports Errors "HOL-Library.Word"
begin

text \<open>
  Replication schedules (api/v1alpha1/protection_policy_template.go): the frames
  of a protection policy template, their validation, and the conversion of a
  duration such as \<^verbatim>\<open>15m\<close> to seconds in 64-bit arithmetic. \<^verbatim>\<open>time.Parse\<close> is
  modelled for the three layouts \<^verbatim>\<open>validateStartAt\<close> tries.
\<close>

type_synonym int64 = "64 word"

record ProtectionPolicyFrame =
  Every :: string
  KeepLocal :: string
  KeepRemote :: string
  StartAt :: string

record ProtectionPolicyTemplate =
  Params :: "ProtectionPolicyFrame list"


section \<open>Durations\<close>

text \<open>The regular expression \<^verbatim>\<open>^\d+[sSmMhHdDwWyY]$\<close>: at least one digit and one unit letter.\<close>

definition duration_units :: string where
  "duration_units = ''sSmMhHdDwWyY''"

definition vastDurationRe :: "string \<Rightarrow> bool" where
  "vastDurationRe s \<longleftrightarrow>
     2 \<le> length s \<and> last s \<in> set duration_units \<and> list_all is_digit (butlast s)"

definition duration_amount :: "string \<Rightarrow> int64" where
  "duration_amount s =
     foldl (\<lambda>amount ch. if is_digit ch then amount * 10 + of_nat (digit_value ch) else amount) 0 s"

definition ParseEveryToSeconds :: "string \<Rightarrow> err + int64" where
  "ParseEveryToSeconds s =
     (if \<not> vastDurationRe s then Inl (Errorf ''invalid VAST duration %q'' [s])
      else let amount = duration_amount s; u = last s in
        if u = CHR ''s'' \<or> u = CHR ''S'' then Inr amount
        else if u = CHR ''m'' then Inr (amount * 60)
        else if u = CHR ''h'' \<or> u = CHR ''H'' then Inr (amount * 3600)
        else if u = CHR ''d'' \<or> u = CHR ''D'' then Inr (amount * 86400)
        else if u = CHR ''w'' \<or> u = CHR ''W'' then Inr (amount * 7 * 86400)
        else if u = CHR ''M'' then Inr (amount * 30 * 86400)
        else if u = CHR ''y'' \<or> u = CHR ''Y'' then Inr (amount * 365 * 86400)
        else Inl (Errorf ''unsupported duration unit %q in %q'' [[u], s]))"


section \<open>time.Parse\<close>

text \<open>A layout is a list of fields and literal separators. \<open>getnum\<close> reads one or two digits
  (exactly two when fixed); a fraction after the seconds is accepted even though the
  layout has none; a blank in the layout matches any number of blanks.\<close>

datatype layout_elem =
  StdYear | StdMonth | StdDay | StdHour | StdMinute | StdSecond | StdZone | Lit char

definition getnum :: "bool \<Rightarrow> string \<Rightarrow> (nat \<times> string) option" where
  "getnum fixed s =
     (case s of
        [] \<Rightarrow> None
      | a # r \<Rightarrow>
          if \<not> is_digit a then None
          else case r of
            [] \<Rightarrow> (if fixed then None else Some (digit_value a, []))
          | b # r' \<Rightarrow>
              if is_digit b then Some (10 * digit_value a + digit_value b, r')
              else if fixed then None else Some (digit_value a, r))"

definition skip_fraction :: "string \<Rightarrow> string" where
  "skip_fraction s =
     (case s of
        p # d # r \<Rightarrow>
          if (p = CHR ''.'' \<or> p = CHR '','') \<and> is_digit d then dropWhile is_digit r else s
      | _ \<Rightarrow> s)"

definition parse_zone :: "string \<Rightarrow> string option" where
  "parse_zone s =
     (if HasPrefix s ''Z'' then Some (tl s)
      else if length s < 6 \<or> s ! 3 \<noteq> CHR '':'' then None
      else case (getnum True (take 2 (drop 1 s)), getnum True (take 2 (drop 4 s))) of
        (Some (hr, _), Some (mm, _)) \<Rightarrow>
          if hr \<le> 24 \<and> mm \<le> 60 \<and> (hd s = CHR ''+'' \<or> hd s = CHR ''-'')
          then Some (drop 6 s) else None
      | _ \<Rightarrow> None)"

definition daysIn :: "nat \<Rightarrow> nat \<Rightarrow> nat" where
  "daysIn month year =
     (if month = 2 then
        (if year mod 4 = 0 \<and> (year mod 100 \<noteq> 0 \<or> year mod 400 = 0) then 29 else 28)
      else if month \<in> {4, 6, 9, 11} then 30 else 31)"

fun parse_fields :: "layout_elem list \<Rightarrow> nat \<times> nat \<times> nat \<Rightarrow> string \<Rightarrow> bool" where
  "parse_fields [] (y, mo, d) v = (v = [] \<and> 1 \<le> d \<and> d \<le> daysIn mo y)"
| "parse_fields (Lit c # ls) ymd v =
     (if c = CHR '' '' then
        (case v of
           [] \<Rightarrow> parse_fields ls ymd []
         | x # _ \<Rightarrow> x = CHR '' '' \<and> parse_fields ls ymd (dropWhile (\<lambda>z. z = CHR '' '') v))
      else HasPrefix v [c] \<and> parse_fields ls ymd (tl v))"
| "parse_fields (StdYear # ls) (y, mo, d) v =
     (4 \<le> length v \<and> list_all is_digit (take 4 v)
      \<and> parse_fields ls (Atoi_nat (take 4 v), mo, d) (drop 4 v))"
| "parse_fields (StdMonth # ls) (y, mo, d) v =
     (case getnum True v of
        Some (n, v') \<Rightarrow> 1 \<le> n \<and> n \<le> 12 \<and> parse_fields ls (y, n, d) v' | None \<Rightarrow> False)"
| "parse_fields (StdDay # ls) (y, mo, d) v =
     (case getnum True v of Some (n, v') \<Rightarrow> parse_fields ls (y, mo, n) v' | None \<Rightarrow> False)"
| "parse_fields (StdHour # ls) ymd v =
     (case getnum False v of Some (n, v') \<Rightarrow> n < 24 \<and> parse_fields ls ymd v' | None \<Rightarrow> False)"
| "parse_fields (StdMinute # ls) ymd v =
     (case getnum True v of Some (n, v') \<Rightarrow> n < 60 \<and> parse_fields ls ymd v' | None \<Rightarrow> False)"
| "parse_fields (StdSecond # ls) ymd v =
     (case getnum True v of
        Some (n, v') \<Rightarrow> n < 60 \<and> parse_fields ls ymd (skip_fraction v') | None \<Rightarrow> False)"
| "parse_fields (StdZone # ls) ymd v =
     (case parse_zone v of Some v' \<Rightarrow> parse_fields ls ymd v' | None \<Rightarrow> False)"

definition layout_vms :: "layout_elem list" where
  "layout_vms = [StdYear, Lit CHR ''-'', StdMonth, Lit CHR ''-'', StdDay, Lit CHR '' '',
                 StdHour, Lit CHR '':'', StdMinute, Lit CHR '':'', StdSecond]"

definition layout_hhmm :: "layout_elem list" where
  "layout_hhmm = [StdHour, Lit CHR '':'', StdMinute]"

definition layout_rfc3339 :: "layout_elem list" where
  "layout_rfc3339 = [StdYear, Lit CHR ''-'', StdMonth, Lit CHR ''-'', StdDay, Lit CHR ''T'',
                     StdHour, Lit CHR '':'', StdMinute, Lit CHR '':'', StdSecond, StdZone]"

definition time_Parse_ok :: "layout_elem list \<Rightarrow> string \<Rightarrow> bool" where
  "time_Parse_ok layout v = parse_fields layout (0, 1, 1) v"


section \<open>Validation\<close>

definition validateStartAt :: "string \<Rightarrow> err option" where
  "validateStartAt s =
     (if time_Parse_ok layout_vms s then None
      else if time_Parse_ok layout_hhmm s then None
      else if time_Parse_ok layout_rfc3339 s then None
      else Some (Errorf ''startAt %q must be YYYY-MM-DD HH:MM:SS, HH:MM, or RFC-3339'' [s]))"

definition ProtectionPolicyFrame_Validate :: "ProtectionPolicyFrame \<Rightarrow> err option" where
  "ProtectionPolicyFrame_Validate f =
     (if Every f = [] then Some (Errorf ''every must not be empty'' [])
      else if \<not> vastDurationRe (Every f) then
        Some (Errorf ''every %q is not a valid VAST duration'' [Every f])
      else if KeepLocal f \<noteq> [] \<and> \<not> vastDurationRe (KeepLocal f) then
        Some (Errorf ''keepLocal %q is not a valid VAST duration'' [KeepLocal f])
      else if KeepRemote f \<noteq> [] \<and> \<not> vastDurationRe (KeepRemote f) then
        Some (Errorf ''keepRemote %q is not a valid VAST duration'' [KeepRemote f])
      else if StartAt f \<noteq> [] then validateStartAt (StartAt f)
      else None)"

fun validate_params :: "nat \<Rightarrow> ProtectionPolicyFrame list \<Rightarrow> err option" where
  "validate_params i [] = None"
| "validate_params i (f # fs) =
     (case ProtectionPolicyFrame_Validate f of
        Some e \<Rightarrow> Some (Errorf_w ''protectionPolicyTemplate.params[%d]: '' [Itoa i] e)
      | None \<Rightarrow> validate_params (Suc i) fs)"

definition ProtectionPolicyTemplate_Validate :: "ProtectionPolicyTemplate \<Rightarrow> err option" where
  "ProtectionPolicyTemplate_Validate t =
     (if length (Params t) = 0 then
        Some (Errorf ''protectionPolicyTemplate.params must contain at least one entry'' [])
      else validate_params 0 (Params t))"


section \<open>Lemmas\<close>

definition unit_seconds :: "char \<Rightarrow> nat" where
  "unit_seconds u =
     (if u \<in> {CHR ''s'', CHR ''S''} then 1
      else if u = CHR ''m'' then 60
      else if u \<in> {CHR ''h'', CHR ''H''} then 3600
      else if u \<in> {CHR ''d'', CHR ''D''} then 86400
      else if u \<in> {CHR ''w'', CHR ''W''} then 604800
      else if u = CHR ''M'' then 2592000
      else 31536000)"

lemma units_not_digits: "u \<in> set duration_units \<Longrightarrow> \<not> is_digit u"
  by (auto simp: duration_units_def is_digit_def less_eq_char_def)

lemma duration_amount_digits:
  "list_all is_digit ds \<Longrightarrow> duration_amount ds = of_nat (Atoi_nat ds)"
proof (induction ds rule: rev_induct)
  case (snoc c ds)
  then have "duration_amount (ds @ [c]) = duration_amount ds * 10 + of_nat (digit_value c)"
    by (simp add: duration_amount_def)
  then show ?case using snoc by simp
qed (simp add: duration_amount_def Atoi_nat_def)

lemma duration_amount_eq:
  assumes "vastDurationRe s"
  shows "duration_amount s = of_nat (Atoi_nat (butlast s))"
proof -
  have s: "s = butlast s @ [last s]" using assms by (cases s rule: rev_cases) (auto simp: vastDurationRe_def)
  have "\<not> is_digit (last s)" using assms units_not_digits by (simp add: vastDurationRe_def)
  then have "duration_amount s = duration_amount (butlast s)"
    using s by (metis (mono_tags, lifting) duration_amount_def foldl_Cons foldl_Nil foldl_append)
  then show ?thesis using assms duration_amount_digits by (simp add: vastDurationRe_def)
qed

text \<open>Every matching duration is the number of units times the length of the unit, in 64-bit
  wrap-around arithmetic; the last two branches of the switch never run.\<close>

lemma ParseEveryToSeconds_word:
  "vastDurationRe s \<Longrightarrow>
     ParseEveryToSeconds s = Inr (of_nat (Atoi_nat (butlast s) * unit_seconds (last s)))"
  by (auto simp: ParseEveryToSeconds_def duration_amount_eq unit_seconds_def Let_def
      vastDurationRe_def duration_units_def)

lemma sint_of_nat_small: "n < 2 ^ 63 \<Longrightarrow> sint (of_nat n :: int64) = int n"
  by (simp add: signed_of_nat signed_take_bit_int_eq_self)

lemma validate_params_None:
  "validate_params i fs = None \<longleftrightarrow> (\<forall>f \<in> set fs. ProtectionPolicyFrame_Validate f = None)"
  by (induction fs arbitrary: i) (auto split: option.splits)

lemma Frame_Validate_Every:
  "ProtectionPolicyFrame_Validate f = None \<Longrightarrow> vastDurationRe (Every f)"
  by (auto simp: ProtectionPolicyFrame_Validate_def split: if_splits)

lemma Template_Validate_NoneD:
  assumes "ProtectionPolicyTemplate_Validate t = None"
  shows "Params t \<noteq> []" "f \<in> set (Params t) \<Longrightarrow> vastDurationRe (Every f)"
  using assms
  by (auto simp: ProtectionPolicyTemplate_Validate_def validate_params_None
      intro: Frame_Validate_Every split: if_splits)

section \<open>Properties\<close>

text \<open>C34: A duration of n units is converted exactly, to n times the length of the unit in seconds,
  whenever that number fits in an int64.\<close>

theorem ParseEveryToSeconds_exact:
  assumes "u \<in> set duration_units" "n * unit_seconds u < 2 ^ 63"
  shows "\<exists>w. ParseEveryToSeconds (Itoa n @ [u]) = Inr w \<and> sint w = int (n * unit_seconds u)"
proof -
  have "vastDurationRe (Itoa n @ [u])"
    using assms(1) by (auto simp: vastDurationRe_def list_all_iff Suc_le_eq)
  then show ?thesis
    using ParseEveryToSeconds_word[of "Itoa n @ [u]"] sint_of_nat_small[OF assms(2)] by auto
qed

theorem ParseEveryToSeconds_exact_witness:
  "\<exists>w. ParseEveryToSeconds (Itoa 15 @ ''m'') = Inr w \<and> sint w = int (15 * unit_seconds CHR ''m'')"
  by (rule ParseEveryToSeconds_exact) (simp_all add: duration_units_def unit_seconds_def)

text \<open>The conversion wraps around: a duration the regular expression and the frame validator
  both accept is converted to a negative number of seconds.\<close>

theorem ParseEveryToSeconds_overflow:
  "ProtectionPolicyFrame_Validate
     \<lparr>Every = ''9223372036854775808s'', KeepLocal = [], KeepRemote = [], StartAt = []\<rparr> = None
   \<and> (\<exists>w. ParseEveryToSeconds ''9223372036854775808s'' = Inr w \<and> sint w < 0)"
proof -
  have re: "vastDurationRe ''9223372036854775808s''"
    by (simp add: vastDurationRe_def is_digit_def less_eq_char_def duration_units_def)
  have "Atoi_nat ''9223372036854775808'' = 9223372036854775808"
    by (simp add: Atoi_nat_def digit_value_def)
  then have "ParseEveryToSeconds ''9223372036854775808s'' = Inr (of_nat 9223372036854775808)"
    using ParseEveryToSeconds_word[OF re] by (simp add: unit_seconds_def)
  moreover have "sint (of_nat 9223372036854775808 :: int64) < 0" by (simp add: signed_of_nat)
  ultimately show ?thesis using re by (auto simp: ProtectionPolicyFrame_Validate_def)
qed

end
