(* ===== verification/Topology.thy ===== *)
theory Topology
  imports Durations
begin

text \<open>
  The specs of the two user-facing resources, VastStorageClassReplication (VSCR)
  and VastVolumeReplication (VVR), and the operations on their replication
  topology (api/v1alpha1/replication_target.go,
  vaststorageclassreplication_types.go, vastvolumereplication_types.go,
  displayable.go). The two specs have the same topology operations; the locale
  \<open>constellation\<close> is the contract the controllers rely on, proved once and
  interpreted for both.
\<close>

section \<open>Replication targets\<close>

record ReplicationTarget =
  Source :: string
  Destination :: string
  PeerName :: string
  TargetExportedDir :: string

definition ReplicationTarget_Validate :: "ReplicationTarget \<Rightarrow> err option" where
  "ReplicationTarget_Validate t =
     (if Source t = [] then Some (Errorf ''source must not be empty'' [])
      else if Destination t = [] then Some (Errorf ''destination must not be empty'' [])
      else if Source t = Destination t then
        Some (Errorf ''source and destination must be different (both are %q)'' [Source t])
      else if TargetExportedDir t \<noteq> [] \<and> \<not> HasPrefix (TargetExportedDir t) ''/'' then
        Some (Errorf ''targetExportedDir must be an absolute path (got %q)'' [TargetExportedDir t])
      else None)"


section \<open>The specs\<close>

record VSCRSpec =
  PrimaryStorageClass :: string
  ProtectionTopology :: "ReplicationTarget list"
  PolicyTemplate :: ProtectionPolicyTemplate
  FailoverType :: string
  Resync :: bool
  SyncIntervalSeconds :: int64
  PVCRemap :: bool
  SyncPVCPV :: bool
  DestVolReclaimPolicy :: string
  VolumeNamespace :: string

record VVRSpec =
  v_VolumeName :: string
  v_VolumeNamespace :: string
  v_PrimaryStorageClass :: string
  v_ProtectionTopology :: "ReplicationTarget list"
  v_PolicyTemplate :: ProtectionPolicyTemplate
  v_FailoverType :: string
  v_Resync :: bool
  v_SyncIntervalSeconds :: int64
  v_PVCRemap :: bool
  v_DestVolReclaimPolicy :: string

definition FailoverTypeUngraceful :: string where
  "FailoverTypeUngraceful = ''ungracefulFailover''"

definition FailoverTypeGraceful :: string where
  "FailoverTypeGraceful = ''gracefulFailover''"

definition SyncStatusCompleted :: string where "SyncStatusCompleted = ''Completed''"
definition SyncStatusInProgress :: string where "SyncStatusInProgress = ''InProgress''"
definition SyncStatusUnreachable :: string where "SyncStatusUnreachable = ''Unreachable''"
definition SyncStatusError :: string where "SyncStatusError = ''Error''"
definition SyncStatusInvalid :: string where "SyncStatusInvalid = ''Invalid''"
definition SyncStatusDeleting :: string where "SyncStatusDeleting = ''Deleting''"
definition SyncStatusFailed :: string where "SyncStatusFailed = ''Failed''"

lemmas sync_status_defs =
  SyncStatusCompleted_def SyncStatusInProgress_def SyncStatusUnreachable_def
  SyncStatusError_def SyncStatusInvalid_def SyncStatusDeleting_def SyncStatusFailed_def


section \<open>Topology operations of a VSCR\<close>

definition EffectiveSyncIntervalSeconds :: "VSCRSpec \<Rightarrow> err + int64" where
  "EffectiveSyncIntervalSeconds s =
     (if 0 < sint (SyncIntervalSeconds s) then Inr (SyncIntervalSeconds s)
      else case Params (PolicyTemplate s) of
        [] \<Rightarrow> Inl (Errorf ''syncIntervalSeconds not set and protectionPolicyTemplate has no params'' [])
      | p # _ \<Rightarrow> ParseEveryToSeconds (Every p))"

text \<open>The map \<^verbatim>\<open>seen\<close> that both operations below fill from the topology, as the list of its
  insertions.\<close>

definition topology_seen :: "ReplicationTarget list \<Rightarrow> string list" where
  "topology_seen ts = concat (map (\<lambda>t. [Source t, Destination t]) ts)"

definition AllStorageClasses :: "VSCRSpec \<Rightarrow> string list" where
  "AllStorageClasses s = sorted_keys (topology_seen (ProtectionTopology s))"

definition primary_less :: "string \<Rightarrow> string \<Rightarrow> string \<Rightarrow> bool" where
  "primary_less p a b = (if a = p then True else if b = p then False else a < b)"

definition AllStorageClassesPrimaryFirst :: "VSCRSpec \<Rightarrow> string list" where
  "AllStorageClassesPrimaryFirst s =
     sort_Slice (primary_less (PrimaryStorageClass s)) (AllStorageClasses s)"

text \<open>One entry of TargetsFor: the entry itself, the entry reversed (without its
  targetExportedDir), or nothing.\<close>

definition orient :: "string \<Rightarrow> ReplicationTarget \<Rightarrow> ReplicationTarget list" where
  "orient scName t =
     (if scName = Source t then [t]
      else if scName = Destination t then
        [\<lparr>Source = Destination t, Destination = Source t, PeerName = PeerName t,
          TargetExportedDir = []\<rparr>]
      else [])"

definition TargetsFor :: "VSCRSpec \<Rightarrow> string \<Rightarrow> ReplicationTarget list" where
  "TargetsFor s scName = concat (map (orient scName) (ProtectionTopology s))"


section \<open>Topology operations of a VVR\<close>

definition v_EffectiveSyncIntervalSeconds :: "VVRSpec \<Rightarrow> err + int64" where
  "v_EffectiveSyncIntervalSeconds s =
     (if 0 < sint (v_SyncIntervalSeconds s) then Inr (v_SyncIntervalSeconds s)
      else case Params (v_PolicyTemplate s) of
        [] \<Rightarrow> Inl (Errorf ''syncIntervalSeconds not set and protectionPolicyTemplate has no params'' [])
      | p # _ \<Rightarrow> ParseEveryToSeconds (Every p))"

definition v_AllStorageClasses :: "VVRSpec \<Rightarrow> string list" where
  "v_AllStorageClasses s = sorted_keys (topology_seen (v_ProtectionTopology s))"

definition v_AllStorageClassesPrimaryFirst :: "VVRSpec \<Rightarrow> string list" where
  "v_AllStorageClassesPrimaryFirst s =
     sort_Slice (primary_less (v_PrimaryStorageClass s)) (v_AllStorageClasses s)"

definition v_TargetsFor :: "VVRSpec \<Rightarrow> string \<Rightarrow> ReplicationTarget list" where
  "v_TargetsFor s scName = concat (map (orient scName) (v_ProtectionTopology s))"


section \<open>Validation of a spec\<close>

definition normPair :: "string \<Rightarrow> string \<Rightarrow> string \<times> string" where
  "normPair a b = (if a \<le> b then (a, b) else (b, a))"

text \<open>The loop over the topology that both Validate methods run: it fills the maps
  \<^verbatim>\<open>seenPairs\<close> and \<^verbatim>\<open>scSet\<close> and stops at the first bad entry.\<close>

fun validate_topology ::
  "nat \<Rightarrow> (string \<times> string) list \<Rightarrow> string list \<Rightarrow> ReplicationTarget list
   \<Rightarrow> err + (string \<times> string) list \<times> string list" where
  "validate_topology i seenPairs scSet [] = Inr (seenPairs, scSet)"
| "validate_topology i seenPairs scSet (t # ts) =
     (if Source t = [] then
        Inl (Errorf ''protectionTopology[%d].source must not be empty'' [Itoa i])
      else if Destination t = [] then
        Inl (Errorf ''protectionTopology[%d].destination must not be empty'' [Itoa i])
      else if Source t = Destination t then
        Inl (Errorf ''protectionTopology[%d]: source and destination must be different (%q)''
               [Itoa i, Source t])
      else let p = normPair (Source t) (Destination t) in
        if p \<in> set seenPairs then
          Inl (Errorf ''protectionTopology[%d]: duplicate entry between %q and %q''
                 [Itoa i, Source t, Destination t])
        else validate_topology (Suc i) (p # seenPairs) (Source t # Destination t # scSet) ts)"

definition VSCRSpec_Validate :: "VSCRSpec \<Rightarrow> err option" where
  "VSCRSpec_Validate s =
     (if PrimaryStorageClass s = [] then
        Some (Errorf ''primaryStorageClass must not be empty'' [])
      else if length (ProtectionTopology s) = 0 then
        Some (Errorf ''protectionTopology must contain at least one entry'' [])
      else case ProtectionPolicyTemplate_Validate (PolicyTemplate s) of
        Some e \<Rightarrow> Some e
      | None \<Rightarrow>
          if PVCRemap s \<and> \<not> SyncPVCPV s then
            Some (Errorf ''pvcRemap cannot be true when syncPVCPV is false'' [])
          else case validate_topology 0 [] [] (ProtectionTopology s) of
            Inl e \<Rightarrow> Some e
          | Inr (seenPairs, scSet) \<Rightarrow>
              if PrimaryStorageClass s \<notin> set scSet then
                Some (Errorf ''primaryStorageClass %q must appear in protectionTopology''
                        [PrimaryStorageClass s])
              else None)"

text \<open>The double loop of the VVR check: the pairs of classes, in order, that no entry connects.\<close>

fun missing_pairs :: "(string \<times> string) list \<Rightarrow> string list \<Rightarrow> (string \<times> string) list" where
  "missing_pairs seenPairs [] = []"
| "missing_pairs seenPairs (a # rest) =
     filter (\<lambda>p. p \<notin> set seenPairs) (map (normPair a) rest) @ missing_pairs seenPairs rest"

definition pair_arrow :: string where
  "pair_arrow = [CHR '' '', CHR 0xE2, CHR 0x86, CHR 0x94, CHR '' '']"

definition VVRSpec_Validate :: "VVRSpec \<Rightarrow> err option" where
  "VVRSpec_Validate s =
     (if v_VolumeName s = [] then Some (Errorf ''volumeName must not be empty'' [])
      else if v_PrimaryStorageClass s = [] then
        Some (Errorf ''primaryStorageClass must not be empty'' [])
      else if length (v_ProtectionTopology s) = 0 then
        Some (Errorf ''protectionTopology must contain at least one entry'' [])
      else case ProtectionPolicyTemplate_Validate (v_PolicyTemplate s) of
        Some e \<Rightarrow> Some e
      | None \<Rightarrow>
          case validate_topology 0 [] [] (v_ProtectionTopology s) of
            Inl e \<Rightarrow> Some e
          | Inr (seenPairs, scSet) \<Rightarrow>
              if v_PrimaryStorageClass s \<notin> set scSet then
                Some (Errorf ''primaryStorageClass %q must appear in protectionTopology''
                        [v_PrimaryStorageClass s])
              else let missing = missing_pairs seenPairs (sorted_keys scSet) in
                if length missing > 0 then
                  Some (Errorf ''protectionTopology must form a complete mesh: missing %d pair(s): %s''
                          [Itoa (length missing),
                           Join (map (\<lambda>(lo, hi). lo @ pair_arrow @ hi) missing) '', ''])
                else None)"


section \<open>Displayable lists\<close>

definition previewMax :: nat where "previewMax = 2"

definition DisplayableList_First :: "string list \<Rightarrow> err + string" where
  "DisplayableList_First d = (case d of [] \<Rightarrow> Inl (Errorf ''list is empty'' []) | x # _ \<Rightarrow> Inr x)"

definition DisplayableList_Equal :: "string list \<Rightarrow> string list \<Rightarrow> bool" where
  "DisplayableList_Equal d other \<longleftrightarrow>
     length d = length other \<and> list_all (\<lambda>i. d ! i = other ! i) [0..<length d]"

definition DisplayableList_String :: "string list \<Rightarrow> string" where
  "DisplayableList_String d =
     (if length d = 0 then ''[]''
      else let n = (if length d > previewMax then previewMax else length d);
               quoted = map (\<lambda>i. [CHR 0x22] @ d ! i @ [CHR 0x22]) [0..<n]
           in if length d > previewMax then
                Sprintf ''[%s ... +%d more]'' [Join quoted '', '', Itoa (length d - previewMax)]
              else ''['' @ Join quoted '', '' @ '']'')"


section \<open>The contract of a constellation\<close>

lemma orient_source: "t' \<in> set (orient c t) \<Longrightarrow> Source t' = c"
  by (cases "c = Source t"; cases "c = Destination t") (simp_all add: orient_def)

definition endpoints :: "ReplicationTarget list \<Rightarrow> string set" where
  "endpoints ts = Source ` set ts \<union> Destination ` set ts"

locale constellation =
  fixes topo :: "'s \<Rightarrow> ReplicationTarget list"
    and primary :: "'s \<Rightarrow> string"
    and all_classes :: "'s \<Rightarrow> string list"
    and primary_first :: "'s \<Rightarrow> string list"
    and targets_for :: "'s \<Rightarrow> string \<Rightarrow> ReplicationTarget list"
  assumes classes_set: "set (all_classes s) = endpoints (topo s)"
    and classes_sorted: "sorted (all_classes s)"
    and classes_distinct: "distinct (all_classes s)"
    and first_set: "set (primary_first s) = set (all_classes s)"
    and first_distinct: "distinct (primary_first s)"
    and first_wrt: "sorted_wrt (primary_less (primary s)) (primary_first s)"
    and targets_set: "set (targets_for s c) = (\<Union>t \<in> set (topo s). set (orient c t))"
begin

lemma classes_unique:
  "sorted xs \<Longrightarrow> distinct xs \<Longrightarrow> set xs = endpoints (topo s) \<Longrightarrow> xs = all_classes s"
  by (metis classes_distinct classes_set classes_sorted sorted_distinct_set_unique)

lemma first_shape:
  assumes "primary s \<in> endpoints (topo s)"
  shows "\<exists>rest. primary_first s = primary s # rest \<and> sorted rest
           \<and> set rest = endpoints (topo s) - {primary s}"
proof -
  obtain x rest where pf: "primary_first s = x # rest"
    using assms first_set[of s] classes_set[of s] by (cases "primary_first s") auto
  have mem: "primary s \<in> set (x # rest)" using assms pf first_set classes_set by metis
  have "x = primary s"
  proof (rule ccontr)
    assume "x \<noteq> primary s"
    then have "primary s \<in> set rest" using mem by simp
    then have "primary_less (primary s) x (primary s)" using first_wrt[of s] pf by auto
    then show False using \<open>x \<noteq> primary s\<close> by (simp add: primary_less_def)
  qed
  moreover have "primary s \<notin> set rest" using first_distinct[of s] pf calculation by simp
  moreover have "sorted_wrt (primary_less (primary s)) rest" using first_wrt[of s] pf by simp
  then have "sorted rest"
  proof (rule sorted_wrt_mono_rel[rotated])
    fix a b assume "a \<in> set rest" "b \<in> set rest" "primary_less (primary s) a b"
    then show "a \<le> b" using \<open>primary s \<notin> set rest\<close> by (auto simp: primary_less_def split: if_splits)
  qed
  ultimately show ?thesis using pf first_set[of s] classes_set[of s] by auto
qed

lemma first_length: "length (primary_first s) = length (all_classes s)"
  by (metis classes_distinct distinct_card first_distinct first_set)

lemma target_source: "t \<in> set (targets_for s c) \<Longrightarrow> Source t = c"
  by (auto simp: targets_set dest: orient_source)

lemma target_member: "t \<in> set (targets_for s c) \<Longrightarrow> Destination t \<in> set (all_classes s)"
  by (auto simp: targets_set classes_set endpoints_def orient_def split: if_splits)

lemma targets_empty_iff: "targets_for s c = [] \<longleftrightarrow> c \<notin> set (all_classes s)"
proof -
  have "set (targets_for s c) = {} \<longleftrightarrow> c \<notin> endpoints (topo s)"
    unfolding targets_set endpoints_def by (auto simp: orient_def split: if_splits)
  then show ?thesis by (simp add: classes_set)
qed

lemma target_reverse:
  assumes "t \<in> set (targets_for s a)"
  shows "\<exists>t' \<in> set (targets_for s (Destination t)). Destination t' = a \<and> PeerName t' = PeerName t"
proof -
  obtain e where e: "e \<in> set (topo s)" "t \<in> set (orient a e)" using assms by (auto simp: targets_set)
  show ?thesis
  proof (cases "a = Source e")
    case True
    then have "t = e" using e(2) by (simp add: orient_def)
    then show ?thesis
      using e(1) True unfolding targets_set by (auto intro!: bexI[of _ e] simp: orient_def)
  next
    case False
    then have t: "t = \<lparr>Source = Destination e, Destination = Source e, PeerName = PeerName e,
        TargetExportedDir = []\<rparr>" "a = Destination e"
      using e(2) by (auto simp: orient_def split: if_splits)
    then have "e \<in> set (targets_for s (Destination t))"
      using e(1) by (auto simp: targets_set orient_def intro!: bexI[of _ e])
    then show ?thesis using t by auto
  qed
qed

end

lemma set_topology_seen [simp]: "set (topology_seen ts) = endpoints ts"
  by (auto simp: topology_seen_def endpoints_def)

lemma primary_less_total: "a \<noteq> b \<Longrightarrow> primary_less p a b \<or> primary_less p b a"
  by (auto simp: primary_less_def)

lemma primary_less_trans:
  "a \<noteq> b \<Longrightarrow> b \<noteq> c \<Longrightarrow> primary_less p a b \<Longrightarrow> primary_less p b c \<Longrightarrow> primary_less p a c"
  by (auto simp: primary_less_def split: if_splits)

lemma sorted_wrt_primary_first:
  "sorted_wrt (primary_less p) (sort_Slice (primary_less p) (sorted_keys xs))"
  by (rule sort_Slice_sorted_wrt) (auto intro: primary_less_trans dest: primary_less_total)

interpretation vscr: constellation ProtectionTopology PrimaryStorageClass
  AllStorageClasses AllStorageClassesPrimaryFirst TargetsFor
  by unfold_locales
    (auto simp: AllStorageClasses_def AllStorageClassesPrimaryFirst_def TargetsFor_def
      sorted_wrt_primary_first)

interpretation vvr: constellation v_ProtectionTopology v_PrimaryStorageClass
  v_AllStorageClasses v_AllStorageClassesPrimaryFirst v_TargetsFor
  by unfold_locales
    (auto simp: v_AllStorageClasses_def v_AllStorageClassesPrimaryFirst_def v_TargetsFor_def
      sorted_wrt_primary_first)


section \<open>What the validators accept\<close>

definition entry_pair :: "ReplicationTarget \<Rightarrow> string \<times> string" where
  "entry_pair t = normPair (Source t) (Destination t)"

definition entry_ok :: "ReplicationTarget \<Rightarrow> bool" where
  "entry_ok t \<longleftrightarrow> Source t \<noteq> [] \<and> Destination t \<noteq> [] \<and> Source t \<noteq> Destination t"

lemma validate_topology_Inr:
  "validate_topology i ps cs ts = Inr (ps', cs') \<longleftrightarrow>
     list_all entry_ok ts \<and> distinct (map entry_pair ts)
     \<and> set (map entry_pair ts) \<inter> set ps = {}
     \<and> ps' = rev (map entry_pair ts) @ ps
     \<and> cs' = concat (map (\<lambda>t. [Source t, Destination t]) (rev ts)) @ cs"
  by (induction ts arbitrary: i ps cs)
    (auto simp: entry_ok_def entry_pair_def Let_def)

lemma validate_topology_ok:
  "validate_topology 0 [] [] ts = Inr (ps, cs) \<Longrightarrow>
     list_all entry_ok ts \<and> distinct (map entry_pair ts)
     \<and> set ps = set (map entry_pair ts) \<and> set cs = endpoints ts"
  unfolding validate_topology_Inr endpoints_def by auto

lemma normPair_eq_iff: "normPair a b = normPair c d \<longleftrightarrow> a = c \<and> b = d \<or> a = d \<and> b = c"
  by (auto simp: normPair_def)

lemma normPair_commute: "normPair a b = normPair b a"
  by (simp add: normPair_eq_iff)

lemma missing_pairs_Nil:
  "distinct cs \<Longrightarrow> missing_pairs ps cs = [] \<longleftrightarrow>
     (\<forall>a \<in> set cs. \<forall>b \<in> set cs. a \<noteq> b \<longrightarrow> normPair a b \<in> set ps)"
proof (induction cs)
  case (Cons c cs)
  then show ?case
    by (auto simp: filter_empty_conv normPair_commute)
qed simp

text \<open>The VVR check in terms of the topology alone.\<close>

lemma VVRSpec_Validate_None:
  assumes "VVRSpec_Validate s = None"
  shows "list_all entry_ok (v_ProtectionTopology s)"
    and "distinct (map entry_pair (v_ProtectionTopology s))"
    and "v_PrimaryStorageClass s \<in> endpoints (v_ProtectionTopology s)"
    and "\<forall>a \<in> endpoints (v_ProtectionTopology s). \<forall>b \<in> endpoints (v_ProtectionTopology s).
           a \<noteq> b \<longrightarrow> normPair a b \<in> entry_pair ` set (v_ProtectionTopology s)"
proof -
  obtain ps cs where v: "validate_topology 0 [] [] (v_ProtectionTopology s) = Inr (ps, cs)"
    and prim: "v_PrimaryStorageClass s \<in> set cs"
    and miss: "missing_pairs ps (sorted_keys cs) = []"
    using assms by (auto simp: VVRSpec_Validate_def Let_def split: if_splits option.splits sum.splits)
  note ok = validate_topology_ok[OF v]
  from ok show "list_all entry_ok (v_ProtectionTopology s)"
    "distinct (map entry_pair (v_ProtectionTopology s))" by simp_all
  from ok prim show "v_PrimaryStorageClass s \<in> endpoints (v_ProtectionTopology s)" by simp
  from ok miss show "\<forall>a \<in> endpoints (v_ProtectionTopology s). \<forall>b \<in> endpoints (v_ProtectionTopology s).
           a \<noteq> b \<longrightarrow> normPair a b \<in> entry_pair ` set (v_ProtectionTopology s)"
    by (simp add: missing_pairs_Nil)
qed

lemma VSCRSpec_Validate_None:
  assumes "VSCRSpec_Validate s = None"
  shows "list_all entry_ok (ProtectionTopology s)"
    and "distinct (map entry_pair (ProtectionTopology s))"
    and "PrimaryStorageClass s \<in> endpoints (ProtectionTopology s)"
    and "ProtectionPolicyTemplate_Validate (PolicyTemplate s) = None"
proof -
  obtain ps cs where v: "validate_topology 0 [] [] (ProtectionTopology s) = Inr (ps, cs)"
    and prim: "PrimaryStorageClass s \<in> set cs"
    and tmpl: "ProtectionPolicyTemplate_Validate (PolicyTemplate s) = None"
    using assms by (auto simp: VSCRSpec_Validate_def split: if_splits option.splits sum.splits)
  note ok = validate_topology_ok[OF v]
  from ok show "list_all entry_ok (ProtectionTopology s)"
    "distinct (map entry_pair (ProtectionTopology s))" by simp_all
  from ok prim show "PrimaryStorageClass s \<in> endpoints (ProtectionTopology s)" by simp
  show "ProtectionPolicyTemplate_Validate (PolicyTemplate s) = None" by (fact tmpl)
qed

text \<open>The unordered pairs of a topology are the two-element sets of its endpoints, so a complete
  mesh on n classes has n choose 2 entries.\<close>

definition pair_set :: "string \<times> string \<Rightarrow> string set" where
  "pair_set p = {fst p, snd p}"

lemma pair_set_normPair [simp]: "pair_set (normPair a b) = {a, b}"
  by (auto simp: pair_set_def normPair_def)

lemma inj_on_pair_set: "inj_on pair_set (entry_pair ` set ts)"
proof (rule inj_onI)
  fix p q assume "p \<in> entry_pair ` set ts" "q \<in> entry_pair ` set ts" "pair_set p = pair_set q"
  then obtain a b c d where "p = normPair a b" "q = normPair c d" "{a, b} = {c, d}"
    unfolding entry_pair_def by auto
  then show "p = q" by (simp add: normPair_eq_iff doubleton_eq_iff)
qed

lemma finite_endpoints [simp]: "finite (endpoints ts)"
  by (simp add: endpoints_def)

lemma mesh_length:
  assumes ok: "list_all entry_ok ts" and dist: "distinct (map entry_pair ts)"
    and mesh: "\<forall>a \<in> endpoints ts. \<forall>b \<in> endpoints ts. a \<noteq> b \<longrightarrow> normPair a b \<in> entry_pair ` set ts"
  shows "length ts = card (endpoints ts) choose 2"
proof -
  let ?P = "{B. B \<subseteq> endpoints ts \<and> card B = 2}"
  have "pair_set ` entry_pair ` set ts = ?P"
  proof
    show "pair_set ` entry_pair ` set ts \<subseteq> ?P"
      using ok by (auto simp: entry_pair_def endpoints_def list_all_iff entry_ok_def)
    show "?P \<subseteq> pair_set ` entry_pair ` set ts"
    proof
      fix B assume "B \<in> ?P"
      then obtain a b where B: "B = {a, b}" "a \<noteq> b" and "a \<in> endpoints ts" "b \<in> endpoints ts"
        by (auto simp: card_2_iff)
      then have "normPair a b \<in> entry_pair ` set ts" using mesh by blast
      then have "pair_set (normPair a b) \<in> pair_set ` entry_pair ` set ts" by (rule imageI)
      then show "B \<in> pair_set ` entry_pair ` set ts" by (simp add: B)
    qed
  qed
  then have "card ?P = card (entry_pair ` set ts)" by (metis card_image inj_on_pair_set)
  also have "\<dots> = length ts" using dist by (metis distinct_card length_map list.set_map)
  finally show ?thesis by (simp add: n_subsets)
qed

section \<open>Properties\<close>

text \<open>C31: A VVR spec that Validate accepts has a complete mesh: every two distinct StorageClasses of
  the topology are connected by exactly one entry, so n classes have n(n-1)/2 entries, and the
  primary is one of them.\<close>

theorem VVR_Validate_complete_mesh:
  assumes "VVRSpec_Validate s = None"
  shows "length (v_ProtectionTopology s) = length (v_AllStorageClasses s) choose 2
       \<and> v_PrimaryStorageClass s \<in> set (v_AllStorageClasses s)
       \<and> (\<forall>a \<in> set (v_AllStorageClasses s). \<forall>b \<in> set (v_AllStorageClasses s). a \<noteq> b \<longrightarrow>
            (\<exists>t \<in> set (v_TargetsFor s a). Destination t = b))"
proof -
  note v = VVRSpec_Validate_None[OF assms]
  have len: "length (v_AllStorageClasses s) = card (endpoints (v_ProtectionTopology s))"
    using distinct_card[OF vvr.classes_distinct[of s]] by (simp add: vvr.classes_set)
  have edge: "\<exists>t \<in> set (v_TargetsFor s a). Destination t = b"
    if "a \<in> endpoints (v_ProtectionTopology s)" "b \<in> endpoints (v_ProtectionTopology s)" "a \<noteq> b" for a b
  proof -
    have "normPair a b \<in> entry_pair ` set (v_ProtectionTopology s)" using v(4) that by blast
    then obtain t where t: "t \<in> set (v_ProtectionTopology s)" "normPair a b = entry_pair t" by (rule imageE)
    then have "a = Source t \<and> b = Destination t \<or> a = Destination t \<and> b = Source t"
      by (simp add: entry_pair_def normPair_eq_iff)
    then have "\<exists>t' \<in> set (orient a t). Destination t' = b" using that(3) by (fastforce simp: orient_def)
    then show ?thesis using t(1) unfolding vvr.targets_set by blast
  qed
  show ?thesis
  proof (intro conjI ballI impI)
    show "length (v_ProtectionTopology s) = length (v_AllStorageClasses s) choose 2"
      using mesh_length[OF v(1,2,4)] len by simp
    show "v_PrimaryStorageClass s \<in> set (v_AllStorageClasses s)" using v(3) by (simp add: vvr.classes_set)
    fix a b assume "a \<in> set (v_AllStorageClasses s)" "b \<in> set (v_AllStorageClasses s)" "a \<noteq> b"
    then show "\<exists>t \<in> set (v_TargetsFor s a). Destination t = b" using edge by (simp add: vvr.classes_set)
  qed
qed

definition example_frame :: ProtectionPolicyFrame where
  "example_frame = \<lparr>Every = ''15m'', KeepLocal = ''1d'', KeepRemote = [], StartAt = ''02:00''\<rparr>"

definition example_entry :: "string \<Rightarrow> string \<Rightarrow> ReplicationTarget" where
  "example_entry a b = \<lparr>Source = a, Destination = b, PeerName = [], TargetExportedDir = []\<rparr>"

definition example_vvr :: VVRSpec where
  "example_vvr = \<lparr>v_VolumeName = ''data'', v_VolumeNamespace = [], v_PrimaryStorageClass = ''b'',
     v_ProtectionTopology = [example_entry ''a'' ''b'', example_entry ''c'' ''a'', example_entry ''b'' ''c''],
     v_PolicyTemplate = \<lparr>Params = [example_frame]\<rparr>, v_FailoverType = FailoverTypeUngraceful,
     v_Resync = False, v_SyncIntervalSeconds = 0, v_PVCRemap = False, v_DestVolReclaimPolicy = ''Retain''\<rparr>"

definition example_vscr :: VSCRSpec where
  "example_vscr = \<lparr>PrimaryStorageClass = ''b'',
     ProtectionTopology = [example_entry ''a'' ''b'', example_entry ''b'' ''c''],
     PolicyTemplate = \<lparr>Params = [example_frame]\<rparr>, FailoverType = FailoverTypeUngraceful,
     Resync = False, SyncIntervalSeconds = 0, PVCRemap = False, SyncPVCPV = True,
     DestVolReclaimPolicy = ''Retain'', VolumeNamespace = []\<rparr>"

lemmas duration_eval =
  ProtectionPolicyTemplate_Validate_def ProtectionPolicyFrame_Validate_def vastDurationRe_def
  duration_units_def is_digit_def less_eq_char_def validateStartAt_def time_Parse_ok_def
  layout_vms_def layout_hhmm_def layout_rfc3339_def getnum_def digit_value_def daysIn_def

lemma example_template_valid: "ProtectionPolicyTemplate_Validate \<lparr>Params = [example_frame]\<rparr> = None"
  by (simp add: duration_eval example_frame_def)

lemma example_vvr_valid: "VVRSpec_Validate example_vvr = None"
  by (simp add: VVRSpec_Validate_def example_template_valid example_vvr_def example_entry_def
      Let_def normPair_def sorted_keys_def)

lemma example_vscr_valid: "VSCRSpec_Validate example_vscr = None"
  by (simp add: VSCRSpec_Validate_def example_template_valid example_vscr_def example_entry_def
      Let_def normPair_def)

theorem VVR_Validate_complete_mesh_witness:
  "VVRSpec_Validate example_vvr = None
   \<and> length (v_ProtectionTopology example_vvr) = length (v_AllStorageClasses example_vvr) choose 2"
  using VVR_Validate_complete_mesh[OF example_vvr_valid] example_vvr_valid by simp

text \<open>The VSCR validator accepts a topology that is not a complete mesh, although the field
  documentation requires one: with entries a-b and b-c only, no entry connects a and c.\<close>

theorem VSCR_Validate_incomplete_mesh:
  "\<exists>s. VSCRSpec_Validate s = None
     \<and> (\<exists>a \<in> set (AllStorageClasses s). \<exists>b \<in> set (AllStorageClasses s).
          a \<noteq> b \<and> b \<notin> Destination ` set (TargetsFor s a))"
proof -
  have "''a'' \<in> set (AllStorageClasses example_vscr)" "''c'' \<in> set (AllStorageClasses example_vscr)"
    by (simp_all add: vscr.classes_set endpoints_def example_vscr_def example_entry_def)
  moreover have "''c'' \<notin> Destination ` set (TargetsFor example_vscr ''a'')"
    by (simp add: TargetsFor_def orient_def example_vscr_def example_entry_def)
  moreover have "''a'' \<noteq> ''c''" by simp
  ultimately show ?thesis using example_vscr_valid by metis
qed

text \<open>C32: For a valid VSCR spec, the creation order puts the primary StorageClass first, followed by
  every other class of the topology exactly once, in ascending order.\<close>

theorem VSCR_primary_first:
  assumes "VSCRSpec_Validate s = None"
  shows "\<exists>rest. AllStorageClassesPrimaryFirst s = PrimaryStorageClass s # rest \<and> sorted rest
           \<and> distinct (AllStorageClassesPrimaryFirst s)
           \<and> set rest = set (AllStorageClasses s) - {PrimaryStorageClass s}"
  using vscr.first_shape[OF VSCRSpec_Validate_None(3)[OF assms]] vscr.first_distinct[of s]
  by (simp add: vscr.classes_set)

theorem VSCR_primary_first_witness:
  "\<exists>rest. AllStorageClassesPrimaryFirst example_vscr = ''b'' # rest \<and> sorted rest
     \<and> distinct (AllStorageClassesPrimaryFirst example_vscr)
     \<and> set rest = set (AllStorageClasses example_vscr) - {''b''}"
  using VSCR_primary_first[OF example_vscr_valid] by (simp add: example_vscr_def)

text \<open>C33: The topology is undirected: if one StorageClass lists a replication target, the target
  lists it back under the same peer, for every VSCR spec and every class; and a class has targets
  iff it belongs to the constellation.\<close>

theorem VSCR_TargetsFor_symmetric:
  "(\<forall>t \<in> set (TargetsFor s a). Source t = a \<and> Destination t \<in> set (AllStorageClasses s)
      \<and> (\<exists>t' \<in> set (TargetsFor s (Destination t)). Destination t' = a \<and> PeerName t' = PeerName t))
   \<and> (TargetsFor s a = [] \<longleftrightarrow> a \<notin> set (AllStorageClasses s))"
  using vscr.target_source vscr.target_member vscr.target_reverse vscr.targets_empty_iff by blast

theorem VSCR_TargetsFor_symmetric_witness:
  "TargetsFor example_vscr ''z'' = [] \<and> ''z'' \<notin> set (AllStorageClasses example_vscr)"
proof -
  have "''z'' \<notin> set (AllStorageClasses example_vscr)"
    by (simp add: vscr.classes_set endpoints_def example_vscr_def example_entry_def)
  then show ?thesis using VSCR_TargetsFor_symmetric[of example_vscr "''z''"] by simp
qed

text \<open>After a spec passed validation, deriving its sync interval never fails: it is the explicit
  interval or the first frame's schedule.\<close>

theorem VSCR_interval_defined:
  assumes "VSCRSpec_Validate s = None"
  shows "\<exists>w. EffectiveSyncIntervalSeconds s = Inr w"
proof -
  note t = VSCRSpec_Validate_None(4)[OF assms]
  obtain p ps where "Params (PolicyTemplate s) = p # ps"
    using Template_Validate_NoneD(1)[OF t] by (cases "Params (PolicyTemplate s)") auto
  then show ?thesis
    using Template_Validate_NoneD(2)[OF t, of p] ParseEveryToSeconds_word
    by (auto simp: EffectiveSyncIntervalSeconds_def)
qed

theorem VSCR_interval_defined_witness: "\<exists>w. EffectiveSyncIntervalSeconds example_vscr = Inr w"
  by (rule VSCR_interval_defined[OF example_vscr_valid])

end
