(* ===== verification/Naming.thy ===== *)
theory Naming
  imports Errors
begin

text \<open>
  Names of the objects the operator creates: the sanitizers of
  internal/common/utils/utils.go, the format strings with tokens of
  internal/provisioner/utils.go, and the child names the controllers derive
  from a parent and a StorageClass. \<^verbatim>\<open>url.Parse\<close> is an argument of
  \<open>slugifyEndpoint\<close> (its host part, None on an error); everything else is
  computed.
\<close>

section \<open>Sanitizers\<close>

definition k8s_name_char :: "char \<Rightarrow> bool" where
  "k8s_name_char r \<longleftrightarrow> is_lower r \<or> is_digit r \<or> r = CHR ''-'' \<or> r = CHR ''.''"

lemma length_ReplaceAll_dash:
  "length (ReplaceAll s ''--'' ''-'') \<le> length s
   \<and> (Contains s ''--'' \<longrightarrow> length (ReplaceAll s ''--'' ''-'') < length s)"
proof (induction s rule: length_induct)
  case (1 s)
  show ?case
  proof (cases s)
    case Nil
    then show ?thesis by (simp add: ReplaceAll.simps)
  next
    case (Cons c cs)
    show ?thesis
    proof (cases "HasPrefix s ''--''")
      case True
      then have step: "ReplaceAll s ''--'' ''-'' = CHR ''-'' # ReplaceAll (drop 2 s) ''--'' ''-''"
        using ReplaceAll_hit[of "''--''" s "''-''"] by (simp add: numeral_2_eq_2)
      have len: "2 \<le> length s" using True by (auto simp: HasPrefix_iff)
      then have "length (drop 2 s) < length s" by simp
      then have "length (ReplaceAll (drop 2 s) ''--'' ''-'') \<le> length (drop 2 s)" using 1 by blast
      then have "length (ReplaceAll s ''--'' ''-'') < length s" using step len by simp
      then show ?thesis by simp
    next
      case False
      then have step: "ReplaceAll s ''--'' ''-'' = c # ReplaceAll cs ''--'' ''-''"
        using Cons ReplaceAll_miss[of "''--''" c cs "''-''"] by simp
      have "Contains s ''--'' = Contains cs ''--''" using False Cons by auto
      then show ?thesis using 1[rule_format, of cs] step Cons by simp
    qed
  qed
qed

function collapse_dashes :: "string \<Rightarrow> string" where
  "collapse_dashes s =
     (if Contains s ''--'' then collapse_dashes (ReplaceAll s ''--'' ''-'') else s)"
  by pat_completeness auto
termination
  by (relation "measure length") (auto simp: length_ReplaceAll_dash)

declare collapse_dashes.simps [simp del]

definition SanitizeK8sName :: "string \<Rightarrow> string" where
  "SanitizeK8sName name =
     (let lowered = ToLower name;
          mapped = map (\<lambda>r. if k8s_name_char r then r else CHR ''-'') lowered;
          trimmed = Trim (collapse_dashes mapped) ''-.'';
          cropped = (if length trimmed > 253 then TrimRight (take 253 trimmed) ''-.'' else trimmed)
      in if cropped = [] then ''resource'' else cropped)"

definition ParseCommaSeparated :: "string \<Rightarrow> string list" where
  "ParseCommaSeparated s = filter (\<lambda>p. p \<noteq> []) (map TrimSpace (Split s '',''))"

definition label_char :: "char \<Rightarrow> bool" where
  "label_char c \<longleftrightarrow> is_lower c \<or> is_upper c \<or> is_digit c \<or> c \<in> set ''-_.''"

definition SanitizeLabelValue :: "string \<Rightarrow> string" where
  "SanitizeLabelValue value =
     (if value = [] then []
      else let sanitized = Trim (map (\<lambda>c. if label_char c then c else CHR ''_'') value) ''-_.''
           in if length sanitized > 63 then take 63 sanitized else sanitized)"


section \<open>Format tokens\<close>

text \<open>The regular expression of tokenPattern, an opening brace, a word, an optional colon and
  number, a closing brace, matched at the start of a string: the word, the digits of the limit
  (empty when absent) and the rest of the string.\<close>

definition word_char :: "char \<Rightarrow> bool" where
  "word_char c \<longleftrightarrow> is_lower c \<or> is_upper c \<or> is_digit c \<or> c = CHR ''_''"

definition match_token :: "string \<Rightarrow> (string \<times> string \<times> string) option" where
  "match_token s =
     (case s of
        [] \<Rightarrow> None
      | c # r \<Rightarrow>
          if c \<noteq> CHR ''{'' then None
          else let token = takeWhile word_char r; r1 = dropWhile word_char r in
            if token = [] then None
            else case r1 of
              [] \<Rightarrow> None
            | d # r2 \<Rightarrow>
                if d = CHR ''}'' then Some (token, [], r2)
                else if d = CHR '':'' then
                  (let ds = takeWhile is_digit r2; r3 = dropWhile is_digit r2 in
                   if ds \<noteq> [] \<and> HasPrefix r3 ''}'' then Some (token, ds, tl r3) else None)
                else None)"

lemma match_token_shorter:
  assumes "match_token s = Some (tok, ds, rest)"
  shows "length rest < length s"
proof -
  obtain c r where s: "s = c # r" using assms by (cases s) (auto simp: match_token_def)
  have "length (dropWhile word_char r) \<le> length r" by (rule length_dropWhile_le)
  moreover have "\<And>x. length (dropWhile is_digit x) \<le> length x" by (rule length_dropWhile_le)
  ultimately show ?thesis
    using assms s
    by (auto simp: match_token_def Let_def HasPrefix_iff split: if_splits list.splits)
      (metis (no_types) Suc_le_lessD le_SucI le_trans length_Cons less_Suc_eq_le)+
qed

datatype segment = Text char | Token string string string

function scan_tokens :: "string \<Rightarrow> segment list" where
  "scan_tokens s =
     (case s of
        [] \<Rightarrow> []
      | c # cs \<Rightarrow>
          (case match_token s of
             Some (tok, ds, rest) \<Rightarrow> Token tok ds (take (length s - length rest) s) # scan_tokens rest
           | None \<Rightarrow> Text c # scan_tokens cs))"
  by pat_completeness auto
termination
  by (relation "measure length") (auto dest: match_token_shorter)

declare scan_tokens.simps [simp del]

definition validPVCTokens :: "string list" where
  "validPVCTokens = [''pvc_name'', ''pvc_name_suf'', ''pvc_name_pref'', ''endpoint'',
                     ''sc_name'', ''sc_name_suf'', ''sc_name_pref'']"

definition validPVTokens :: "string list" where
  "validPVTokens = [''pv_name'', ''pv_name_suf'', ''pv_name_pref'', ''endpoint'',
                    ''sc_name'', ''sc_name_suf'', ''sc_name_pref'']"

fun first_unknown :: "string list \<Rightarrow> segment list \<Rightarrow> string option" where
  "first_unknown valid [] = None"
| "first_unknown valid (Text c # ss) = first_unknown valid ss"
| "first_unknown valid (Token tok ds raw # ss) =
     (if tok \<notin> set valid then Some tok else first_unknown valid ss)"

definition ValidateNameFormat :: "string \<Rightarrow> string \<Rightarrow> err option" where
  "ValidateNameFormat fmt kind =
     (if kind = ''pvc'' \<or> kind = ''pv'' then
        (case first_unknown (if kind = ''pvc'' then validPVCTokens else validPVTokens) (scan_tokens fmt) of
           Some tok \<Rightarrow> Some (Errorf ''unknown token {%s} in %s name format %q'' [tok, kind, fmt])
         | None \<Rightarrow> None)
      else Some (Errorf ''unknown kind %q, expected pvc or pv'' [kind]))"

record namingValues =
  PVCName :: string
  PVName :: string
  VRName :: string
  VGRName :: string
  VRNamespace :: string
  VGRNamespace :: string
  Endpoint :: string
  SCName :: string
  Provisioner :: string

definition suffix_n :: "string \<Rightarrow> nat \<Rightarrow> string" where
  "suffix_n s n = (if n = 0 \<or> n \<ge> length s then s else drop (length s - n) s)"

definition prefix_n :: "string \<Rightarrow> nat \<Rightarrow> string" where
  "prefix_n s n = (if n = 0 \<or> n \<ge> length s then s else take n s)"

definition slugify :: "string \<Rightarrow> string" where
  "slugify s = map (\<lambda>c. if c = CHR ''.'' \<or> c = CHR '':'' then CHR ''-'' else c) s"

text \<open>\<^verbatim>\<open>net.SplitHostPort\<close>, its host part; None when it returns an error.\<close>

definition SplitHostPort_host :: "string \<Rightarrow> string option" where
  "SplitHostPort_host hp =
     (let i = length hp - Suc (length (takeWhile (\<lambda>c. c \<noteq> CHR '':'') (rev hp))) in
      if CHR '':'' \<notin> set hp then None
      else if hd hp = CHR ''['' then
        (let e = length (takeWhile (\<lambda>c. c \<noteq> CHR '']'') hp) in
         if CHR '']'' \<notin> set hp then None
         else if e + 1 \<noteq> i then None
         else if CHR ''['' \<in> set (drop 1 hp) \<or> CHR '']'' \<in> set (drop (e + 1) hp) then None
         else Some (take (e - 1) (drop 1 hp)))
      else if CHR '':'' \<in> set (take i hp) \<or> CHR ''['' \<in> set hp \<or> CHR '']'' \<in> set hp then None
      else Some (take i hp))"

definition slugifyEndpoint :: "(string \<Rightarrow> string option) \<Rightarrow> string \<Rightarrow> string" where
  "slugifyEndpoint urlHost endpoint =
     (let e1 = (if Contains endpoint ''://'' then
                  (case urlHost endpoint of Some h \<Rightarrow> h | None \<Rightarrow> endpoint)
                else endpoint);
          e2 = (case SplitHostPort_host e1 of Some h \<Rightarrow> h | None \<Rightarrow> e1)
      in slugify e2)"

text \<open>The switch of formatName: the text a token stands for, or None for the default branch.\<close>

definition token_value ::
  "(string \<Rightarrow> string option) \<Rightarrow> namingValues \<Rightarrow> string \<Rightarrow> nat \<Rightarrow> string option" where
  "token_value urlHost vals token limit =
     (if token = ''pvc_name'' then Some (PVCName vals)
      else if token = ''pvc_name_suf'' then Some (suffix_n (PVCName vals) limit)
      else if token = ''pvc_name_pref'' then Some (prefix_n (PVCName vals) limit)
      else if token = ''pv_name'' then Some (PVName vals)
      else if token = ''pv_name_suf'' then Some (suffix_n (PVName vals) limit)
      else if token = ''pv_name_pref'' then Some (prefix_n (PVName vals) limit)
      else if token = ''vr_name'' then
        Some (if limit > 0 then suffix_n (VRName vals) limit else VRName vals)
      else if token = ''vr_name_suf'' then Some (suffix_n (VRName vals) limit)
      else if token = ''vr_name_pref'' then Some (prefix_n (VRName vals) limit)
      else if token = ''vgr_name'' then
        Some (if limit > 0 then suffix_n (VGRName vals) limit else VGRName vals)
      else if token = ''vgr_name_suf'' then Some (suffix_n (VGRName vals) limit)
      else if token = ''vgr_name_pref'' then Some (prefix_n (VGRName vals) limit)
      else if token = ''vr_namespace'' then Some (VRNamespace vals)
      else if token = ''vgr_namespace'' then Some (VGRNamespace vals)
      else if token = ''endpoint'' then Some (slugifyEndpoint urlHost (Endpoint vals))
      else if token = ''sc_name'' then
        Some (if limit > 0 then suffix_n (SCName vals) limit else SCName vals)
      else if token = ''sc_name_suf'' then Some (suffix_n (SCName vals) limit)
      else if token = ''sc_name_pref'' then Some (prefix_n (SCName vals) limit)
      else if token = ''provisioner'' then Some (Provisioner vals)
      else None)"

fun render_segment :: "(string \<Rightarrow> string option) \<Rightarrow> namingValues \<Rightarrow> segment \<Rightarrow> string" where
  "render_segment urlHost vals (Text c) = [c]"
| "render_segment urlHost vals (Token tok ds raw) =
     (case token_value urlHost vals tok (Atoi_nat ds) of Some v \<Rightarrow> v | None \<Rightarrow> raw)"

definition formatName :: "(string \<Rightarrow> string option) \<Rightarrow> string \<Rightarrow> namingValues \<Rightarrow> string" where
  "formatName urlHost fmt vals = concat (map (render_segment urlHost vals) (scan_tokens fmt))"


section \<open>Child names and small helpers\<close>

definition vgrNameForSC :: "string \<Rightarrow> string \<Rightarrow> string" where
  "vgrNameForSC vscrName scName = vscrName @ ''-'' @ ReplaceAll scName ''.'' ''-''"

definition vrNameForSC :: "string \<Rightarrow> string \<Rightarrow> string" where
  "vrNameForSC vvrName scName = vvrName @ ''-'' @ ReplaceAll scName ''.'' ''-''"

definition isSourceRole :: "string \<Rightarrow> bool" where
  "isSourceRole role = (ToLower role = ''source'')"

definition isDestinationRole :: "string \<Rightarrow> bool" where
  "isDestinationRole role = (ToLower role = ''destination'')"

definition splitMountOption :: "string \<Rightarrow> string \<times> string \<times> string \<times> bool" where
  "splitMountOption opt =
     (if CHR ''='' \<in> set opt then
        (TrimSpace (takeWhile (\<lambda>c. c \<noteq> CHR ''='') opt), ''='',
         TrimSpace (tl (dropWhile (\<lambda>c. c \<noteq> CHR ''='') opt)), True)
      else (TrimSpace opt, [], [], False))"

fun nfsProtocols :: "string list \<Rightarrow> string list" where
  "nfsProtocols [] = [''NFS'']"
| "nfsProtocols (opt # opts) =
     (case splitMountOption opt of
        (key, _, value, ok) \<Rightarrow>
          if ok \<and> (key = ''vers'' \<or> key = ''nfsvers'') \<and> HasPrefix value ''4'' then [''NFS4'']
          else nfsProtocols opts)"


section \<open>Sanitized names\<close>

lemma set_ReplaceAll_dash: "set (ReplaceAll s ''--'' ''-'') \<subseteq> insert (CHR ''-'') (set s)"
proof (induction s rule: length_induct)
  case (1 s)
  show ?case
  proof (cases "HasPrefix s ''--''")
    case True
    then have "length (drop 2 s) < length s" by (auto simp: HasPrefix_iff)
    then have "set (ReplaceAll (drop 2 s) ''--'' ''-'') \<subseteq> insert (CHR ''-'') (set (drop 2 s))"
      using 1 by blast
    then show ?thesis
      using ReplaceAll_hit[of "''--''" s "''-''"] True set_drop_subset[of 2 s]
      by (auto simp: numeral_2_eq_2)
  next
    case False
    show ?thesis
    proof (cases s)
      case (Cons c cs)
      then have "set (ReplaceAll cs ''--'' ''-'') \<subseteq> insert (CHR ''-'') (set cs)" using 1 by auto
      then show ?thesis using ReplaceAll_miss[of "''--''" c cs "''-''"] False Cons by auto
    qed simp
  qed
qed

lemma collapse_dashes_props:
  "\<not> Contains (collapse_dashes s) ''--'' \<and> set (collapse_dashes s) \<subseteq> insert (CHR ''-'') (set s)"
proof (induction s rule: collapse_dashes.induct)
  case (1 s)
  show ?case
  proof (cases "Contains s ''--''")
    case True
    then have "collapse_dashes s = collapse_dashes (ReplaceAll s ''--'' ''-'')"
      by (subst collapse_dashes.simps) simp
    then show ?thesis using 1[OF True] set_ReplaceAll_dash[of s] by auto
  next
    case False
    then have "collapse_dashes s = s" by (subst collapse_dashes.simps) simp
    then show ?thesis using False by auto
  qed
qed

lemma collapse_dashes_id: "\<not> Contains s ''--'' \<Longrightarrow> collapse_dashes s = s"
  by (subst collapse_dashes.simps) simp

lemma Trim_infix: "\<exists>a b. s = a @ Trim s cs @ b"
proof -
  obtain b where "TrimLeft s cs = Trim s cs @ b" unfolding Trim_def using TrimRight_prefix by blast
  moreover have "s = takeWhile (\<lambda>c. c \<in> set cs) s @ TrimLeft s cs" by (simp add: TrimLeft_def)
  ultimately show ?thesis by metis
qed

lemma Contains_infix: "Contains t p \<Longrightarrow> s = a @ t @ b \<Longrightarrow> Contains s p"
  using Contains_appendI by blast

lemma Contains_Trim: "Contains (Trim s cs) p \<Longrightarrow> Contains s p"
  using Contains_infix Trim_infix by metis

lemma Contains_TrimRight_take: "Contains (TrimRight (take n s) cs) p \<Longrightarrow> Contains s p"
proof -
  assume *: "Contains (TrimRight (take n s) cs) p"
  obtain b where "take n s = TrimRight (take n s) cs @ b" using TrimRight_prefix by blast
  then have "s = [] @ TrimRight (take n s) cs @ (b @ drop n s)"
    by (metis append_Nil append_assoc append_take_drop_id)
  then show ?thesis using * Contains_infix by metis
qed

definition edge_ok :: "string \<Rightarrow> bool" where
  "edge_ok n \<longleftrightarrow> hd n \<notin> set ''-.'' \<and> last n \<notin> set ''-.''"

lemma crop_shape:
  assumes "0 < k" "\<not> Contains t ''--''" "list_all P t" "t \<noteq> [] \<Longrightarrow> edge_ok t"
    and c: "c = (if length t > k then TrimRight (take k t) ''-.'' else t)"
  shows "length c \<le> k" "list_all P c" "\<not> Contains c ''--''" "c \<noteq> [] \<Longrightarrow> edge_ok c"
proof -
  have long: "length t > k \<Longrightarrow> c = TrimRight (take k t) ''-.''" and short: "length t \<le> k \<Longrightarrow> c = t"
    using c by auto
  show "length c \<le> k"
    using length_TrimRight[of "take k t" "''-.''"] long short by (cases "length t > k") auto
  have "set c \<subseteq> set t"
  proof (cases "length t > k")
    case True
    then show ?thesis using set_TrimRight[of "take k t" "''-.''"] set_take_subset[of k t] long by blast
  qed (use short in simp)
  then show "list_all P c" using assms(3) by (auto simp: list_all_iff)
  show "\<not> Contains c ''--''"
    using assms(2) long short Contains_TrimRight_take[of k t "''-.''" "''--''"]
    by (cases "length t > k") auto
  assume ne: "c \<noteq> []"
  show "edge_ok c"
  proof (cases "length t > k")
    case True
    then have t: "t \<noteq> []" by auto
    have "hd c = hd (take k t)" using long[OF True] ne hd_TrimRight[of "take k t" "''-.''"] by simp
    also have "\<dots> = hd t" using assms(1) by (simp add: hd_take)
    finally have "hd c \<notin> set ''-.''" using assms(4)[OF t] by (simp add: edge_ok_def)
    moreover have "last c \<notin> set ''-.''"
      using long[OF True] ne last_TrimRight[of "take k t" "''-.''"] by simp
    ultimately show ?thesis unfolding edge_ok_def by blast
  next
    case False
    then show ?thesis using short ne assms(4) by simp
  qed
qed

lemma trimmed_shape:
  assumes t: "t = Trim (collapse_dashes m) ''-.''" and "list_all k8s_name_char m"
  shows "\<not> Contains t ''--''" "list_all k8s_name_char t" "t \<noteq> [] \<Longrightarrow> edge_ok t"
proof -
  show "\<not> Contains t ''--''"
    using collapse_dashes_props[of m] Contains_Trim[of "collapse_dashes m" "''-.''" "''--''"] t by blast
  have "set t \<subseteq> insert (CHR ''-'') (set m)"
    using set_Trim[of "collapse_dashes m" "''-.''"] collapse_dashes_props[of m] t by blast
  moreover have "k8s_name_char (CHR ''-'')" by (simp add: k8s_name_char_def)
  ultimately show "list_all k8s_name_char t" using assms(2) by (auto simp: list_all_iff)
  assume "t \<noteq> []"
  then show "edge_ok t"
    using hd_Trim[of "collapse_dashes m" "''-.''"] last_Trim[of "collapse_dashes m" "''-.''"] t
    unfolding edge_ok_def by blast
qed

lemma resource_shape:
  "list_all k8s_name_char ''resource''" "edge_ok ''resource''" "\<not> Contains ''resource'' ''--''"
  by (simp_all add: k8s_name_char_def is_lower_def less_eq_char_def edge_ok_def)

lemma sanitized_shape:
  assumes n: "n = SanitizeK8sName name"
  shows "n \<noteq> []" "length n \<le> 253" "list_all k8s_name_char n" "edge_ok n" "\<not> Contains n ''--''"
proof -
  define m where "m = map (\<lambda>r. if k8s_name_char r then r else CHR ''-'') (ToLower name)"
  define t where "t = Trim (collapse_dashes m) ''-.''"
  define c where "c = (if length t > 253 then TrimRight (take 253 t) ''-.'' else t)"
  have n': "n = (if c = [] then ''resource'' else c)"
    unfolding n SanitizeK8sName_def Let_def m_def t_def c_def by (rule refl)
  have "list_all k8s_name_char m" by (auto simp: m_def list_all_iff k8s_name_char_def)
  note ts = trimmed_shape[OF t_def this]
  have "(0::nat) < 253" by simp
  note cs = crop_shape[OF this ts c_def]
  have "n = ''resource'' \<or> (n = c \<and> c \<noteq> [])" using n' by presburger
  then show "n \<noteq> []" "length n \<le> 253" "list_all k8s_name_char n" "edge_ok n" "\<not> Contains n ''--''"
    using cs resource_shape by auto
qed

lemma k8s_lower: "k8s_name_char c \<Longrightarrow> lower_char c = c"
  by (auto simp: k8s_name_char_def lower_char_def is_upper_def is_lower_def is_digit_def less_eq_char_def)

lemma SanitizeK8sName_fix:
  assumes "n \<noteq> []" "length n \<le> 253" "list_all k8s_name_char n" "edge_ok n" "\<not> Contains n ''--''"
  shows "SanitizeK8sName n = n"
proof -
  have "ToLower n = n" using assms(3) by (auto simp: ToLower_def list_all_iff k8s_lower intro: map_idI)
  moreover have "map (\<lambda>r. if k8s_name_char r then r else CHR ''-'') n = n"
    using assms(3) by (auto simp: list_all_iff intro: map_idI)
  moreover have "Trim n ''-.'' = n" using assms(4) by (intro Trim_id) (simp add: edge_ok_def)
  ultimately show ?thesis
    using assms by (simp add: SanitizeK8sName_def Let_def collapse_dashes_id)
qed

definition trimmed :: "string \<Rightarrow> bool" where
  "trimmed x \<longleftrightarrow> TrimSpace x = x"

lemma Trim_Trim [simp]: "Trim (Trim s cs) cs = Trim s cs"
  by (rule Trim_id) (use hd_Trim[of s cs] last_Trim[of s cs] in blast)

section \<open>Tokens\<close>

fun raw_segment :: "segment \<Rightarrow> string" where
  "raw_segment (Text c) = [c]"
| "raw_segment (Token tok ds raw) = raw"

lemma match_token_suffix:
  assumes "match_token s = Some (tok, ds, rest)"
  shows "take (length s - length rest) s @ rest = s"
proof -
  have suf: "\<exists>u. s = u @ rest"
  proof -
    obtain c r where s: "s = c # r" using assms by (cases s) (auto simp: match_token_def)
    define r1 where "r1 = dropWhile word_char r"
    have r: "r = takeWhile word_char r @ r1" by (simp add: r1_def)
    have "r1 \<noteq> []"
      using assms unfolding s match_token_def Let_def list.case r1_def[symmetric]
      by (cases r1) (auto split: if_splits)
    then obtain d r2 where r2: "r1 = d # r2" by (cases r1) auto
    show ?thesis
    proof (cases "d = CHR ''}''")
      case True
      then have "rest = r2" using assms s r2 by (auto simp: match_token_def Let_def r1_def split: if_splits)
      then have "s = (c # takeWhile word_char r @ [d]) @ rest" using s r r2 by simp
      then show ?thesis by blast
    next
      case False
      define r3 where "r3 = dropWhile is_digit r2"
      have "HasPrefix r3 ''}'' \<and> rest = tl r3"
        using assms s r2 False by (auto simp: match_token_def Let_def r1_def r3_def split: if_splits)
      then have "r3 = CHR ''}'' # rest" by (auto simp: HasPrefix_iff)
      then have "r2 = takeWhile is_digit r2 @ CHR ''}'' # rest"
        using r3_def by (metis takeWhile_dropWhile_id)
      then have "s = (c # takeWhile word_char r @ d # takeWhile is_digit r2 @ [CHR ''}'']) @ rest"
        using s r r2 by simp
      then show ?thesis by blast
    qed
  qed
  then show ?thesis by auto
qed

lemma scan_lossless: "concat (map raw_segment (scan_tokens s)) = s"
proof (induction s rule: scan_tokens.induct)
  case (1 s)
  show ?case
  proof (cases s)
    case Nil
    then show ?thesis by (simp add: scan_tokens.simps)
  next
    case (Cons c cs)
    show ?thesis
    proof (cases "match_token s")
      case None
      then have "concat (map raw_segment (scan_tokens cs)) = cs" using 1(1)[OF Cons] by blast
      then show ?thesis using None Cons by (subst scan_tokens.simps) simp
    next
      case (Some m)
      obtain tok ds rest where m: "m = (tok, ds, rest)" by (cases m) auto
      then have "concat (map raw_segment (scan_tokens rest)) = rest"
        using 1(2)[OF Cons] Some by blast
      moreover have "scan_tokens s = Token tok ds (take (length s - length rest) s) # scan_tokens rest"
        using Cons Some m by (subst scan_tokens.simps) simp
      ultimately show ?thesis using match_token_suffix[of s tok ds rest] Some m by simp
    qed
  qed
qed

lemma first_unknown_None:
  "first_unknown valid ss = None \<longleftrightarrow> (\<forall>tok ds raw. Token tok ds raw \<in> set ss \<longrightarrow> tok \<in> set valid)"
proof (induction valid ss rule: first_unknown.induct)
  case (3 valid tok ds raw ss)
  then show ?case by (cases "tok \<in> set valid") auto
qed auto

lemma valid_tokens_known:
  "tok \<in> set validPVCTokens \<union> set validPVTokens \<Longrightarrow> token_value urlHost vals tok n \<noteq> None"
  by (auto simp: validPVCTokens_def validPVTokens_def token_value_def)

section \<open>Properties\<close>

text \<open>C37: SanitizeK8sName always returns a non-empty name of at most 253 characters from lower-case
  letters, digits, dashes and dots, that neither starts nor ends with a dash or dot and has no two
  consecutive dashes; and it leaves such a name as it is, so sanitizing twice is sanitizing once.\<close>

theorem SanitizeK8sName_normal_form:
  "SanitizeK8sName name \<noteq> [] \<and> length (SanitizeK8sName name) \<le> 253
   \<and> list_all k8s_name_char (SanitizeK8sName name) \<and> edge_ok (SanitizeK8sName name)
   \<and> \<not> Contains (SanitizeK8sName name) ''--''
   \<and> SanitizeK8sName (SanitizeK8sName name) = SanitizeK8sName name"
proof -
  note s = sanitized_shape[OF refl, of name]
  show ?thesis using s SanitizeK8sName_fix[OF s] by blast
qed

text \<open>An RFC 1123 subdomain is a dot-separated list of labels, each starting and ending with a
  letter or digit.\<close>

definition rfc1123_label :: "string \<Rightarrow> bool" where
  "rfc1123_label l \<longleftrightarrow> l \<noteq> [] \<and> hd l \<noteq> CHR ''-'' \<and> last l \<noteq> CHR ''-''
     \<and> list_all (\<lambda>c. is_lower c \<or> is_digit c \<or> c = CHR ''-'') l"

definition rfc1123_subdomain :: "string \<Rightarrow> bool" where
  "rfc1123_subdomain s \<longleftrightarrow> list_all rfc1123_label (Split s ''.'')"

text \<open>SanitizeK8sName does not always return an RFC 1123 subdomain, although its comment says
  so: two consecutive dots are kept.\<close>

theorem SanitizeK8sName_not_subdomain:
  "\<exists>name. \<not> rfc1123_subdomain (SanitizeK8sName name)"
proof -
  have "SanitizeK8sName ''a..b'' = ''a..b''"
    by (rule SanitizeK8sName_fix)
      (simp_all add: k8s_name_char_def is_lower_def less_eq_char_def edge_ok_def)
  moreover have "Split ''a..b'' ''.'' = [''a'', [], ''b'']"
    using Split_Join[of "[''a'', [], ''b'']" "CHR ''.''"] by simp
  ultimately have "\<not> rfc1123_subdomain (SanitizeK8sName ''a..b'')"
    by (simp add: rfc1123_subdomain_def rfc1123_label_def)
  then show ?thesis by blast
qed

definition label_mapped :: "string \<Rightarrow> string" where
  "label_mapped v = map (\<lambda>c. if label_char c then c else CHR ''_'') v"

lemma SanitizeLabelValue_take: "SanitizeLabelValue v = take 63 (Trim (label_mapped v) ''-_.'')"
proof (cases "v = []")
  case True
  then show ?thesis
    by (simp add: SanitizeLabelValue_def label_mapped_def Trim_def TrimLeft_def TrimRight_def)
next
  case False
  then show ?thesis by (simp add: SanitizeLabelValue_def label_mapped_def[symmetric] Let_def)
qed

lemma label_ends_in_dash:
  assumes "0 < n" "n \<le> 62" "62 \<le> n"
  shows "SanitizeLabelValue (replicate n CHR ''a'' @ ''-b'') = replicate n CHR ''a'' @ ''-''"
proof -
  let ?v = "replicate n CHR ''a'' @ ''-b''"
  have "label_mapped ?v = ?v"
    by (simp add: label_mapped_def label_char_def is_lower_def less_eq_char_def)
  moreover have "Trim ?v ''-_.'' = ?v" by (rule Trim_id) (use assms(1) in \<open>simp add: hd_append\<close>)
  ultimately show ?thesis using assms(2,3) by (simp add: SanitizeLabelValue_take)
qed

lemma label_mapped_chars: "list_all label_char (label_mapped v)"
  by (auto simp: label_mapped_def list_all_iff label_char_def)

lemma label_chars: "list_all label_char (SanitizeLabelValue v)"
proof -
  have "set (SanitizeLabelValue v) \<subseteq> set (label_mapped v)"
    unfolding SanitizeLabelValue_take using set_take_subset set_Trim by (rule order_trans)
  then show ?thesis using label_mapped_chars[of v] unfolding list_all_iff by blast
qed

lemma label_head: "SanitizeLabelValue v \<noteq> [] \<Longrightarrow> hd (SanitizeLabelValue v) \<notin> set ''-_.''"
proof -
  assume "SanitizeLabelValue v \<noteq> []"
  then have ne: "Trim (label_mapped v) ''-_.'' \<noteq> []" unfolding SanitizeLabelValue_take by fastforce
  have "hd (SanitizeLabelValue v) = hd (Trim (label_mapped v) ''-_.'')"
    unfolding SanitizeLabelValue_take by (rule hd_take) simp
  then show ?thesis using hd_Trim[OF ne] by metis
qed

text \<open>A label value from SanitizeLabelValue has at most 63 characters, all of them legal in a
  label value, and starts with a letter or digit unless it is empty; but it can end in a dash,
  which is not a legal label value, because the truncation runs after the trim.\<close>

theorem SanitizeLabelValue_shape:
  "length (SanitizeLabelValue v) \<le> 63 \<and> list_all label_char (SanitizeLabelValue v)
   \<and> list_all (\<lambda>c. c \<notin> set ''-_.'') (take 1 (SanitizeLabelValue v))
   \<and> (\<exists>v'. SanitizeLabelValue v' \<noteq> [] \<and> last (SanitizeLabelValue v') = CHR ''-'')"
proof (intro conjI)
  show "length (SanitizeLabelValue v) \<le> 63" by (simp add: SanitizeLabelValue_take)
  show "list_all label_char (SanitizeLabelValue v)" by (rule label_chars)
  show "list_all (\<lambda>c. c \<notin> set ''-_.'') (take 1 (SanitizeLabelValue v))"
  proof (cases "SanitizeLabelValue v")
    case (Cons c cs)
    then have "hd (SanitizeLabelValue v) \<notin> set ''-_.''" by (intro label_head) simp
    then show ?thesis unfolding Cons by simp
  qed simp
  define w where "w = replicate 62 CHR ''a''"
  have "SanitizeLabelValue (w @ ''-b'') = w @ ''-''"
    unfolding w_def by (rule label_ends_in_dash) simp_all
  then have "SanitizeLabelValue (w @ ''-b'') \<noteq> [] \<and> last (SanitizeLabelValue (w @ ''-b'')) = CHR ''-''"
    by simp
  then show "\<exists>v'. SanitizeLabelValue v' \<noteq> [] \<and> last (SanitizeLabelValue v') = CHR ''-''"
    by (rule exI[of _ "w @ ''-b''"])
qed

lemma render_raw:
  "\<forall>tok ds raw. Token tok ds raw \<notin> set segs \<Longrightarrow>
     map (render_segment urlHost vals) segs = map raw_segment segs"
proof (induction segs)
  case (Cons x segs)
  then show ?case by (cases x) auto
qed simp

lemma ValidateNameFormat_tokens:
  "ValidateNameFormat fmt kind = None \<Longrightarrow> Token tok ds raw \<in> set (scan_tokens fmt) \<Longrightarrow>
     tok \<in> set validPVCTokens \<union> set validPVTokens"
  by (auto simp: ValidateNameFormat_def first_unknown_None split: if_splits option.splits)

text \<open>C38: A name format that ValidateNameFormat accepts is interpolated completely: formatName
  replaces every token by its value, so no token is left as it is; and a format without tokens is
  the name itself.\<close>

theorem validated_format_interpolates:
  assumes "ValidateNameFormat fmt kind = None"
  shows "(\<forall>tok ds raw. Token tok ds raw \<in> set (scan_tokens fmt) \<longrightarrow>
           token_value urlHost vals tok (Atoi_nat ds) \<noteq> None)
       \<and> ((\<forall>tok ds raw. Token tok ds raw \<notin> set (scan_tokens fmt)) \<longrightarrow> formatName urlHost fmt vals = fmt)"
proof (intro conjI impI)
  show "\<forall>tok ds raw. Token tok ds raw \<in> set (scan_tokens fmt) \<longrightarrow>
      token_value urlHost vals tok (Atoi_nat ds) \<noteq> None"
    using ValidateNameFormat_tokens[OF assms] valid_tokens_known by blast
  assume "\<forall>tok ds raw. Token tok ds raw \<notin> set (scan_tokens fmt)"
  then show "formatName urlHost fmt vals = fmt"
    unfolding formatName_def by (subst render_raw) (rule scan_lossless | assumption)+
qed

definition example_values :: namingValues where
  "example_values = \<lparr>PVCName = ''data'', PVName = ''pv-1'', VRName = [], VGRName = [], VRNamespace = [],
     VGRNamespace = [], Endpoint = ''10.0.0.1:443'', SCName = ''fast'', Provisioner = []\<rparr>"

theorem validated_format_interpolates_witness:
  "ValidateNameFormat ''{pvc_name}-m'' ''pvc'' = None
   \<and> Token ''pvc_name'' [] ''{pvc_name}'' \<in> set (scan_tokens ''{pvc_name}-m'')
   \<and> token_value (\<lambda>_. None) example_values ''pvc_name'' (Atoi_nat []) \<noteq> None"
proof -
  have v: "ValidateNameFormat ''{pvc_name}-m'' ''pvc'' = None" by code_simp
  have t: "Token ''pvc_name'' [] ''{pvc_name}'' \<in> set (scan_tokens ''{pvc_name}-m'')" by code_simp
  show ?thesis using validated_format_interpolates[OF v, of "\<lambda>_. None" example_values] v t by blast
qed



text \<open>Two StorageClasses can get the same child name: the name of the VolumeGroupReplication of a
  class replaces dots by dashes, so it identifies the class only among names without dots.\<close>

theorem vgrNameForSC_collision:
  "vgrNameForSC v ''fast.nfs'' = vgrNameForSC v ''fast-nfs''
   \<and> (CHR ''.'' \<notin> set a \<and> CHR ''.'' \<notin> set b \<and> vgrNameForSC v a = vgrNameForSC v b \<longrightarrow> a = b)"
proof -
  have "CHR ''.'' \<notin> set x \<Longrightarrow> ReplaceAll x ''.'' ''-'' = x" for x
    unfolding ReplaceAll_char by (auto intro: map_idI)
  then show ?thesis by (auto simp: vgrNameForSC_def ReplaceAll_char)
qed

theorem vgrNameForSC_collision_witness:
  "vgrNameForSC ''v'' ''fast.nfs'' = vgrNameForSC ''v'' ''fast-nfs'' \<and> ''a'' = ''a''"
  using vgrNameForSC_collision[of "''v''" "''a''" "''a''"] by simp

end
