(* ===== verification/World.thy ===== *)
theory World
  imports Topology Naming "HOL-Library.AList" "HOL-Library.Sublist"
begin

text \<open>
  The world the controllers act on. The Kubernetes API server and the VAST
  management servers (VMS) are not part of the sources; every request to them is
  recorded in a history, and their replies are arguments of the model: a record
  of functions from the history so far (and the request's arguments) to the
  reply. A reply may depend on everything that happened before, so the functions
  stand for any behaviour of the servers, of other controllers and of users that
  act in between. Time passes while a request is served and while a goroutine
  sleeps. Handlers are state monads over this world; the second half of the
  theory is the small program logic their proofs use.
\<close>

section \<open>Printing numbers and times\<close>

definition FormatInt :: "int \<Rightarrow> string" where
  "FormatInt n = (if n < 0 then CHR ''-'' # Itoa (nat (- n)) else Itoa (nat n))"

definition Second :: duration where "Second = 1000000000"
definition Minute :: duration where "Minute = 60 * Second"
definition Millisecond :: duration where "Millisecond = 1000000"

definition zero_pad :: "nat \<Rightarrow> nat \<Rightarrow> string" where
  "zero_pad n v = (let ds = Itoa v in replicate (n - length ds) CHR ''0'' @ ds)"

definition fmtFrac :: "nat \<Rightarrow> nat \<Rightarrow> string" where
  "fmtFrac prec v =
     (let ds = TrimRight (zero_pad prec (v mod 10 ^ prec)) ''0'' in if ds = [] then [] else CHR ''.'' # ds)"

text \<open>\<^verbatim>\<open>time.Duration.String\<close>, on nanoseconds.\<close>

definition Duration_String :: "duration \<Rightarrow> string" where
  "Duration_String d =
     (let u = nat \<bar>d\<bar>; sign = (if d < 0 then ''-'' else []);
          secs = u div 10 ^ 9; mins = secs div 60 in
      if u = 0 then ''0s''
      else sign @
        (if u < 10 ^ 3 then Itoa u @ ''ns''
         else if u < 10 ^ 6 then Itoa (u div 10 ^ 3) @ fmtFrac 3 u @ [CHR 0xC2, CHR 0xB5] @ ''s''
         else if u < 10 ^ 9 then Itoa (u div 10 ^ 6) @ fmtFrac 6 u @ ''ms''
         else (if mins \<ge> 60 then Itoa (mins div 60) @ ''h'' else [])
            @ (if secs \<ge> 60 then Itoa (mins mod 60) @ ''m'' else [])
            @ Itoa (secs mod 60) @ fmtFrac 9 u @ ''s''))"

text \<open>\<^verbatim>\<open>Time.UTC().Format(time.RFC3339)\<close> of a time in nanoseconds since 1970, in the proleptic
  Gregorian calendar.\<close>

definition civil_from_days :: "int \<Rightarrow> int \<times> int \<times> int" where
  "civil_from_days z0 =
     (let z = z0 + 719468; era = z div 146097; doe = z mod 146097;
          yoe = (doe - doe div 1460 + doe div 36524 - doe div 146096) div 365;
          doy = doe - (365 * yoe + yoe div 4 - yoe div 100);
          mp = (5 * doy + 2) div 153;
          m = (if mp < 10 then mp + 3 else mp - 9) in
      (yoe + era * 400 + (if m \<le> 2 then 1 else 0), m, doy - (153 * mp + 2) div 5 + 1))"

definition Format_RFC3339 :: "int \<Rightarrow> string" where
  "Format_RFC3339 t =
     (let secs = t div 1000000000; (y, m, d) = civil_from_days (secs div 86400);
          tod = secs mod 86400 in
      zero_pad 4 (nat y) @ ''-'' @ zero_pad 2 (nat m) @ ''-'' @ zero_pad 2 (nat d) @ ''T''
      @ zero_pad 2 (nat (tod div 3600)) @ '':'' @ zero_pad 2 (nat (tod div 60 mod 60)) @ '':''
      @ zero_pad 2 (nat (tod mod 60)) @ ''Z'')"


section \<open>Kubernetes objects\<close>

type_synonym smap = "(string \<times> string) list"

definition lookup_str :: "smap \<Rightarrow> string \<Rightarrow> string" where
  "lookup_str m k = (case map_of m k of Some v \<Rightarrow> v | None \<Rightarrow> [])"

record OwnerReference =
  ref_Kind :: string
  ref_Name :: string
  ref_UID :: string
  ref_Controller :: "bool option"
  ref_BlockOwnerDeletion :: "bool option"

record ObjectMeta =
  oName :: string
  oNamespace :: string
  oLabels :: smap
  oAnnotations :: smap
  oFinalizers :: "string list"
  oOwners :: "OwnerReference list"
  oDeleting :: bool
  oUID :: string
  oGeneration :: int

record TenantInfo =
  ten_Name :: string
  ten_Guid :: string
  ten_Id :: int

record ReplicationStatus =
  LastFailoverType :: string
  CurrentPrimaryStorageClass :: string
  StorageClassesPreview :: string
  PpathDirMapping :: smap
  TenantMapping :: "(string \<times> TenantInfo) list"
  PpathName :: string
  SyncStatus :: string

record VSCR = ObjectMeta +
  vscr_Spec :: VSCRSpec
  vscr_Status :: ReplicationStatus

record VVR = ObjectMeta +
  vvr_Spec :: VVRSpec
  vvr_Status :: ReplicationStatus

text \<open>The desired and observed states of the csi-addons replication objects.\<close>

datatype ReplicationState = Primary | Secondary | ResyncState | OtherState string

datatype ObservedState = PrimaryState | SecondaryState | UnknownState | NoState

record VGR = ObjectMeta +
  vgr_ReplicationState :: ReplicationState
  vgr_VGRClassName :: string
  vgr_VRClassName :: string
  vgr_AutoResync :: bool
  vgr_Selector :: "smap option"
  vgr_VolumeReplicationName :: string
  vgr_ContentName :: string
  vgr_External :: bool
  vgr_State :: ObservedState
  vgr_PVCs :: "string list"

record VR = ObjectMeta +
  vr_ReplicationState :: ReplicationState
  vr_ClassName :: string
  vr_AutoResync :: bool
  vr_DataSource :: string
  vr_State :: ObservedState

record ReplicationClass = ObjectMeta +
  rc_Provisioner :: string
  rc_Parameters :: smap

record StorageClass =
  sc_Name :: string
  sc_Provisioner :: string
  sc_Parameters :: smap
  sc_MountOptions :: "string list"

record VRC = ObjectMeta +
  vrc_StorageClass :: string
  vrc_ProvisionerType :: string
  vrc_Kind :: string
  vrc_SyncPVCPV :: bool
  vrc_ReplicationPath :: string
  vrc_ProtectionPolicyNames :: "string list"
  vrc_ProtectedPathName :: string
  vrc_PVCs :: "string list"
  vrc_ReplicationState :: string
  vrc_Provisioned :: bool
  vrc_ObservedGeneration :: int
  vrc_PVCsPreview :: string
  vrc_StatusPVCs :: "string list"

text \<open>Resource lists give a quantity in bytes for each resource.\<close>

type_synonym ResourceList = "(string \<times> int) list"

record PVC = ObjectMeta +
  pvc_StorageClassName :: "string option"
  pvc_VolumeName :: string
  pvc_VolumeMode :: "string option"
  pvc_AccessModes :: "string list"
  pvc_Requests :: ResourceList

record SecretReference =
  sec_Name :: string
  sec_Namespace :: string

record CSIPersistentVolumeSource =
  csi_Driver :: string
  csi_VolumeHandle :: string
  csi_VolumeAttributes :: smap
  csi_ControllerPublishSecretRef :: "SecretReference option"
  csi_NodeStageSecretRef :: "SecretReference option"
  csi_NodePublishSecretRef :: "SecretReference option"
  csi_ControllerExpandSecretRef :: "SecretReference option"

record PV = ObjectMeta +
  pv_CSI :: "CSIPersistentVolumeSource option"
  pv_StorageClass :: string
  pv_ReclaimPolicy :: string
  pv_VolumeMode :: "string option"
  pv_AccessModes :: "string list"
  pv_Capacity :: ResourceList

text \<open>Pods and the workloads that own them: a volume has a name and, when it is a claim, the claim's
  name.\<close>

type_synonym PodVolume = "string \<times> string option"

record Pod = ObjectMeta +
  pod_Phase :: string
  pod_Volumes :: "PodVolume list"

record Workload = ObjectMeta +
  wl_Kind :: string
  wl_Volumes :: "PodVolume list"

text \<open>Secrets and ConfigMaps of the COSI side, the access to a bucket, and the two reviews of the
  API server.\<close>

record DataObject = ObjectMeta +
  do_Data :: smap

record BucketAccess = ObjectMeta +
  ba_BucketClaimName :: string
  ba_CredentialsSecretName :: string
  ba_AccessGranted :: bool
  ba_AccountID :: string

record UserInfo =
  user_Username :: string
  user_UID :: string
  user_Groups :: "string list"
  user_Extra :: "(string \<times> string list) list"

record SubjectAccessReview =
  sar_User :: UserInfo
  sar_Namespace :: string
  sar_Verb :: string
  sar_Group :: string
  sar_Resource :: string
  sar_Name :: string

text \<open>PVCNamespace: the trimmed volumeNamespace of the spec, or the object's own namespace.\<close>

definition vscr_PVCNamespace :: "VSCR \<Rightarrow> string" where
  "vscr_PVCNamespace v =
     (let ns = TrimSpace (VolumeNamespace (vscr_Spec v)) in if ns \<noteq> [] then ns else oNamespace v)"

definition vvr_PVCNamespace :: "VVR \<Rightarrow> string" where
  "vvr_PVCNamespace v =
     (let ns = TrimSpace (v_VolumeNamespace (vvr_Spec v)) in if ns \<noteq> [] then ns else oNamespace v)"


section \<open>VMS objects\<close>

text \<open>A REST client is determined by its configuration.\<close>

record VMSConfig =
  cfg_Host :: string
  cfg_Username :: string
  cfg_Password :: string
  cfg_Tenant :: string
  cfg_Token :: string
  cfg_SslVerify :: bool

type_synonym rest = VMSConfig

record Stream =
  st_Name :: string
  st_State :: string

text \<open>A protected path as the API returns it. \<open>pp_Streams\<close> is None when the field is absent or
  cannot be decoded, \<open>pp_FillError\<close> the error of decoding the record.\<close>

record Ppath =
  pp_Id :: int
  pp_Name :: string
  pp_State :: string
  pp_FailureReason :: string
  pp_Role :: string
  pp_Enabled :: bool
  pp_TenantId :: int
  pp_SourceDir :: string
  pp_Streams :: "Stream list option"
  pp_FillError :: "err option"

record PpathParams =
  ppp_Name :: string
  ppp_SourceDir :: string
  ppp_TargetExportedDir :: string
  ppp_TenantId :: int
  ppp_RemoteTenantGuid :: string
  ppp_PolicyId :: int

record StreamParams =
  sp_Name :: string
  sp_TargetExportedDir :: string
  sp_PolicyId :: int
  sp_RemoteTenantGuid :: string
  sp_IsStandby :: bool

record Policy =
  pol_Name :: string
  pol_Id :: int
  pol_FillError :: "err option"

record PolicyParams =
  polp_Name :: string
  polp_TargetObjectId :: int
  polp_Prefix :: string
  polp_Frames :: "smap list"
  polp_TenantId :: int
  polp_RemoteTenantGuid :: string

record Peer =
  peer_Id :: int
  peer_Name :: string
  peer_PeerName :: string
  peer_Status :: string

record View =
  view_Id :: int
  view_Path :: string
  view_TenantId :: int

record ViewParams =
  vp_Path :: string
  vp_PolicyId :: int
  vp_TenantId :: int
  vp_Protocols :: "string list"
  vp_QosPolicy :: string
  vp_QosPolicyId :: int
  vp_CreateDir :: bool

record Volume =
  vol_Id :: int
  vol_Name :: string

record VolumeParams =
  volp_Name :: string
  volp_ViewId :: int
  volp_Size :: int
  volp_QosPolicyId :: int

record Quota =
  quota_Id :: int
  quota_Path :: string

record QuotaParams =
  qp_Name :: string
  qp_Path :: string
  qp_TenantId :: int
  qp_HardLimit :: int

record Snapshot =
  snap_Id :: int
  snap_Name :: string

record FolderStat =
  fs_IsDirectory :: bool
  fs_Children :: int


section \<open>Requests\<close>

datatype vms_op =
    PpathGet string
  | PpathExists string
  | PpathCreate PpathParams
  | PpathDisable int
  | PpathDelete int
  | AddStream int StreamParams
  | PolicyGet string
  | PolicyExists string
  | PolicyCreate PolicyParams
  | PolicyDelete int
  | PeersList "string list option"
  | TenantGet string
  | TenantGetById int
  | ViewGet string
  | ViewExists string "string option"
  | ViewPolicyGet string
  | VolumesList string "string option"
  | ViewsList string
  | ViewGetIn string int
  | ViewCreate ViewParams
  | ViewDelete int
  | VolumeCreate VolumeParams
  | VolumeDelete int
  | QuotasList string
  | QuotaCreate QuotaParams
  | QuotaDelete int
  | SnapshotsList string string
  | SnapshotDelete int
  | StatPathOp string int
  | DeleteFolderOp string int

datatype call =
    GetCall string string string
  | ListCall string string smap
  | DeleteCall string string string
  | CreateVGR VGR
  | CreateVR VR
  | CreateVRC VRC
  | CreateClass string ReplicationClass
  | UpdateVSCR VSCR
  | UpdateVSCRStatus VSCR
  | PatchVSCR VSCR
  | UpdateVVR VVR
  | UpdateVVRStatus VVR
  | PatchVVR VVR
  | UpdateVRC VRC
  | UpdateVRCStatus VRC
  | PatchVRC VRC
  | PatchVGR VGR
  | PatchVR VR
  | PatchPVC PVC
  | UpdatePVC PVC
  | CreatePVC PVC
  | CreatePV PV
  | PatchPV PV
  | PatchWorkload string string string smap
  | CreateData string DataObject
  | UpdateData string DataObject
  | UpdateBucketAccessStatus BucketAccess
  | TokenReviewCall string
  | AccessReviewCall SubjectAccessReview
  | NewRestCall VMSConfig
  | VmsCall rest vms_op
  | EventCall bool string string
  | SleepCall duration
  | BackoffNext string string
  | BackoffReset string string


section \<open>Replies\<close>

type_synonym history = "call list"

text \<open>The Kubernetes client: reads, writes that only succeed or fail, writes that answer the stored
  object, and the pure helpers of controller-runtime (finalizer lists, controller references).\<close>

record k8s_api =
  k_getVSCR :: "history \<Rightarrow> string \<Rightarrow> string \<Rightarrow> err + VSCR"
  k_getVVR :: "history \<Rightarrow> string \<Rightarrow> string \<Rightarrow> err + VVR"
  k_getVGR :: "history \<Rightarrow> string \<Rightarrow> string \<Rightarrow> err + VGR"
  k_getVR :: "history \<Rightarrow> string \<Rightarrow> string \<Rightarrow> err + VR"
  k_getVRC :: "history \<Rightarrow> string \<Rightarrow> string \<Rightarrow> err + VRC"
  k_getSC :: "history \<Rightarrow> string \<Rightarrow> err + StorageClass"
  k_getSecret :: "history \<Rightarrow> string \<Rightarrow> string \<Rightarrow> err + smap"
  k_getClass :: "history \<Rightarrow> string \<Rightarrow> string \<Rightarrow> string \<Rightarrow> err + ReplicationClass"
  k_getPVC :: "history \<Rightarrow> string \<Rightarrow> string \<Rightarrow> err + PVC"
  k_getPV :: "history \<Rightarrow> string \<Rightarrow> err + PV"
  k_listVRC :: "history \<Rightarrow> string \<Rightarrow> smap \<Rightarrow> err + VRC list"
  k_listPVC :: "history \<Rightarrow> err + PVC list"
  k_write :: "history \<Rightarrow> call \<Rightarrow> err option"
  k_putVSCR :: "history \<Rightarrow> call \<Rightarrow> err + VSCR"
  k_putVVR :: "history \<Rightarrow> call \<Rightarrow> err + VVR"
  k_putVRC :: "history \<Rightarrow> call \<Rightarrow> err + VRC"
  k_putPVC :: "history \<Rightarrow> call \<Rightarrow> err + PVC"
  k_containsFinalizer :: "string list \<Rightarrow> string \<Rightarrow> bool"
  k_addFinalizer :: "string list \<Rightarrow> string \<Rightarrow> bool \<times> string list"
  k_removeFinalizer :: "string list \<Rightarrow> string \<Rightarrow> bool \<times> string list"
  k_setControllerRef ::
    "string \<Rightarrow> ObjectMeta \<Rightarrow> string \<Rightarrow> OwnerReference list \<Rightarrow> err + OwnerReference list"

record vms_api =
  v_newRest :: "history \<Rightarrow> VMSConfig \<Rightarrow> err option"
  v_ppathGet :: "history \<Rightarrow> rest \<Rightarrow> string \<Rightarrow> err + Ppath"
  v_ppathCreate :: "history \<Rightarrow> rest \<Rightarrow> PpathParams \<Rightarrow> err + Ppath"
  v_policyGet :: "history \<Rightarrow> rest \<Rightarrow> string \<Rightarrow> err + Policy"
  v_policyCreate :: "history \<Rightarrow> rest \<Rightarrow> PolicyParams \<Rightarrow> err + Policy"
  v_peersList :: "history \<Rightarrow> rest \<Rightarrow> string list option \<Rightarrow> err + Peer list"
  v_tenantGet :: "history \<Rightarrow> rest \<Rightarrow> string \<Rightarrow> err + TenantInfo"
  v_tenantGetById :: "history \<Rightarrow> rest \<Rightarrow> int \<Rightarrow> err + TenantInfo"
  v_viewGet :: "history \<Rightarrow> rest \<Rightarrow> string \<Rightarrow> err + View"
  v_viewPolicyGet :: "history \<Rightarrow> rest \<Rightarrow> string \<Rightarrow> err + int \<times> int"
  v_volumesList :: "history \<Rightarrow> rest \<Rightarrow> string \<Rightarrow> string option \<Rightarrow> err + Volume list"
  v_viewsList :: "history \<Rightarrow> rest \<Rightarrow> string \<Rightarrow> err + View list"
  v_statPath :: "history \<Rightarrow> rest \<Rightarrow> string \<Rightarrow> int \<Rightarrow> err + FolderStat"
  v_exists :: "history \<Rightarrow> rest \<Rightarrow> vms_op \<Rightarrow> err + bool"
  v_act :: "history \<Rightarrow> rest \<Rightarrow> vms_op \<Rightarrow> err option"
  v_isNotFound :: "err \<Rightarrow> bool"
  v_expectStatus :: "err \<Rightarrow> nat \<Rightarrow> bool"
  v_restString :: "rest \<Rightarrow> string"

text \<open>What the provisioner asks of both: claims, volumes, pods and workloads of Kubernetes, and the
  volumes, views, quotas and snapshots of a VAST cluster.\<close>

record storage_api =
  s_listPVC :: "history \<Rightarrow> string \<Rightarrow> smap \<Rightarrow> err + PVC list"
  s_listPods :: "history \<Rightarrow> string \<Rightarrow> err + Pod list"
  s_listVR :: "history \<Rightarrow> string \<Rightarrow> smap \<Rightarrow> err + VR list"
  s_listVGR :: "history \<Rightarrow> string \<Rightarrow> smap \<Rightarrow> err + VGR list"
  s_getWorkload :: "history \<Rightarrow> string \<Rightarrow> string \<Rightarrow> string \<Rightarrow> err + Workload"
  s_putPV :: "history \<Rightarrow> call \<Rightarrow> err + PV"
  s_setOwnerRef :: "string \<Rightarrow> ObjectMeta \<Rightarrow> string \<Rightarrow> OwnerReference list \<Rightarrow> err + OwnerReference list"
  s_viewGetIn :: "history \<Rightarrow> rest \<Rightarrow> string \<Rightarrow> int \<Rightarrow> err + View"
  s_quotasList :: "history \<Rightarrow> rest \<Rightarrow> string \<Rightarrow> err + Quota list"
  s_snapshotsList :: "history \<Rightarrow> rest \<Rightarrow> string \<Rightarrow> string \<Rightarrow> err + Snapshot list"
  s_viewCreate :: "history \<Rightarrow> rest \<Rightarrow> ViewParams \<Rightarrow> err + View"
  s_volumeCreate :: "history \<Rightarrow> rest \<Rightarrow> VolumeParams \<Rightarrow> err + Volume"
  s_quotaCreate :: "history \<Rightarrow> rest \<Rightarrow> QuotaParams \<Rightarrow> err + Quota"

text \<open>\<open>e_latency\<close> is the time a request takes, \<open>e_prio\<close> fixes the order in which Go ranges over a
  map, \<open>e_backoff\<close> the delay the rate limiter of client-go answers, \<open>e_urlHost\<close> the host part
  \<^verbatim>\<open>url.Parse\<close> finds, \<open>e_retrySteps\<close> how often client-go's \<^verbatim>\<open>RetryOnConflict\<close> retries,
  \<open>e_ctxDone\<close> the error of the context once it is cancelled.
  \<open>v_isNotFound\<close>, \<open>v_expectStatus\<close> and \<open>v_restString\<close> are IsNotFoundErr, ExpectStatusCodes and the
  printing of a client in go-vast-client.\<close>

record env =
  e_k8s :: k8s_api
  e_vms :: vms_api
  e_storage :: storage_api
  e_latency :: "history \<Rightarrow> nat"
  e_prio :: "history \<Rightarrow> string \<Rightarrow> nat"
  e_backoff :: "history \<Rightarrow> string \<Rightarrow> string \<Rightarrow> duration"
  e_urlHost :: "string \<Rightarrow> string option"
  e_retrySteps :: nat
  e_ctxDone :: "history \<Rightarrow> err option"
  e_sslVerify :: bool
  e_applyExistingPVCs :: bool
  e_pvcNameFormat :: string
  e_pvNameFormat :: string

record world =
  hist :: history
  warned :: bool
  clock :: int

type_synonym 'a io = "(world, 'a) state"

abbreviation ret :: "'a \<Rightarrow> 'a io" where
  "ret \<equiv> State_Monad.return"


section \<open>Requests as actions\<close>

definition record_call :: "env \<Rightarrow> call \<Rightarrow> duration \<Rightarrow> world \<Rightarrow> world" where
  "record_call e c d w =
     w\<lparr>hist := hist w @ [c], clock := clock w + d + int (e_latency e (hist w))\<rparr>"

definition ask :: "env \<Rightarrow> call \<Rightarrow> (history \<Rightarrow> 'a) \<Rightarrow> 'a io" where
  "ask e c reply = State (\<lambda>w. (reply (hist w), record_call e c 0 w))"

text \<open>\<^verbatim>\<open>time.Sleep\<close> and \<^verbatim>\<open>time.Now\<close>.\<close>

definition time_Sleep :: "env \<Rightarrow> duration \<Rightarrow> unit io" where
  "time_Sleep e d = State (\<lambda>w. ((), record_call e (SleepCall d) (max 0 d) w))"

definition time_Now :: "int io" where
  "time_Now = State (\<lambda>w. (clock w, w))"

text \<open>Errors travel in the left side of a sum; \<open>bindE\<close> is the early return on an error,
  \<open>wrapE\<close> the wrapping of an error on the way out. Dereferencing a nil pointer panics: the panic
  leaves the handler the same way, but no caller wraps it.\<close>

definition panic_nil :: err where
  "panic_nil = Sentinel ''runtime error: invalid memory address or nil pointer dereference''"

definition wrapErr :: "(err \<Rightarrow> err) \<Rightarrow> err \<Rightarrow> err" where
  "wrapErr g x = (if x = panic_nil then x else g x)"

definition bindE :: "(err + 'a) io \<Rightarrow> ('a \<Rightarrow> (err + 'b) io) \<Rightarrow> (err + 'b) io" where
  "bindE m f = m \<bind> (\<lambda>r. case r of Inl x \<Rightarrow> ret (Inl x) | Inr y \<Rightarrow> f y)"

definition wrapE :: "(err \<Rightarrow> err) \<Rightarrow> (err + 'a) io \<Rightarrow> (err + 'a) io" where
  "wrapE g m = m \<bind> (\<lambda>r. ret (case r of Inl x \<Rightarrow> Inl (wrapErr g x) | Inr y \<Rightarrow> Inr y))"

definition optE :: "err option \<Rightarrow> err + unit" where
  "optE r = (case r of None \<Rightarrow> Inr () | Some x \<Rightarrow> Inl x)"

text \<open>A loop over a list that stops at the first error, and a loop that collects results.\<close>

fun forE :: "'a list \<Rightarrow> ('a \<Rightarrow> (err + unit) io) \<Rightarrow> (err + unit) io" where
  "forE [] f = ret (Inr ())"
| "forE (x # xs) f = bindE (f x) (\<lambda>_. forE xs f)"

fun mapE :: "('a \<Rightarrow> (err + 'b) io) \<Rightarrow> 'a list \<Rightarrow> (err + 'b list) io" where
  "mapE f [] = ret (Inr [])"
| "mapE f (x # xs) = bindE (f x) (\<lambda>y. bindE (mapE f xs) (\<lambda>ys. ret (Inr (y # ys))))"

fun foldE :: "('s \<Rightarrow> 'a \<Rightarrow> (err + 's) io) \<Rightarrow> 's \<Rightarrow> 'a list \<Rightarrow> (err + 's) io" where
  "foldE f s [] = ret (Inr s)"
| "foldE f s (x # xs) = bindE (f s x) (\<lambda>s'. foldE f s' xs)"

text \<open>A loop that collects the errors of its iterations and goes on.\<close>

fun for_collect :: "'a list \<Rightarrow> ('a \<Rightarrow> err option io) \<Rightarrow> err list \<Rightarrow> err list io" where
  "for_collect [] f errs = ret errs"
| "for_collect (x # xs) f errs = f x \<bind> (\<lambda>r. for_collect xs f (DeferredError_Add errs r))"

text \<open>A handler that works on an object it mutates returns the object with its result, so that code
  run later (a deferred function) sees the last in-memory state. \<open>bindS\<close> threads the object and
  returns early on an error.\<close>

type_synonym ('o, 'a) step = "'o \<Rightarrow> ((err + 'a) \<times> 'o) io"

definition bindS :: "('o, 'a) step \<Rightarrow> ('a \<Rightarrow> ('o, 'b) step) \<Rightarrow> ('o, 'b) step" where
  "bindS m f = (\<lambda>obj. m obj \<bind> (\<lambda>(r, obj'). case r of Inl x \<Rightarrow> ret (Inl x, obj') | Inr a \<Rightarrow> f a obj'))"

definition retS :: "'a \<Rightarrow> ('o, 'a) step" where
  "retS a = (\<lambda>obj. ret (Inr a, obj))"

definition failS :: "err \<Rightarrow> ('o, 'a) step" where
  "failS x = (\<lambda>obj. ret (Inl x, obj))"

definition liftS :: "(err + 'a) io \<Rightarrow> ('o, 'a) step" where
  "liftS m = (\<lambda>obj. m \<bind> (\<lambda>r. ret (r, obj)))"

definition doS :: "'a io \<Rightarrow> ('o, 'a) step" where
  "doS m = (\<lambda>obj. m \<bind> (\<lambda>a. ret (Inr a, obj)))"

definition putS :: "('o \<Rightarrow> (err option \<times> 'o) io) \<Rightarrow> ('o, unit) step" where
  "putS m = (\<lambda>obj. m obj \<bind> (\<lambda>(r, obj'). ret (optE r, obj')))"

definition getS :: "('o \<Rightarrow> ('o, 'a) step) \<Rightarrow> ('o, 'a) step" where
  "getS f = (\<lambda>obj. f obj obj)"

definition modS :: "('o \<Rightarrow> 'o) \<Rightarrow> ('o, unit) step" where
  "modS f = (\<lambda>obj. ret (Inr (), f obj))"

text \<open>A pointer is an option.\<close>

definition derefE :: "'a option \<Rightarrow> ('a \<Rightarrow> (err + 'b) io) \<Rightarrow> (err + 'b) io" where
  "derefE p f = (case p of None \<Rightarrow> ret (Inl panic_nil) | Some x \<Rightarrow> f x)"

definition ctx_Done :: "env \<Rightarrow> err option io" where
  "ctx_Done e = State (\<lambda>w. (e_ctxDone e (hist w), w))"

text \<open>A polling loop: a check that answers done, not yet or an error; then the deadline; then a pause,
  which may itself end the wait. The fuel is the number of checks; None is a loop that used it up.\<close>

fun poll_until ::
  "nat \<Rightarrow> int \<Rightarrow> err \<Rightarrow> (err + 'a option) io \<Rightarrow> err option io \<Rightarrow> (err + 'a) option io" where
  "poll_until 0 deadline timedOut check pause = ret None"
| "poll_until (Suc n) deadline timedOut check pause =
     check \<bind> (\<lambda>r. case r of
         Inl x \<Rightarrow> ret (Some (Inl x))
       | Inr (Some a) \<Rightarrow> ret (Some (Inr a))
       | Inr None \<Rightarrow> time_Now \<bind> (\<lambda>now.
           if now > deadline then ret (Some (Inl timedOut))
           else pause \<bind> (\<lambda>stop. case stop of
               Some x \<Rightarrow> ret (Some (Inl x))
             | None \<Rightarrow> poll_until n deadline timedOut check pause)))"

definition poll_fuel :: "duration \<Rightarrow> duration \<Rightarrow> nat" where
  "poll_fuel timeout sleep = nat (timeout div sleep) + 2"

definition out_of_fuel :: err where
  "out_of_fuel = Sentinel ''the wait did not end''"

definition poll ::
  "duration \<Rightarrow> duration \<Rightarrow> err \<Rightarrow> (err + 'a option) io \<Rightarrow> err option io \<Rightarrow> (err + 'a) io" where
  "poll timeout sleep timedOut check pause =
     time_Now \<bind> (\<lambda>start. poll_until (poll_fuel timeout sleep) (start + timeout) timedOut check pause
       \<bind> (\<lambda>r. ret (case r of Some x \<Rightarrow> x | None \<Rightarrow> Inl out_of_fuel)))"

text \<open>Ranging over a Go map visits its entries in some order.\<close>

definition range_map :: "env \<Rightarrow> (string \<times> 'a) list \<Rightarrow> (string \<times> 'a) list io" where
  "range_map e m = State (\<lambda>w. (sort_key (\<lambda>(k, _). e_prio e (hist w) k) m, w))"

text \<open>The event reporter bound to one reconcile: \<^verbatim>\<open>Warning\<close> also sets the flag HasWarned reads.\<close>

definition emit_Warning :: "env \<Rightarrow> string \<Rightarrow> string \<Rightarrow> unit io" where
  "emit_Warning e reason msg =
     State (\<lambda>w. ((), (record_call e (EventCall True reason msg) 0 w)\<lparr>warned := True\<rparr>))"

definition emit_Normal :: "env \<Rightarrow> string \<Rightarrow> string \<Rightarrow> unit io" where
  "emit_Normal e reason msg = ask e (EventCall False reason msg) (\<lambda>_. ())"

definition emit_HasWarned :: "bool io" where
  "emit_HasWarned = State (\<lambda>w. (warned w, w))"

definition EmitFor :: "unit io" where
  "EmitFor = State (\<lambda>w. ((), w\<lparr>warned := False\<rparr>))"


section \<open>Running an action\<close>

named_theorems run_simps \<open>evaluation of actions on a world\<close>

lemma run_bind [run_simps]:
  "run_state (m \<bind> f) w = (case run_state m w of (a, w') \<Rightarrow> run_state (f a) w')"
  by (simp add: State_Monad.bind_def)

lemma run_ret [run_simps]: "run_state (ret a) w = (a, w)"
  by (simp add: State_Monad.return_def)

lemma run_ask [run_simps]: "run_state (ask e c f) w = (f (hist w), record_call e c 0 w)"
  by (simp add: ask_def)

lemma run_sleep [run_simps]:
  "run_state (time_Sleep e d) w = ((), record_call e (SleepCall d) (max 0 d) w)"
  by (simp add: time_Sleep_def)

lemma run_now [run_simps]: "run_state time_Now w = (clock w, w)"
  by (simp add: time_Now_def)

lemma run_bindE [run_simps]:
  "run_state (bindE m f) w =
     (case run_state m w of (Inl x, w') \<Rightarrow> (Inl x, w') | (Inr y, w') \<Rightarrow> run_state (f y) w')"
  by (auto simp: bindE_def run_simps split: prod.splits sum.splits)

lemma run_wrapE [run_simps]:
  "run_state (wrapE g m) w =
     (case run_state m w of (Inl x, w') \<Rightarrow> (Inl (wrapErr g x), w') | (Inr y, w') \<Rightarrow> (Inr y, w'))"
  by (auto simp: wrapE_def run_simps split: prod.splits sum.splits)

lemma run_range_map [run_simps]:
  "run_state (range_map e m) w = (sort_key (\<lambda>(k, _). e_prio e (hist w) k) m, w)"
  by (simp add: range_map_def)

lemma run_emit [run_simps]:
  "run_state (emit_Warning e r s) w = ((), (record_call e (EventCall True r s) 0 w)\<lparr>warned := True\<rparr>)"
  "run_state (emit_Normal e r s) w = ((), record_call e (EventCall False r s) 0 w)"
  "run_state emit_HasWarned w = (warned w, w)"
  "run_state EmitFor w = ((), w\<lparr>warned := False\<rparr>)"
  "run_state (ctx_Done e) w = (e_ctxDone e (hist w), w)"
  by (simp_all add: emit_Warning_def emit_Normal_def emit_HasWarned_def EmitFor_def ctx_Done_def
      run_simps)

lemma record_call_sel [simp]:
  "hist (record_call e c d w) = hist w @ [c]"
  "clock (record_call e c d w) = clock w + d + int (e_latency e (hist w))"
  "warned (record_call e c d w) = warned w"
  by (simp_all add: record_call_def)


section \<open>What an action does to the world\<close>

text \<open>\<open>moves R m\<close>: from every world, running \<open>m\<close> leads to a world related by \<open>R\<close>. The locale derives the rules for every construct the handlers are built
  from, for any preorder on worlds.\<close>

definition moves :: "(world \<Rightarrow> world \<Rightarrow> bool) \<Rightarrow> 'a io \<Rightarrow> bool" where
  "moves R m = (\<forall>w. R w (snd (run_state m w)))"

lemma movesI: "(\<And>w. R w (snd (run_state m w))) \<Longrightarrow> moves R m"
  by (simp add: moves_def)

lemma movesD: "moves R m \<Longrightarrow> run_state m w = (a, w') \<Longrightarrow> R w w'"
  by (metis moves_def snd_conv)

lemma moves_at: "moves R m \<Longrightarrow> R v (snd (run_state m v))"
  by (simp add: moves_def)

named_theorems moves_intro \<open>introduction rules of moves\<close>

locale world_order =
  fixes R :: "world \<Rightarrow> world \<Rightarrow> bool"
  assumes R_refl: "R w w"
    and R_trans: "R w1 w2 \<Longrightarrow> R w2 w3 \<Longrightarrow> R w1 w3"
begin

lemma ret: "moves R (ret a)"
  by (simp add: moves_def run_simps R_refl)

lemma bind: "moves R m \<Longrightarrow> (\<And>a. moves R (f a)) \<Longrightarrow> moves R (m \<bind> f)"
  by (rule movesI) (simp add: run_simps split: prod.split, metis moves_def R_trans snd_conv)

lemma pure: "moves R time_Now" "moves R (range_map e m)" "moves R emit_HasWarned"
  "moves R (ctx_Done e)"
  by (simp_all add: moves_def run_simps R_refl)

lemma bindE: "moves R m \<Longrightarrow> (\<And>a. moves R (f a)) \<Longrightarrow> moves R (bindE m f)"
  unfolding bindE_def by (rule bind) (auto split: sum.splits intro: ret)

lemma bindE_post:
  assumes "moves R m" "\<And>w a v. run_state m w = (Inr a, v) \<Longrightarrow> R v (snd (run_state (f a) v))"
  shows "moves R (World.bindE m f)"
proof (rule movesI)
  fix w
  obtain r v where r: "run_state m w = (r, v)" by fastforce
  show "R w (snd (run_state (World.bindE m f) w))"
    using movesD[OF assms(1) r] assms(2)[of w _ v] r
    by (cases r) (auto simp: run_simps intro: R_trans)
qed

lemma bindE_ret: "(\<And>a. r = Inr a \<Longrightarrow> moves R (f a)) \<Longrightarrow> moves R (World.bindE (State_Monad.return r) f)"
  unfolding bindE_def by (cases r) (auto intro: ret)

lemma wrapE: "moves R m \<Longrightarrow> moves R (wrapE g m)"
  unfolding wrapE_def by (rule bind) (auto intro: ret)

lemma derefE: "(\<And>a. moves R (f a)) \<Longrightarrow> moves R (derefE p f)"
  unfolding derefE_def by (auto split: option.splits intro: ret)

lemma bindS: "(\<And>v. moves R (m v)) \<Longrightarrow> (\<And>a v. moves R (f a v)) \<Longrightarrow> moves R (bindS m f v)"
  unfolding bindS_def by (rule bind) (auto split: sum.splits prod.splits intro: ret)

lemma bindS_post:
  assumes "moves R (m v)"
    "\<And>w a v' w1. run_state (m v) w = ((Inr a, v'), w1) \<Longrightarrow> R w1 (snd (run_state (f a v') w1))"
  shows "moves R (World.bindS m f v)"
proof (rule movesI)
  fix w
  obtain r v' w1 where r: "run_state (m v) w = ((r, v'), w1)" by (metis surj_pair)
  show "R w (snd (run_state (World.bindS m f v) w))"
    using movesD[OF assms(1) r] assms(2)[of w _ v' w1] r
    by (cases r) (auto simp: bindS_def run_simps intro: R_trans)
qed

lemma liftS: "moves R m \<Longrightarrow> moves R (liftS m v)" "moves R n \<Longrightarrow> moves R (doS n v)"
  unfolding liftS_def doS_def by (auto intro: ret bind)

lemma putS: "moves R (m v) \<Longrightarrow> moves R (putS m v)"
  unfolding putS_def by (rule bind) (auto split: prod.splits intro: ret)

lemma pureS: "moves R (retS a v)" "moves R (failS x v)" "moves R (modS g v)"
  by (simp_all add: retS_def failS_def modS_def ret)

lemma getS: "moves R (f v v) \<Longrightarrow> moves R (getS f v)"
  by (simp add: getS_def)

lemma forE: "(\<And>x. x \<in> set xs \<Longrightarrow> moves R (f x)) \<Longrightarrow> moves R (forE xs f)"
  by (induction xs) (auto intro: ret bindE)

lemma mapE: "(\<And>x. x \<in> set xs \<Longrightarrow> moves R (f x)) \<Longrightarrow> moves R (mapE f xs)"
  by (induction xs) (auto intro!: ret bindE)

lemma foldE: "(\<And>s x. x \<in> set xs \<Longrightarrow> moves R (f s x)) \<Longrightarrow> moves R (foldE f s xs)"
  by (induction xs arbitrary: s) (auto intro!: ret bindE)

lemma for_collect: "(\<And>x. x \<in> set xs \<Longrightarrow> moves R (f x)) \<Longrightarrow> moves R (for_collect xs f errs)"
  by (induction xs arbitrary: errs) (auto intro!: ret bind)

end

lemma moves_if: "(b \<Longrightarrow> moves R m) \<Longrightarrow> (\<not> b \<Longrightarrow> moves R n) \<Longrightarrow> moves R (if b then m else n)"
  by simp

lemma moves_option:
  "(x = None \<Longrightarrow> moves R m) \<Longrightarrow> (\<And>a. x = Some a \<Longrightarrow> moves R (f a)) \<Longrightarrow>
   moves R (case x of None \<Rightarrow> m | Some a \<Rightarrow> f a)"
  by (cases x) auto

lemma moves_sum:
  "(\<And>a. x = Inl a \<Longrightarrow> moves R (f a)) \<Longrightarrow> (\<And>b. x = Inr b \<Longrightarrow> moves R (g b)) \<Longrightarrow>
   moves R (case x of Inl a \<Rightarrow> f a | Inr b \<Rightarrow> g b)"
  by (cases x) auto

lemma moves_prod: "(\<And>a b. x = (a, b) \<Longrightarrow> moves R (f a b)) \<Longrightarrow> moves R (case x of (a, b) \<Rightarrow> f a b)"
  by (cases x) auto

lemma moves_list:
  "(x = [] \<Longrightarrow> moves R m) \<Longrightarrow> (\<And>a b. x = a # b \<Longrightarrow> moves R (f a b)) \<Longrightarrow>
   moves R (case x of [] \<Rightarrow> m | a # b \<Rightarrow> f a b)"
  by (cases x) auto

lemma moves_let: "(\<And>y. y = x \<Longrightarrow> moves R (f y)) \<Longrightarrow> moves R (Let x f)"
  by simp

text \<open>A range over a map visits exactly its entries.\<close>

lemma moves_range:
  "(\<And>entries. set entries = set m \<Longrightarrow> moves R (f entries)) \<Longrightarrow> moves R (range_map e m \<bind> f)"
  by (rule movesI) (simp add: run_simps moves_def)

lemmas moves_control = moves_if moves_option moves_sum moves_prod moves_list moves_let

text \<open>The same for steps, which are case distinctions applied to the object.\<close>

lemma moves_step_control:
  "(b \<Longrightarrow> moves R (s v)) \<Longrightarrow> (\<not> b \<Longrightarrow> moves R (t v)) \<Longrightarrow> moves R ((if b then s else t) v)"
  "(x = None \<Longrightarrow> moves R (s v)) \<Longrightarrow> (\<And>a. x = Some a \<Longrightarrow> moves R (f a v)) \<Longrightarrow>
   moves R ((case x of None \<Rightarrow> s | Some a \<Rightarrow> f a) v)"
  "(\<And>a. y = Inl a \<Longrightarrow> moves R (f1 a v)) \<Longrightarrow> (\<And>b. y = Inr b \<Longrightarrow> moves R (f2 b v)) \<Longrightarrow>
   moves R ((case y of Inl a \<Rightarrow> f1 a | Inr b \<Rightarrow> f2 b) v)"
  "(\<And>a b. z = (a, b) \<Longrightarrow> moves R (g a b v)) \<Longrightarrow> moves R ((case z of (a, b) \<Rightarrow> g a b) v)"
  by (auto split: option.split sum.split prod.split)

text \<open>Time does not run backwards, and a history only grows by requests an action may issue.\<close>

definition later :: "world \<Rightarrow> world \<Rightarrow> bool" where
  "later w w' = (clock w \<le> clock w')"

definition issues :: "(call \<Rightarrow> bool) \<Rightarrow> world \<Rightarrow> world \<Rightarrow> bool" where
  "issues P w w' = (\<exists>cs. hist w' = hist w @ cs \<and> list_all P cs)"

interpretation clk: world_order later
  by unfold_locales (auto simp: later_def)

interpretation iss: world_order "issues P" for P
proof
  show "issues P w w" for w by (auto simp: issues_def)
  show "issues P w1 w2 \<Longrightarrow> issues P w2 w3 \<Longrightarrow> issues P w1 w3" for w1 w2 w3
    by (auto simp: issues_def)
qed

lemma later_prims:
  "moves later (ask e c f)" "moves later (time_Sleep e d)" "moves later (emit_Warning e r s)"
  "moves later (emit_Normal e r s)" "moves later EmitFor"
  by (auto simp: moves_def run_simps later_def)

lemma issues_ask: "P c \<Longrightarrow> moves (issues P) (ask e c f)"
  by (auto simp: moves_def run_simps issues_def)

lemma issues_prims:
  "P (SleepCall d) \<Longrightarrow> moves (issues P) (time_Sleep e d)"
  "P (EventCall True r s) \<Longrightarrow> moves (issues P) (emit_Warning e r s)"
  "P (EventCall False r s) \<Longrightarrow> moves (issues P) (emit_Normal e r s)"
  "moves (issues P) EmitFor"
  by (auto simp: moves_def run_simps issues_def)

lemmas later_rules = clk.ret clk.bind clk.pure clk.bindE clk.wrapE clk.forE clk.mapE clk.foldE
  clk.for_collect clk.derefE clk.bindS clk.liftS clk.putS clk.pureS clk.getS later_prims moves_control

lemmas issues_rules = iss.ret iss.bind iss.pure iss.bindE iss.wrapE iss.forE iss.mapE iss.foldE
  iss.for_collect iss.derefE iss.bindS iss.liftS iss.putS iss.pureS iss.getS issues_ask issues_prims moves_control

lemma issues_mono: "moves (issues P) m \<Longrightarrow> (\<And>c. P c \<Longrightarrow> Q c) \<Longrightarrow> moves (issues Q) m"
  unfolding moves_def issues_def by (metis list.pred_mono_strong)

lemma issues_hist:
  assumes "moves (issues P) m" "run_state m w = (a, w')"
  obtains cs where "hist w' = hist w @ cs" "list_all P cs"
  using movesD[OF assms] by (auto simp: issues_def)

lemma issues_new:
  assumes "moves (issues P) m" "run_state m w = (a, w')" "c \<in> set (hist w')" "\<not> P c"
  shows "c \<in> set (hist w)"
  using assms by (elim issues_hist) (auto simp: list_all_iff)


definition new_calls :: "world \<Rightarrow> world \<Rightarrow> call list" where
  "new_calls w w' = drop (length (hist w)) (hist w')"

lemma issues_new_calls:
  assumes "moves (issues P) m" "run_state m w = (a, w')"
  shows "list_all P (new_calls w w')"
proof (rule issues_hist[OF assms])
  fix cs assume "hist w' = hist w @ cs" "list_all P cs"
  then show ?thesis by (simp add: new_calls_def)
qed


section \<open>Kinds of requests\<close>

text \<open>\<open>within S m\<close>: the action \<open>m\<close> issues only requests of the kinds in \<open>S\<close>.\<close>

datatype call_kind =
    KRead | KDelete | KCreateVGR | KCreateVR | KCreateVRC | KCreateClass
  | KUpdateVSCR | KStatusVSCR | KPatchVSCR | KUpdateVVR | KStatusVVR | KPatchVVR
  | KUpdateVRC | KStatusVRC | KPatchVRC | KPatchVGR | KPatchVR | KPatchPVC
  | KUpdatePVC | KCreatePVC | KCreatePV | KPatchPV | KPatchWorkload
  | KCreateData | KUpdateData | KStatusBucketAccess | KReview
  | KNewRest | KVmsRead | KPpathCreate | KPpathDisable | KPpathDelete | KAddStream
  | KPolicyCreate | KPolicyDelete | KDeleteFolder
  | KViewCreate | KViewDelete | KVolumeCreate | KVolumeDelete | KQuotaCreate | KQuotaDelete
  | KSnapshotDelete | KEvent | KSleep | KBackoff

fun vms_kind :: "vms_op \<Rightarrow> call_kind" where
  "vms_kind (PpathCreate _) = KPpathCreate"
| "vms_kind (PpathDisable _) = KPpathDisable"
| "vms_kind (PpathDelete _) = KPpathDelete"
| "vms_kind (AddStream _ _) = KAddStream"
| "vms_kind (PolicyCreate _) = KPolicyCreate"
| "vms_kind (PolicyDelete _) = KPolicyDelete"
| "vms_kind (DeleteFolderOp _ _) = KDeleteFolder"
| "vms_kind (ViewCreate _) = KViewCreate"
| "vms_kind (ViewDelete _) = KViewDelete"
| "vms_kind (VolumeCreate _) = KVolumeCreate"
| "vms_kind (VolumeDelete _) = KVolumeDelete"
| "vms_kind (QuotaCreate _) = KQuotaCreate"
| "vms_kind (QuotaDelete _) = KQuotaDelete"
| "vms_kind (SnapshotDelete _) = KSnapshotDelete"
| "vms_kind _ = KVmsRead"

fun kind_of :: "call \<Rightarrow> call_kind" where
  "kind_of (GetCall _ _ _) = KRead"
| "kind_of (ListCall _ _ _) = KRead"
| "kind_of (DeleteCall _ _ _) = KDelete"
| "kind_of (CreateVGR _) = KCreateVGR"
| "kind_of (CreateVR _) = KCreateVR"
| "kind_of (CreateVRC _) = KCreateVRC"
| "kind_of (CreateClass _ _) = KCreateClass"
| "kind_of (UpdateVSCR _) = KUpdateVSCR"
| "kind_of (UpdateVSCRStatus _) = KStatusVSCR"
| "kind_of (PatchVSCR _) = KPatchVSCR"
| "kind_of (UpdateVVR _) = KUpdateVVR"
| "kind_of (UpdateVVRStatus _) = KStatusVVR"
| "kind_of (PatchVVR _) = KPatchVVR"
| "kind_of (UpdateVRC _) = KUpdateVRC"
| "kind_of (UpdateVRCStatus _) = KStatusVRC"
| "kind_of (PatchVRC _) = KPatchVRC"
| "kind_of (PatchVGR _) = KPatchVGR"
| "kind_of (PatchVR _) = KPatchVR"
| "kind_of (PatchPVC _) = KPatchPVC"
| "kind_of (UpdatePVC _) = KUpdatePVC"
| "kind_of (CreatePVC _) = KCreatePVC"
| "kind_of (CreatePV _) = KCreatePV"
| "kind_of (PatchPV _) = KPatchPV"
| "kind_of (PatchWorkload _ _ _ _) = KPatchWorkload"
| "kind_of (CreateData _ _) = KCreateData"
| "kind_of (UpdateData _ _) = KUpdateData"
| "kind_of (UpdateBucketAccessStatus _) = KStatusBucketAccess"
| "kind_of (TokenReviewCall _) = KReview"
| "kind_of (AccessReviewCall _) = KReview"
| "kind_of (NewRestCall _) = KNewRest"
| "kind_of (VmsCall _ op) = vms_kind op"
| "kind_of (EventCall _ _ _) = KEvent"
| "kind_of (SleepCall _) = KSleep"
| "kind_of (BackoffNext _ _) = KBackoff"
| "kind_of (BackoffReset _ _) = KBackoff"

abbreviation within :: "call_kind set \<Rightarrow> 'a io \<Rightarrow> bool" where
  "within S m \<equiv> moves (issues (\<lambda>c. kind_of c \<in> S)) m"

lemma within_mono: "within S m \<Longrightarrow> S \<subseteq> T \<Longrightarrow> within T m"
  by (erule issues_mono) auto

lemma within_hist:
  assumes "within S m" "run_state m w = (a, w')"
  obtains cs where "hist w' = hist w @ cs" "\<And>c. c \<in> set cs \<Longrightarrow> kind_of c \<in> S"
  using issues_hist[OF assms] by (metis (mono_tags, lifting) list_all_iff)

lemma within_new:
  assumes "within S m" "run_state m w = (a, w')" "c \<in> set (hist w')" "kind_of c \<notin> S"
  shows "c \<in> set (hist w)"
  using issues_new[OF assms(1,2,3)] assms(4) by simp

lemma within_prefix:
  assumes "within S m" "run_state m w = (a, w')"
  shows "prefix (hist w) (hist w')"
proof (rule within_hist[OF assms])
  fix cs assume "hist w' = hist w @ cs"
  then show ?thesis by simp
qed


section \<open>Requests justified by what came before\<close>

text \<open>\<open>justified Q\<close>: every new request \<open>c\<close> satisfies \<open>Q h c\<close>, where \<open>h\<close> is the history at the
  moment it is issued. Since replies are functions of the history, \<open>Q\<close> can speak of what the
  servers had answered by then.\<close>

definition justified :: "(history \<Rightarrow> call \<Rightarrow> bool) \<Rightarrow> world \<Rightarrow> world \<Rightarrow> bool" where
  "justified Q w w' =
     (\<exists>cs. hist w' = hist w @ cs \<and> (\<forall>i < length cs. Q (hist w @ take i cs) (cs ! i)))"

lemma justified_refl: "justified Q w w"
  by (simp add: justified_def)

lemma justified_trans:
  assumes "justified Q w1 w2" "justified Q w2 w3"
  shows "justified Q w1 w3"
proof -
  from assms obtain cs ds where c: "hist w2 = hist w1 @ cs" "\<And>i. i < length cs \<Longrightarrow> Q (hist w1 @ take i cs) (cs ! i)"
    and d: "hist w3 = hist w2 @ ds" "\<And>i. i < length ds \<Longrightarrow> Q (hist w2 @ take i ds) (ds ! i)"
    unfolding justified_def by blast
  have "Q (hist w1 @ take i (cs @ ds)) ((cs @ ds) ! i)" if "i < length (cs @ ds)" for i
  proof (cases "i < length cs")
    case True
    then show ?thesis using c(2) by (simp add: nth_append)
  next
    case False
    then show ?thesis using d(2)[of "i - length cs"] that c(1) by (simp add: nth_append)
  qed
  then show ?thesis using c(1) d(1) unfolding justified_def by (metis append.assoc)
qed

interpretation jus: world_order "justified Q" for Q
  by unfold_locales (fact justified_refl, fact justified_trans)

lemma justified_record: "justified Q w v \<Longrightarrow> Q (hist v) c \<Longrightarrow> justified Q w (record_call e c d v)"
  by (erule justified_trans) (simp add: justified_def)

lemma justified_warned: "justified Q w v \<Longrightarrow> justified Q w (v\<lparr>warned := b\<rparr>)"
  by (simp add: justified_def)

lemma justified_ask: "(\<And>h. Q h c) \<Longrightarrow> moves (justified Q) (ask e c f)"
  by (auto simp: moves_def run_simps intro: justified_record justified_refl)

lemma justified_ask_then:
  assumes "Q (hist v) c" "\<And>a. moves (justified Q) (g a)"
  shows "justified Q v (snd (run_state (ask e c f \<bind> g) v))"
proof -
  have "justified Q v (record_call e c 0 v)" using assms(1) by (intro justified_record justified_refl)
  then show ?thesis using assms(2) by (auto simp: run_simps moves_def intro: justified_trans)
qed

lemma justified_mono:
  assumes "moves (justified Q) m" "\<And>h c. Q h c \<Longrightarrow> Q' h c"
  shows "moves (justified Q') m"
  using assms unfolding moves_def justified_def by blast

lemma justified_nth:
  assumes "justified Q w w'" "length (hist w) \<le> i" "i < length (hist w')"
  shows "Q (take i (hist w')) (hist w' ! i)"
proof -
  from assms(1) obtain cs where c: "hist w' = hist w @ cs"
    "\<And>i. i < length cs \<Longrightarrow> Q (hist w @ take i cs) (cs ! i)"
    unfolding justified_def by blast
  then show ?thesis using c(2)[of "i - length (hist w)"] assms(2,3) by (simp add: nth_append)
qed

lemma justified_within:
  assumes "within S m" "\<And>h c. kind_of c \<in> S \<Longrightarrow> Q h c"
  shows "moves (justified Q) m"
proof (rule movesI)
  fix w
  obtain a w' where r: "run_state m w = (a, w')" by fastforce
  show "justified Q w (snd (run_state m w))"
  proof (rule within_hist[OF assms(1) r])
    fix cs assume "hist w' = hist w @ cs" "\<And>c. c \<in> set cs \<Longrightarrow> kind_of c \<in> S"
    then show ?thesis using r assms(2) by (auto simp: justified_def)
  qed
qed

text \<open>A fact about an earlier history stays available to the requests that follow.\<close>

lemma justified_from:
  assumes "justified (\<lambda>h c. prefix h0 h \<longrightarrow> Q h c) v w'" "prefix h0 (hist v)"
  shows "justified Q v w'"
  using assms unfolding justified_def by (metis prefix_def append.assoc)

lemma justified_run:
  assumes "moves (justified (\<lambda>h c. prefix h0 h \<longrightarrow> Q h c)) m" "prefix h0 (hist v)"
  shows "justified Q v (snd (run_state m v))"
  by (rule justified_from[OF moves_at[OF assms(1)] assms(2)])

lemmas jus_rules = jus.ret jus.bind jus.pure jus.bindE jus.bindE_ret jus.wrapE jus.forE jus.mapE jus.foldE
  jus.for_collect jus.derefE jus.bindS jus.liftS jus.putS jus.pureS jus.getS justified_ask moves_control


section \<open>Polling ends\<close>

lemma run_poll_until:
  "run_state (poll_until 0 dl t check pause) w = (None, w)"
  "run_state (poll_until (Suc n) dl t check pause) w =
     (case run_state check w of
        (Inl x, w1) \<Rightarrow> (Some (Inl x), w1)
      | (Inr (Some a), w1) \<Rightarrow> (Some (Inr a), w1)
      | (Inr None, w1) \<Rightarrow> if clock w1 > dl then (Some (Inl t), w1)
          else (case run_state pause w1 of
              (Some x, w2) \<Rightarrow> (Some (Inl x), w2)
            | (None, w2) \<Rightarrow> run_state (poll_until n dl t check pause) w2))"
  by (simp_all add: run_simps split: prod.split sum.split option.split)

lemma run_poll_until_numeral:
  "run_state (poll_until (numeral k) dl t check pause) w =
     (case run_state check w of
        (Inl x, w1) \<Rightarrow> (Some (Inl x), w1)
      | (Inr (Some a), w1) \<Rightarrow> (Some (Inr a), w1)
      | (Inr None, w1) \<Rightarrow> if clock w1 > dl then (Some (Inl t), w1)
          else (case run_state pause w1 of
              (Some x, w2) \<Rightarrow> (Some (Inl x), w2)
            | (None, w2) \<Rightarrow> run_state (poll_until (pred_numeral k) dl t check pause) w2))"
  unfolding numeral_eq_Suc run_poll_until ..

lemmas poll_simps = run_poll_until run_poll_until_numeral poll_def poll_fuel_def

text \<open>When the check does not turn the clock back and every pause lasts at least \<open>sleep\<close>, a loop
  with \<open>poll_fuel\<close> checks ends, whatever the servers answer.\<close>

definition pauses :: "duration \<Rightarrow> err option io \<Rightarrow> bool" where
  "pauses d m = (\<forall>w w'. run_state m w = (None, w') \<longrightarrow> clock w + d \<le> clock w')"

lemma poll_until_ends:
  assumes "moves later check" "pauses d pause"
    and "deadline < clock w + int m * d"
  shows "\<exists>r w'. run_state (poll_until (Suc m) deadline t check pause) w = (Some r, w')"
  using assms(3)
proof (induction m arbitrary: w)
  case 0
  obtain r w1 where c: "run_state check w = (r, w1)" by fastforce
  have "clock w \<le> clock w1" using movesD[OF assms(1) c] by (simp add: later_def)
  then show ?case using 0 c by (auto simp: run_simps split: sum.splits option.splits)
next
  case (Suc m)
  obtain r w1 where c: "run_state check w = (r, w1)" by fastforce
  have l1: "clock w \<le> clock w1" using movesD[OF assms(1) c] by (simp add: later_def)
  obtain s w2 where p: "run_state pause w1 = (s, w2)" by fastforce
  have "s = None \<Longrightarrow> deadline < clock w2 + int m * d"
    using assms(2) p l1 Suc.prems unfolding pauses_def by (fastforce simp: algebra_simps)
  then have "s = None \<Longrightarrow> \<exists>r w'. run_state (poll_until (Suc m) deadline t check pause) w2 = (Some r, w')"
    using Suc.IH by blast
  then show ?case using c p
    by (auto simp: run_poll_until(2)[of "Suc m"] simp del: poll_until.simps
        split: sum.splits option.splits)
qed

lemma poll_fuel_enough:
  assumes "0 < d"
  shows "timeout < int (nat (timeout div d) + 1) * d"
proof -
  have "timeout < (timeout div d + 1) * d"
    using pos_mod_bound[OF assms, of timeout] div_mult_mod_eq[of timeout d]
    unfolding distrib_right mult_1 by linarith
  also have "\<dots> \<le> int (nat (timeout div d) + 1) * d"
    using assms by (intro mult_right_mono) auto
  finally show ?thesis .
qed

lemma poll_ends:
  assumes "moves later check" "pauses d pause" "0 < d"
  shows "\<exists>r w'. run_state (poll_until (poll_fuel timeout d) (clock w + timeout) t check pause) w
           = (Some r, w')"
  using poll_until_ends[OF assms(1,2), of "clock w + timeout" w "nat (timeout div d) + 1"]
    poll_fuel_enough[OF assms(3), of timeout] by (simp add: poll_fuel_def del: poll_until.simps)

lemma later_poll_until [moves_intro]:
  "moves later check \<Longrightarrow> moves later pause \<Longrightarrow> moves later (poll_until n dl t check pause)"
  by (induction n) (auto intro!: later_rules)

lemma later_poll: "moves later check \<Longrightarrow> moves later pause \<Longrightarrow> moves later (poll t d x check pause)"
  unfolding poll_def by (intro later_rules later_poll_until)

lemma issues_poll_until:
  "moves (issues P) check \<Longrightarrow> moves (issues P) pause \<Longrightarrow>
   moves (issues P) (poll_until n dl t check pause)"
  by (induction n) (auto intro!: issues_rules)

lemma issues_poll:
  "moves (issues P) check \<Longrightarrow> moves (issues P) pause \<Longrightarrow> moves (issues P) (poll t d x check pause)"
  unfolding poll_def by (intro issues_rules issues_poll_until)


text \<open>A poll that succeeds ends with a check that succeeded.\<close>

lemma poll_until_success:
  assumes "run_state (poll_until n dl t check pause) w = (Some (Inr a), w')"
    and "moves (issues (\<lambda>_. True)) check" "moves (issues (\<lambda>_. True)) pause"
  shows "\<exists>v. prefix (hist w) (hist v) \<and> run_state check v = (Inr (Some a), w')"
  using assms(1)
proof (induction n arbitrary: w)
  case 0
  then show ?case by (simp add: run_poll_until)
next
  case (Suc n)
  obtain r w1 where c: "run_state check w = (r, w1)" by fastforce
  obtain s w2 where p: "run_state pause w1 = (s, w2)" by fastforce
  have "prefix (hist w) (hist w2)"
    using movesD[OF assms(2) c] movesD[OF assms(3) p] by (auto simp: issues_def)
  moreover have "(r = Inr (Some a) \<and> w1 = w') \<or> run_state (poll_until n dl t check pause) w2 = (Some (Inr a), w')"
    using Suc.prems c p by (auto simp: run_poll_until simp del: poll_until.simps
        split: sum.splits option.splits if_splits)
  ultimately show ?case using Suc.IH[of w2] c by (metis prefix_order.refl prefix_order.trans)
qed

lemma poll_success:
  assumes "run_state (poll timeout d t check pause) w = (Inr a, w')"
    and "moves (issues (\<lambda>_. True)) check" "moves (issues (\<lambda>_. True)) pause"
  obtains v where "prefix (hist w) (hist v)" "run_state check v = (Inr (Some a), w')"
proof -
  obtain r v where r: "run_state (poll_until (poll_fuel timeout d) (clock w + timeout) t check pause) w = (r, v)"
    by fastforce
  then have "r = Some (Inr a)" "v = w'"
    using assms(1) by (auto simp: poll_def run_simps split: option.splits)
  then show thesis using poll_until_success[OF r[unfolded \<open>r = _\<close> \<open>v = _\<close>] assms(2,3)] that by blast
qed


section \<open>Invariants of loops\<close>

lemma foldE_inv:
  assumes "run_state (foldE f s xs) w = (Inr s', w')" "I s w"
    and "\<And>s x v v' t. I s v \<Longrightarrow> x \<in> set xs \<Longrightarrow> run_state (f s x) v = (Inr t, v') \<Longrightarrow> I t v'"
  shows "I s' w'"
  using assms
proof (induction xs arbitrary: s w)
  case Nil
  then show ?case by (simp add: run_simps)
next
  case (Cons x xs)
  from Cons.prems(1) obtain t v where 1: "run_state (f s x) w = (Inr t, v)"
    and 2: "run_state (foldE f t xs) v = (Inr s', w')"
    by (auto simp: run_simps split: prod.splits sum.splits)
  have "I t v" by (rule Cons.prems(3)[OF Cons.prems(2) _ 1]) simp
  show ?case by (rule Cons.IH[OF 2 \<open>I t v\<close>]) (erule Cons.prems(3), auto)
qed

lemma forE_success:
  assumes "run_state (forE xs f) w = (Inr u, w')" "x \<in> set xs"
    and "\<And>x. x \<in> set xs \<Longrightarrow> moves (issues (\<lambda>_. True)) (f x)"
  shows "\<exists>v v'. prefix (hist w) (hist v) \<and> run_state (f x) v = (Inr (), v') \<and> prefix (hist v') (hist w')"
  using assms
proof (induction xs arbitrary: w)
  case (Cons y ys)
  from Cons.prems(1) obtain v where 1: "run_state (f y) w = (Inr (), v)"
    and 2: "run_state (forE ys f) v = (Inr u, w')"
    by (auto simp: run_simps split: prod.splits sum.splits)
  have "prefix (hist w) (hist v)"
    using movesD[OF Cons.prems(3) 1] by (auto simp: issues_def)
  moreover have m: "moves (issues (\<lambda>_. True)) (forE ys f)"
    using Cons.prems(3) by (intro iss.forE) auto
  have "prefix (hist v) (hist w')"
    using movesD[OF m 2] by (auto simp: issues_def)
  ultimately show ?case
    using Cons.IH[OF 2] Cons.prems(2,3) 1 by (metis prefix_order.refl prefix_order.trans set_ConsD list.set_intros(2))
qed simp

lemma run_bindE_InrE:
  assumes "run_state (bindE m f) w = (Inr b, w')"
  obtains a v where "run_state m w = (Inr a, v)" "run_state (f a) v = (Inr b, w')"
  using assms by (auto simp: run_simps split: prod.splits sum.splits)

lemma run_bind_E:
  assumes "run_state (m \<bind> f) w = (b, w')"
  obtains a v where "run_state m w = (a, v)" "run_state (f a) v = (b, w')"
  using assms by (auto simp: run_simps split: prod.splits)

lemma run_wrapE_InrE:
  assumes "run_state (wrapE g m) w = (Inr b, w')"
  obtains "run_state m w = (Inr b, w')"
  using assms by (auto simp: run_simps split: prod.splits sum.splits)


section \<open>A world that answers nothing\<close>

text \<open>Every request fails. Concrete runs change the answers they need.\<close>

definition unavailable :: err where
  "unavailable = Plain ''unavailable''"

definition idle_k8s :: k8s_api where
  "idle_k8s = \<lparr>k_getVSCR = \<lambda>h ns n. Inl unavailable, k_getVVR = \<lambda>h ns n. Inl unavailable,
     k_getVGR = \<lambda>h ns n. Inl unavailable, k_getVR = \<lambda>h ns n. Inl unavailable,
     k_getVRC = \<lambda>h ns n. Inl unavailable, k_getSC = \<lambda>h n. Inl unavailable,
     k_getSecret = \<lambda>h ns n. Inl unavailable, k_getClass = \<lambda>h k ns n. Inl unavailable,
     k_getPVC = \<lambda>h ns n. Inl unavailable, k_getPV = \<lambda>h n. Inl unavailable,
     k_listVRC = \<lambda>h ns sel. Inl unavailable, k_listPVC = \<lambda>h. Inl unavailable,
     k_write = \<lambda>h c. Some unavailable, k_putVSCR = \<lambda>h c. Inl unavailable,
     k_putVVR = \<lambda>h c. Inl unavailable, k_putVRC = \<lambda>h c. Inl unavailable,
     k_putPVC = \<lambda>h c. Inl unavailable,
     k_containsFinalizer = \<lambda>fs f. f \<in> set fs,
     k_addFinalizer = \<lambda>fs f. if f \<in> set fs then (False, fs) else (True, fs @ [f]),
     k_removeFinalizer = \<lambda>fs f. (f \<in> set fs, filter (\<lambda>g. g \<noteq> f) fs),
     k_setControllerRef = \<lambda>kind owner ns refs. Inr (refs @ [\<lparr>ref_Kind = kind, ref_Name = oName owner,
       ref_UID = oUID owner, ref_Controller = Some True, ref_BlockOwnerDeletion = Some True\<rparr>])\<rparr>"

definition idle_vms :: vms_api where
  "idle_vms = \<lparr>v_newRest = \<lambda>h c. Some unavailable, v_ppathGet = \<lambda>h r n. Inl unavailable,
     v_ppathCreate = \<lambda>h r p. Inl unavailable, v_policyGet = \<lambda>h r n. Inl unavailable,
     v_policyCreate = \<lambda>h r p. Inl unavailable, v_peersList = \<lambda>h r n. Inl unavailable,
     v_tenantGet = \<lambda>h r n. Inl unavailable, v_tenantGetById = \<lambda>h r i. Inl unavailable,
     v_viewGet = \<lambda>h r n. Inl unavailable, v_viewPolicyGet = \<lambda>h r n. Inl unavailable,
     v_volumesList = \<lambda>h r s g. Inl unavailable, v_viewsList = \<lambda>h r s. Inl unavailable,
     v_statPath = \<lambda>h r p t. Inl unavailable, v_exists = \<lambda>h r op. Inl unavailable,
     v_act = \<lambda>h r op. Some unavailable, v_isNotFound = \<lambda>x. as_vast x = Some 404,
     v_expectStatus = \<lambda>x c. as_vast x = Some c, v_restString = cfg_Host\<rparr>"

definition idle_storage :: storage_api where
  "idle_storage = \<lparr>s_listPVC = \<lambda>h ns sel. Inl unavailable, s_listPods = \<lambda>h ns. Inl unavailable,
     s_listVR = \<lambda>h ns sel. Inl unavailable, s_listVGR = \<lambda>h ns sel. Inl unavailable,
     s_getWorkload = \<lambda>h k ns n. Inl unavailable, s_putPV = \<lambda>h c. Inl unavailable,
     s_setOwnerRef = \<lambda>kind owner ns refs. Inr (refs @ [\<lparr>ref_Kind = kind, ref_Name = oName owner,
       ref_UID = oUID owner, ref_Controller = None, ref_BlockOwnerDeletion = None\<rparr>]),
     s_viewGetIn = \<lambda>h r n t. Inl unavailable, s_quotasList = \<lambda>h r p. Inl unavailable,
     s_snapshotsList = \<lambda>h r p n. Inl unavailable, s_viewCreate = \<lambda>h r p. Inl unavailable,
     s_volumeCreate = \<lambda>h r p. Inl unavailable, s_quotaCreate = \<lambda>h r p. Inl unavailable\<rparr>"

definition idle_env :: env where
  "idle_env = \<lparr>e_k8s = idle_k8s, e_vms = idle_vms, e_storage = idle_storage, e_latency = \<lambda>h. 1, e_prio = \<lambda>h k. 0,
     e_backoff = \<lambda>h ns n. Second, e_urlHost = \<lambda>s. None, e_retrySteps = 4, e_ctxDone = \<lambda>h. None,
     e_sslVerify = False, e_applyExistingPVCs = False, e_pvcNameFormat = ''{pvc_name}-{sc_name}'',
     e_pvNameFormat = ''{pv_name}-{sc_name}''\<rparr>"

definition start_world :: world where
  "start_world = \<lparr>hist = [], warned = False, clock = 0\<rparr>"

lemma idle_env_sel:
  "e_k8s idle_env = (idle_k8s)"
  "e_vms idle_env = (idle_vms)"
  "e_latency idle_env = (\<lambda>h. 1)"
  "e_prio idle_env = (\<lambda>h k. 0)"
  "e_backoff idle_env = (\<lambda>h ns n. Second)"
  "e_urlHost idle_env = (\<lambda>s. None)"
  "e_retrySteps idle_env = (4)"
  "e_ctxDone idle_env = (\<lambda>h. None)"
  "e_sslVerify idle_env = (False)"
  "e_applyExistingPVCs idle_env = (False)"
  "e_storage idle_env = (idle_storage)"
  "e_pvcNameFormat idle_env = ''{pvc_name}-{sc_name}''"
  "e_pvNameFormat idle_env = ''{pv_name}-{sc_name}''"
  by (simp_all add: idle_env_def)

lemma idle_k8s_sel:
  "k_getVSCR idle_k8s = (\<lambda>h ns n. Inl unavailable)"
  "k_getVVR idle_k8s = (\<lambda>h ns n. Inl unavailable)"
  "k_getVGR idle_k8s = (\<lambda>h ns n. Inl unavailable)"
  "k_getVR idle_k8s = (\<lambda>h ns n. Inl unavailable)"
  "k_getVRC idle_k8s = (\<lambda>h ns n. Inl unavailable)"
  "k_getSC idle_k8s = (\<lambda>h n. Inl unavailable)"
  "k_getSecret idle_k8s = (\<lambda>h ns n. Inl unavailable)"
  "k_getClass idle_k8s = (\<lambda>h k ns n. Inl unavailable)"
  "k_getPVC idle_k8s = (\<lambda>h ns n. Inl unavailable)"
  "k_getPV idle_k8s = (\<lambda>h n. Inl unavailable)"
  "k_listVRC idle_k8s = (\<lambda>h ns sel. Inl unavailable)"
  "k_listPVC idle_k8s = (\<lambda>h. Inl unavailable)"
  "k_write idle_k8s = (\<lambda>h c. Some unavailable)"
  "k_putVSCR idle_k8s = (\<lambda>h c. Inl unavailable)"
  "k_putVVR idle_k8s = (\<lambda>h c. Inl unavailable)"
  "k_putVRC idle_k8s = (\<lambda>h c. Inl unavailable)"
  "k_putPVC idle_k8s = (\<lambda>h c. Inl unavailable)"
  "k_containsFinalizer idle_k8s = (\<lambda>fs f. f \<in> set fs)"
  "k_addFinalizer idle_k8s = (\<lambda>fs f. if f \<in> set fs then (False, fs) else (True, fs @ [f]))"
  "k_removeFinalizer idle_k8s = (\<lambda>fs f. (f \<in> set fs, filter (\<lambda>g. g \<noteq> f) fs))"
  "k_setControllerRef idle_k8s = (\<lambda>kind owner ns refs. Inr (refs @ [\<lparr>ref_Kind = kind, ref_Name = oName owner, ref_UID = oUID owner, ref_Controller = Some True, ref_BlockOwnerDeletion = Some True\<rparr>]))"
  by (simp_all add: idle_k8s_def)

lemma idle_vms_sel:
  "v_newRest idle_vms = (\<lambda>h c. Some unavailable)"
  "v_ppathGet idle_vms = (\<lambda>h r n. Inl unavailable)"
  "v_ppathCreate idle_vms = (\<lambda>h r p. Inl unavailable)"
  "v_policyGet idle_vms = (\<lambda>h r n. Inl unavailable)"
  "v_policyCreate idle_vms = (\<lambda>h r p. Inl unavailable)"
  "v_peersList idle_vms = (\<lambda>h r n. Inl unavailable)"
  "v_tenantGet idle_vms = (\<lambda>h r n. Inl unavailable)"
  "v_tenantGetById idle_vms = (\<lambda>h r i. Inl unavailable)"
  "v_viewGet idle_vms = (\<lambda>h r n. Inl unavailable)"
  "v_viewPolicyGet idle_vms = (\<lambda>h r n. Inl unavailable)"
  "v_volumesList idle_vms = (\<lambda>h r s g. Inl unavailable)"
  "v_viewsList idle_vms = (\<lambda>h r s. Inl unavailable)"
  "v_statPath idle_vms = (\<lambda>h r p t. Inl unavailable)"
  "v_exists idle_vms = (\<lambda>h r op. Inl unavailable)"
  "v_act idle_vms = (\<lambda>h r op. Some unavailable)"
  "v_isNotFound idle_vms = (\<lambda>x. as_vast x = Some 404)"
  "v_expectStatus idle_vms = (\<lambda>x c. as_vast x = Some c)"
  "v_restString idle_vms = (cfg_Host)"
  by (simp_all add: idle_vms_def)

lemma idle_storage_sel:
  "s_listPVC idle_storage = (\<lambda>h ns sel. Inl unavailable)"
  "s_listPods idle_storage = (\<lambda>h ns. Inl unavailable)"
  "s_listVR idle_storage = (\<lambda>h ns sel. Inl unavailable)"
  "s_listVGR idle_storage = (\<lambda>h ns sel. Inl unavailable)"
  "s_getWorkload idle_storage = (\<lambda>h k ns n. Inl unavailable)"
  "s_putPV idle_storage = (\<lambda>h c. Inl unavailable)"
  "s_viewGetIn idle_storage = (\<lambda>h r n t. Inl unavailable)"
  "s_quotasList idle_storage = (\<lambda>h r p. Inl unavailable)"
  "s_snapshotsList idle_storage = (\<lambda>h r p n. Inl unavailable)"
  "s_viewCreate idle_storage = (\<lambda>h r p. Inl unavailable)"
  "s_volumeCreate idle_storage = (\<lambda>h r p. Inl unavailable)"
  "s_quotaCreate idle_storage = (\<lambda>h r p. Inl unavailable)"
  by (simp_all add: idle_storage_def)

lemma start_world_sel: "hist start_world = []" "clock start_world = 0" "warned start_world = False"
  by (simp_all add: start_world_def)

lemmas idle_simps = idle_env_sel idle_k8s_sel idle_vms_sel idle_storage_sel start_world_sel unavailable_def


declare poll_until.simps [simp del]

end
