(* ===== verification/K8sClient.thy ===== *)
theory K8sClient
  imports World
begin

text \<open>
  The wrapper around the Kubernetes client (internal/common/k8s_client): reads
  with their error wrapping, idempotent creates, status updates and patches that
  are retried on a conflict, finalizers, labels, the parent lookup behind the
  watches, and the label backfill of existing claims. The constants are those
  of internal/common/constants.go.
\<close>

section \<open>Constants\<close>

definition Domain :: string where "Domain = ''vastdata.com''"
definition CSIParameterPrefix :: string where "CSIParameterPrefix = ''csi.storage.k8s.io/''"
definition LabelSubsystem :: string where "LabelSubsystem = Domain @ ''/subsystem''"
definition LabelStorageClass :: string where "LabelStorageClass = Domain @ ''/storageClass''"
definition LabelManagedBy :: string where "LabelManagedBy = ''app.kubernetes.io/managed-by''"
definition LabelManagedByValue :: string where "LabelManagedByValue = ''vast-extensions-controller''"
definition LabelSourceVSCR :: string where "LabelSourceVSCR = Domain @ ''/source-vscr''"
definition LabelSourceVSCRNamespace :: string where
  "LabelSourceVSCRNamespace = Domain @ ''/source-vscr-namespace''"
definition LabelSourceVVR :: string where "LabelSourceVVR = Domain @ ''/source-vvr''"
definition LabelSourceVVRNamespace :: string where
  "LabelSourceVVRNamespace = Domain @ ''/source-vvr-namespace''"
definition StorageClassParameterSubsystem :: string where
  "StorageClassParameterSubsystem = ''subsystem''"
definition StorageClassParameterVolumeGroup :: string where
  "StorageClassParameterVolumeGroup = ''volume_group''"
definition StorageClassParameterRootExport :: string where
  "StorageClassParameterRootExport = ''root_export''"
definition FinalizerVSCR :: string where "FinalizerVSCR = Domain @ ''/vscr-protection''"
definition FinalizerVVR :: string where "FinalizerVVR = Domain @ ''/vvr-protection''"
definition AnnotationMirrorSyncRequestedAt :: string where
  "AnnotationMirrorSyncRequestedAt = Domain @ ''/mirror-sync-requested-at''"
definition AnnotationResyncRequestedAt :: string where
  "AnnotationResyncRequestedAt = Domain @ ''/resync-requested-at''"
definition CSIAddonsParamReplicationSecretName :: string where
  "CSIAddonsParamReplicationSecretName = ''replication.storage.openshift.io/replication-secret-name''"
definition CSIAddonsParamReplicationSecretNamespace :: string where
  "CSIAddonsParamReplicationSecretNamespace =
     ''replication.storage.openshift.io/replication-secret-namespace''"
definition CSIAddonsParamGroupReplicationSecretName :: string where
  "CSIAddonsParamGroupReplicationSecretName =
     ''replication.storage.openshift.io/group-replication-secret-name''"
definition CSIAddonsParamGroupReplicationSecretNamespace :: string where
  "CSIAddonsParamGroupReplicationSecretNamespace =
     ''replication.storage.openshift.io/group-replication-secret-namespace''"
definition ReplicationParamStorageClass :: string where
  "ReplicationParamStorageClass = Domain @ ''/storage-class''"
definition ReplicationParamSubsystem :: string where
  "ReplicationParamSubsystem = Domain @ ''/subsystem''"
definition ReplicationParamPpathName :: string where
  "ReplicationParamPpathName = Domain @ ''/ppath-name''"


section \<open>Reads\<close>

definition wrapGetError :: "string \<Rightarrow> string \<Rightarrow> string \<Rightarrow> err \<Rightarrow> err" where
  "wrapGetError kind name namespace err =
     (if Contains (Error_string err) ''no matches for''
         \<or> Contains (Error_string err) ''unable to retrieve the complete list of server APIs''
      then Errorf (''%s %q not found in namespace %q '' @ [CHR 0xE2, CHR 0x80, CHR 0x94] @
        '' are the VAST CRDs installed? (kubectl get crd | grep vastdata.com)'') [kind, name, namespace]
      else err)"

definition get_VSCR :: "env \<Rightarrow> string \<Rightarrow> string \<Rightarrow> (err + VSCR) io" where
  "get_VSCR e ns name =
     ask e (GetCall ''VastStorageClassReplication'' ns name) (\<lambda>h. k_getVSCR (e_k8s e) h ns name)"

definition GetVastStorageClassReplication :: "env \<Rightarrow> string \<Rightarrow> string \<Rightarrow> (err + VSCR) io" where
  "GetVastStorageClassReplication e name ns =
     wrapE (wrapGetError ''VastStorageClassReplication'' name ns) (get_VSCR e ns name)"

definition GetVastReplicationContent :: "env \<Rightarrow> string \<Rightarrow> string \<Rightarrow> (err + VRC) io" where
  "GetVastReplicationContent e name ns =
     ask e (GetCall ''VastReplicationContent'' ns name) (\<lambda>h. k_getVRC (e_k8s e) h ns name)"

definition ListVastReplicationContentsByLabelSelector ::
  "env \<Rightarrow> string \<Rightarrow> smap \<Rightarrow> (err + VRC list) io" where
  "ListVastReplicationContentsByLabelSelector e ns selector =
     wrapE (Errorf_w ''failed to list VastReplicationContents in %s: '' [ns])
       (ask e (ListCall ''VastReplicationContent'' ns selector) (\<lambda>h. k_listVRC (e_k8s e) h ns selector))"

definition GetVolumeReplication :: "env \<Rightarrow> string \<Rightarrow> string \<Rightarrow> (err + VR) io" where
  "GetVolumeReplication e name ns =
     ask e (GetCall ''VolumeReplication'' ns name) (\<lambda>h. k_getVR (e_k8s e) h ns name)"

definition GetVolumeGroupReplication :: "env \<Rightarrow> string \<Rightarrow> string \<Rightarrow> (err + VGR) io" where
  "GetVolumeGroupReplication e name ns =
     ask e (GetCall ''VolumeGroupReplication'' ns name) (\<lambda>h. k_getVGR (e_k8s e) h ns name)"

definition GetVolumeReplicationClass :: "env \<Rightarrow> string \<Rightarrow> string \<Rightarrow> (err + ReplicationClass) io" where
  "GetVolumeReplicationClass e name ns =
     ask e (GetCall ''VolumeReplicationClass'' ns name)
       (\<lambda>h. k_getClass (e_k8s e) h ''VolumeReplicationClass'' ns name)"

definition GetVolumeGroupReplicationClass ::
  "env \<Rightarrow> string \<Rightarrow> string \<Rightarrow> (err + ReplicationClass) io" where
  "GetVolumeGroupReplicationClass e name ns =
     ask e (GetCall ''VolumeGroupReplicationClass'' ns name)
       (\<lambda>h. k_getClass (e_k8s e) h ''VolumeGroupReplicationClass'' ns name)"

definition GetStorageClass :: "env \<Rightarrow> string \<Rightarrow> (err + StorageClass) io" where
  "GetStorageClass e scName =
     ask e (GetCall ''StorageClass'' [] scName) (\<lambda>h. k_getSC (e_k8s e) h scName)"

definition ScsFromStorageClasses ::
  "env \<Rightarrow> string list \<Rightarrow> (err + (string \<times> StorageClass) list) io" where
  "ScsFromStorageClasses e scNames =
     foldE (\<lambda>m scName.
       bindE (wrapE (Errorf_w ''failed to get StorageClass %s: '' [scName]) (GetStorageClass e scName))
         (\<lambda>sc. ret (Inr (AList.update scName sc m)))) [] scNames"

definition GetSecret :: "env \<Rightarrow> string \<Rightarrow> string \<Rightarrow> (err + smap) io" where
  "GetSecret e name ns =
     wrapE (Errorf_w ''failed to get secret %s/%s: '' [ns, name])
       (ask e (GetCall ''Secret'' ns name) (\<lambda>h. k_getSecret (e_k8s e) h ns name))"

definition missing_key :: "string \<Rightarrow> string \<Rightarrow> string \<Rightarrow> err" where
  "missing_key ns name key =
     Errorf (''secret %s/%s is missing key '' @ [CHR 0x27] @ ''%s'' @ [CHR 0x27]) [ns, name, key]"

definition GetSecretValue :: "env \<Rightarrow> string \<Rightarrow> string \<Rightarrow> string \<Rightarrow> (err + string) io" where
  "GetSecretValue e name ns key =
     bindE (GetSecret e name ns) (\<lambda>data. ret (case map_of data key of
         Some v \<Rightarrow> if v = [] then Inl (missing_key ns name key) else Inr v
       | None \<Rightarrow> Inl (missing_key ns name key)))"

definition GetPVC :: "env \<Rightarrow> string \<Rightarrow> string \<Rightarrow> (err + PVC) io" where
  "GetPVC e name ns =
     ask e (GetCall ''PersistentVolumeClaim'' ns name) (\<lambda>h. k_getPVC (e_k8s e) h ns name)"

definition GetPV :: "env \<Rightarrow> string \<Rightarrow> (err + PV) io" where
  "GetPV e name = ask e (GetCall ''PersistentVolume'' [] name) (\<lambda>h. k_getPV (e_k8s e) h name)"

definition GetPVFromPVC :: "env \<Rightarrow> PVC \<Rightarrow> (err + PV option) io" where
  "GetPVFromPVC e pvc =
     (let pvName = pvc_VolumeName pvc in
      if pvName = [] then ret (Inr None)
      else GetPV e pvName \<bind> (\<lambda>r. ret (case r of
          Inr pv \<Rightarrow> Inr (Some pv)
        | Inl x \<Rightarrow> Inl (if IsNotFound x
            then Errorf_w ''PV %s does not exist for PVC %s/%s: '' [pvName, oNamespace pvc, oName pvc] x
            else x))))"

text \<open>The Boolean of the source, whether the claim is bound, is whether the volume is present.\<close>

definition GetPVCandPV :: "env \<Rightarrow> string \<Rightarrow> string \<Rightarrow> (err + PVC \<times> PV option) io" where
  "GetPVCandPV e pvcName ns =
     bindE (GetPVC e pvcName ns) (\<lambda>pvc. bindE (GetPVFromPVC e pvc) (\<lambda>pv. ret (Inr (pvc, pv))))"

definition GetPVCClass :: "PVC \<Rightarrow> err + string" where
  "GetPVCClass claim =
     (case map_of (oAnnotations claim) ''volume.beta.kubernetes.io/storage-class'' of
        Some class \<Rightarrow> Inr class
      | None \<Rightarrow> (case pvc_StorageClassName claim of
          Some n \<Rightarrow> Inr n
        | None \<Rightarrow> Inl (Errorf ''Failed to get storageClass name from persistentVolumeClaim %s''
            [oName claim])))"

definition ListAllPVCs :: "env \<Rightarrow> (err + PVC list) io" where
  "ListAllPVCs e =
     wrapE (Errorf_w ''failed to list PVCs cluster-wide: '' [])
       (ask e (ListCall ''PersistentVolumeClaim'' [] []) (\<lambda>h. k_listPVC (e_k8s e) h))"


section \<open>Parameters and labels\<close>

definition ExtractNonPrefixedParams :: "string \<Rightarrow> smap \<Rightarrow> smap" where
  "ExtractNonPrefixedParams pfx params = filter (\<lambda>(k, _). \<not> HasPrefix k pfx) params"

definition ExtractPrefixedParams :: "string \<Rightarrow> smap \<Rightarrow> smap" where
  "ExtractPrefixedParams pfx params =
     map (\<lambda>(k, v). (TrimPrefix k pfx, v)) (filter (\<lambda>(k, _). HasPrefix k pfx) params)"

definition IsBlockStorageClass :: "StorageClass \<Rightarrow> bool" where
  "IsBlockStorageClass sc =
     (let hasSubsystem = map_of (sc_Parameters sc) StorageClassParameterSubsystem \<noteq> None;
          hasRootExport = map_of (sc_Parameters sc) StorageClassParameterRootExport \<noteq> None in
      if hasSubsystem \<and> hasRootExport
      then (if HasPrefix (sc_Provisioner sc) ''block'' then True else False)
      else hasSubsystem)"

definition HasLabel :: "'a ObjectMeta_scheme \<Rightarrow> string \<Rightarrow> bool" where
  "HasLabel obj key = (map_of (oLabels obj) key \<noteq> None)"

definition SetLabel :: "string \<Rightarrow> string \<Rightarrow> 'a ObjectMeta_scheme \<Rightarrow> 'a ObjectMeta_scheme" where
  "SetLabel key value obj = obj\<lparr>oLabels := AList.update key value (oLabels obj)\<rparr>"

definition SetAnnotation :: "string \<Rightarrow> string \<Rightarrow> 'a ObjectMeta_scheme \<Rightarrow> 'a ObjectMeta_scheme" where
  "SetAnnotation key value obj = obj\<lparr>oAnnotations := AList.update key value (oAnnotations obj)\<rparr>"

fun OwnerByKind :: "OwnerReference list \<Rightarrow> string \<Rightarrow> OwnerReference option" where
  "OwnerByKind [] kind = None"
| "OwnerByKind (r # refs) kind = (if ref_Kind r = kind then Some r else OwnerByKind refs kind)"

definition ParentNamespace :: "smap \<Rightarrow> string \<Rightarrow> string \<Rightarrow> string" where
  "ParentNamespace labels nsKey fallback =
     (let ns = TrimSpace (lookup_str labels nsKey) in if ns \<noteq> [] then ns else fallback)"

definition ParentCRFromObject ::
  "'a ObjectMeta_scheme \<Rightarrow> string \<Rightarrow> string \<Rightarrow> string \<Rightarrow> string \<times> string" where
  "ParentCRFromObject obj nameLabel nsLabel ownerKind =
     (let name = lookup_str (oLabels obj) nameLabel;
          n = ParentNamespace (oLabels obj) nsLabel [];
          ns = (if n \<noteq> [] then n else oNamespace obj) in
      if name = [] then
        (case OwnerByKind (oOwners obj) ownerKind of
           Some ref \<Rightarrow> (ref_Name ref, oNamespace obj)
         | None \<Rightarrow> (name, ns))
      else (name, ns))"

definition MapToParentCR ::
  "string \<Rightarrow> string \<Rightarrow> string \<Rightarrow> 'a ObjectMeta_scheme \<Rightarrow> (string \<times> string) list" where
  "MapToParentCR nameLabel nsLabel ownerKind obj =
     (let (name, ns) = ParentCRFromObject obj nameLabel nsLabel ownerKind in
      if name = [] then [] else [(name, ns)])"


section \<open>Writes\<close>

text \<open>\<^verbatim>\<open>retry.RetryOnConflict\<close>: the attempt is made again while it reports a conflict and steps are
  left. The attempt works on the in-memory object and returns it.\<close>

abbreviation IsConflict :: "err \<Rightarrow> bool" where
  "IsConflict x \<equiv> ReasonForError x = ''Conflict''"

fun retry_loop :: "nat \<Rightarrow> ('o \<Rightarrow> (err option \<times> 'o) io) \<Rightarrow> 'o \<Rightarrow> (err option \<times> 'o) io" where
  "retry_loop 0 attempt obj = attempt obj"
| "retry_loop (Suc n) attempt obj =
     attempt obj \<bind> (\<lambda>(r, obj'). case r of
         None \<Rightarrow> ret (None, obj')
       | Some x \<Rightarrow> if IsConflict x then retry_loop n attempt obj' else ret (Some x, obj'))"

definition RetryOnConflict ::
  "env \<Rightarrow> ('o \<Rightarrow> (err option \<times> 'o) io) \<Rightarrow> 'o \<Rightarrow> (err option \<times> 'o) io" where
  "RetryOnConflict e attempt obj = retry_loop (e_retrySteps e) attempt obj"

definition refreshObjectMetadata ::
  "(string \<Rightarrow> string \<Rightarrow> (err + 'a ObjectMeta_scheme) io) \<Rightarrow> 'a ObjectMeta_scheme
     \<Rightarrow> (err option \<times> 'a ObjectMeta_scheme) io" where
  "refreshObjectMetadata get obj =
     get (oNamespace obj) (oName obj) \<bind> (\<lambda>r. ret (case r of
         Inl x \<Rightarrow> (Some x, obj)
       | Inr fresh \<Rightarrow> (None, obj\<lparr>oGeneration := oGeneration fresh, oUID := oUID fresh\<rparr>)))"

text \<open>The attempt of finalizerRetryOnConflictFunc, UpdateVastStorageClassReplication and
  UpdateStatusWithRetry: a write of the object, and on a conflict a refresh of its metadata.\<close>

definition update_attempt ::
  "(string \<Rightarrow> string \<Rightarrow> (err + 'a ObjectMeta_scheme) io)
     \<Rightarrow> ('a ObjectMeta_scheme \<Rightarrow> (err + 'a ObjectMeta_scheme) io)
     \<Rightarrow> 'a ObjectMeta_scheme \<Rightarrow> (err option \<times> 'a ObjectMeta_scheme) io" where
  "update_attempt get write obj =
     write obj \<bind> (\<lambda>r. case r of
         Inr stored \<Rightarrow> ret (None, stored)
       | Inl x \<Rightarrow> if IsConflict x
           then refreshObjectMetadata get obj \<bind> (\<lambda>(r', obj'). ret (case r' of
                    Some y \<Rightarrow> (Some y, obj') | None \<Rightarrow> (Some x, obj')))
           else ret (Some x, obj))"

definition UpdateStatusWithRetry ::
  "env \<Rightarrow> (string \<Rightarrow> string \<Rightarrow> (err + 'a ObjectMeta_scheme) io)
     \<Rightarrow> ('a ObjectMeta_scheme \<Rightarrow> (err + 'a ObjectMeta_scheme) io)
     \<Rightarrow> 'a ObjectMeta_scheme \<Rightarrow> (err option \<times> 'a ObjectMeta_scheme) io" where
  "UpdateStatusWithRetry e get write obj = RetryOnConflict e (update_attempt get write) obj"

definition updateFinalizerWithRetry ::
  "env \<Rightarrow> (string \<Rightarrow> string \<Rightarrow> (err + 'a ObjectMeta_scheme) io)
     \<Rightarrow> ('a ObjectMeta_scheme \<Rightarrow> (err + 'a ObjectMeta_scheme) io)
     \<Rightarrow> 'a ObjectMeta_scheme \<Rightarrow> (err option \<times> 'a ObjectMeta_scheme) io" where
  "updateFinalizerWithRetry e get write obj = RetryOnConflict e (update_attempt get write) obj"

definition PatchWithRetry ::
  "env \<Rightarrow> (string \<Rightarrow> string \<Rightarrow> (err + 'a ObjectMeta_scheme) io)
     \<Rightarrow> ('a ObjectMeta_scheme \<Rightarrow> (err + 'a ObjectMeta_scheme) io)
     \<Rightarrow> ('a ObjectMeta_scheme \<Rightarrow> 'a ObjectMeta_scheme)
     \<Rightarrow> 'a ObjectMeta_scheme \<Rightarrow> (err option \<times> 'a ObjectMeta_scheme) io" where
  "PatchWithRetry e get write mutateFn obj =
     RetryOnConflict e (\<lambda>o1. get (oNamespace obj) (oName obj) \<bind> (\<lambda>r. case r of
         Inl x \<Rightarrow> ret (Some x, o1)
       | Inr fresh \<Rightarrow> write (mutateFn fresh) \<bind> (\<lambda>r'. ret (case r' of
             Inl x \<Rightarrow> (Some x, mutateFn fresh)
           | Inr stored \<Rightarrow> (None, stored))))) obj"

text \<open>Finalizers. \<open>EnsureFinalizer\<close> returns whether the finalizer was added, next to the error of the
  update: the source returns true together with an error.\<close>

definition HasFinalizer :: "env \<Rightarrow> 'a ObjectMeta_scheme \<Rightarrow> string \<Rightarrow> bool" where
  "HasFinalizer e obj finalizer = k_containsFinalizer (e_k8s e) (oFinalizers obj) finalizer"

definition EnsureFinalizer ::
  "env \<Rightarrow> (string \<Rightarrow> string \<Rightarrow> (err + 'a ObjectMeta_scheme) io)
     \<Rightarrow> ('a ObjectMeta_scheme \<Rightarrow> (err + 'a ObjectMeta_scheme) io)
     \<Rightarrow> string \<Rightarrow> 'a ObjectMeta_scheme \<Rightarrow> (bool \<times> err option \<times> 'a ObjectMeta_scheme) io" where
  "EnsureFinalizer e get write finalizer obj =
     (let (added, fins) = k_addFinalizer (e_k8s e) (oFinalizers obj) finalizer;
          obj' = obj\<lparr>oFinalizers := fins\<rparr> in
      if added
      then updateFinalizerWithRetry e get write obj' \<bind> (\<lambda>(r, obj''). ret (True, r, obj''))
      else ret (False, None, obj'))"

definition RemoveFinalizer ::
  "env \<Rightarrow> (string \<Rightarrow> string \<Rightarrow> (err + 'a ObjectMeta_scheme) io)
     \<Rightarrow> ('a ObjectMeta_scheme \<Rightarrow> (err + 'a ObjectMeta_scheme) io)
     \<Rightarrow> string \<Rightarrow> 'a ObjectMeta_scheme \<Rightarrow> (err option \<times> 'a ObjectMeta_scheme) io" where
  "RemoveFinalizer e get write finalizer obj =
     (let (removed, fins) = k_removeFinalizer (e_k8s e) (oFinalizers obj) finalizer;
          obj' = obj\<lparr>oFinalizers := fins\<rparr> in
      if removed
      then updateFinalizerWithRetry e get write obj' \<bind> (\<lambda>(r, obj''). ret (case r of
               Some x \<Rightarrow> (if IsNotFound x then None else Some x, obj'')
             | None \<Rightarrow> (None, obj'')))
      else ret (None, obj'))"

text \<open>VastStorageClassReplication objects.\<close>

definition put_VSCR :: "env \<Rightarrow> (VSCR \<Rightarrow> call) \<Rightarrow> VSCR \<Rightarrow> (err + VSCR) io" where
  "put_VSCR e c v = ask e (c v) (\<lambda>h. k_putVSCR (e_k8s e) h (c v))"

definition wrap_put ::
  "string \<Rightarrow> (err option \<times> 'a ObjectMeta_scheme) io \<Rightarrow> (err option \<times> 'a ObjectMeta_scheme) io" where
  "wrap_put fmt m = m \<bind> (\<lambda>(r, v). ret (case r of
       None \<Rightarrow> None | Some x \<Rightarrow> Some (Errorf_w fmt [oNamespace v, oName v] x), v))"

definition UpdateVastStorageClassReplication :: "env \<Rightarrow> VSCR \<Rightarrow> (err option \<times> VSCR) io" where
  "UpdateVastStorageClassReplication e v =
     wrap_put ''failed to update VastStorageClassReplication %s/%s: ''
       (RetryOnConflict e (update_attempt (get_VSCR e) (put_VSCR e UpdateVSCR)) v)"

definition UpdateVastStorageClassReplicationStatus :: "env \<Rightarrow> VSCR \<Rightarrow> (err option \<times> VSCR) io" where
  "UpdateVastStorageClassReplicationStatus e v =
     wrap_put ''failed to update VastStorageClassReplication status %s/%s: ''
       (UpdateStatusWithRetry e (get_VSCR e) (put_VSCR e UpdateVSCRStatus) v)"

definition PatchVSCRResync :: "env \<Rightarrow> VSCR \<Rightarrow> (err option \<times> VSCR) io" where
  "PatchVSCRResync e v =
     wrap_put ''failed to clear Resync on VastStorageClassReplication %s/%s: ''
       (PatchWithRetry e (get_VSCR e) (put_VSCR e PatchVSCR)
          (\<lambda>u. u\<lparr>vscr_Spec := (vscr_Spec u)\<lparr>Resync := False\<rparr>\<rparr>) v)"


text \<open>Idempotent creation: nothing is created when a read finds the object, and an object another
  process created in between counts as present.\<close>

definition ensure_object :: "string \<Rightarrow> (err + 'a) io \<Rightarrow> err option io \<Rightarrow> (err + bool) io" where
  "ensure_object what get create =
     get \<bind> (\<lambda>r. case r of
         Inr _ \<Rightarrow> ret (Inr False)
       | Inl x \<Rightarrow>
           if \<not> IsNotFound x then ret (Inl (Errorf_w ''failed to check for existing %s: '' [what] x))
           else create \<bind> (\<lambda>c. ret (case c of
               None \<Rightarrow> Inr True
             | Some y \<Rightarrow> if IsAlreadyExists y then Inr False
                          else Inl (Errorf_w ''failed to create %s: '' [what] y))))"

definition k8s_write :: "env \<Rightarrow> call \<Rightarrow> err option io" where
  "k8s_write e c = ask e c (\<lambda>h. k_write (e_k8s e) h c)"

definition object_path :: "string \<Rightarrow> string \<Rightarrow> string \<Rightarrow> string" where
  "object_path kind ns name = kind @ '' '' @ ns @ ''/'' @ name"

definition EnsureVolumeReplication :: "env \<Rightarrow> VR \<Rightarrow> (err + bool) io" where
  "EnsureVolumeReplication e vr =
     ensure_object (object_path ''VolumeReplication'' (oNamespace vr) (oName vr))
       (GetVolumeReplication e (oName vr) (oNamespace vr)) (k8s_write e (CreateVR vr))"

definition EnsureVolumeGroupReplication :: "env \<Rightarrow> VGR \<Rightarrow> (err + bool) io" where
  "EnsureVolumeGroupReplication e vgr =
     ensure_object (object_path ''VolumeGroupReplication'' (oNamespace vgr) (oName vgr))
       (GetVolumeGroupReplication e (oName vgr) (oNamespace vgr)) (k8s_write e (CreateVGR vgr))"

definition EnsureVolumeReplicationClass :: "env \<Rightarrow> ReplicationClass \<Rightarrow> (err + bool) io" where
  "EnsureVolumeReplicationClass e vrc =
     ensure_object (object_path ''VolumeReplicationClass'' (oNamespace vrc) (oName vrc))
       (GetVolumeReplicationClass e (oName vrc) (oNamespace vrc))
       (k8s_write e (CreateClass ''VolumeReplicationClass'' vrc))"

definition EnsureVolumeGroupReplicationClass :: "env \<Rightarrow> ReplicationClass \<Rightarrow> (err + bool) io" where
  "EnsureVolumeGroupReplicationClass e vgrc =
     ensure_object (object_path ''VolumeGroupReplicationClass'' (oNamespace vgrc) (oName vgrc))
       (GetVolumeGroupReplicationClass e (oName vgrc) (oNamespace vgrc))
       (k8s_write e (CreateClass ''VolumeGroupReplicationClass'' vgrc))"

fun state_string :: "ReplicationState \<Rightarrow> string" where
  "state_string Primary = ''primary''"
| "state_string Secondary = ''secondary''"
| "state_string ResyncState = ''resync''"
| "state_string (OtherState s) = s"

definition PatchVolumeReplicationState :: "env \<Rightarrow> VR \<Rightarrow> ReplicationState \<Rightarrow> err option io" where
  "PatchVolumeReplicationState e vr st =
     (let name = oName vr; ns = oNamespace vr in
      RetryOnConflict e (\<lambda>_. GetVolumeReplication e name ns \<bind> (\<lambda>r. case r of
          Inl x \<Rightarrow> ret (Some x, ())
        | Inr fresh \<Rightarrow>
            if vr_ReplicationState fresh = st then ret (None, ())
            else k8s_write e (PatchVR (fresh\<lparr>vr_ReplicationState := st\<rparr>)) \<bind> (\<lambda>p. ret (case p of
                None \<Rightarrow> None
              | Some x \<Rightarrow> Some (Errorf_w ''failed to patch VolumeReplication %s/%s replicationState to %q: ''
                  [ns, name, state_string st] x), ())))) ()
      \<bind> (\<lambda>(r, _). ret r))"

definition PatchVolumeGroupReplicationState :: "env \<Rightarrow> VGR \<Rightarrow> ReplicationState \<Rightarrow> err option io" where
  "PatchVolumeGroupReplicationState e vgr st =
     (let name = oName vgr; ns = oNamespace vgr in
      RetryOnConflict e (\<lambda>_. GetVolumeGroupReplication e name ns \<bind> (\<lambda>r. case r of
          Inl x \<Rightarrow> ret (Some x, ())
        | Inr fresh \<Rightarrow>
            if vgr_ReplicationState fresh = st then ret (None, ())
            else k8s_write e (PatchVGR (fresh\<lparr>vgr_ReplicationState := st\<rparr>)) \<bind> (\<lambda>p. ret (case p of
                None \<Rightarrow> None
              | Some x \<Rightarrow> Some (Errorf_w
                  ''failed to patch VolumeGroupReplication %s/%s replicationState to %q: ''
                  [ns, name, state_string st] x), ())))) ()
      \<bind> (\<lambda>(r, _). ret r))"

definition DeleteVolumeReplication :: "env \<Rightarrow> string \<Rightarrow> string \<Rightarrow> (err + unit) io" where
  "DeleteVolumeReplication e name ns =
     k8s_write e (DeleteCall ''VolumeReplication'' ns name) \<bind> (\<lambda>r. ret (case r of
         Some x \<Rightarrow> if IsNotFound x then Inr ()
           else Inl (Errorf_w ''failed to delete VolumeReplication %s/%s: '' [ns, name] x)
       | None \<Rightarrow> Inr ()))"

definition DeleteVolumeGroupReplication :: "env \<Rightarrow> string \<Rightarrow> string \<Rightarrow> (err + unit) io" where
  "DeleteVolumeGroupReplication e name ns =
     k8s_write e (DeleteCall ''VolumeGroupReplication'' ns name) \<bind> (\<lambda>r. ret (case r of
         Some x \<Rightarrow> if IsNotFound x then Inr ()
           else Inl (Errorf_w ''failed to delete VolumeGroupReplication %s/%s: '' [ns, name] x)
       | None \<Rightarrow> Inr ()))"

definition IsVRConfirmedPrimary :: "VR \<Rightarrow> bool" where
  "IsVRConfirmedPrimary vr = (vr_ReplicationState vr = Primary \<and> vr_State vr = PrimaryState)"

definition IsVGRConfirmedPrimary :: "VGR \<Rightarrow> bool" where
  "IsVGRConfirmedPrimary vgr = (vgr_ReplicationState vgr = Primary \<and> vgr_State vgr = PrimaryState)"


section \<open>VastReplicationContent objects\<close>

text \<open>The select of the source waits for the context or the timer, whichever comes first: the context
  answers an error in the model when it is done before the timer fires.\<close>

definition WaitForVRC :: "env \<Rightarrow> string \<Rightarrow> string \<Rightarrow> duration \<Rightarrow> (err + unit) io" where
  "WaitForVRC e ns name timeout =
     poll timeout (200 * Millisecond)
       (Errorf ''timed out waiting for VRC %s/%s to be created after %s''
          [ns, name, Duration_String timeout])
       (GetVastReplicationContent e name ns \<bind> (\<lambda>r. ret (case r of
            Inr _ \<Rightarrow> Inr (Some ())
          | Inl x \<Rightarrow> if \<not> IsNotFound x
              then Inl (Errorf_w ''checking for VRC %s/%s: '' [ns, name] x) else Inr None)))
       (ctx_Done e \<bind> (\<lambda>done. case done of
            Some x \<Rightarrow> ret (Some x)
          | None \<Rightarrow> time_Sleep e (200 * Millisecond) \<bind> (\<lambda>_. ret None)))"

definition put_VRC :: "env \<Rightarrow> (VRC \<Rightarrow> call) \<Rightarrow> VRC \<Rightarrow> (err + VRC) io" where
  "put_VRC e c v = ask e (c v) (\<lambda>h. k_putVRC (e_k8s e) h (c v))"

definition get_VRC :: "env \<Rightarrow> string \<Rightarrow> string \<Rightarrow> (err + VRC) io" where
  "get_VRC e ns n = GetVastReplicationContent e n ns"

definition SetAnnotationAndUpdate :: "env \<Rightarrow> (string \<Rightarrow> string \<Rightarrow> (err + 'a ObjectMeta_scheme) io)
     \<Rightarrow> ('a ObjectMeta_scheme \<Rightarrow> (err + 'a ObjectMeta_scheme) io) \<Rightarrow> string \<Rightarrow> string
     \<Rightarrow> 'a ObjectMeta_scheme \<Rightarrow> (err option \<times> 'a ObjectMeta_scheme) io" where
  "SetAnnotationAndUpdate e get write key value obj =
     PatchWithRetry e get write (SetAnnotation key value) obj \<bind> (\<lambda>(r, obj'). ret (case r of
         None \<Rightarrow> None
       | Some x \<Rightarrow> Some (Errorf_w ''failed to patch annotation %q on %s/%s: ''
                      [key, oNamespace obj', oName obj'] x), obj'))"

definition SetAnnotationAndUpdate_VRC :: "env \<Rightarrow> string \<Rightarrow> string \<Rightarrow> VRC \<Rightarrow> (err + unit) io" where
  "SetAnnotationAndUpdate_VRC e key value vrc =
     SetAnnotationAndUpdate e (get_VRC e) (put_VRC e PatchVRC) key value vrc
     \<bind> (\<lambda>(r, _). ret (optE r))"

text \<open>The result is the list of touched names; the source returns the names touched so far next to
  an error, which no caller reads.\<close>

definition touchVRCsForStorageClasses ::
  "env \<Rightarrow> VSCR \<Rightarrow> string list \<Rightarrow> string \<Rightarrow> (err + string list) io" where
  "touchVRCsForStorageClasses e vscr storageClasses annotationKey =
     time_Now \<bind> (\<lambda>now. foldE (\<lambda>touched scName.
       let vrcName = oName vscr @ ''-'' @ scName; ns = vscr_PVCNamespace vscr in
       GetVastReplicationContent e vrcName ns \<bind> (\<lambda>r. case r of
           Inl x \<Rightarrow> if IsNotFound x then ret (Inr touched)
                     else ret (Inl (Errorf_w ''get VRC %s/%s: '' [ns, vrcName] x))
         | Inr vrc \<Rightarrow> bindE (wrapE (Errorf_w ''touch VRC %s/%s: '' [ns, vrcName])
                         (SetAnnotationAndUpdate_VRC e annotationKey (Format_RFC3339 now) vrc))
                       (\<lambda>_. ret (Inr (touched @ [vrcName]))))) [] storageClasses)"

definition TouchConstellationVRCs :: "env \<Rightarrow> VSCR \<Rightarrow> (err + string list) io" where
  "TouchConstellationVRCs e vscr =
     touchVRCsForStorageClasses e vscr (AllStorageClasses (vscr_Spec vscr)) AnnotationResyncRequestedAt"

definition TouchSecondaryVRCs :: "env \<Rightarrow> VSCR \<Rightarrow> (err + string list) io" where
  "TouchSecondaryVRCs e vscr =
     touchVRCsForStorageClasses e vscr
       (filter (\<lambda>sc. sc \<noteq> PrimaryStorageClass (vscr_Spec vscr)) (AllStorageClasses (vscr_Spec vscr)))
       AnnotationMirrorSyncRequestedAt"


section \<open>What the wrappers may request\<close>

lemma within_retry [moves_intro]:
  "(\<And>v. within S (attempt v)) \<Longrightarrow> within S (RetryOnConflict e attempt v)"
proof -
  assume *: "\<And>v. within S (attempt v)"
  have "within S (retry_loop n attempt v)" for n
    by (induction n arbitrary: v) (auto intro!: issues_rules *)
  then show ?thesis by (simp add: RetryOnConflict_def)
qed

lemma within_reads [moves_intro]:
  "KRead \<in> S \<Longrightarrow> within S (get_VSCR e ns n)"
  "KRead \<in> S \<Longrightarrow> within S (GetVastStorageClassReplication e n ns)"
  "KRead \<in> S \<Longrightarrow> within S (GetVastReplicationContent e n ns)"
  "KRead \<in> S \<Longrightarrow> within S (ListVastReplicationContentsByLabelSelector e ns sel)"
  "KRead \<in> S \<Longrightarrow> within S (GetVolumeReplication e n ns)"
  "KRead \<in> S \<Longrightarrow> within S (GetVolumeGroupReplication e n ns)"
  "KRead \<in> S \<Longrightarrow> within S (GetVolumeReplicationClass e n ns)"
  "KRead \<in> S \<Longrightarrow> within S (GetVolumeGroupReplicationClass e n ns)"
  "KRead \<in> S \<Longrightarrow> within S (GetStorageClass e n)"
  "KRead \<in> S \<Longrightarrow> within S (GetSecret e n ns)"
  "KRead \<in> S \<Longrightarrow> within S (GetPVC e n ns)"
  "KRead \<in> S \<Longrightarrow> within S (GetPV e n)"
  "KRead \<in> S \<Longrightarrow> within S (ListAllPVCs e)"
  by (auto simp: get_VSCR_def GetVastStorageClassReplication_def GetVastReplicationContent_def
      ListVastReplicationContentsByLabelSelector_def GetVolumeReplication_def
      GetVolumeGroupReplication_def GetVolumeReplicationClass_def GetVolumeGroupReplicationClass_def
      GetStorageClass_def GetSecret_def GetPVC_def GetPV_def ListAllPVCs_def intro!: issues_rules)

lemma within_reads2 [moves_intro]:
  "KRead \<in> S \<Longrightarrow> within S (GetSecretValue e n ns key)"
  "KRead \<in> S \<Longrightarrow> within S (GetPVFromPVC e pvc)"
  "KRead \<in> S \<Longrightarrow> within S (ScsFromStorageClasses e scs)"
  by (auto simp: GetSecretValue_def GetPVFromPVC_def ScsFromStorageClasses_def
      intro!: issues_rules within_reads)

lemma within_GetPVCandPV [moves_intro]: "KRead \<in> S \<Longrightarrow> within S (GetPVCandPV e n ns)"
  unfolding GetPVCandPV_def by (intro issues_rules within_reads within_reads2)

lemma within_write [moves_intro]:
  "kind_of c \<in> S \<Longrightarrow> within S (k8s_write e c)"
  "kind_of (b v) \<in> S \<Longrightarrow> within S (put_VSCR e b v)"
  "kind_of (d u) \<in> S \<Longrightarrow> within S (put_VRC e d u)"
  by (auto simp: k8s_write_def put_VSCR_def put_VRC_def intro!: issues_rules)

lemma within_update_attempt [moves_intro]:
  "(\<And>ns n. within S (get ns n)) \<Longrightarrow> (\<And>v. within S (write v)) \<Longrightarrow>
   within S (update_attempt get write v)"
  unfolding update_attempt_def refreshObjectMetadata_def by (auto intro!: issues_rules)

lemma within_PatchWithRetry [moves_intro]:
  "(\<And>ns n. within S (get ns n)) \<Longrightarrow> (\<And>v. within S (write v)) \<Longrightarrow>
   within S (PatchWithRetry e get write f v)"
  unfolding PatchWithRetry_def by (auto intro!: issues_rules within_retry)

lemma within_finalizers [moves_intro]:
  "(\<And>ns n. within S (get ns n)) \<Longrightarrow> (\<And>v. within S (write v)) \<Longrightarrow>
   within S (EnsureFinalizer e get write f v)"
  "(\<And>ns n. within S (get ns n)) \<Longrightarrow> (\<And>v. within S (write v)) \<Longrightarrow>
   within S (RemoveFinalizer e get write f v)"
  unfolding EnsureFinalizer_def RemoveFinalizer_def updateFinalizerWithRetry_def
  by (auto intro!: issues_rules within_retry within_update_attempt split: prod.split)

lemma within_VSCR [moves_intro]:
  "KRead \<in> S \<Longrightarrow> KUpdateVSCR \<in> S \<Longrightarrow> within S (UpdateVastStorageClassReplication e v)"
  "KRead \<in> S \<Longrightarrow> KStatusVSCR \<in> S \<Longrightarrow> within S (UpdateVastStorageClassReplicationStatus e v)"
  "KRead \<in> S \<Longrightarrow> KPatchVSCR \<in> S \<Longrightarrow> within S (PatchVSCRResync e v)"
  unfolding UpdateVastStorageClassReplication_def UpdateVastStorageClassReplicationStatus_def
    PatchVSCRResync_def wrap_put_def UpdateStatusWithRetry_def
  by (auto intro!: issues_rules within_retry within_update_attempt within_PatchWithRetry
      within_reads within_write)

lemma within_ensure [moves_intro]:
  "within S get \<Longrightarrow> within S create \<Longrightarrow> within S (ensure_object what get create)"
  unfolding ensure_object_def by (auto intro!: issues_rules)

lemma within_ensures [moves_intro]:
  "KRead \<in> S \<Longrightarrow> KCreateVR \<in> S \<Longrightarrow> within S (EnsureVolumeReplication e vr)"
  "KRead \<in> S \<Longrightarrow> KCreateVGR \<in> S \<Longrightarrow> within S (EnsureVolumeGroupReplication e vgr)"
  "KRead \<in> S \<Longrightarrow> KCreateClass \<in> S \<Longrightarrow> within S (EnsureVolumeReplicationClass e c)"
  "KRead \<in> S \<Longrightarrow> KCreateClass \<in> S \<Longrightarrow> within S (EnsureVolumeGroupReplicationClass e c)"
  unfolding EnsureVolumeReplication_def EnsureVolumeGroupReplication_def
    EnsureVolumeReplicationClass_def EnsureVolumeGroupReplicationClass_def
  by (auto intro!: within_ensure within_reads within_write)

lemma within_patch_state [moves_intro]:
  "KRead \<in> S \<Longrightarrow> KPatchVR \<in> S \<Longrightarrow> within S (PatchVolumeReplicationState e vr st)"
  "KRead \<in> S \<Longrightarrow> KPatchVGR \<in> S \<Longrightarrow> within S (PatchVolumeGroupReplicationState e vgr st)"
  unfolding PatchVolumeReplicationState_def PatchVolumeGroupReplicationState_def
  by (auto simp: Let_def intro!: issues_rules within_retry within_reads within_write)

lemma within_delete [moves_intro]:
  "KDelete \<in> S \<Longrightarrow> within S (DeleteVolumeReplication e n ns)"
  "KDelete \<in> S \<Longrightarrow> within S (DeleteVolumeGroupReplication e n ns)"
  unfolding DeleteVolumeReplication_def DeleteVolumeGroupReplication_def
  by (auto intro!: issues_rules within_write)

lemma within_WaitForVRC [moves_intro]:
  "KRead \<in> S \<Longrightarrow> KSleep \<in> S \<Longrightarrow> within S (WaitForVRC e ns n t)"
  unfolding WaitForVRC_def by (auto intro!: issues_poll issues_rules within_reads)

lemma within_touch [moves_intro]:
  "KRead \<in> S \<Longrightarrow> KPatchVRC \<in> S \<Longrightarrow> within S (touchVRCsForStorageClasses e v scs k)"
  unfolding touchVRCsForStorageClasses_def SetAnnotationAndUpdate_VRC_def SetAnnotationAndUpdate_def
    get_VRC_def Let_def
  by (auto intro!: issues_rules within_PatchWithRetry within_reads within_write)

end
