(* ===== verification/Vmsrest.thy ===== *)
theory Vmsrest
  imports K8sClient
begin

text \<open>
  The helpers around the VAST REST client (internal/common/vmsrest): building a
  client from a StorageClass, a claim or a secret (vmsrest.go), the polling
  primitives (wait.go), folders (folders.go), view policies (viewpolicy.go) and
  the tenant of a StorageClass (tenant.go). The client itself is
  go-vast-client; its answers come from the environment.
\<close>

section \<open>Clients\<close>

definition vms :: "env \<Rightarrow> rest \<Rightarrow> vms_op \<Rightarrow> (history \<Rightarrow> 'a) \<Rightarrow> 'a io" where
  "vms e rest op reply = ask e (VmsCall rest op) reply"

definition New ::
  "env \<Rightarrow> string \<Rightarrow> string \<Rightarrow> string \<Rightarrow> string \<Rightarrow> string \<Rightarrow> bool \<Rightarrow> (err + rest) io" where
  "New e username password endpoint tenant token sslVerify =
     (let config = \<lparr>cfg_Host = endpoint, cfg_Username = username, cfg_Password = password,
                    cfg_Tenant = tenant, cfg_Token = token, cfg_SslVerify = sslVerify\<rparr> in
      ask e (NewRestCall config) (\<lambda>h. v_newRest (e_vms e) h config) \<bind> (\<lambda>r. ret (case r of
          Some x \<Rightarrow> Inl x | None \<Rightarrow> Inr config)))"

definition NewFromSecretData :: "env \<Rightarrow> smap \<Rightarrow> bool \<Rightarrow> (err + rest) io" where
  "NewFromSecretData e secretData sslVerify =
     (let username = lookup_str secretData ''username''; password = lookup_str secretData ''password'';
          token = lookup_str secretData ''token''; tenant = lookup_str secretData ''tenant'';
          endpoint = lookup_str secretData ''endpoint'' in
      if endpoint = [] then
        ret (Inl (Errorf (''secret is missing required key '' @ [CHR 0x27] @ ''endpoint'' @ [CHR 0x27]) []))
      else
        (let hasUserPass = (username \<noteq> [] \<and> password \<noteq> []); hasToken = (token \<noteq> []) in
         if \<not> hasUserPass \<and> \<not> hasToken then
           ret (Inl (Errorf (''secret must contain either '' @ [CHR 0x27] @ ''username'' @ [CHR 0x27]
             @ ''+'' @ [CHR 0x27] @ ''password'' @ [CHR 0x27] @ '' or '' @ [CHR 0x27] @ ''token''
             @ [CHR 0x27] @ '' for authentication'') []))
         else New e username password endpoint tenant token sslVerify))"

definition NewFromStorageClass :: "env \<Rightarrow> StorageClass \<Rightarrow> bool \<Rightarrow> (err + rest) io" where
  "NewFromStorageClass e sc sslVerify =
     (let csiParams = ExtractPrefixedParams CSIParameterPrefix (sc_Parameters sc);
          secretName = lookup_str csiParams ''provisioner-secret-name'';
          secretNamespace = lookup_str csiParams ''provisioner-secret-namespace'' in
      if secretName = [] then
        ret (Inl (Errorf ''StorageClass %s missing parameter %s'' [sc_Name sc, ''provisioner-secret-name'']))
      else if secretNamespace = [] then
        ret (Inl (Errorf ''StorageClass %s missing parameter %s''
                    [sc_Name sc, ''provisioner-secret-namespace'']))
      else bindE (wrapE (Errorf_w ''failed to get secret %s/%s: '' [secretNamespace, secretName])
                    (GetSecret e secretName secretNamespace))
             (\<lambda>secret. NewFromSecretData e secret sslVerify))"

definition NewFromStorageClassName ::
  "env \<Rightarrow> string \<Rightarrow> bool \<Rightarrow> (err + rest \<times> StorageClass) io" where
  "NewFromStorageClassName e scName sslVerify =
     bindE (wrapE (Errorf_w ''failed to get StorageClass %s: '' [scName]) (GetStorageClass e scName))
       (\<lambda>sc. bindE (NewFromStorageClass e sc sslVerify) (\<lambda>rest. ret (Inr (rest, sc))))"

definition NewFromVastReplicationContent ::
  "env \<Rightarrow> VRC \<Rightarrow> bool \<Rightarrow> (err + rest \<times> StorageClass) io" where
  "NewFromVastReplicationContent e rp sslVerify =
     NewFromStorageClassName e (vrc_StorageClass rp) sslVerify"

definition NewFromPVC :: "env \<Rightarrow> PVC \<Rightarrow> bool \<Rightarrow> (err + rest) io" where
  "NewFromPVC e pvc sslVerify =
     (case GetPVCClass pvc of
        Inl x \<Rightarrow> ret (Inl (Errorf_w ''failed to get PVC class %s: '' [oName pvc] x))
      | Inr scName \<Rightarrow>
          bindE (wrapE (Errorf_w ''failed to get StorageClass %s: '' [scName]) (GetStorageClass e scName))
            (\<lambda>destSC. NewFromStorageClass e destSC sslVerify))"

definition NewFromReplicationClass :: "env \<Rightarrow> ReplicationClass \<Rightarrow> bool \<Rightarrow> (err + rest) io" where
  "NewFromReplicationClass e vrc sslVerify =
     (let secretName = lookup_str (rc_Parameters vrc) CSIAddonsParamReplicationSecretName;
          secretNamespace = lookup_str (rc_Parameters vrc) CSIAddonsParamReplicationSecretNamespace in
      if secretName = [] then
        ret (Inl (Errorf ''VolumeReplicationClass %s missing parameter %s''
                    [oName vrc, CSIAddonsParamReplicationSecretName]))
      else if secretNamespace = [] then
        ret (Inl (Errorf ''VolumeReplicationClass %s missing parameter %s''
                    [oName vrc, CSIAddonsParamReplicationSecretNamespace]))
      else bindE (wrapE (Errorf_w ''failed to get secret %s/%s for VolumeReplicationClass %s: ''
                           [secretNamespace, secretName, oName vrc])
                    (GetSecret e secretName secretNamespace))
             (\<lambda>secret. NewFromSecretData e secret sslVerify))"

definition RestFromStorageClasses :: "env \<Rightarrow> string list \<Rightarrow> bool \<Rightarrow> (err + (string \<times> rest) list) io" where
  "RestFromStorageClasses e scNames sslVerify =
     foldE (\<lambda>m scName.
       bindE (wrapE (Errorf_w ''failed to get StorageClass %s: '' [scName]) (GetStorageClass e scName))
         (\<lambda>sc. bindE (wrapE (Errorf_w ''failed to build VMS REST client for SC %s: '' [scName])
                        (NewFromStorageClass e sc sslVerify))
           (\<lambda>rest. ret (Inr (AList.update scName rest m))))) [] scNames"


section \<open>Waiting\<close>

definition wait_timed_out :: "duration \<Rightarrow> string \<Rightarrow> err" where
  "wait_timed_out timeout description =
     Errorf ''timed out after %s waiting for %s to be %s'' [Duration_String timeout, description, ''ready'']"

definition WaitResource ::
  "env \<Rightarrow> duration \<Rightarrow> duration \<Rightarrow> string \<Rightarrow> (err + 'a option) io \<Rightarrow> (err + 'a) io" where
  "WaitResource e timeout sleep description checkFn =
     poll timeout sleep (wait_timed_out timeout description) checkFn
       (time_Sleep e sleep \<bind> (\<lambda>_. ret None))"

datatype WaitCondition = WaitConditionPresent | WaitConditionAbsent

definition WaitForResource ::
  "env \<Rightarrow> rest \<Rightarrow> vms_op \<Rightarrow> WaitCondition \<Rightarrow> duration \<Rightarrow> duration \<Rightarrow> string \<Rightarrow> (err + unit) io" where
  "WaitForResource e resource op condition timeout sleep description =
     WaitResource e timeout sleep description
       (vms e resource op (\<lambda>h. v_exists (e_vms e) h resource op) \<bind> (\<lambda>r. ret (case r of
            Inl x \<Rightarrow> Inl (Errorf_w ''checking %s: '' [description] x)
          | Inr exist \<Rightarrow> Inr (case condition of
                WaitConditionPresent \<Rightarrow> (if exist then Some () else None)
              | WaitConditionAbsent \<Rightarrow> (if \<not> exist then Some () else None)))))"


section \<open>Folders\<close>

definition StatPath :: "env \<Rightarrow> rest \<Rightarrow> string \<Rightarrow> int \<Rightarrow> (err + FolderStat option) io" where
  "StatPath e rest path tenantId =
     vms e rest (StatPathOp path tenantId) (\<lambda>h. v_statPath (e_vms e) h rest path tenantId)
     \<bind> (\<lambda>r. ret (case r of
         Inr stat \<Rightarrow> Inr (Some stat)
       | Inl x \<Rightarrow> if v_expectStatus (e_vms e) x 503 then Inr None else Inl x))"

definition PathExists :: "env \<Rightarrow> rest \<Rightarrow> string \<Rightarrow> int \<Rightarrow> (err + bool) io" where
  "PathExists e rest path tenantId =
     bindE (StatPath e rest path tenantId) (\<lambda>stat. ret (Inr (stat \<noteq> None)))"

definition DeleteFolder :: "env \<Rightarrow> rest \<Rightarrow> string \<Rightarrow> int \<Rightarrow> err option io" where
  "DeleteFolder e rest path tenantId =
     vms e rest (DeleteFolderOp path tenantId)
       (\<lambda>h. v_act (e_vms e) h rest (DeleteFolderOp path tenantId))"


section \<open>Tenants\<close>

text \<open>A view policy answers its tenant and its own identifier.\<close>

definition GetViewPolicy :: "env \<Rightarrow> rest \<Rightarrow> string \<Rightarrow> (err + int \<times> int) io" where
  "GetViewPolicy e rest policyName =
     vms e rest (ViewPolicyGet policyName) (\<lambda>h. v_viewPolicyGet (e_vms e) h rest policyName)
     \<bind> (\<lambda>r. ret (case r of
         Inl x \<Rightarrow> Inl (Errorf_w ''get view policy %q: '' [policyName] x)
       | Inr (tenantId, pid) \<Rightarrow>
           if tenantId = 0 then
             Inl (Errorf ''view policy %q: tenant_id missing after decode (id=%d); check VMS response''
                    [policyName, FormatInt pid])
           else Inr (tenantId, pid)))"

definition resolveTenantById :: "env \<Rightarrow> rest \<Rightarrow> int \<Rightarrow> (err + TenantInfo) io" where
  "resolveTenantById e rest tid =
     wrapE (Errorf_w ''failed to get tenant id=%d: '' [FormatInt tid])
       (vms e rest (TenantGetById tid) (\<lambda>h. v_tenantGetById (e_vms e) h rest tid))"

definition resolveBlockTenant :: "env \<Rightarrow> rest \<Rightarrow> StorageClass \<Rightarrow> (err + TenantInfo) io" where
  "resolveBlockTenant e rest sc =
     (let subsystem = lookup_str (sc_Parameters sc) StorageClassParameterSubsystem;
          tenantName = lookup_str (sc_Parameters sc) ''tenant_name'' in
      if subsystem = [] then
        ret (Inl (Errorf ''StorageClass %s is missing required parameter %q''
                    [sc_Name sc, StorageClassParameterSubsystem]))
      else if tenantName \<noteq> [] then
        wrapE (Errorf_w ''failed to get tenant %q: '' [tenantName])
          (vms e rest (TenantGet tenantName) (\<lambda>h. v_tenantGet (e_vms e) h rest tenantName))
      else bindE (wrapE (Errorf_w ''failed to get view (subsystem) %q: '' [subsystem])
                    (vms e rest (ViewGet subsystem) (\<lambda>h. v_viewGet (e_vms e) h rest subsystem)))
             (\<lambda>view. resolveTenantById e rest (view_TenantId view)))"

definition resolveFileTenant :: "env \<Rightarrow> rest \<Rightarrow> StorageClass \<Rightarrow> (err + TenantInfo) io" where
  "resolveFileTenant e rest sc =
     (let viewPolicy = lookup_str (sc_Parameters sc) ''view_policy'' in
      if viewPolicy = [] then
        ret (Inl (Errorf ''StorageClass %s is missing required parameter %q'' [sc_Name sc, ''view_policy'']))
      else bindE (GetViewPolicy e rest viewPolicy)
             (\<lambda>(tenantId, _). resolveTenantById e rest tenantId))"

definition ResolveTenant :: "env \<Rightarrow> rest \<Rightarrow> StorageClass \<Rightarrow> (err + TenantInfo) io" where
  "ResolveTenant e rest sc =
     (if IsBlockStorageClass sc then resolveBlockTenant e rest sc else resolveFileTenant e rest sc)"

definition TenantFromMapping :: "(string \<times> TenantInfo) list \<Rightarrow> string \<Rightarrow> err + TenantInfo" where
  "TenantFromMapping m scName =
     (case map_of m scName of
        None \<Rightarrow> Inl (Errorf ''StorageClass %q missing from tenant mapping'' [scName])
      | Some t \<Rightarrow>
          if ten_Guid t = [] then Inl (Errorf ''StorageClass %q tenant mapping has empty guid'' [scName])
          else if ten_Id t = 0 then Inl (Errorf ''StorageClass %q tenant mapping has empty id'' [scName])
          else Inr t)"


section \<open>What the helpers may request\<close>

lemma within_vms [moves_intro]: "vms_kind op \<in> S \<Longrightarrow> within S (vms e r op f)"
  unfolding vms_def by (auto intro!: issues_rules)

lemma within_clients [moves_intro]:
  "KNewRest \<in> S \<Longrightarrow> within S (NewFromSecretData e d b)"
  "KNewRest \<in> S \<Longrightarrow> KRead \<in> S \<Longrightarrow> within S (NewFromStorageClass e sc b)"
  "KNewRest \<in> S \<Longrightarrow> KRead \<in> S \<Longrightarrow> within S (NewFromStorageClassName e n b)"
  "KNewRest \<in> S \<Longrightarrow> KRead \<in> S \<Longrightarrow> within S (RestFromStorageClasses e scs b)"
proof -
  show 1: "within S (NewFromSecretData e d b)" if "KNewRest \<in> S" for d
    using that unfolding NewFromSecretData_def New_def Let_def by (auto intro!: issues_rules)
  show 2: "within S (NewFromStorageClass e sc b)" if "KNewRest \<in> S" "KRead \<in> S" for sc
    using that unfolding NewFromStorageClass_def Let_def
    by (auto intro!: issues_rules 1 within_reads)
  show "within S (NewFromStorageClassName e n b)" "within S (RestFromStorageClasses e scs b)"
    if "KNewRest \<in> S" "KRead \<in> S"
    using that unfolding NewFromStorageClassName_def RestFromStorageClasses_def
    by (auto intro!: issues_rules 2 within_reads)
qed

lemma within_WaitResource [moves_intro]:
  "KSleep \<in> S \<Longrightarrow> within S check \<Longrightarrow> within S (WaitResource e t d s check)"
  unfolding WaitResource_def by (auto intro!: issues_poll issues_rules)

lemma within_WaitForResource [moves_intro]:
  "KSleep \<in> S \<Longrightarrow> vms_kind op \<in> S \<Longrightarrow> within S (WaitForResource e r op c t d s)"
  unfolding WaitForResource_def by (auto intro!: within_WaitResource issues_rules within_vms)

lemma within_tenant [moves_intro]: "KVmsRead \<in> S \<Longrightarrow> within S (ResolveTenant e r sc)"
  unfolding ResolveTenant_def resolveBlockTenant_def resolveFileTenant_def resolveTenantById_def
    GetViewPolicy_def Let_def
  by (auto intro!: issues_rules within_vms)

lemma within_folders [moves_intro]:
  "KVmsRead \<in> S \<Longrightarrow> within S (StatPath e r p t)"
  "KDeleteFolder \<in> S \<Longrightarrow> within S (DeleteFolder e r p t)"
  unfolding StatPath_def DeleteFolder_def by (auto intro!: issues_rules within_vms)


section \<open>Waiting ends\<close>

lemma WaitResource_pauses: "0 < sleep \<Longrightarrow> pauses sleep (time_Sleep e sleep \<bind> (\<lambda>_. ret None))"
  by (auto simp: pauses_def run_simps)

lemma wait_timed_out_network: "IsNetworkError (Some (wait_timed_out timeout description))"
proof -
  have "Contains (Error_string (wait_timed_out timeout description)) ''timed out after''"
    by (simp add: wait_timed_out_def Errorf_def HasPrefix_def)
  then show ?thesis by (simp add: IsNetworkError_def networkErrSubstrings_def)
qed

definition wait_outcome ::
  "(err + 'a option) io \<Rightarrow> duration \<Rightarrow> string \<Rightarrow> int \<Rightarrow> (err + 'a) \<Rightarrow> world \<Rightarrow> bool" where
  "wait_outcome checkFn timeout description deadline r w' =
     ((\<exists>v x. run_state checkFn v = (Inl x, w') \<and> r = Inl x)
      \<or> (\<exists>v a. run_state checkFn v = (Inr (Some a), w') \<and> r = Inr a)
      \<or> (\<exists>v. run_state checkFn v = (Inr None, w') \<and> deadline < clock w'
           \<and> r = Inl (wait_timed_out timeout description)))"

lemma poll_until_outcome:
  "run_state (poll_until n dl (wait_timed_out timeout d) checkFn (time_Sleep e sleep \<bind> (\<lambda>_. ret None))) v
     = (Some s, w') \<Longrightarrow> wait_outcome checkFn timeout d dl s w'"
proof (induction n arbitrary: v)
  case (Suc n)
  obtain c v1 where c: "run_state checkFn v = (c, v1)" by fastforce
  show ?case using Suc c
    by (auto simp: run_poll_until run_simps wait_outcome_def split: sum.splits option.splits if_splits)
qed (simp add: run_poll_until)



end
