(* ===== verification/Policies.thy ===== *)
theory Policies
  imports Vmsrest
begin

text \<open>
  Replication peers and protection policies: the resolution of the peer name of
  every topology entry (internal/common/vmsrest/peer_resolution.go), and the
  discovery, creation and deletion of the policies of the mesh
  (internal/common/vmsrest/discover_policies.go). A Go map keyed by StorageClass
  is an association list; ranging over it goes through \<open>range_map\<close>.
\<close>

section \<open>Peer names\<close>

type_synonym PeerNamesBySC = "(string \<times> string list) list"

definition storageClassNeedsPeerDiscovery :: "string \<Rightarrow> ReplicationTarget list \<Rightarrow> bool" where
  "storageClassNeedsPeerDiscovery scName topology =
     list_ex (\<lambda>t. PeerName t = [] \<and> (Source t = scName \<or> Destination t = scName)) topology"

definition explicitPeerNamesForSC :: "string \<Rightarrow> ReplicationTarget list \<Rightarrow> string list" where
  "explicitPeerNamesForSC scName topology =
     sorted_keys (map PeerName
       (filter (\<lambda>t. PeerName t \<noteq> [] \<and> (Source t = scName \<or> Destination t = scName)) topology))"

definition ReplicationPeers_List :: "env \<Rightarrow> rest \<Rightarrow> string list option \<Rightarrow> (err + Peer list) io" where
  "ReplicationPeers_List e rest names =
     vms e rest (PeersList names) (\<lambda>h. v_peersList (e_vms e) h rest names)"

definition BuildPeerNamesBySC ::
  "env \<Rightarrow> (string \<times> rest) list \<Rightarrow> ReplicationTarget list \<Rightarrow> (err + PeerNamesBySC) io" where
  "BuildPeerNamesBySC e restByStorageClass topology =
     range_map e restByStorageClass \<bind> (\<lambda>entries.
       foldE (\<lambda>result (scName, rest).
         let peerNames = explicitPeerNamesForSC scName topology;
             filt = (if \<not> storageClassNeedsPeerDiscovery scName topology \<and> length peerNames > 0
                     then Some peerNames else None) in
         bindE (wrapE (Errorf_w ''list ReplicationPeers on %q: '' [scName])
                  (ReplicationPeers_List e rest filt))
           (\<lambda>peers. ret (Inr (AList.update scName (remdups (map peer_Name peers)) result))))
         [] entries)"

definition ResolvePeerName :: "ReplicationTarget \<Rightarrow> PeerNamesBySC \<Rightarrow> err + ReplicationTarget" where
  "ResolvePeerName t peersBySC =
     (case map_of peersBySC (Source t) of
        None \<Rightarrow> Inl (Errorf ''no peer data for StorageClass %q (source)'' [Source t])
      | Some srcNames \<Rightarrow> (case map_of peersBySC (Destination t) of
          None \<Rightarrow> Inl (Errorf ''no peer data for StorageClass %q (destination)'' [Destination t])
        | Some dstNames \<Rightarrow>
            (let shared = sort (filter (\<lambda>n. n \<in> set dstNames) srcNames) in
             if PeerName t \<noteq> [] then
               (if PeerName t \<in> set shared then Inr t
                else Inl (Errorf ''peerName %q does not exist on both %q and %q (shared peers: [%s])''
                  [PeerName t, Source t, Destination t, Join shared '', '']))
             else case shared of
                 [] \<Rightarrow> Inl (Errorf ''no shared ReplicationPeer between %q and %q'' [Source t, Destination t])
               | [n] \<Rightarrow> Inr (t\<lparr>PeerName := n\<rparr>)
               | _ \<Rightarrow> Inl (Errorf (''multiple shared ReplicationPeers between %q and %q (%s); ''
                   @ ''set peerName explicitly to disambiguate'')
                   [Source t, Destination t, Join shared '', '']))))"

fun resolve_entries ::
  "nat \<Rightarrow> PeerNamesBySC \<Rightarrow> ReplicationTarget list \<Rightarrow> err option \<times> ReplicationTarget list" where
  "resolve_entries i peersBySC [] = (None, [])"
| "resolve_entries i peersBySC (t # ts) =
     (case ResolvePeerName t peersBySC of
        Inl x \<Rightarrow> (Some (NewValidationError ''protectionTopology[%d]: %v'' [Itoa i, Error_string x]), t # ts)
      | Inr t' \<Rightarrow> (let (r, ts') = resolve_entries (Suc i) peersBySC ts in (r, t' # ts')))"

fun topology_peers :: "ReplicationTarget list \<Rightarrow> (string \<times> string list) list" where
  "topology_peers [] = []"
| "topology_peers (t # ts) =
     (if PeerName t = [] then topology_peers ts
      else (Source t, [PeerName t]) # (Destination t, [PeerName t]) # topology_peers ts)"

definition topologyPeerNamesBySC :: "ReplicationTarget list \<Rightarrow> (string \<times> string list) list" where
  "topologyPeerNamesBySC topology =
     (let seen = topology_peers topology in
      map (\<lambda>sc. (sc, sorted_keys (concat (map snd (filter (\<lambda>(k, _). k = sc) seen)))))
        (remdups (map fst seen)))"

definition FetchTopologyPeers ::
  "env \<Rightarrow> (string \<times> rest) list \<Rightarrow> ReplicationTarget list \<Rightarrow> (err + unit) io" where
  "FetchTopologyPeers e restByStorageClass topology =
     range_map e (topologyPeerNamesBySC topology) \<bind> (\<lambda>entries.
       forE entries (\<lambda>(scName, peerNames).
         case map_of restByStorageClass scName of
           None \<Rightarrow> ret (Inl (Errorf ''no REST client for StorageClass %q'' [scName]))
         | Some rest \<Rightarrow>
             bindE (wrapE (Errorf_w ''fetch topology ReplicationPeers on %q: '' [scName])
                      (ReplicationPeers_List e rest (Some peerNames)))
               (\<lambda>_. ret (Inr ()))))"

text \<open>The entries of the topology are resolved in place: the second component is the topology after
  the call, also when a later entry fails.\<close>

definition ResolveAndFetchTopologyPeers ::
  "env \<Rightarrow> (string \<times> rest) list \<Rightarrow> ReplicationTarget list
     \<Rightarrow> (err option \<times> ReplicationTarget list) io" where
  "ResolveAndFetchTopologyPeers e restByStorageClass topology =
     BuildPeerNamesBySC e restByStorageClass topology \<bind> (\<lambda>r. case r of
         Inl x \<Rightarrow> ret (Some x, topology)
       | Inr peersBySC \<Rightarrow> (case resolve_entries 0 peersBySC topology of
             (Some x, topology') \<Rightarrow> ret (Some x, topology')
           | (None, topology') \<Rightarrow>
               FetchTopologyPeers e restByStorageClass topology' \<bind> (\<lambda>f. ret (case f of
                   Inl x \<Rightarrow> (Some x, topology') | Inr _ \<Rightarrow> (None, topology')))))"


section \<open>Edges and links\<close>

record ReplicationEdge =
  SideA :: string
  SideB :: string
  EdgePeerName :: string

record ReplicationLinkEdge = ReplicationEdge +
  LocalTenant :: TenantInfo
  RemoteTenant :: TenantInfo

record ReplicationLink =
  PolicyName :: string
  PolicyId :: int
  LocalPeerTargetName :: string
  RemotePeerTargetName :: string
  LocalPeerName :: string
  RemotePeerName :: string
  Edge :: ReplicationLinkEdge

definition NewReplicationEdgesList :: "ReplicationTarget list \<Rightarrow> string \<Rightarrow> ReplicationEdge list" where
  "NewReplicationEdgesList topology primarySC =
     map (\<lambda>t. if Destination t = primarySC
              then \<lparr>SideA = Destination t, SideB = Source t, EdgePeerName = PeerName t\<rparr>
              else \<lparr>SideA = Source t, SideB = Destination t, EdgePeerName = PeerName t\<rparr>) topology"

record PolicyTemplateParams =
  tmpl_OwnerName :: string
  tmpl_Frames :: "smap list"

definition SpecTemplateToParams :: "string \<Rightarrow> ProtectionPolicyTemplate \<Rightarrow> PolicyTemplateParams" where
  "SpecTemplateToParams ownerName tpl =
     \<lparr>tmpl_OwnerName = ownerName,
      tmpl_Frames = map (\<lambda>f. [(''every'', Every f)]
        @ (if KeepLocal f \<noteq> [] then [(''keep-local'', KeepLocal f)] else [])
        @ (if KeepRemote f \<noteq> [] then [(''keep-remote'', KeepRemote f)] else [])
        @ (if StartAt f \<noteq> [] then [(''start-at'', StartAt f)] else [])) (Params tpl)\<rparr>"

definition newReplicationLink ::
  "string \<Rightarrow> int \<Rightarrow> Peer \<Rightarrow> Peer \<Rightarrow> ReplicationEdge \<Rightarrow> TenantInfo \<Rightarrow> TenantInfo \<Rightarrow> ReplicationLink" where
  "newReplicationLink policyName policyId peerA peerB edge localTenant remoteTenant =
     \<lparr>PolicyName = policyName, PolicyId = policyId,
      LocalPeerTargetName = peer_Name peerA, RemotePeerTargetName = peer_Name peerB,
      LocalPeerName = peer_PeerName peerA, RemotePeerName = peer_PeerName peerB,
      Edge = \<lparr>SideA = SideA edge, SideB = SideB edge, EdgePeerName = EdgePeerName edge,
              LocalTenant = localTenant, RemoteTenant = remoteTenant\<rparr>\<rparr>"

definition buildNativeReplicaTargetsBySC ::
  "env \<Rightarrow> (string \<times> rest) list \<Rightarrow> string list \<Rightarrow> (err + (string \<times> (string \<times> Peer) list) list) io" where
  "buildNativeReplicaTargetsBySC e restByStorageClass wantPeerNames =
     range_map e restByStorageClass \<bind> (\<lambda>entries.
       foldE (\<lambda>result (scName, rest).
         bindE (wrapE (Errorf_w ''SC %s: failed to list replication peers: '' [scName])
                  (ReplicationPeers_List e rest (Some wantPeerNames)))
           (\<lambda>peers. ret (Inr (AList.update scName
               (fold (\<lambda>p byName. AList.update (peer_Name p) p byName) peers []) result))))
         [] entries)"

definition PolicyNameFor :: "string \<Rightarrow> string \<Rightarrow> string" where
  "PolicyNameFor ownerName peerName = ownerName @ ''-'' @ peerName"

definition ensurePolicy ::
  "env \<Rightarrow> rest \<Rightarrow> ReplicationEdge \<Rightarrow> TenantInfo \<Rightarrow> TenantInfo \<Rightarrow> PolicyTemplateParams \<Rightarrow> Peer \<Rightarrow> Peer
     \<Rightarrow> string \<Rightarrow> (err + ReplicationLink) io" where
  "ensurePolicy e rest edge localTenant remoteTenant tmpl peerA peerB pfx =
     (let policyName = PolicyNameFor (tmpl_OwnerName tmpl) (EdgePeerName edge);
          params = \<lparr>polp_Name = policyName, polp_TargetObjectId = peer_Id peerA, polp_Prefix = pfx,
                    polp_Frames = tmpl_Frames tmpl, polp_TenantId = ten_Id localTenant,
                    polp_RemoteTenantGuid = ten_Guid remoteTenant\<rparr> in
      vms e rest (PolicyGet policyName) (\<lambda>h. v_policyGet (e_vms e) h rest policyName) \<bind> (\<lambda>r. case r of
          Inr existing \<Rightarrow> ret (Inr (newReplicationLink (pol_Name existing) (pol_Id existing) peerA peerB
                                    edge localTenant remoteTenant))
        | Inl _ \<Rightarrow>
            bindE (wrapE (Errorf_w ''SC %s: failed to create ProtectionPolicy %q for peer %q: ''
                            [SideA edge, policyName, EdgePeerName edge])
                     (vms e rest (PolicyCreate params) (\<lambda>h. v_policyCreate (e_vms e) h rest params)))
              (\<lambda>policy. ret (case pol_FillError policy of
                   Some x \<Rightarrow> Inl (Errorf_w
                     ''SC %s: failed to decode ProtectionPolicy response for %q: ''
                     [SideA edge, policyName] x)
                 | None \<Rightarrow> Inr (newReplicationLink (pol_Name policy) (pol_Id policy) peerA peerB edge
                              localTenant remoteTenant)))))"

definition map_append :: "string \<Rightarrow> 'a \<Rightarrow> (string \<times> 'a list) list \<Rightarrow> (string \<times> 'a list) list" where
  "map_append k v m = AList.update k ((case map_of m k of Some vs \<Rightarrow> vs | None \<Rightarrow> []) @ [v]) m"

definition policyMirrorTimeout :: duration where "policyMirrorTimeout = 60 * Second"
definition policyMirrorSleep :: duration where "policyMirrorSleep = 5 * Second"

text \<open>The checks of one edge: clients, tenants, and a healthy peer of that name on both sides.\<close>

definition native_peer ::
  "(string \<times> (string \<times> Peer) list) list \<Rightarrow> string \<Rightarrow> string \<Rightarrow> err + Peer" where
  "native_peer nativeTargets scName peerName =
     (case map_of (case map_of nativeTargets scName of Some m \<Rightarrow> m | None \<Rightarrow> []) peerName of
        None \<Rightarrow> Inl (Errorf ''SC %s: replication peer %q not found in native replication targets''
                  [scName, peerName])
      | Some p \<Rightarrow>
          if peer_Status p \<noteq> ''OK'' then
            Inl (Errorf (''SC %s: replication peer %q is not healthy (status=%q); ''
              @ ''cannot create protection policy'') [scName, peerName, peer_Status p])
          else Inr p)"

definition edge_client ::
  "(string \<times> rest) list \<Rightarrow> string \<Rightarrow> err \<Rightarrow> err + rest" where
  "edge_client restByStorageClass scName missing =
     (case map_of restByStorageClass scName of None \<Rightarrow> Inl missing | Some r \<Rightarrow> Inr r)"

definition discover_edge ::
  "env \<Rightarrow> (string \<times> rest) list \<Rightarrow> (string \<times> TenantInfo) list \<Rightarrow> PolicyTemplateParams
     \<Rightarrow> (string \<times> (string \<times> Peer) list) list \<Rightarrow> ReplicationEdge \<Rightarrow> (err + ReplicationLink) io" where
  "discover_edge e restByStorageClass tenantByStorageClass tmpl nativeTargets edge =
     bindE (ret (edge_client restByStorageClass (SideA edge)
        (Errorf ''no REST client for StorageClass %q (SideA of link to %q via peer %q)''
           [SideA edge, SideB edge, EdgePeerName edge]))) (\<lambda>restA.
     bindE (ret (edge_client restByStorageClass (SideB edge)
        (Errorf ''no REST client for StorageClass %q (SideB of link from %q via peer %q)''
           [SideB edge, SideA edge, EdgePeerName edge]))) (\<lambda>restB.
     bindE (ret (TenantFromMapping tenantByStorageClass (SideA edge))) (\<lambda>localTenant.
     bindE (ret (TenantFromMapping tenantByStorageClass (SideB edge))) (\<lambda>remoteTenant.
     bindE (ret (native_peer nativeTargets (SideA edge) (EdgePeerName edge))) (\<lambda>peerA.
     bindE (ret (native_peer nativeTargets (SideB edge) (EdgePeerName edge))) (\<lambda>peerB.
     let pfx = tmpl_OwnerName tmpl @ ''-'' @ peer_PeerName peerA @ ''-'' @ peer_PeerName peerB in
     bindE (ensurePolicy e restA edge localTenant remoteTenant tmpl peerA peerB pfx) (\<lambda>pair.
     bindE (wrapE (Errorf_w ''SC %s: '' [SideB edge])
              (WaitForResource e restB (PolicyExists (PolicyName pair)) WaitConditionPresent
                 policyMirrorTimeout policyMirrorSleep
                 (Sprintf ''ProtectionPolicy %q to be mirrored on %q'' [PolicyName pair, SideB edge])))
       (\<lambda>_. ret (Inr pair)))))))))"

definition DiscoverLinkPolicies ::
  "env \<Rightarrow> (string \<times> rest) list \<Rightarrow> (string \<times> TenantInfo) list \<Rightarrow> ReplicationEdge list
     \<Rightarrow> PolicyTemplateParams \<Rightarrow> (err + (string \<times> ReplicationLink list) list) io" where
  "DiscoverLinkPolicies e restByStorageClass tenantByStorageClass edges tmpl =
     bindE (wrapE (Errorf_w ''failed to build native replication targets mapping: '' [])
              (buildNativeReplicaTargetsBySC e restByStorageClass (map EdgePeerName edges)))
       (\<lambda>nativeTargets.
          foldE (\<lambda>result edge.
            bindE (discover_edge e restByStorageClass tenantByStorageClass tmpl nativeTargets edge)
              (\<lambda>pair. ret (Inr (map_append (SideA edge) pair result)))) [] edges)"


section \<open>Deletion\<close>

definition ProtectionPolicyNamesByStorageClass ::
  "string \<Rightarrow> string \<Rightarrow> ReplicationTarget list \<Rightarrow> (string \<times> string list) list" where
  "ProtectionPolicyNamesByStorageClass ownerName primarySC topology =
     fold (\<lambda>t m.
       if PeerName t = [] then m
       else (let policyName = PolicyNameFor ownerName (PeerName t);
                 (sideA, sideB) = (if Destination t = primarySC then (Destination t, Source t)
                                   else (Source t, Destination t)) in
             map_append sideB policyName (map_append sideA policyName m))) topology []"

definition delete_policy :: "env \<Rightarrow> rest \<Rightarrow> string \<Rightarrow> unit io" where
  "delete_policy e rest name =
     vms e rest (PolicyGet name) (\<lambda>h. v_policyGet (e_vms e) h rest name) \<bind> (\<lambda>r. case r of
         Inl _ \<Rightarrow> ret ()
       | Inr policy \<Rightarrow>
           vms e rest (PolicyDelete (pol_Id policy))
             (\<lambda>h. v_act (e_vms e) h rest (PolicyDelete (pol_Id policy))) \<bind> (\<lambda>_. ret ()))"

fun for_each :: "('a \<Rightarrow> unit io) \<Rightarrow> 'a list \<Rightarrow> unit io" where
  "for_each f [] = ret ()"
| "for_each f (x # xs) = f x \<bind> (\<lambda>_. for_each f xs)"

definition DeleteProtectionPolicies ::
  "env \<Rightarrow> string \<Rightarrow> string \<Rightarrow> ReplicationTarget list \<Rightarrow> bool \<Rightarrow> unit io" where
  "DeleteProtectionPolicies e ownerName primarySC topology sslVerify =
     range_map e (ProtectionPolicyNamesByStorageClass ownerName primarySC topology) \<bind> (\<lambda>entries.
       for_each (\<lambda>(scName, policyNames).
         NewFromStorageClassName e scName sslVerify \<bind> (\<lambda>r. case r of
             Inl _ \<Rightarrow> ret ()
           | Inr (rest, _) \<Rightarrow> for_each (delete_policy e rest) policyNames)) entries)"


section \<open>What these actions may request\<close>

lemma within_for_each [moves_intro]:
  "(\<And>x. x \<in> set xs \<Longrightarrow> within S (f x)) \<Longrightarrow> within S (for_each f xs)"
  by (induction xs) (auto intro!: issues_rules)

lemma within_peers_list [moves_intro]: "KVmsRead \<in> S \<Longrightarrow> within S (ReplicationPeers_List e r n)"
  unfolding ReplicationPeers_List_def by (auto intro!: within_vms)

lemma within_build_peers [moves_intro]:
  "KVmsRead \<in> S \<Longrightarrow> within S (BuildPeerNamesBySC e rs ts)"
  "KVmsRead \<in> S \<Longrightarrow> within S (buildNativeReplicaTargetsBySC e rs ns)"
  unfolding BuildPeerNamesBySC_def buildNativeReplicaTargetsBySC_def Let_def
  by (auto intro!: issues_rules within_peers_list split: prod.split)

lemma within_fetch_peers [moves_intro]: "KVmsRead \<in> S \<Longrightarrow> within S (FetchTopologyPeers e rs ts)"
  unfolding FetchTopologyPeers_def by (auto intro!: issues_rules within_peers_list split: prod.split)

lemma within_resolve [moves_intro]: "KVmsRead \<in> S \<Longrightarrow> within S (ResolveAndFetchTopologyPeers e rs ts)"
  unfolding ResolveAndFetchTopologyPeers_def
  by (auto intro!: issues_rules within_fetch_peers within_build_peers split: prod.split)

lemma within_ensurePolicy [moves_intro]:
  "KVmsRead \<in> S \<Longrightarrow> KPolicyCreate \<in> S \<Longrightarrow> within S (ensurePolicy e r ed lt rt tm pa pb pf)"
  unfolding ensurePolicy_def Let_def by (auto intro!: issues_rules within_vms)

lemma within_discover_edge [moves_intro]:
  "KVmsRead \<in> S \<Longrightarrow> KPolicyCreate \<in> S \<Longrightarrow> KSleep \<in> S \<Longrightarrow> within S (discover_edge e rs tm pt nt ed)"
  unfolding discover_edge_def Let_def
  by (auto intro!: issues_rules within_ensurePolicy within_WaitForResource)

lemma within_discover [moves_intro]:
  "KVmsRead \<in> S \<Longrightarrow> KPolicyCreate \<in> S \<Longrightarrow> KSleep \<in> S \<Longrightarrow>
   within S (DiscoverLinkPolicies e rs tm eds tmpl)"
  unfolding DiscoverLinkPolicies_def
  by (auto intro!: issues_rules within_build_peers within_discover_edge)

lemma within_delete_policies [moves_intro]:
  "KVmsRead \<in> S \<Longrightarrow> KPolicyDelete \<in> S \<Longrightarrow> KNewRest \<in> S \<Longrightarrow> KRead \<in> S \<Longrightarrow>
   within S (DeleteProtectionPolicies e o1 p ts b)"
  unfolding DeleteProtectionPolicies_def delete_policy_def
  by (auto intro!: issues_rules within_for_each within_vms within_clients split: prod.split)


section \<open>Peer resolution\<close>

text \<open>The names of a cluster are the keys of a map, so they are distinct.\<close>

definition wf_peers :: "PeerNamesBySC \<Rightarrow> bool" where
  "wf_peers p = list_all (\<lambda>(_, names). distinct names) p"

lemma wf_peers_lookup: "wf_peers p \<Longrightarrow> map_of p k = Some names \<Longrightarrow> distinct names"
  by (drule map_of_SomeD) (auto simp: wf_peers_def list_all_iff)

lemma sort_singleton_iff:
  assumes "distinct xs"
  shows "sort xs = [n] \<longleftrightarrow> set xs = {n}"
proof
  assume "sort xs = [n]"
  then have "set (sort xs) = {n}" by simp
  then show "set xs = {n}" by simp
next
  assume "set xs = {n}"
  moreover from this have "length xs = 1" using distinct_card[OF assms] by simp
  ultimately have "xs = [n]" by (cases xs) auto
  then show "sort xs = [n]" by simp
qed

definition shared_peers :: "PeerNamesBySC \<Rightarrow> ReplicationTarget \<Rightarrow> string set" where
  "shared_peers p t = {n. \<exists>S D. map_of p (Source t) = Some S \<and> map_of p (Destination t) = Some D
                          \<and> n \<in> set S \<and> n \<in> set D}"

lemma ResolvePeerName_known:
  assumes "map_of p (Source t) = Some S" "map_of p (Destination t) = Some D"
  shows "shared_peers p t = set S \<inter> set D"
  using assms by (auto simp: shared_peers_def)

lemma ResolvePeerName_iff:
  assumes "wf_peers p"
  shows "ResolvePeerName t p = Inr t' \<longleftrightarrow>
     (PeerName t \<noteq> [] \<and> PeerName t \<in> shared_peers p t \<and> t' = t)
   \<or> (PeerName t = [] \<and> (\<exists>n. shared_peers p t = {n} \<and> t' = t\<lparr>PeerName := n\<rparr>))"
proof (cases "map_of p (Source t)")
  case None
  then show ?thesis by (simp add: ResolvePeerName_def shared_peers_def)
next
  case (Some S)
  note src = Some
  show ?thesis
  proof (cases "map_of p (Destination t)")
    case None
    then show ?thesis using src by (simp add: ResolvePeerName_def shared_peers_def)
  next
    case (Some D)
    let ?xs = "filter (\<lambda>n. n \<in> set D) S"
    have "distinct ?xs" using wf_peers_lookup[OF assms src] by simp
    then have one: "sort ?xs = [n] \<longleftrightarrow> set S \<inter> set D = {n}" for n
      using sort_singleton_iff[of ?xs n] by (auto simp: Int_def)
    have "ResolvePeerName t p = Inr t' \<longleftrightarrow>
        (PeerName t \<noteq> [] \<and> PeerName t \<in> set S \<inter> set D \<and> t' = t)
      \<or> (PeerName t = [] \<and> (\<exists>n. sort ?xs = [n] \<and> t' = t\<lparr>PeerName := n\<rparr>))"
      using src Some by (auto simp: ResolvePeerName_def Let_def split: list.splits)
    then show ?thesis unfolding one ResolvePeerName_known[OF src Some] .
  qed
qed


text \<open>A list of peer names a cluster answered during the run.\<close>

definition listed :: "env \<Rightarrow> (string \<times> rest) list \<Rightarrow> history \<Rightarrow> string \<Rightarrow> string set \<Rightarrow> bool" where
  "listed e rs h sc names =
     (\<exists>r filt h' peers. (sc, r) \<in> set rs \<and> prefix h' h
        \<and> v_peersList (e_vms e) h' r filt = Inr peers \<and> names = peer_Name ` set peers)"

lemma listed_mono: "listed e rs h sc names \<Longrightarrow> prefix h h2 \<Longrightarrow> listed e rs h2 sc names"
  unfolding listed_def by (elim exE conjE, intro exI conjI, assumption, erule (1) prefix_order.trans)

lemma set_AList_update: "set (AList.update k v m) \<subseteq> insert (k, v) (set m)"
  by (induction m) auto

lemma wf_peers_update: "wf_peers p \<Longrightarrow> distinct names \<Longrightarrow> wf_peers (AList.update k names p)"
  using set_AList_update[of k names p] by (fastforce simp: wf_peers_def list_all_iff)

definition peers_ok :: "env \<Rightarrow> (string \<times> rest) list \<Rightarrow> PeerNamesBySC \<Rightarrow> world \<Rightarrow> bool" where
  "peers_ok e rs p w =
     (wf_peers p \<and> (\<forall>sc names. map_of p sc = Some names \<longrightarrow> listed e rs (hist w) sc (set names)))"

lemma peers_ok_update:
  assumes "peers_ok e rs p v" "(sc, r) \<in> set rs" "v_peersList (e_vms e) (hist v) r filt = Inr peers"
    and "prefix (hist v) (hist v')"
  shows "peers_ok e rs (AList.update sc (remdups (map peer_Name peers)) p) v'"
proof -
  have "listed e rs (hist v') sc (set (remdups (map peer_Name peers)))"
    using assms(2,3,4) by (force simp: listed_def)
  then show ?thesis
    using assms(1) listed_mono[OF _ assms(4)]
    by (auto simp: peers_ok_def update_conv' intro: wf_peers_update)
qed

lemma BuildPeerNamesBySC_ok:
  assumes "run_state (BuildPeerNamesBySC e rs ts) w = (Inr p, w')"
  shows "peers_ok e rs p w'"
proof -
  from assms obtain f where 1: "run_state (foldE f [] (sort_key (\<lambda>(k, _). e_prio e (hist w) k) rs)) w
        = (Inr p, w')"
    and f: "f = (\<lambda>result (scName, rest).
         let peerNames = explicitPeerNamesForSC scName ts;
             filt = (if \<not> storageClassNeedsPeerDiscovery scName ts \<and> length peerNames > 0
                     then Some peerNames else None) in
         bindE (wrapE (Errorf_w ''list ReplicationPeers on %q: '' [scName])
                  (ReplicationPeers_List e rest filt))
           (\<lambda>peers. ret (Inr (AList.update scName (remdups (map peer_Name peers)) result))))"
    by (simp add: BuildPeerNamesBySC_def run_simps)
  show ?thesis
  proof (rule foldE_inv[OF 1])
    show "peers_ok e rs [] w" by (simp add: peers_ok_def wf_peers_def)
    fix p x v v' t
    assume "peers_ok e rs p v" "x \<in> set (sort_key (\<lambda>(k, _). e_prio e (hist w) k) rs)"
      and "run_state (f p x) v = (Inr t, v')"
    then show "peers_ok e rs t v'"
      by (cases x) (auto simp: f Let_def run_simps ReplicationPeers_List_def vms_def
          split: sum.splits intro!: peers_ok_update)
  qed
qed

lemma resolve_entries_ok:
  "resolve_entries i p ts = (None, ts') \<Longrightarrow> list_all2 (\<lambda>t t'. ResolvePeerName t p = Inr t') ts ts'"
  by (induction ts arbitrary: i ts') (auto split: sum.splits prod.splits)

definition resolved_entry ::
  "env \<Rightarrow> (string \<times> rest) list \<Rightarrow> history \<Rightarrow> ReplicationTarget \<Rightarrow> ReplicationTarget \<Rightarrow> bool" where
  "resolved_entry e rs h t t' =
     (t'\<lparr>PeerName := PeerName t\<rparr> = t \<and> PeerName t \<in> {[], PeerName t'}
      \<and> (\<exists>A B. listed e rs h (Source t) A \<and> listed e rs h (Destination t) B
           \<and> PeerName t' \<in> A \<inter> B \<and> (PeerName t = [] \<longrightarrow> A \<inter> B = {PeerName t'})))"

lemma ResolvePeerName_resolved:
  assumes "peers_ok e rs p w" "ResolvePeerName t p = Inr t'" "prefix (hist w) h"
  shows "resolved_entry e rs h t t'"
proof -
  have wf: "wf_peers p" using assms(1) by (simp add: peers_ok_def)
  from assms(2) obtain S D where S: "map_of p (Source t) = Some S"
    and D: "map_of p (Destination t) = Some D"
    by (auto simp: ResolvePeerName_def split: option.splits)
  have "listed e rs h (Source t) (set S)" "listed e rs h (Destination t) (set D)"
    using assms(1,3) S D by (auto simp: peers_ok_def intro: listed_mono)
  then have ex: "\<exists>A B. listed e rs h (Source t) A \<and> listed e rs h (Destination t) B
      \<and> PeerName t' \<in> A \<inter> B \<and> (PeerName t = [] \<longrightarrow> A \<inter> B = {PeerName t'})"
    if "PeerName t' \<in> set S \<inter> set D" "PeerName t = [] \<longrightarrow> set S \<inter> set D = {PeerName t'}"
    using that by (intro exI[of _ "set S"] exI[of _ "set D"] conjI)
  from assms(2)[unfolded ResolvePeerName_iff[OF wf] ResolvePeerName_known[OF S D]] show ?thesis
  proof (elim disjE conjE exE)
    assume "PeerName t \<noteq> []" "PeerName t \<in> set S \<inter> set D" "t' = t"
    then show ?thesis using ex by (simp add: resolved_entry_def)
  next
    fix n
    assume "PeerName t = []" "set S \<inter> set D = {n}" and t': "t' = t\<lparr>PeerName := n\<rparr>"
    then have "PeerName t' \<in> set S \<inter> set D" "set S \<inter> set D = {PeerName t'}" by auto
    moreover have "t'\<lparr>PeerName := PeerName t\<rparr> = t" using t' by simp
    ultimately show ?thesis using ex \<open>PeerName t = []\<close> by (simp add: resolved_entry_def)
  qed
qed

text \<open>C20: When the peers of a topology are resolved successfully, every entry ends up with a peer
  name that both clusters of the entry listed during the call; a name given in the spec is kept, and
  a name that was discovered is the only one the two clusters share. Nothing else of an entry
  changes.\<close>

theorem topology_peers_resolved:
  assumes "run_state (ResolveAndFetchTopologyPeers e rs topology) w = ((None, topology'), w')"
  shows "list_all2 (resolved_entry e rs (hist w')) topology topology'"
proof -
  obtain r v where b: "run_state (BuildPeerNamesBySC e rs topology) w = (r, v)" by fastforce
  with assms obtain p where r: "r = Inr p" and "fst (resolve_entries 0 p topology) = None"
    by (cases r) (auto simp: ResolveAndFetchTopologyPeers_def run_simps split: prod.splits option.splits)
  then have t: "resolve_entries 0 p topology = (None, snd (resolve_entries 0 p topology))"
    by (metis prod.collapse)
  have f: "run_state (FetchTopologyPeers e rs (snd (resolve_entries 0 p topology))) v = (u, v') \<Longrightarrow>
      v' = w' \<and> topology' = snd (resolve_entries 0 p topology)" for u v'
    using assms b r t by (auto simp: ResolveAndFetchTopologyPeers_def run_simps split: sum.splits prod.splits)
  obtain u v' where 1: "run_state (FetchTopologyPeers e rs (snd (resolve_entries 0 p topology))) v = (u, v')"
    by fastforce
  from within_prefix[OF within_fetch_peers[OF UNIV_I] 1] have px: "prefix (hist v) (hist w')" using f[OF 1] by simp
  show ?thesis
    using resolve_entries_ok[of 0 p topology topology'] t f[OF 1]
      ResolvePeerName_resolved[OF BuildPeerNamesBySC_ok[OF b[unfolded r]] _ px]
    by (auto elim!: list_all2_mono)
qed


section \<open>Policies are created for healthy links only\<close>

definition peer_seen ::
  "env \<Rightarrow> (string \<times> rest) list \<Rightarrow> string list \<Rightarrow> history \<Rightarrow> string \<Rightarrow> Peer \<Rightarrow> bool" where
  "peer_seen e rs want h sc q =
     (\<exists>r h' peers. (sc, r) \<in> set rs \<and> prefix h' h
        \<and> v_peersList (e_vms e) h' r (Some want) = Inr peers \<and> q \<in> set peers)"

lemma peer_seen_mono: "peer_seen e rs want h sc q \<Longrightarrow> prefix h h2 \<Longrightarrow> peer_seen e rs want h2 sc q"
  unfolding peer_seen_def by (elim exE conjE, intro exI conjI, assumption, erule (1) prefix_order.trans)

definition targets_ok ::
  "env \<Rightarrow> (string \<times> rest) list \<Rightarrow> string list \<Rightarrow> (string \<times> (string \<times> Peer) list) list \<Rightarrow> world \<Rightarrow> bool" where
  "targets_ok e rs want nt w =
     (\<forall>sc m n q. map_of nt sc = Some m \<longrightarrow> map_of m n = Some q
        \<longrightarrow> peer_Name q = n \<and> peer_seen e rs want (hist w) sc q)"

lemma peers_by_name:
  "map_of (fold (\<lambda>p byName. AList.update (peer_Name p) p byName) peers m) n = Some q \<Longrightarrow>
   (q \<in> set peers \<and> peer_Name q = n) \<or> map_of m n = Some q"
  by (induction peers arbitrary: m) (force simp: update_conv' split: if_splits)+

lemma targets_ok_update:
  assumes "targets_ok e rs want nt v" "(sc, r) \<in> set rs" "prefix (hist v) (hist v')"
    and "v_peersList (e_vms e) (hist v) r (Some want) = Inr peers"
  shows "targets_ok e rs want
    (AList.update sc (fold (\<lambda>p byName. AList.update (peer_Name p) p byName) peers []) nt) v'"
  unfolding targets_ok_def
proof (intro allI impI)
  fix sc' m n q
  assume a: "map_of (AList.update sc (fold (\<lambda>p byName. AList.update (peer_Name p) p byName) peers [])
      nt) sc' = Some m" "map_of m n = Some q"
  show "peer_Name q = n \<and> peer_seen e rs want (hist v') sc' q"
  proof (cases "sc' = sc")
    case True
    with a have "q \<in> set peers \<and> peer_Name q = n"
      using peers_by_name[of peers "[]" n q] by (simp add: update_conv')
    with True assms(2,3,4) show ?thesis by (auto simp: peer_seen_def)
  next
    case False
    with a assms(1) have "peer_Name q = n \<and> peer_seen e rs want (hist v) sc' q"
      by (simp add: update_conv' targets_ok_def)
    with assms(3) show ?thesis by (auto intro: peer_seen_mono)
  qed
qed

lemma buildNativeReplicaTargetsBySC_ok:
  assumes "run_state (buildNativeReplicaTargetsBySC e rs want) w = (Inr nt, w')"
  shows "targets_ok e rs want nt w'"
proof -
  from assms obtain f where 1: "run_state (foldE f [] (sort_key (\<lambda>(k, _). e_prio e (hist w) k) rs)) w
        = (Inr nt, w')"
    and f: "f = (\<lambda>result (scName, rest).
         bindE (wrapE (Errorf_w ''SC %s: failed to list replication peers: '' [scName])
                  (ReplicationPeers_List e rest (Some want)))
           (\<lambda>peers. ret (Inr (AList.update scName
               (fold (\<lambda>p byName. AList.update (peer_Name p) p byName) peers []) result))))"
    by (simp add: buildNativeReplicaTargetsBySC_def run_simps)
  show ?thesis
  proof (rule foldE_inv[OF 1])
    show "targets_ok e rs want [] w" by (simp add: targets_ok_def)
    fix p x v v' t
    assume "targets_ok e rs want p v" "x \<in> set (sort_key (\<lambda>(k, _). e_prio e (hist w) k) rs)"
      and "run_state (f p x) v = (Inr t, v')"
    then show "targets_ok e rs want t v'"
      by (cases x) (auto simp: f run_simps ReplicationPeers_List_def vms_def
          split: sum.splits intro!: targets_ok_update)
  qed
qed

definition sound_create ::
  "(string \<times> rest) list \<Rightarrow> (string \<times> TenantInfo) list \<Rightarrow> PolicyTemplateParams \<Rightarrow> ReplicationEdge list
     \<Rightarrow> (string \<Rightarrow> Peer \<Rightarrow> bool) \<Rightarrow> call \<Rightarrow> bool" where
  "sound_create rs tm tmpl edges healthy c =
     (case c of VmsCall r (PolicyCreate p) \<Rightarrow>
        (\<exists>edge \<in> set edges. \<exists>lt rt pa pb.
           map_of rs (SideA edge) = Some r
           \<and> TenantFromMapping tm (SideA edge) = Inr lt \<and> TenantFromMapping tm (SideB edge) = Inr rt
           \<and> healthy (SideA edge) pa \<and> healthy (SideB edge) pb
           \<and> peer_Name pa = EdgePeerName edge \<and> peer_Name pb = EdgePeerName edge
           \<and> p = \<lparr>polp_Name = PolicyNameFor (tmpl_OwnerName tmpl) (EdgePeerName edge),
                  polp_TargetObjectId = peer_Id pa,
                  polp_Prefix = tmpl_OwnerName tmpl @ ''-'' @ peer_PeerName pa @ ''-'' @ peer_PeerName pb,
                  polp_Frames = tmpl_Frames tmpl, polp_TenantId = ten_Id lt,
                  polp_RemoteTenantGuid = ten_Guid rt\<rparr>)
      | _ \<Rightarrow> True)"

lemma native_peer_ok:
  "targets_ok e rs want nt w \<Longrightarrow> native_peer nt sc n = Inr q \<Longrightarrow>
   peer_Name q = n \<and> peer_Status q = ''OK'' \<and> peer_seen e rs want (hist w) sc q"
  by (auto simp: native_peer_def targets_ok_def split: option.splits if_splits)

lemma WaitForResource_policy_creates_none:
  "(\<And>c. kind_of c \<noteq> KPolicyCreate \<Longrightarrow> P c) \<Longrightarrow> moves (issues P) (WaitForResource e r (PolicyExists n) cd t d s)"
  by (rule issues_mono[OF within_WaitForResource[where S = "- {KPolicyCreate}"]]) auto

lemma sound_createI:
  assumes "edge \<in> set edges" "map_of rs (SideA edge) = Some r"
    and "TenantFromMapping tm (SideA edge) = Inr lt" "TenantFromMapping tm (SideB edge) = Inr rt"
    and "healthy (SideA edge) pa" "healthy (SideB edge) pb"
    and "peer_Name pa = EdgePeerName edge" "peer_Name pb = EdgePeerName edge"
  shows "sound_create rs tm tmpl edges healthy (VmsCall r (PolicyCreate
     \<lparr>polp_Name = PolicyNameFor (tmpl_OwnerName tmpl) (EdgePeerName edge),
      polp_TargetObjectId = peer_Id pa,
      polp_Prefix = tmpl_OwnerName tmpl @ ''-'' @ peer_PeerName pa @ ''-'' @ peer_PeerName pb,
      polp_Frames = tmpl_Frames tmpl, polp_TenantId = ten_Id lt,
      polp_RemoteTenantGuid = ten_Guid rt\<rparr>))"
  unfolding sound_create_def call.case vms_op.case
  using assms by (intro bexI[OF _ assms(1)] exI[of _ lt] exI[of _ rt] exI[of _ pa] exI[of _ pb]) simp

lemma sound_create_mono:
  assumes "sound_create rs tm tmpl edges H c" "\<And>sc q. H sc q \<Longrightarrow> H' sc q"
  shows "sound_create rs tm tmpl edges H' c"
proof (cases "\<exists>r p. c = VmsCall r (PolicyCreate p)")
  case True
  then obtain r p where c: "c = VmsCall r (PolicyCreate p)" by blast
  show ?thesis using assms unfolding sound_create_def c call.case vms_op.case by blast
next
  case False
  then show ?thesis by (cases c) (auto simp: sound_create_def split: vms_op.splits)
qed

lemma sound_create_reads: "kind_of c \<noteq> KPolicyCreate \<Longrightarrow> sound_create rs tm tmpl edges H c"
  by (cases c) (auto simp: sound_create_def split: vms_op.splits)

lemma discover_edge_sound:
  assumes "edge \<in> set edges" "targets_ok e rs want nt w0"
  shows "moves (issues (sound_create rs tm tmpl edges
     (\<lambda>sc q. peer_Status q = ''OK'' \<and> peer_seen e rs want (hist w0) sc q)))
     (discover_edge e rs tm tmpl nt edge)"
proof -
  note wait = WaitForResource_policy_creates_none[OF sound_create_reads]
  show ?thesis
    unfolding discover_edge_def ensurePolicy_def Let_def vms_def
    by (intro iss.bindE_ret iss.bindE iss.bind iss.wrapE wait iss.ret issues_ask moves_control)
      (auto simp: edge_client_def sound_create_def[of _ _ _ _ _ "VmsCall _ (PolicyGet _)"] assms(1)
        dest!: native_peer_ok[OF assms(2)] split: option.splits intro!: sound_createI[unfolded append_Cons append_Nil])
qed




section \<open>Deletion reaches every policy\<close>

definition names_of :: "(string \<times> 'a list) list \<Rightarrow> string \<Rightarrow> 'a list" where
  "names_of m sc = (case map_of m sc of Some ns \<Rightarrow> ns | None \<Rightarrow> [])"

lemma names_of_append [simp]:
  "names_of (map_append k v m) sc = (if sc = k then names_of m sc @ [v] else names_of m sc)"
  by (simp add: names_of_def map_append_def update_conv')

lemma policy_names_fold:
  "set (names_of (fold (\<lambda>t m.
       if PeerName t = [] then m
       else (let policyName = PolicyNameFor ownerName (PeerName t);
                 (sideA, sideB) = (if Destination t = primarySC then (Destination t, Source t)
                                   else (Source t, Destination t)) in
             map_append sideB policyName (map_append sideA policyName m))) topology m) sc)
   = set (names_of m sc) \<union> (\<lambda>t. PolicyNameFor ownerName (PeerName t)) `
       {t \<in> set topology. PeerName t \<noteq> [] \<and> sc \<in> {Source t, Destination t}}"
  by (induction topology arbitrary: m) (auto simp: Let_def)

lemma edges_image:
  "f ` {ed \<in> set (NewReplicationEdgesList topology primary). P (EdgePeerName ed)
          \<and> sc \<in> {SideA ed, SideB ed}}
   = (\<lambda>t. f (if Destination t = primary
        then \<lparr>SideA = Destination t, SideB = Source t, EdgePeerName = PeerName t\<rparr>
        else \<lparr>SideA = Source t, SideB = Destination t, EdgePeerName = PeerName t\<rparr>)) `
     {t \<in> set topology. P (PeerName t) \<and> sc \<in> {Source t, Destination t}}"
  by (force simp: NewReplicationEdgesList_def)


definition link_for :: "(string \<times> TenantInfo) list \<Rightarrow> ReplicationEdge \<Rightarrow> ReplicationLink \<Rightarrow> bool" where
  "link_for tm ed l =
     (SideA (Edge l) = SideA ed \<and> SideB (Edge l) = SideB ed \<and> EdgePeerName (Edge l) = EdgePeerName ed
      \<and> TenantFromMapping tm (SideA ed) = Inr (LocalTenant (Edge l))
      \<and> TenantFromMapping tm (SideB ed) = Inr (RemoteTenant (Edge l)))"

lemma newReplicationLink_for:
  "TenantFromMapping tm (SideA ed) = Inr lt \<Longrightarrow> TenantFromMapping tm (SideB ed) = Inr rt \<Longrightarrow>
   link_for tm ed (newReplicationLink n i pa pb ed lt rt)"
  by (simp add: link_for_def newReplicationLink_def)

lemma ensurePolicy_link:
  assumes "run_state (ensurePolicy e r ed lt rt tmpl pa pb pf) w = (Inr l, w')"
  shows "\<exists>n i. l = newReplicationLink n i pa pb ed lt rt"
  using assms by (auto simp: ensurePolicy_def Let_def run_simps vms_def
      split: sum.splits option.splits)

lemma run_bindE_ret: "run_state (bindE (ret r) f) w =
    (case r of Inl x \<Rightarrow> (Inl x, w) | Inr y \<Rightarrow> run_state (f y) w)"
  by (simp add: run_simps split: sum.split)

lemma discover_edge_link:
  assumes "run_state (discover_edge e rs tm tmpl nt ed) w = (Inr l, w')"
  shows "link_for tm ed l"
  using assms unfolding discover_edge_def Let_def run_bindE_ret
  by (auto split: sum.splits elim!: run_bindE_InrE dest!: ensurePolicy_link
      simp: run_ret newReplicationLink_for)

lemma discover_loop_links:
  assumes "run_state (foldE (\<lambda>result edge. bindE (discover_edge e rs tm tmpl nt edge)
        (\<lambda>pair. ret (Inr (map_append (SideA edge) pair result)))) s edges) w = (Inr s', w')"
  shows "\<exists>ls. names_of s' sc = names_of s sc @ ls
          \<and> list_all2 (link_for tm) (filter (\<lambda>ed. SideA ed = sc) edges) ls"
  using assms
proof (induction edges arbitrary: s w)
  case Nil
  then show ?case by (simp add: run_simps)
next
  case (Cons ed edges)
  from Cons.prems obtain l v where l: "run_state (discover_edge e rs tm tmpl nt ed) w = (Inr l, v)"
    and rest: "run_state (foldE (\<lambda>result edge. bindE (discover_edge e rs tm tmpl nt edge)
        (\<lambda>pair. ret (Inr (map_append (SideA edge) pair result)))) (map_append (SideA ed) l s) edges) v
        = (Inr s', w')"
    by (auto elim!: run_bindE_InrE simp: run_ret)
  from Cons.IH[OF rest] obtain ls where
    "names_of s' sc = names_of (map_append (SideA ed) l s) sc @ ls"
    "list_all2 (link_for tm) (filter (\<lambda>ed. SideA ed = sc) edges) ls" by blast
  with discover_edge_link[OF l] show ?case by (auto split: if_splits)
qed

text \<open>C21: A successful discovery returns, for every StorageClass, one link per edge that starts there,
  in the order of the edges, and each link carries its edge and the tenants recorded for the two
  sides.\<close>

theorem discovery_links_every_edge:
  assumes "run_state (DiscoverLinkPolicies e rs tm edges tmpl) w = (Inr links, w')"
  shows "list_all2 (link_for tm) (filter (\<lambda>ed. SideA ed = sc) edges) (names_of links sc)"
proof -
  from assms obtain nt v where "run_state (foldE (\<lambda>result edge.
      bindE (discover_edge e rs tm tmpl nt edge)
        (\<lambda>pair. ret (Inr (map_append (SideA edge) pair result)))) [] edges) v = (Inr links, w')"
    unfolding DiscoverLinkPolicies_def by (auto elim!: run_bindE_InrE)
  from discover_loop_links[OF this] show ?thesis by (auto simp: names_of_def)
qed


section \<open>A two-cluster mesh\<close>

definition demo_rest :: "string \<Rightarrow> rest" where
  "demo_rest host = \<lparr>cfg_Host = host, cfg_Username = ''u'', cfg_Password = ''p'', cfg_Tenant = [],
     cfg_Token = [], cfg_SslVerify = False\<rparr>"

definition demo_rests :: "(string \<times> rest) list" where
  "demo_rests = [(''gold'', demo_rest ''a''), (''silver'', demo_rest ''b'')]"

definition demo_tenants :: "(string \<times> TenantInfo) list" where
  "demo_tenants = [(''gold'', \<lparr>ten_Name = ''t'', ten_Guid = ''ga'', ten_Id = 1\<rparr>),
     (''silver'', \<lparr>ten_Name = ''t'', ten_Guid = ''gb'', ten_Id = 2\<rparr>)]"

definition demo_topology :: "string \<Rightarrow> ReplicationTarget list" where
  "demo_topology peer =
     [\<lparr>Source = ''gold'', Destination = ''silver'', PeerName = peer, TargetExportedDir = []\<rparr>]"

definition demo_tmpl :: PolicyTemplateParams where
  "demo_tmpl = \<lparr>tmpl_OwnerName = ''o'', tmpl_Frames = []\<rparr>"

definition mesh_vms :: vms_api where
  "mesh_vms = idle_vms\<lparr>
     v_peersList := \<lambda>h r n. Inr [\<lparr>peer_Id = 7, peer_Name = ''link'', peer_PeerName = cfg_Host r,
                                 peer_Status = ''OK''\<rparr>],
     v_policyCreate := \<lambda>h r p. Inr \<lparr>pol_Name = polp_Name p, pol_Id = 5, pol_FillError = None\<rparr>,
     v_exists := \<lambda>h r op. Inr True\<rparr>"

definition mesh_env :: env where
  "mesh_env = idle_env\<lparr>e_vms := mesh_vms\<rparr>"

lemmas demo_simps = demo_rest_def demo_rests_def demo_tenants_def demo_topology_def demo_tmpl_def
  mesh_vms_def mesh_env_def idle_simps run_simps vms_def Let_def

lemmas peer_defs = ResolveAndFetchTopologyPeers_def BuildPeerNamesBySC_def FetchTopologyPeers_def
  ReplicationPeers_List_def topologyPeerNamesBySC_def ResolvePeerName_def sorted_keys_def
  explicitPeerNamesForSC_def storageClassNeedsPeerDiscovery_def

lemmas policy_defs = DiscoverLinkPolicies_def buildNativeReplicaTargetsBySC_def
  NewReplicationEdgesList_def ReplicationPeers_List_def discover_edge_def edge_client_def
  TenantFromMapping_def native_peer_def ensurePolicy_def WaitForResource_def WaitResource_def
  wait_timed_out_def poll_simps policyMirrorTimeout_def policyMirrorSleep_def Second_def PolicyNameFor_def
  newReplicationLink_def map_append_def

lemma demo_resolves:
  "fst (run_state (ResolveAndFetchTopologyPeers mesh_env demo_rests (demo_topology [])) start_world) =
     (None, demo_topology ''link'')"
  by (simp add: demo_simps peer_defs)

abbreviation demo_edges :: "ReplicationEdge list" where
  "demo_edges \<equiv> NewReplicationEdgesList (demo_topology ''link'') ''gold''"

definition demo_link :: ReplicationLink where
  "demo_link = newReplicationLink ''o-link'' 5 \<lparr>peer_Id = 7, peer_Name = ''link'', peer_PeerName = ''a'',
     peer_Status = ''OK''\<rparr> \<lparr>peer_Id = 7, peer_Name = ''link'', peer_PeerName = ''b'',
     peer_Status = ''OK''\<rparr> (hd demo_edges) (snd (demo_tenants ! 0)) (snd (demo_tenants ! 1))"

lemma demo_discovers:
  "fst (run_state (DiscoverLinkPolicies mesh_env demo_rests demo_tenants demo_edges demo_tmpl)
      start_world) = Inr [(''gold'', [demo_link])]"
  by (simp add: demo_simps policy_defs demo_link_def)

theorem topology_peers_resolved_witness:
  "list_all2 (resolved_entry mesh_env demo_rests (hist (snd (run_state
      (ResolveAndFetchTopologyPeers mesh_env demo_rests (demo_topology [])) start_world))))
     (demo_topology []) (demo_topology ''link'')"
  by (rule topology_peers_resolved[where w = start_world]) (simp add: prod_eq_iff demo_resolves)


theorem discovery_links_every_edge_witness:
  "list_all2 (link_for demo_tenants) (filter (\<lambda>ed. SideA ed = ''gold'') demo_edges)
     (names_of [(''gold'', [demo_link])] ''gold'')"
  by (rule discovery_links_every_edge[of mesh_env demo_rests _ _ demo_tmpl start_world _
        "snd (run_state (DiscoverLinkPolicies mesh_env demo_rests demo_tenants demo_edges demo_tmpl)
          start_world)"]) (simp only: prod_eq_iff demo_discovers fst_conv snd_conv)

end
