(* ===== verification/Ppath.thy ===== *)
theory Ppath
  imports Policies
begin

text \<open>
  Protected paths and their replication streams
  (internal/common/vmsrest/ppath.go): reading a path and waiting for its streams,
  adding a stream, the reaction to a target directory that already exists on the
  peer, and the orchestration of the whole constellation. Pointers to REST clients
  that a map lookup may leave nil are options; the reporter of a reconcile is never
  nil. Where the source returns the path's name next to an error, the model returns
  the error: no caller reads the name then.
\<close>

section \<open>Constants\<close>

definition ppathActiveState :: string where "ppathActiveState = ''active''"
definition ppathPartiallyActiveState :: string where "ppathPartiallyActiveState = ''partially active''"
definition ppathFailedState :: string where "ppathFailedState = ''failed''"
definition vastNameMaxLen :: nat where "vastNameMaxLen = 64"
definition streamStateActive :: string where "streamStateActive = ''Active''"
definition streamStateWaitingForStandby :: string where
  "streamStateWaitingForStandby = ''Waiting for a standby stream''"
definition streamStateFailed :: string where "streamStateFailed = ''Failed''"
definition ppathActiveTimeout :: duration where "ppathActiveTimeout = 5 * Minute"
definition ppathActiveSleep :: duration where "ppathActiveSleep = 15 * Second"
definition streamWaitingForStandbyTimeout :: duration where
  "streamWaitingForStandbyTimeout = 5 * Minute"
definition streamWaitingForStandbySleep :: duration where "streamWaitingForStandbySleep = 10 * Second"
definition streamActiveTimeout :: duration where "streamActiveTimeout = 10 * Minute"
definition streamActiveSleep :: duration where "streamActiveSleep = 10 * Second"
definition ppathMirrorTimeout :: duration where "ppathMirrorTimeout = 2 * Minute"
definition ppathMirrorSleep :: duration where "ppathMirrorSleep = 10 * Second"

definition ReasonPeerTargetPathCleared :: string where
  "ReasonPeerTargetPathCleared = ''PeerTargetPathCleared''"


section \<open>Reading a protected path\<close>

definition truncateName :: "string \<Rightarrow> string" where
  "truncateName s = (if length s \<le> vastNameMaxLen then s else take vastNameMaxLen s)"

definition ppathStreams :: "Ppath \<Rightarrow> Stream list" where
  "ppathStreams p = (case pp_Streams p of None \<Rightarrow> [] | Some ss \<Rightarrow> ss)"

definition ppathStreamNameSet :: "Stream list \<Rightarrow> string set" where
  "ppathStreamNameSet streams = set (filter (\<lambda>n. n \<noteq> []) (map st_Name streams))"

definition checkPpathState :: "string \<Rightarrow> string \<Rightarrow> string \<Rightarrow> err option" where
  "checkPpathState name state failureReason =
     (let st = ToLower state in
      if st = ppathActiveState \<or> st = ppathPartiallyActiveState then None
      else if st = ppathFailedState then
        (if failureReason \<noteq> [] then Some (Errorf ''protected path %q failed: %s'' [name, failureReason])
         else Some (Errorf ''protected path %q is in failed state (VAST provides no failure reason)'' [name]))
      else if failureReason \<noteq> [] then
        Some (Errorf ''protected path %q is not active (state=%q): %s'' [name, state, failureReason])
      else Some (NewRetryAfterError (Errorf ''protected path %q is not yet active (state=%q)'' [name, state])
                   (30 * Second)))"

definition ProtectedPaths_Get :: "env \<Rightarrow> rest \<Rightarrow> string \<Rightarrow> (err + Ppath) io" where
  "ProtectedPaths_Get e rest name = vms e rest (PpathGet name) (\<lambda>h. v_ppathGet (e_vms e) h rest name)"

definition getPpathRecord :: "env \<Rightarrow> rest \<Rightarrow> string \<Rightarrow> (err + Ppath) io" where
  "getPpathRecord e rest ppathName =
     bindE (wrapE (Errorf_w ''failed to get protected path %q: '' [ppathName])
              (ProtectedPaths_Get e rest ppathName))
       (\<lambda>record. ret (case pp_FillError record of
            Some x \<Rightarrow> Inl (Errorf_w ''failed to decode protected path %q: '' [ppathName] x)
          | None \<Rightarrow> Inr record))"

definition GetPpath :: "env \<Rightarrow> rest \<Rightarrow> string \<Rightarrow> (err + Ppath) io" where
  "GetPpath e rest name = getPpathRecord e rest name"

definition IsPpathActive :: "env \<Rightarrow> rest \<Rightarrow> string \<Rightarrow> err option io" where
  "IsPpathActive e rest name =
     GetPpath e rest name \<bind> (\<lambda>r. ret (case r of
         Inl x \<Rightarrow> Some x
       | Inr ppath \<Rightarrow> checkPpathState (pp_Name ppath) (pp_State ppath) (pp_FailureReason ppath)))"

text \<open>One check of waitForStreamState on the record: an error, done, or not yet.\<close>

definition stream_check :: "string \<Rightarrow> string \<Rightarrow> string list \<Rightarrow> Ppath \<Rightarrow> err + unit option" where
  "stream_check ppathName streamName expectedStates record =
     (case pp_FillError record of
        Some x \<Rightarrow> Inl x
      | None \<Rightarrow> (case checkPpathState ppathName (pp_State record) (pp_FailureReason record) of
          Some x \<Rightarrow> Inl x
        | None \<Rightarrow> (case find (\<lambda>s. st_Name s = streamName) (ppathStreams record) of
            None \<Rightarrow> Inr None
          | Some s \<Rightarrow>
              if st_State s \<in> set expectedStates then Inr (Some ())
              else if EqualFold (st_State s) streamStateFailed then
                Inl (Errorf ''stream %q in ppath %q is in Failed state'' [streamName, ppathName])
              else Inr None)))"

definition waitForStreamState ::
  "env \<Rightarrow> rest \<Rightarrow> string \<Rightarrow> string \<Rightarrow> string list \<Rightarrow> duration \<Rightarrow> duration \<Rightarrow> (err + unit) io" where
  "waitForStreamState e rest ppathName streamName expectedStates timeout sleep =
     WaitResource e timeout sleep
       (Sprintf ''stream %q in ppath %q to reach state %v''
          [streamName, ppathName, ''['' @ Join expectedStates '' '' @ '']''])
       (ProtectedPaths_Get e rest ppathName \<bind> (\<lambda>r. ret (case r of
            Inl x \<Rightarrow> if v_isNotFound (e_vms e) x then Inr None else Inl x
          | Inr record \<Rightarrow> stream_check ppathName streamName expectedStates record)))"

definition waitForPpath :: "env \<Rightarrow> rest \<Rightarrow> string \<Rightarrow> (err + int \<times> Stream list) io" where
  "waitForPpath e rest ppathName =
     WaitResource e ppathMirrorTimeout ppathMirrorSleep
       (Sprintf ''ppath %q to appear on cluster'' [ppathName])
       (getPpathRecord e rest ppathName \<bind> (\<lambda>r. ret (case r of
            Inl x \<Rightarrow> if v_expectStatus (e_vms e) x 404 then Inr None else Inl x
          | Inr record \<Rightarrow> Inr (Some (pp_Id record, ppathStreams record)))))"


section \<open>Adding a stream\<close>

definition isPathOnPeerExistsErr :: "err \<Rightarrow> bool" where
  "isPathOnPeerExistsErr x = Contains (ToLower (Error_string x)) ''path on peer exists''"

definition blocked_by_block :: "string \<Rightarrow> err" where
  "blocked_by_block targetPath =
     Errorf (''peer target path %q already exists on the destination cluster; ''
       @ ''block replication requires the destination subsystem/path to be absent so VAST can create it. ''
       @ ''Delete the destination subsystem on the peer cluster manually, then retry ''
       @ ''(automatic folder cleanup is only supported for file replication)'') [targetPath]"

definition peer_path_not_directory :: "string \<Rightarrow> err" where
  "peer_path_not_directory targetPath =
     Errorf (''peer target path %q already exists and is not a directory; ''
       @ ''VAST replication requires this path to be absent so it can create the destination. ''
       @ ''Remove or rename the path on the peer cluster (or correct the StorageClass path), then retry'')
       [targetPath]"

definition peer_path_not_empty :: "string \<Rightarrow> int \<Rightarrow> err" where
  "peer_path_not_empty targetPath children =
     Errorf (''peer target path %q already exists and is not empty (children=%d); ''
       @ ''VAST replication requires the destination directory to be absent so it can create it. ''
       @ ''This may be leftover data from a previous replication or a misconfigured target path. ''
       @ ''Remove or empty the path on the peer cluster (or correct the StorageClass path), then retry'')
       [targetPath, FormatInt children]"

text \<open>The handler always ends in an error, so the model returns the error itself.\<close>

definition handlePathOnPeerExists :: "env \<Rightarrow> rest option \<Rightarrow> string \<Rightarrow> int \<Rightarrow> bool \<Rightarrow> err io" where
  "handlePathOnPeerExists e remoteRest targetPath tenantId allowPeerDirCleanup =
     (if \<not> allowPeerDirCleanup then ret (blocked_by_block targetPath)
      else case remoteRest of
        None \<Rightarrow> ret panic_nil
      | Some remote \<Rightarrow> StatPath e remote targetPath tenantId \<bind> (\<lambda>r. case r of
          Inl x \<Rightarrow> ret (Errorf_w ''stat peer target path %q after \"path on peer exists\": '' [targetPath] x)
        | Inr None \<Rightarrow>
            (let msg = Sprintf (''VAST reported \"path on peer exists\" for %q but the path is now absent ''
                   @ ''on the peer; retrying'') [targetPath] in
             emit_Warning e ReasonPeerTargetPathCleared msg
             \<bind> (\<lambda>_. ret (NewRetryAfterError (Plain msg) (15 * Second))))
        | Inr (Some stat) \<Rightarrow>
            if \<not> fs_IsDirectory stat then ret (peer_path_not_directory targetPath)
            else if fs_Children stat > 0 then ret (peer_path_not_empty targetPath (fs_Children stat))
            else DeleteFolder e remote targetPath tenantId \<bind> (\<lambda>d. case d of
                Some x \<Rightarrow> ret (Errorf_w
                  ''delete empty peer target path %q after \"path on peer exists\": '' [targetPath] x)
              | None \<Rightarrow>
                  (let msg = Sprintf (''removed empty leftover peer target path %q after VAST reported ''
                         @ ''\"path on peer exists\"; will retry create'') [targetPath] in
                   emit_Warning e ReasonPeerTargetPathCleared msg
                   \<bind> (\<lambda>_. ret (NewRetryAfterError (Plain msg) (15 * Second)))))))"

definition AddReplicationStream ::
  "env \<Rightarrow> rest \<Rightarrow> rest option \<Rightarrow> string \<Rightarrow> int \<Rightarrow> string \<Rightarrow> ReplicationLink \<Rightarrow> bool \<Rightarrow> bool
     \<Rightarrow> (err + unit) io" where
  "AddReplicationStream e rest remoteRest streamName ppathId targetExportedDir pair isStandby
       allowPeerDirCleanup =
     (let params = \<lparr>sp_Name = streamName, sp_TargetExportedDir = targetExportedDir,
                    sp_PolicyId = PolicyId pair, sp_RemoteTenantGuid = ten_Guid (RemoteTenant (Edge pair)),
                    sp_IsStandby = isStandby\<rparr> in
      vms e rest (AddStream ppathId params) (\<lambda>h. v_act (e_vms e) h rest (AddStream ppathId params))
      \<bind> (\<lambda>r. case r of
          None \<Rightarrow> ret (Inr ())
        | Some x \<Rightarrow>
            if isPathOnPeerExistsErr x then
              handlePathOnPeerExists e remoteRest targetExportedDir (ten_Id (RemoteTenant (Edge pair)))
                allowPeerDirCleanup
              \<bind> (\<lambda>y. ret (Inl (wrapErr (Errorf_w ''add replication stream %q: '' [streamName]) y)))
            else ret (Inl (Errorf_w ''failed to add replication stream %q: '' [streamName] x))))"


section \<open>The protected path of the primary\<close>

definition same_cluster :: "ReplicationLink \<Rightarrow> err" where
  "same_cluster first =
     Errorf (''StorageClass %q and %q resolve to the same VAST cluster (tenant GUID %s); ''
       @ ''source and destination StorageClasses must point to different clusters ''
       @ [CHR 0xE2, CHR 0x80, CHR 0x94]
       @ '' check that the secrets used by each StorageClass belong to distinct VAST systems'')
       [SideA (Edge first), SideB (Edge first), ten_Guid (LocalTenant (Edge first))]"

definition create_ppath ::
  "env \<Rightarrow> rest \<Rightarrow> rest option \<Rightarrow> string \<Rightarrow> string \<Rightarrow> string \<Rightarrow> ReplicationLink \<Rightarrow> bool \<Rightarrow> (err + unit) io" where
  "create_ppath e rest remoteRest ownerName sourceDir targetExportedDir first allowPeerDirCleanup =
     (let localTenant = LocalTenant (Edge first); remoteTenant = RemoteTenant (Edge first);
          params = \<lparr>ppp_Name = ownerName, ppp_SourceDir = sourceDir,
                    ppp_TargetExportedDir = targetExportedDir, ppp_TenantId = ten_Id localTenant,
                    ppp_RemoteTenantGuid = ten_Guid remoteTenant, ppp_PolicyId = PolicyId first\<rparr> in
      if ten_Guid localTenant = ten_Guid remoteTenant then ret (Inl (same_cluster first))
      else vms e rest (PpathCreate params) (\<lambda>h. v_ppathCreate (e_vms e) h rest params) \<bind> (\<lambda>r. case r of
          Inl x \<Rightarrow>
            if isPathOnPeerExistsErr x then
              handlePathOnPeerExists e remoteRest targetExportedDir (ten_Id remoteTenant) allowPeerDirCleanup
              \<bind> (\<lambda>y. ret (Inl (wrapErr (Errorf_w ''failed to create protected path: '' []) y)))
            else ret (Inl (Errorf_w ''failed to create protected path: '' [] x))
        | Inr _ \<Rightarrow> time_Sleep e (20 * Second) \<bind> (\<lambda>_. ret (Inr ()))))"

definition await_first_stream :: "env \<Rightarrow> rest \<Rightarrow> string \<Rightarrow> (err + string \<times> int) io" where
  "await_first_stream e rest ownerName =
     bindE (getPpathRecord e rest ownerName) (\<lambda>obj.
       if pp_FailureReason obj \<noteq> [] then
         ret (Inl (Errorf ''protected path %q has failed: %s'' [pp_Name obj, pp_FailureReason obj]))
       else case ppathStreams obj of
           [] \<Rightarrow> ret (Inl (Errorf ''ppath %q has no embedded streams after creation'' [pp_Name obj]))
         | firstStream # _ \<Rightarrow>
             bindE (wrapE (Errorf_w ''ppath %q first stream %q did not become active: ''
                             [pp_Name obj, st_Name firstStream])
                      (waitForStreamState e rest (pp_Name obj) (st_Name firstStream) [streamStateActive]
                         ppathActiveTimeout ppathActiveSleep))
               (\<lambda>_. ret (Inr (pp_Name obj, pp_Id obj))))"

definition EnsurePpath ::
  "env \<Rightarrow> rest \<Rightarrow> rest option \<Rightarrow> string \<Rightarrow> string \<Rightarrow> string \<Rightarrow> ReplicationLink \<Rightarrow> bool
     \<Rightarrow> (err + string \<times> int) io" where
  "EnsurePpath e rest remoteRest ownerName sourceDir targetExportedDir first allowPeerDirCleanup =
     ProtectedPaths_Get e rest ownerName \<bind> (\<lambda>r. case r of
         Inr _ \<Rightarrow> await_first_stream e rest ownerName
       | Inl x \<Rightarrow>
           if \<not> v_isNotFound (e_vms e) x then
             ret (Inl (Errorf_w ''failed to check if protected path exists: '' [] x))
           else bindE (create_ppath e rest remoteRest ownerName sourceDir targetExportedDir first
                         allowPeerDirCleanup)
                  (\<lambda>_. await_first_stream e rest ownerName))"


section \<open>The constellation\<close>

definition link_suffix :: "ReplicationLink \<Rightarrow> string" where
  "link_suffix l = ''-'' @ LocalPeerName l @ ''-'' @ RemotePeerName l"

definition add_primary_stream ::
  "env \<Rightarrow> rest \<Rightarrow> (string \<times> rest) list \<Rightarrow> smap \<Rightarrow> string \<Rightarrow> int \<Rightarrow> string \<Rightarrow> ReplicationLink \<Rightarrow> bool
     \<Rightarrow> (err + unit) io" where
  "add_primary_stream e primaryRest rests dirs ppathName ppathId primaryStreamName primaryPair allow =
     bindE (wrapE (Errorf_w ''primary ppath: '' []) (getPpathRecord e primaryRest ppathName)) (\<lambda>record.
       if primaryStreamName \<in> ppathStreamNameSet (ppathStreams record) then ret (Inr ())
       else wrapE (Errorf_w ''add primary stream %q: '' [primaryStreamName])
              (AddReplicationStream e primaryRest (map_of rests (SideB (Edge primaryPair))) primaryStreamName
                 ppathId (lookup_str dirs (SideB (Edge primaryPair))) primaryPair False allow))"

definition add_standby_stream ::
  "env \<Rightarrow> (string \<times> rest) list \<Rightarrow> smap \<Rightarrow> string \<Rightarrow> string \<Rightarrow> ReplicationLink \<Rightarrow> bool \<Rightarrow> (err + unit) io" where
  "add_standby_stream e rests dirs ppathName sc crossPair allow =
     (let crossStreamName = truncateName (ppathName @ link_suffix crossPair) in
      derefE (map_of rests sc) (\<lambda>crossRest.
        bindE (wrapE (Errorf_w ''SC %s: ppath mirror: '' [sc]) (waitForPpath e crossRest ppathName))
          (\<lambda>(crossPpathId, crossStreams).
             if crossStreamName \<in> ppathStreamNameSet crossStreams then ret (Inr ())
             else wrapE (Errorf_w ''SC %s: standby stream %q: '' [sc, crossStreamName])
                    (AddReplicationStream e crossRest (map_of rests (SideB (Edge crossPair))) crossStreamName
                       crossPpathId (lookup_str dirs (SideB (Edge crossPair))) crossPair True allow))))"

definition add_standby_streams ::
  "env \<Rightarrow> (string \<times> rest) list \<Rightarrow> (string \<times> ReplicationLink list) list \<Rightarrow> string \<Rightarrow> smap \<Rightarrow> string
     \<Rightarrow> string \<Rightarrow> bool \<Rightarrow> (err + unit) io" where
  "add_standby_streams e rests pairs primarySC dirs ppathName targetSC allow =
     range_map e pairs \<bind> (\<lambda>entries. forE entries (\<lambda>(sc, crossPairs).
       if sc = primarySC then ret (Inr ())
       else forE crossPairs (\<lambda>crossPair.
         if SideB (Edge crossPair) \<noteq> targetSC then ret (Inr ())
         else add_standby_stream e rests dirs ppathName sc crossPair allow)))"

definition ensure_target ::
  "env \<Rightarrow> rest \<Rightarrow> (string \<times> rest) list \<Rightarrow> (string \<times> ReplicationLink list) list \<Rightarrow> string \<Rightarrow> string \<Rightarrow> smap
     \<Rightarrow> string \<Rightarrow> int \<Rightarrow> bool \<Rightarrow> ReplicationLink \<Rightarrow> (err + unit) io" where
  "ensure_target e primaryRest rests pairs primarySC ownerName dirs ppathName ppathId allow primaryPair =
     (let targetSC = SideB (Edge primaryPair);
          primaryStreamName = truncateName (ownerName @ link_suffix primaryPair) in
      bindE (add_primary_stream e primaryRest rests dirs ppathName ppathId primaryStreamName primaryPair allow)
        (\<lambda>_. bindE (wrapE (Errorf_w ''primary stream %q: '' [primaryStreamName])
               (waitForStreamState e primaryRest ppathName primaryStreamName
                  [streamStateWaitingForStandby, streamStateActive]
                  streamWaitingForStandbyTimeout streamWaitingForStandbySleep))
        (\<lambda>_. bindE (add_standby_streams e rests pairs primarySC dirs ppathName targetSC allow)
        (\<lambda>_. wrapE (Errorf_w ''primary stream %q: wait for active: '' [primaryStreamName])
               (waitForStreamState e primaryRest ppathName primaryStreamName [streamStateActive]
                  streamActiveTimeout streamActiveSleep)))))"

definition await_mirrors ::
  "env \<Rightarrow> (string \<times> rest) list \<Rightarrow> string \<Rightarrow> string \<Rightarrow> (err + unit) io" where
  "await_mirrors e rests primarySC ppathName =
     range_map e rests \<bind> (\<lambda>entries. forE entries (\<lambda>(sc, rest).
       if sc = primarySC then ret (Inr ())
       else bindE (wrapE (Errorf_w ''SC %s: ppath mirror: '' [sc]) (waitForPpath e rest ppathName))
              (\<lambda>_. ret (Inr ()))))"

definition EnsureConstellationPpath ::
  "env \<Rightarrow> (string \<times> rest) list \<Rightarrow> (string \<times> ReplicationLink list) list \<Rightarrow> string \<Rightarrow> string \<Rightarrow> smap \<Rightarrow> bool
     \<Rightarrow> (err + string) io" where
  "EnsureConstellationPpath e rests pairs primarySC ownerName dirs allow =
     (case (case map_of pairs primarySC of Some ls \<Rightarrow> ls | None \<Rightarrow> []) of
        [] \<Rightarrow> ret (Inl (Errorf ''no primary replication links for StorageClass %q'' [primarySC]))
      | first # others \<Rightarrow>
          derefE (map_of rests primarySC) (\<lambda>primaryRest.
            bindE (wrapE (Errorf_w ''primary ppath: '' [])
                     (EnsurePpath e primaryRest (map_of rests (SideB (Edge first))) ownerName
                        (lookup_str dirs primarySC) (lookup_str dirs (SideB (Edge first))) first allow))
              (\<lambda>(ppathName, ppathId).
                 bindE (forE others (ensure_target e primaryRest rests pairs primarySC ownerName dirs ppathName
                                     ppathId allow))
                   (\<lambda>_. bindE (await_mirrors e rests primarySC ppathName) (\<lambda>_. ret (Inr ppathName))))))"


section \<open>What these actions may request\<close>

lemma within_ppath_reads [moves_intro]:
  "KVmsRead \<in> S \<Longrightarrow> within S (ProtectedPaths_Get e r n)"
  "KVmsRead \<in> S \<Longrightarrow> within S (getPpathRecord e r n)"
  "KVmsRead \<in> S \<Longrightarrow> within S (GetPpath e r n)"
  "KVmsRead \<in> S \<Longrightarrow> within S (IsPpathActive e r n)"
  unfolding ProtectedPaths_Get_def getPpathRecord_def GetPpath_def IsPpathActive_def
  by (auto intro!: issues_rules within_vms)

lemma within_ppath_waits [moves_intro]:
  "KVmsRead \<in> S \<Longrightarrow> KSleep \<in> S \<Longrightarrow> within S (waitForStreamState e r p n es t d)"
  "KVmsRead \<in> S \<Longrightarrow> KSleep \<in> S \<Longrightarrow> within S (waitForPpath e r p)"
  "KVmsRead \<in> S \<Longrightarrow> KSleep \<in> S \<Longrightarrow> within S (await_first_stream e r p)"
  "KVmsRead \<in> S \<Longrightarrow> KSleep \<in> S \<Longrightarrow> within S (await_mirrors e rs sc p)"
proof -
  show 1: "KVmsRead \<in> S \<Longrightarrow> KSleep \<in> S \<Longrightarrow> within S (waitForStreamState e r p n es t d)" for r p n es t d
    unfolding waitForStreamState_def by (auto intro!: within_WaitResource issues_rules within_ppath_reads)
  show 2: "KVmsRead \<in> S \<Longrightarrow> KSleep \<in> S \<Longrightarrow> within S (waitForPpath e r p)" for r p
    unfolding waitForPpath_def by (auto intro!: within_WaitResource issues_rules within_ppath_reads)
  show "KVmsRead \<in> S \<Longrightarrow> KSleep \<in> S \<Longrightarrow> within S (await_first_stream e r p)"
    unfolding await_first_stream_def by (auto intro!: issues_rules within_ppath_reads 1)
  show "KVmsRead \<in> S \<Longrightarrow> KSleep \<in> S \<Longrightarrow> within S (await_mirrors e rs sc p)"
    unfolding await_mirrors_def by (auto intro!: issues_rules 2 split: prod.split)
qed

lemma within_handle [moves_intro]:
  "KVmsRead \<in> S \<Longrightarrow> KDeleteFolder \<in> S \<Longrightarrow> KEvent \<in> S \<Longrightarrow>
   within S (handlePathOnPeerExists e r p t b)"
  unfolding handlePathOnPeerExists_def Let_def by (auto intro!: issues_rules within_folders)

lemma within_AddReplicationStream [moves_intro]:
  "{KVmsRead, KDeleteFolder, KEvent, KAddStream} \<subseteq> S \<Longrightarrow>
   within S (AddReplicationStream e r rr n i d l s b)"
  unfolding AddReplicationStream_def Let_def by (auto intro!: issues_rules within_vms within_handle)

lemma within_create_ppath [moves_intro]:
  "{KVmsRead, KDeleteFolder, KEvent, KPpathCreate, KSleep} \<subseteq> S \<Longrightarrow>
   within S (create_ppath e r rr n sd td l b)"
  unfolding create_ppath_def Let_def by (auto intro!: issues_rules within_vms within_handle)

lemma within_EnsurePpath [moves_intro]:
  "{KVmsRead, KDeleteFolder, KEvent, KPpathCreate, KSleep} \<subseteq> S \<Longrightarrow>
   within S (EnsurePpath e r rr n sd td l b)"
  unfolding EnsurePpath_def
  by (auto intro!: issues_rules within_ppath_reads within_ppath_waits within_create_ppath)

definition stream_kinds :: "call_kind set" where
  "stream_kinds = {KVmsRead, KDeleteFolder, KEvent, KAddStream, KSleep}"

lemma within_streams [moves_intro]:
  assumes "stream_kinds \<subseteq> S"
  shows "within S (add_primary_stream e r rs ds p i n l b)"
    and "within S (add_standby_streams e rs ps sc ds p tsc b)"
    and "within S (ensure_target e r rs ps sc n ds p i b l)"
proof -
  show 1: "within S (add_primary_stream e r rs ds p i n l b)" for n
    using assms unfolding add_primary_stream_def stream_kinds_def
    by (auto intro!: issues_rules within_ppath_reads within_AddReplicationStream)
  show 2: "within S (add_standby_streams e rs ps sc ds p tsc b)" for tsc
    using assms unfolding add_standby_streams_def add_standby_stream_def Let_def stream_kinds_def
    by (auto intro!: issues_rules within_ppath_waits within_AddReplicationStream split: prod.split)
  show "within S (ensure_target e r rs ps sc n ds p i b l)"
    using assms unfolding ensure_target_def Let_def stream_kinds_def
    by (intro issues_rules 1 2 within_ppath_waits) auto
qed

lemma within_EnsureConstellationPpath [moves_intro]:
  "insert KPpathCreate stream_kinds \<subseteq> S \<Longrightarrow> within S (EnsureConstellationPpath e rs ps sc n ds b)"
  unfolding EnsureConstellationPpath_def
  by (intro issues_rules within_EnsurePpath within_streams within_ppath_waits)
    (auto simp: stream_kinds_def)


section \<open>The clean-up of a peer directory\<close>

definition all_links :: "(string \<times> ReplicationLink list) list \<Rightarrow> ReplicationLink set" where
  "all_links pairs = {l. \<exists>sc ls. (sc, ls) \<in> set pairs \<and> l \<in> set ls}"

lemma all_linksI: "(sc, ls) \<in> set pairs \<Longrightarrow> l \<in> set ls \<Longrightarrow> l \<in> all_links pairs"
  by (auto simp: all_links_def)

definition target_of :: "(string \<times> rest) list \<Rightarrow> smap \<Rightarrow> ReplicationLink \<Rightarrow> rest \<Rightarrow> string \<Rightarrow> int \<Rightarrow> bool" where
  "target_of rests dirs l r p t =
     (map_of rests (SideB (Edge l)) = Some r \<and> p = lookup_str dirs (SideB (Edge l))
      \<and> t = ten_Id (RemoteTenant (Edge l)))"

definition found_empty :: "env \<Rightarrow> rest \<Rightarrow> string \<Rightarrow> int \<Rightarrow> history \<Rightarrow> bool" where
  "found_empty e r p t h =
     (\<exists>h' st. h = h' @ [VmsCall r (StatPathOp p t)] \<and> v_statPath (e_vms e) h' r p t = Inr st
        \<and> fs_IsDirectory st \<and> fs_Children st \<le> 0)"

definition safe_delete ::
  "env \<Rightarrow> (string \<times> rest) list \<Rightarrow> smap \<Rightarrow> ReplicationLink set \<Rightarrow> bool \<Rightarrow> history \<Rightarrow> call \<Rightarrow> bool" where
  "safe_delete e rests dirs links allow h c =
     (\<forall>r p t. c = VmsCall r (DeleteFolderOp p t) \<longrightarrow>
        allow \<and> found_empty e r p t h \<and> (\<exists>l \<in> links. target_of rests dirs l r p t))"

lemma safe_delete_other: "kind_of c \<noteq> KDeleteFolder \<Longrightarrow> safe_delete e rs ds ls b h c"
  by (auto simp: safe_delete_def)

lemma safe_delete_within:
  "within (- {KDeleteFolder}) m \<Longrightarrow> moves (justified (safe_delete e rs ds ls b)) m"
  by (erule justified_within) (auto intro: safe_delete_other)

lemma handle_safe:
  assumes "l \<in> ls"
  shows "moves (justified (safe_delete e rs ds ls b))
     (handlePathOnPeerExists e (map_of rs (SideB (Edge l))) (lookup_str ds (SideB (Edge l)))
        (ten_Id (RemoteTenant (Edge l))) b)"
proof (cases "map_of rs (SideB (Edge l))")
  case None
  then show ?thesis by (auto simp: handlePathOnPeerExists_def intro!: jus_rules)
next
  case (Some r)
  then show ?thesis
    using assms unfolding handlePathOnPeerExists_def StatPath_def DeleteFolder_def vms_def Let_def
    by (auto simp: moves_def run_simps found_empty_def target_of_def safe_delete_def justified_refl
        split: sum.splits option.splits if_splits intro!: justified_record justified_warned)
qed

lemma stream_ops_safe:
  assumes "l \<in> ls"
  shows "moves (justified (safe_delete e rs ds ls b))
      (AddReplicationStream e r (map_of rs (SideB (Edge l))) n i (lookup_str ds (SideB (Edge l))) l s b)"
    and "moves (justified (safe_delete e rs ds ls b))
      (EnsurePpath e r (map_of rs (SideB (Edge l))) n sd (lookup_str ds (SideB (Edge l))) l b)"
  unfolding AddReplicationStream_def EnsurePpath_def create_ppath_def Let_def
  by (intro jus_rules handle_safe[OF assms] safe_delete_within within_vms within_ppath_reads
      within_ppath_waits issues_prims; simp)+

lemma standby_safe:
  assumes "all_links pairs \<subseteq> ls"
  shows "moves (justified (safe_delete e rs ds ls b)) (add_standby_streams e rs pairs sc ds p tsc b)"
  unfolding add_standby_streams_def add_standby_stream_def Let_def
proof (intro moves_range jus.forE moves_prod moves_if jus.ret jus.derefE jus.bindE jus.wrapE)
  fix entries and x :: "string \<times> ReplicationLink list" and k ps l rest y cid streams
  assume "set entries = set pairs" "x \<in> set entries" "x = (k, ps)" "l \<in> set ps"
  then have "l \<in> ls" using assms by (auto simp: all_links_def)
  then show "moves (justified (safe_delete e rs ds ls b)) (AddReplicationStream e rest
     (map_of rs (SideB (Edge l))) (truncateName (p @ link_suffix l)) cid (lookup_str ds (SideB (Edge l))) l True b)"
    by (rule stream_ops_safe)
qed (auto intro!: safe_delete_within within_ppath_waits)

lemma ensure_target_safe:
  assumes "l \<in> ls" "all_links pairs \<subseteq> ls"
  shows "moves (justified (safe_delete e rs ds ls b)) (ensure_target e r rs pairs sc n ds p i b l)"
  unfolding ensure_target_def add_primary_stream_def Let_def
  by (intro jus_rules stream_ops_safe(1)[OF assms(1)] standby_safe[OF assms(2)] safe_delete_within
      within_ppath_reads within_ppath_waits; simp)

lemma constellation_safe:
  "moves (justified (safe_delete e rs ds (all_links pairs) b)) (EnsureConstellationPpath e rs pairs sc n ds b)"
proof -
  have in_links: "l \<in> all_links pairs"
    if "(case map_of pairs sc of Some ls \<Rightarrow> ls | None \<Rightarrow> []) = first # others" "l \<in> set (first # others)"
    for first others l
    using that by (cases "map_of pairs sc") (auto dest!: map_of_SomeD intro: all_linksI)
  show ?thesis
    unfolding EnsureConstellationPpath_def
    by (intro jus_rules stream_ops_safe(2) ensure_target_safe safe_delete_within within_ppath_waits)
      (auto intro: in_links)
qed

text \<open>C16: While a constellation is established the operator deletes a directory on a cluster only when
  peer clean-up is allowed, the directory is the one a link of the constellation replicates to, on
  that link's remote cluster and tenant, and the request right before asked the same cluster for the
  same path and found an empty directory.\<close>

theorem peer_directory_deleted_only_when_empty:
  assumes "run_state (EnsureConstellationPpath e rests pairs primarySC ownerName dirs allow) w = (r, w')"
    and "length (hist w) \<le> i" "i < length (hist w')" "hist w' ! i = VmsCall c (DeleteFolderOp p t)"
  shows "allow \<and> (\<exists>l \<in> all_links pairs. target_of rests dirs l c p t) \<and> found_empty e c p t (take i (hist w'))"
  using justified_nth[OF movesD[OF constellation_safe assms(1)] assms(2,3)] assms(4)
  by (simp add: safe_delete_def)


section \<open>Creating the protected path\<close>

definition sound_ppath_create ::
  "env \<Rightarrow> rest \<Rightarrow> string \<Rightarrow> string \<Rightarrow> string \<Rightarrow> ReplicationLink \<Rightarrow> history \<Rightarrow> call \<Rightarrow> bool" where
  "sound_ppath_create e primary ownerName srcDir dstDir l h c =
     (\<forall>r p. c = VmsCall r (PpathCreate p) \<longrightarrow>
        r = primary
        \<and> (\<exists>h' x. h = h' @ [VmsCall r (PpathGet ownerName)]
             \<and> v_ppathGet (e_vms e) h' r ownerName = Inl x \<and> v_isNotFound (e_vms e) x)
        \<and> ten_Guid (LocalTenant (Edge l)) \<noteq> ten_Guid (RemoteTenant (Edge l))
        \<and> p = \<lparr>ppp_Name = ownerName, ppp_SourceDir = srcDir, ppp_TargetExportedDir = dstDir,
               ppp_TenantId = ten_Id (LocalTenant (Edge l)),
               ppp_RemoteTenantGuid = ten_Guid (RemoteTenant (Edge l)), ppp_PolicyId = PolicyId l\<rparr>)"

lemma sound_ppath_create_within:
  "within (- {KPpathCreate}) m \<Longrightarrow> moves (justified (sound_ppath_create e r n sd dd l)) m"
  by (erule justified_within) (auto simp: sound_ppath_create_def)

lemma create_ppath_after:
  assumes "hist v = h' @ [VmsCall r (PpathGet n)]" "v_ppathGet (e_vms e) h' r n = Inl x"
    and "v_isNotFound (e_vms e) x"
  shows "justified (sound_ppath_create e r n sd dd l) v (snd (run_state (create_ppath e r rr n sd dd l b) v))"
proof (cases "ten_Guid (LocalTenant (Edge l)) = ten_Guid (RemoteTenant (Edge l))")
  case True
  then show ?thesis by (simp add: create_ppath_def run_simps justified_refl)
next
  case False
  then show ?thesis
    unfolding create_ppath_def Let_def vms_def if_not_P[OF False]
    by (intro justified_ask_then jus_rules sound_ppath_create_within within_handle issues_prims)
      (use assms in \<open>simp_all add: sound_ppath_create_def\<close>)
qed

lemma EnsurePpath_creates:
  "moves (justified (sound_ppath_create e r n sd dd l)) (EnsurePpath e r rr n sd dd l b)"
proof (rule movesI)
  fix w
  let ?Q = "sound_ppath_create e r n sd dd l"
  let ?v = "record_call e (VmsCall r (PpathGet n)) 0 w"
  have get: "run_state (ProtectedPaths_Get e r n) w = (v_ppathGet (e_vms e) (hist w) r n, ?v)"
    by (simp add: ProtectedPaths_Get_def vms_def run_simps)
  have v: "justified ?Q w ?v" by (intro justified_record justified_refl) (simp add: sound_ppath_create_def)
  have await: "moves (justified ?Q) (await_first_stream e r n)"
    by (rule sound_ppath_create_within, rule within_ppath_waits) simp_all
  show "justified ?Q w (snd (run_state (EnsurePpath e r rr n sd dd l b) w))"
  proof (cases "v_ppathGet (e_vms e) (hist w) r n")
    case (Inr p)
    then show ?thesis using v await by (auto simp: EnsurePpath_def run_bind get moves_def intro: justified_trans)
  next
    case (Inl x)
    show ?thesis
    proof (cases "v_isNotFound (e_vms e) x")
      case True
      have "justified ?Q ?v (snd (run_state (create_ppath e r rr n sd dd l b) ?v))"
        by (rule create_ppath_after[OF _ Inl True]) simp
      then have "justified ?Q ?v (snd (run_state (bindE (create_ppath e r rr n sd dd l b)
          (\<lambda>_. await_first_stream e r n)) ?v))"
        using await by (auto simp: run_bindE moves_def split: prod.split sum.split intro: justified_trans)
      then show ?thesis using True Inl v by (auto simp: EnsurePpath_def run_bind get intro: justified_trans)
    next
      case False
      then show ?thesis using Inl v by (simp add: EnsurePpath_def run_bind run_ret get)
    qed
  qed
qed

text \<open>C23: A protected path is created only on the primary cluster, right after that cluster answered that
  no path of this name exists, with the directories and tenants of the first link of the primary, and
  never when the two sides of that link are the same cluster.\<close>

theorem ppath_created_only_when_absent:
  assumes "run_state (EnsureConstellationPpath e rests pairs primarySC ownerName dirs allow) w = (r, w')"
    and "map_of pairs primarySC = Some (first # others)" "map_of rests primarySC = Some primary"
    and "length (hist w) \<le> i" "i < length (hist w')"
  shows "sound_ppath_create e primary ownerName (lookup_str dirs primarySC)
     (lookup_str dirs (SideB (Edge first))) first (take i (hist w')) (hist w' ! i)"
proof -
  have "moves (justified (sound_ppath_create e primary ownerName (lookup_str dirs primarySC)
     (lookup_str dirs (SideB (Edge first))) first))
     (EnsureConstellationPpath e rests pairs primarySC ownerName dirs allow)"
    unfolding EnsureConstellationPpath_def assms(2,3) option.case list.case derefE_def
    by (intro jus_rules EnsurePpath_creates sound_ppath_create_within within_streams within_ppath_waits)
      (auto simp: stream_kinds_def)
  from justified_nth[OF movesD[OF this assms(1)] assms(4,5)] show ?thesis .
qed


section \<open>The order of the streams\<close>

text \<open>A reply in which the named stream of the path is in one of the given states.\<close>

definition stream_seen ::
  "env \<Rightarrow> rest \<Rightarrow> string \<Rightarrow> string \<Rightarrow> string list \<Rightarrow> history \<Rightarrow> bool" where
  "stream_seen e r ppathName streamName states h =
     (\<exists>p s. v_ppathGet (e_vms e) h r ppathName = Inr p
        \<and> checkPpathState ppathName (pp_State p) (pp_FailureReason p) = None
        \<and> s \<in> set (ppathStreams p) \<and> st_Name s = streamName \<and> st_State s \<in> set states)"

lemma stream_check_seen:
  "v_ppathGet (e_vms e) h r p = Inr rec \<Longrightarrow> stream_check p n es rec = Inr (Some ()) \<Longrightarrow>
   stream_seen e r p n es h"
  by (auto simp: stream_seen_def stream_check_def find_Some_iff split: option.splits if_splits
      intro!: bexI[where P = "\<lambda>s. st_Name s = _ \<and> st_State s \<in> _", unfolded Bex_def])

lemma waitForStreamState_seen:
  assumes "run_state (waitForStreamState e r p n es t d) w = (Inr u, w')"
  shows "\<exists>h. prefix (hist w) h \<and> prefix h (hist w') \<and> stream_seen e r p n es h"
proof -
  from assms[unfolded waitForStreamState_def WaitResource_def] obtain v where
    v: "prefix (hist w) (hist v)" and
    c: "run_state (ProtectedPaths_Get e r p \<bind> (\<lambda>r. ret (case r of
            Inl x \<Rightarrow> if v_isNotFound (e_vms e) x then Inr None else Inl x
          | Inr record \<Rightarrow> stream_check p n es record))) v = (Inr (Some u), w')"
    by (rule poll_success)
      (auto intro!: issues_rules issues_mono[OF within_ppath_reads(1)[OF UNIV_I]])
  from c have "stream_seen e r p n es (hist v)" "hist w' = hist v @ [VmsCall r (PpathGet p)]"
    by (auto simp: ProtectedPaths_Get_def vms_def run_simps split: sum.splits if_splits
        intro!: stream_check_seen)
  with v show ?thesis by (intro exI[of _ "hist v"]) simp
qed

definition gated_stream ::
  "env \<Rightarrow> (string \<times> rest) list \<Rightarrow> (string \<times> ReplicationLink list) list \<Rightarrow> string \<Rightarrow> string \<Rightarrow> string
     \<Rightarrow> ReplicationLink list \<Rightarrow> history \<Rightarrow> call \<Rightarrow> bool" where
  "gated_stream e rests pairs primarySC ownerName ppathName primaryPairs h c =
     (\<forall>r i sp. c = VmsCall r (AddStream i sp) \<longrightarrow>
        (if sp_IsStandby sp then
           (\<exists>sc ls x l primary h'. sc \<noteq> primarySC \<and> map_of rests sc = Some r
              \<and> (sc, ls) \<in> set pairs \<and> x \<in> set ls \<and> l \<in> set primaryPairs
              \<and> SideB (Edge x) = SideB (Edge l) \<and> map_of rests primarySC = Some primary \<and> prefix h' h
              \<and> stream_seen e primary ppathName (truncateName (ownerName @ link_suffix l))
                  [streamStateWaitingForStandby, streamStateActive] h')
         else map_of rests primarySC = Some r))"

lemma gated_other: "kind_of c \<noteq> KAddStream \<Longrightarrow> gated_stream e rs ps sc n p ls h c"
  by (auto simp: gated_stream_def)

lemma gated_within:
  "within (- {KAddStream}) m \<Longrightarrow> moves (justified (\<lambda>h c. prefix h0 h \<longrightarrow> gated_stream e rs ps sc n p ls h c)) m"
  by (erule justified_within) (auto intro: gated_other)

lemma AddReplicationStream_justified:
  assumes "\<And>h sp. sp_IsStandby sp = s \<Longrightarrow> Q h (VmsCall r (AddStream i sp))"
    and "\<And>h c. kind_of c \<noteq> KAddStream \<Longrightarrow> Q h c"
  shows "moves (justified Q) (AddReplicationStream e r rr n i d l s b)"
proof -
  have "moves (justified Q) (handlePathOnPeerExists e rr d t b)" for t
    by (rule justified_within[where S = "- {KAddStream}"], rule within_handle) (auto intro: assms(2))
  then show ?thesis unfolding AddReplicationStream_def Let_def vms_def
    by (intro jus_rules) (auto intro: assms(1))
qed

lemma standby_gated:
  assumes "l \<in> set ls" "map_of rs sc = Some primary"
    and "stream_seen e primary p (truncateName (n @ link_suffix l))
           [streamStateWaitingForStandby, streamStateActive] h0"
  shows "moves (justified (\<lambda>h c. prefix h0 h \<longrightarrow> gated_stream e rs pairs sc n p ls h c))
     (add_standby_streams e rs pairs sc ds p (SideB (Edge l)) b)"
  unfolding add_standby_streams_def add_standby_stream_def Let_def derefE_def
proof (intro moves_range jus.forE moves_prod moves_if moves_option jus.ret jus.bindE jus.wrapE
    AddReplicationStream_justified)
  fix entries and y :: "string \<times> ReplicationLink list" and k ps x rest a cid streams h and sp :: StreamParams
  assume "set entries = set pairs" "y \<in> set entries" "y = (k, ps)" "k \<noteq> sc" "x \<in> set ps"
    "\<not> SideB (Edge x) \<noteq> SideB (Edge l)" "map_of rs k = Some rest" "sp_IsStandby sp = True"
  then show "prefix h0 h \<longrightarrow> gated_stream e rs pairs sc n p ls h (VmsCall rest (AddStream cid sp))"
    using assms by (auto simp: gated_stream_def intro!: exI)
qed (auto intro!: gated_within within_ppath_waits gated_other)

lemma ensure_target_gated:
  assumes "l \<in> set ls" "map_of rs sc = Some primary"
  shows "moves (justified (gated_stream e rs pairs sc n p ls))
     (ensure_target e primary rs pairs sc n ds p i b l)"
proof -
  let ?Q = "gated_stream e rs pairs sc n p ls"
  have free: "within (- {KAddStream}) m \<Longrightarrow> moves (justified ?Q) m" for m :: "'x io"
    by (erule justified_within) (auto intro: gated_other)
  have add: "moves (justified ?Q) (add_primary_stream e primary rs ds p i m l b)" for m
    unfolding add_primary_stream_def
    by (intro jus_rules AddReplicationStream_justified free within_ppath_reads)
      (auto simp: gated_stream_def assms(2))
  show ?thesis
    unfolding ensure_target_def Let_def
  proof (rule jus.bindE[OF add], rule jus.bindE_post)
    show "moves (justified ?Q) (wrapE g (waitForStreamState e primary p m es t d))" for g m es t d
      by (intro jus.wrapE free within_ppath_waits) auto
  next
    fix w a v
    assume "run_state (wrapE (Errorf_w ''primary stream %q: '' [truncateName (n @ link_suffix l)])
        (waitForStreamState e primary p (truncateName (n @ link_suffix l))
          [streamStateWaitingForStandby, streamStateActive]
          streamWaitingForStandbyTimeout streamWaitingForStandbySleep)) w = (Inr a, v)"
    then have "run_state (waitForStreamState e primary p (truncateName (n @ link_suffix l))
          [streamStateWaitingForStandby, streamStateActive]
          streamWaitingForStandbyTimeout streamWaitingForStandbySleep) w = (Inr a, v)"
      by (rule run_wrapE_InrE)
    from waitForStreamState_seen[OF this] obtain h0 where h0: "prefix h0 (hist v)" "stream_seen e primary p
        (truncateName (n @ link_suffix l)) [streamStateWaitingForStandby, streamStateActive] h0"
      by blast
    have cont: "moves (justified (\<lambda>h c. prefix h0 h \<longrightarrow> ?Q h c))
       (bindE (add_standby_streams e rs pairs sc ds p (SideB (Edge l)) b)
        (\<lambda>_. wrapE g (waitForStreamState e primary p m es t d)))" for g m es t d
      by (intro jus.bindE jus.wrapE standby_gated[OF assms h0(2)] gated_within within_ppath_waits) auto
    show "justified ?Q v (snd (run_state (bindE (add_standby_streams e rs pairs sc ds p (SideB (Edge l)) b)
        (\<lambda>_. wrapE (Errorf_w ''primary stream %q: wait for active: '' [truncateName (n @ link_suffix l)])
            (waitForStreamState e primary p (truncateName (n @ link_suffix l)) [streamStateActive]
              streamActiveTimeout streamActiveSleep))) v))"
      by (rule justified_from[OF moves_at[OF cont] h0(1)])
  qed
qed



section \<open>What a successful call establishes\<close>

text \<open>A reply, given during the run from \<open>w\<close> to \<open>w'\<close>, that satisfies \<open>P\<close>.\<close>

definition observed :: "world \<Rightarrow> world \<Rightarrow> (history \<Rightarrow> bool) \<Rightarrow> bool" where
  "observed w w' P = (\<exists>h. prefix (hist w) h \<and> prefix h (hist w') \<and> P h)"

lemma observed_mono:
  assumes "observed v v' P" "prefix (hist w) (hist v)" "prefix (hist v') (hist w')"
  shows "observed w w' P"
  using assms unfolding observed_def by (metis prefix_order.trans)

definition ppath_seen :: "env \<Rightarrow> rest \<Rightarrow> string \<Rightarrow> history \<Rightarrow> bool" where
  "ppath_seen e r p h = (\<exists>rec. v_ppathGet (e_vms e) h r p = Inr rec \<and> pp_FillError rec = None)"

lemma getPpathRecord_seen:
  assumes "run_state (getPpathRecord e r p) w = (Inr rec, w')"
  shows "v_ppathGet (e_vms e) (hist w) r p = Inr rec" "pp_FillError rec = None"
    "hist w' = hist w @ [VmsCall r (PpathGet p)]"
  using assms by (auto simp: getPpathRecord_def ProtectedPaths_Get_def vms_def run_simps
      split: sum.splits option.splits)

lemma waitForPpath_seen:
  assumes "run_state (waitForPpath e r p) w = (Inr u, w')"
  shows "observed w w' (ppath_seen e r p)"
proof -
  from assms[unfolded waitForPpath_def WaitResource_def] obtain v where
    v: "prefix (hist w) (hist v)" and
    c: "run_state (getPpathRecord e r p \<bind> (\<lambda>r. ret (case r of
            Inl x \<Rightarrow> if v_expectStatus (e_vms e) x 404 then Inr None else Inl x
          | Inr record \<Rightarrow> Inr (Some (pp_Id record, ppathStreams record))))) v = (Inr (Some u), w')"
    by (rule poll_success)
      (auto intro!: issues_rules issues_mono[OF within_ppath_reads(2)[OF UNIV_I]])
  from c obtain rec where "run_state (getPpathRecord e r p) v = (Inr rec, w')"
    by (auto simp: run_simps split: prod.splits sum.splits if_splits)
  from getPpathRecord_seen[OF this] v show ?thesis
    unfolding observed_def ppath_seen_def by (intro exI[of _ "hist v"]) auto
qed

lemma prefix_run:
  assumes "within S m" "run_state m w = (a, w')"
  shows "prefix (hist w) (hist w')"
  by (rule within_prefix[OF assms])

lemma ensure_target_active:
  assumes "run_state (ensure_target e primary rs pairs sc n ds p i b l) w = (Inr u, w')"
  shows "observed w w' (stream_seen e primary p (truncateName (n @ link_suffix l)) [streamStateActive])"
proof -
  let ?m = "truncateName (n @ link_suffix l)"
  from assms obtain a1 v1 a2 v2 a3 v3 where
    1: "run_state (add_primary_stream e primary rs ds p i ?m l b) w = (Inr a1, v1)" and
    2: "run_state (waitForStreamState e primary p ?m [streamStateWaitingForStandby, streamStateActive]
          streamWaitingForStandbyTimeout streamWaitingForStandbySleep) v1 = (Inr a2, v2)" and
    3: "run_state (add_standby_streams e rs pairs sc ds p (SideB (Edge l)) b) v2 = (Inr a3, v3)" and
    4: "run_state (waitForStreamState e primary p ?m [streamStateActive] streamActiveTimeout
          streamActiveSleep) v3 = (Inr u, w')"
    unfolding ensure_target_def Let_def by (elim run_bindE_InrE run_wrapE_InrE) blast
  have "prefix (hist w) (hist v3)"
    using prefix_run[OF within_streams(1)[of UNIV] 1] prefix_run[OF within_ppath_waits(1)[of UNIV] 2]
      prefix_run[OF within_streams(2)[of UNIV] 3] by (auto dest: prefix_order.trans)
  then show ?thesis
    using waitForStreamState_seen[OF 4] unfolding observed_def by (auto dest: prefix_order.trans)
qed

lemma await_mirrors_seen:
  assumes "run_state (await_mirrors e rs sc p) w = (Inr u, w')" "(k, r) \<in> set rs" "k \<noteq> sc"
  shows "observed w w' (ppath_seen e r p)"
proof -
  let ?f = "\<lambda>(sc', rest). if sc' = sc then ret (Inr ())
       else bindE (wrapE (Errorf_w ''SC %s: ppath mirror: '' [sc']) (waitForPpath e rest p))
              (\<lambda>_. ret (Inr ()))"
  let ?es = "sort_key (\<lambda>(k, _). e_prio e (hist w) k) rs"
  have run: "run_state (forE ?es ?f) w = (Inr u, w')"
    using assms(1) by (simp add: await_mirrors_def run_simps(1,8))
  have "moves (issues (\<lambda>_. True)) (?f x)" for x
    by (auto intro!: issues_rules issues_mono[OF within_ppath_waits(2)[OF UNIV_I UNIV_I]] split: prod.split)
  from forE_success[OF run _ this, of "(k, r)"] assms(2) obtain v v' where
    "prefix (hist w) (hist v)" "prefix (hist v') (hist w')"
    and f: "run_state (?f (k, r)) v = (Inr (), v')" by auto
  moreover have "observed v v' (ppath_seen e r p)"
    using f assms(3) by (auto simp: run_ret elim!: run_bindE_InrE run_wrapE_InrE intro: waitForPpath_seen)
  ultimately show ?thesis by (blast intro: observed_mono)
qed

lemma await_first_stream_active:
  assumes "run_state (await_first_stream e r n) w = (Inr (p, i), w')"
  shows "\<exists>s. observed w w' (stream_seen e r p s [streamStateActive])"
proof -
  from assms obtain obj v and s :: Stream where
    1: "run_state (getPpathRecord e r n) w = (Inr obj, v)" and p: "p = pp_Name obj" and
    2: "run_state (waitForStreamState e r p (st_Name s) [streamStateActive] ppathActiveTimeout
          ppathActiveSleep) v = (Inr (), w')"
    unfolding await_first_stream_def
    by (auto elim!: run_bindE_InrE run_wrapE_InrE simp: run_ret split: if_splits list.splits)
  have "prefix (hist w) (hist v)" by (rule prefix_run[OF within_ppath_reads(2)[OF UNIV_I] 1])
  then show ?thesis using waitForStreamState_seen[OF 2] unfolding observed_def
    by (auto dest: prefix_order.trans)
qed

lemma EnsurePpath_active:
  assumes "run_state (EnsurePpath e r rr n sd dd l b) w = (Inr (p, i), w')"
  shows "\<exists>s. observed w w' (stream_seen e r p s [streamStateActive])"
proof -
  let ?v = "record_call e (VmsCall r (PpathGet n)) 0 w"
  from assms obtain v where "prefix (hist w) (hist v)" and
    "run_state (await_first_stream e r n) v = (Inr (p, i), w')"
  proof (cases "v_ppathGet (e_vms e) (hist w) r n")
    case (Inr y)
    with assms show ?thesis using that[of ?v]
      by (auto simp: EnsurePpath_def ProtectedPaths_Get_def vms_def run_simps)
  next
    case (Inl x)
    with assms obtain u v where c: "run_state (create_ppath e r rr n sd dd l b) ?v = (Inr u, v)"
      and a: "run_state (await_first_stream e r n) v = (Inr (p, i), w')"
      by (auto simp: EnsurePpath_def ProtectedPaths_Get_def vms_def run_bind run_ask run_ret
          split: if_splits elim!: run_bindE_InrE)
    have "prefix (hist ?v) (hist v)" by (rule prefix_run[OF within_create_ppath[of UNIV] c]) simp
    then have "prefix (hist w) (hist v)" by (auto dest: append_prefixD)
    then show ?thesis using that a by blast
  qed
  then show ?thesis using await_first_stream_active by (blast intro: observed_mono)
qed



section \<open>Truncated stream names\<close>

lemma truncate_long: "vastNameMaxLen \<le> length n \<Longrightarrow> truncateName (n @ s) = take vastNameMaxLen n"
  by (cases s) (auto simp: truncateName_def)

text \<open>When the owner's name fills the 64 characters VAST allows, the stream names of all targets are cut
  to the same string. Once one target has its stream, the step that should add the stream of another
  target finds the name taken and adds nothing.\<close>

theorem truncated_stream_not_added:
  assumes "vastNameMaxLen \<le> length ownerName"
    and "v_ppathGet (e_vms e) (hist w) r p = Inr rec" "pp_FillError rec = None"
    and "truncateName (ownerName @ link_suffix l) \<in> ppathStreamNameSet (ppathStreams rec)"
  shows "run_state (add_primary_stream e r rests dirs p i (truncateName (ownerName @ link_suffix l')) l' allow) w
     = (Inr (), record_call e (VmsCall r (PpathGet p)) 0 w)"
  using assms by (simp add: truncate_long add_primary_stream_def getPpathRecord_def ProtectedPaths_Get_def
      vms_def run_simps)


section \<open>Concrete constellations\<close>

definition demo_peer :: "string \<Rightarrow> Peer" where
  "demo_peer host = \<lparr>peer_Id = 7, peer_Name = ''link'', peer_PeerName = host, peer_Status = ''OK''\<rparr>"

definition demo_tenant :: "string \<Rightarrow> TenantInfo" where
  "demo_tenant guid = \<lparr>ten_Name = ''t'', ten_Guid = guid, ten_Id = 1\<rparr>"

definition mesh_link :: "string \<Rightarrow> string \<Rightarrow> string \<Rightarrow> string \<Rightarrow> ReplicationLink" where
  "mesh_link scA hostA scB hostB =
     newReplicationLink ''o-link'' 5 (demo_peer hostA) (demo_peer hostB)
       \<lparr>SideA = scA, SideB = scB, EdgePeerName = ''link''\<rparr> (demo_tenant hostA) (demo_tenant hostB)"

definition three_rests :: "(string \<times> rest) list" where
  "three_rests = [(''gold'', demo_rest ''a''), (''silver'', demo_rest ''b''), (''bronze'', demo_rest ''c'')]"

definition three_links :: "(string \<times> ReplicationLink list) list" where
  "three_links = [(''gold'', [mesh_link ''gold'' ''a'' ''silver'' ''b'', mesh_link ''gold'' ''a'' ''bronze'' ''c'']),
     (''silver'', [mesh_link ''silver'' ''b'' ''bronze'' ''c''])]"

definition three_dirs :: smap where
  "three_dirs = [(''gold'', ''/a''), (''silver'', ''/b''), (''bronze'', ''/c'')]"

definition demo_ppath :: "Stream list \<Rightarrow> Ppath" where
  "demo_ppath ss = \<lparr>pp_Id = 1, pp_Name = ''o'', pp_State = ''active'', pp_FailureReason = [],
     pp_Role = ''Source'', pp_Enabled = True, pp_TenantId = 1, pp_SourceDir = ''/a'', pp_Streams = Some ss, pp_FillError = None\<rparr>"

text \<open>Clusters that hold the path already, with one stream, and report an added stream as active.\<close>

definition healthy_vms :: vms_api where
  "healthy_vms = idle_vms\<lparr>
     v_ppathGet := \<lambda>h r n. Inr (demo_ppath (\<lparr>st_Name = ''s'', st_State = ''Active''\<rparr> #
       (if list_ex (\<lambda>c. kind_of c = KAddStream) h
        then [\<lparr>st_Name = ''o-a-c'', st_State = ''Active''\<rparr>] else []))),
     v_act := \<lambda>h r op. None\<rparr>"

definition healthy_env :: env where
  "healthy_env = idle_env\<lparr>e_vms := healthy_vms\<rparr>"

text \<open>Clusters without the path, whose peer still has the empty target directory.\<close>

definition leftover_vms :: vms_api where
  "leftover_vms = idle_vms\<lparr>
     v_ppathGet := \<lambda>h r n. Inl (VastError 404 []),
     v_ppathCreate := \<lambda>h r p. Inl (Plain ''path on peer exists''),
     v_statPath := \<lambda>h r p t. Inr \<lparr>fs_IsDirectory = True, fs_Children = 0\<rparr>,
     v_act := \<lambda>h r op. None\<rparr>"

definition leftover_env :: env where
  "leftover_env = idle_env\<lparr>e_vms := leftover_vms\<rparr>"

lemmas ppath_demo_simps = demo_peer_def demo_tenant_def mesh_link_def three_rests_def three_links_def
  three_dirs_def demo_ppath_def healthy_vms_def healthy_env_def leftover_vms_def leftover_env_def
  demo_rest_def newReplicationLink_def idle_simps run_simps vms_def Let_def

lemmas ppath_defs = EnsureConstellationPpath_def EnsurePpath_def ProtectedPaths_Get_def create_ppath_def
  isPathOnPeerExistsErr_def handlePathOnPeerExists_def StatPath_def DeleteFolder_def derefE_def
  lookup_str_def

lemmas stream_defs = await_first_stream_def getPpathRecord_def ppathStreams_def waitForStreamState_def
  WaitResource_def poll_simps stream_check_def checkPpathState_def ppathActiveState_def
  ppathActiveTimeout_def ppathActiveSleep_def Minute_def Second_def streamStateActive_def
  ensure_target_def add_primary_stream_def ppathStreamNameSet_def truncateName_def vastNameMaxLen_def
  link_suffix_def AddReplicationStream_def streamStateWaitingForStandby_def
  streamWaitingForStandbyTimeout_def streamWaitingForStandbySleep_def add_standby_streams_def
  add_standby_stream_def waitForPpath_def ppathMirrorTimeout_def ppathMirrorSleep_def
  streamActiveTimeout_def streamActiveSleep_def await_mirrors_def

lemma three_sel:
  "map_of three_links ''gold'' = Some [mesh_link ''gold'' ''a'' ''silver'' ''b'',
     mesh_link ''gold'' ''a'' ''bronze'' ''c'']"
  "map_of three_rests ''gold'' = Some (demo_rest ''a'')"
  by (simp_all add: three_links_def three_rests_def)

abbreviation leftover_run :: "(err + string) \<times> world" where
  "leftover_run \<equiv> run_state (EnsureConstellationPpath leftover_env three_rests three_links ''gold'' ''o''
     three_dirs True) start_world"

lemma leftover_hist:
  "take 4 (hist (snd leftover_run)) =
    [VmsCall (demo_rest ''a'') (PpathGet ''o''),
     VmsCall (demo_rest ''a'') (PpathCreate \<lparr>ppp_Name = ''o'', ppp_SourceDir = ''/a'',
       ppp_TargetExportedDir = ''/b'', ppp_TenantId = 1, ppp_RemoteTenantGuid = ''b'', ppp_PolicyId = 5\<rparr>),
     VmsCall (demo_rest ''b'') (StatPathOp ''/b'' 1), VmsCall (demo_rest ''b'') (DeleteFolderOp ''/b'' 1)]"
  "length (hist (snd leftover_run)) = 5"
  by (simp_all add: ppath_demo_simps ppath_defs ToLower_def lower_char_def is_upper_def as_vast_def HasPrefix_def)

abbreviation healthy_run :: "(err + string) \<times> world" where
  "healthy_run \<equiv> run_state (EnsureConstellationPpath healthy_env three_rests three_links ''gold'' ''o''
     three_dirs False) start_world"

lemma healthy_result: "fst healthy_run = Inr ''o''"
  by (simp add: ppath_demo_simps ppath_defs stream_defs ToLower_def lower_char_def is_upper_def)

lemma healthy_standby:
  "hist (snd healthy_run) ! 7 = VmsCall (demo_rest ''b'') (AddStream 1 \<lparr>sp_Name = ''o-b-c'',
     sp_TargetExportedDir = ''/c'', sp_PolicyId = 5, sp_RemoteTenantGuid = ''c'', sp_IsStandby = True\<rparr>)"
  "length (hist (snd healthy_run)) = 11"
  by (simp_all add: ppath_demo_simps ppath_defs stream_defs ToLower_def lower_char_def is_upper_def)

theorem peer_directory_deleted_only_when_empty_witness:
  "hist (snd leftover_run) ! 3 = VmsCall (demo_rest ''b'') (DeleteFolderOp ''/b'' 1)
   \<and> (\<exists>l \<in> all_links three_links. target_of three_rests three_dirs l (demo_rest ''b'') ''/b'' 1)
   \<and> found_empty leftover_env (demo_rest ''b'') ''/b'' 1 (take 3 (hist (snd leftover_run)))"
proof -
  have at: "hist (snd leftover_run) ! 3 = VmsCall (demo_rest ''b'') (DeleteFolderOp ''/b'' 1)"
    using leftover_hist(1) nth_take[of 3 4 "hist (snd leftover_run)"] by simp
  have "True \<and> (\<exists>l \<in> all_links three_links. target_of three_rests three_dirs l (demo_rest ''b'') ''/b'' 1)
     \<and> found_empty leftover_env (demo_rest ''b'') ''/b'' 1 (take 3 (hist (snd leftover_run)))"
    by (rule peer_directory_deleted_only_when_empty[OF prod.collapse[symmetric] _ _ at])
      (simp_all add: leftover_hist(2) start_world_sel)
  with at show ?thesis by simp
qed

theorem ppath_created_only_when_absent_witness:
  "sound_ppath_create leftover_env (demo_rest ''a'') ''o'' ''/a'' ''/b''
     (mesh_link ''gold'' ''a'' ''silver'' ''b'') (take 1 (hist (snd leftover_run)))
     (hist (snd leftover_run) ! 1)"
proof -
  have "sound_ppath_create leftover_env (demo_rest ''a'') ''o'' (lookup_str three_dirs ''gold'')
     (lookup_str three_dirs (SideB (Edge (mesh_link ''gold'' ''a'' ''silver'' ''b''))))
     (mesh_link ''gold'' ''a'' ''silver'' ''b'') (take 1 (hist (snd leftover_run)))
     (hist (snd leftover_run) ! 1)"
    by (rule ppath_created_only_when_absent[OF prod.collapse[symmetric]])
      (simp_all add: three_sel leftover_hist(2) start_world_sel)
  then show ?thesis by (simp add: three_dirs_def lookup_str_def mesh_link_def newReplicationLink_def)
qed



definition long_name :: string where
  "long_name = replicate 64 CHR ''s''"

definition long_env :: env where
  "long_env = idle_env\<lparr>e_vms := idle_vms\<lparr>v_ppathGet :=
     \<lambda>h r n. Inr (demo_ppath [\<lparr>st_Name = long_name, st_State = ''Active''\<rparr>])\<rparr>\<rparr>"

lemma long_name_sel: "length long_name = 64" "long_name \<noteq> []"
  by (simp_all add: long_name_def)

theorem truncated_stream_not_added_witness:
  "run_state (add_primary_stream long_env (demo_rest ''a'') three_rests three_dirs ''o'' 1
     (truncateName (long_name @ link_suffix (mesh_link ''gold'' ''a'' ''bronze'' ''c'')))
     (mesh_link ''gold'' ''a'' ''bronze'' ''c'') False) start_world
   = (Inr (), record_call long_env (VmsCall (demo_rest ''a'') (PpathGet ''o'')) 0 start_world)"
  by (rule truncated_stream_not_added[where l = "mesh_link ''gold'' ''a'' ''silver'' ''b''"
        and rec = "demo_ppath [\<lparr>st_Name = long_name, st_State = ''Active''\<rparr>]"])
    (simp_all add: long_name_sel vastNameMaxLen_def long_env_def idle_simps demo_ppath_def truncateName_def
      ppathStreams_def ppathStreamNameSet_def)

end
