(* ===== verification/PpathDir.thy ===== *)
theory PpathDir
  imports Vmsrest
begin

text \<open>
  The directory a protected path replicates (internal/common/ppathdir/ppathdir.go),
  predicted from the parameters of a StorageClass, and the label backfill of claims
  that existed before replication was set up
  (ApplyExistingPVCs of internal/common/k8s_client/persistentvolumeclaim.go).
\<close>

section \<open>Predicting the directory\<close>

definition IsSubsystemLevel :: "StorageClass \<Rightarrow> bool" where
  "IsSubsystemLevel sc =
     (if \<not> IsBlockStorageClass sc then False
      else TrimPrefix (lookup_str (ExtractNonPrefixedParams CSIParameterPrefix (sc_Parameters sc))
             StorageClassParameterVolumeGroup) ''/'' = [])"

definition Views_Get :: "env \<Rightarrow> rest \<Rightarrow> string \<Rightarrow> (err + View) io" where
  "Views_Get e rest name = vms e rest (ViewGet name) (\<lambda>h. v_viewGet (e_vms e) h rest name)"

definition predictSCR :: "env \<Rightarrow> StorageClass \<Rightarrow> smap \<Rightarrow> bool \<Rightarrow> bool \<Rightarrow> (err + string) io" where
  "predictSCR e sc nonPrefixedParams isBlock sslVerify =
     (if \<not> isBlock then
        (let rootExport = lookup_str nonPrefixedParams StorageClassParameterRootExport in
         if rootExport = [] then
           ret (Inl (Errorf ''StorageClass %s is missing %q parameter''
                       [sc_Name sc, StorageClassParameterRootExport]))
         else ret (Inr rootExport))
      else
        (let subsystemName = lookup_str nonPrefixedParams StorageClassParameterSubsystem;
             volumeGroup = TrimPrefix (lookup_str nonPrefixedParams StorageClassParameterVolumeGroup) ''/'' in
         bindE (wrapE (Errorf_w ''failed to build REST client from StorageClass %s: '' [sc_Name sc])
                  (NewFromStorageClass e sc sslVerify)) (\<lambda>rest.
         bindE (wrapE (Errorf_w ''failed to get subsystem view %q from StorageClass %s: ''
                         [subsystemName, sc_Name sc]) (Views_Get e rest subsystemName)) (\<lambda>subsystem.
         ret (Inr (if volumeGroup = [] then view_Path subsystem
                   else path_Join [view_Path subsystem, volumeGroup]))))))"

definition predictFileVVR :: "StorageClass \<Rightarrow> smap \<Rightarrow> string \<Rightarrow> err + string" where
  "predictFileVVR sc nonPrefixedParams volumeHandle =
     (let rootExport = lookup_str nonPrefixedParams StorageClassParameterRootExport in
      if rootExport = [] then
        Inl (Errorf ''StorageClass %s is missing required %q parameter''
               [sc_Name sc, StorageClassParameterRootExport])
      else Inr (path_Join [rootExport, path_Base volumeHandle]))"

definition predictBlockVVR :: "env \<Rightarrow> rest \<Rightarrow> StorageClass \<Rightarrow> smap \<Rightarrow> string \<Rightarrow> (err + string) io" where
  "predictBlockVVR e rest sc nonPrefixedParams volumeHandle =
     (let subsystemName = lookup_str nonPrefixedParams StorageClassParameterSubsystem;
          volumeGroup = TrimPrefix (lookup_str nonPrefixedParams StorageClassParameterVolumeGroup) ''/'' in
      if subsystemName = [] then
        ret (Inl (Errorf ''StorageClass %s is missing required %q parameter''
                    [sc_Name sc, StorageClassParameterSubsystem]))
      else bindE (wrapE (Errorf_w ''StorageClass %s: failed to get subsystem view %q: ''
                           [sc_Name sc, subsystemName]) (Views_Get e rest subsystemName))
             (\<lambda>subsystem. ret (Inr (path_Join [view_Path subsystem, volumeGroup, path_Base volumeHandle]))))"

definition predictVVR ::
  "env \<Rightarrow> StorageClass \<Rightarrow> smap \<Rightarrow> bool \<Rightarrow> bool \<Rightarrow> string \<Rightarrow> string \<Rightarrow> (err + string) io" where
  "predictVVR e sc nonPrefixedParams isBlock sslVerify volumeName namespace =
     bindE (wrapE (Errorf_w ''failed to get PV for PVC %s/%s: '' [namespace, volumeName])
              (GetPVCandPV e volumeName namespace)) (\<lambda>(_, bound).
       case bound of
         None \<Rightarrow> ret (Inl (Errorf ''PVC %s/%s not yet bound to a PV'' [namespace, volumeName]))
       | Some pv \<Rightarrow> (case pv_CSI pv of
           None \<Rightarrow> ret (Inl (Errorf ''PV %s has no CSI spec (not a CSI volume?)'' [oName pv]))
         | Some csi \<Rightarrow>
             let volumeHandle = csi_VolumeHandle csi in
             if volumeHandle = [] then
               ret (Inl (Errorf ''PV %s has an empty CSI volume handle'' [oName pv]))
             else if \<not> isBlock then ret (predictFileVVR sc nonPrefixedParams volumeHandle)
             else bindE (wrapE (Errorf_w ''failed to build REST client from StorageClass %s: '' [sc_Name sc])
                           (NewFromStorageClass e sc sslVerify))
                    (\<lambda>rest. predictBlockVVR e rest sc nonPrefixedParams volumeHandle)))"

definition Predict :: "env \<Rightarrow> StorageClass \<Rightarrow> bool \<Rightarrow> string \<Rightarrow> string \<Rightarrow> (err + string) io" where
  "Predict e sc sslVerify volumeName namespace =
     (let nonPrefixedParams = ExtractNonPrefixedParams CSIParameterPrefix (sc_Parameters sc);
          isBlock = IsBlockStorageClass sc in
      if volumeName = [] then predictSCR e sc nonPrefixedParams isBlock sslVerify
      else predictVVR e sc nonPrefixedParams isBlock sslVerify volumeName namespace)"


section \<open>Label backfill of existing claims\<close>

definition backfillBlockMapping :: "env \<Rightarrow> rest option \<Rightarrow> smap \<Rightarrow> (err + string list) io" where
  "backfillBlockMapping e rest params =
     (let subsystem = lookup_str params StorageClassParameterSubsystem;
          volumeGroup = TrimPrefix (lookup_str params StorageClassParameterVolumeGroup) ''/'';
          filt = (if volumeGroup \<noteq> [] then Some volumeGroup else None) in
      derefE rest (\<lambda>rest.
        bindE (wrapE (Errorf_w ''list volumes (subsystem=%s): '' [subsystem])
                 (vms e rest (VolumesList subsystem filt)
                    (\<lambda>h. v_volumesList (e_vms e) h rest subsystem filt)))
          (\<lambda>vols. ret (Inr (remdups (map (\<lambda>v. TrimRight (vol_Name v) ''/'') vols))))))"

definition backfillFileMapping :: "env \<Rightarrow> rest option \<Rightarrow> smap \<Rightarrow> (err + string list) io" where
  "backfillFileMapping e rest params =
     (let rootExport = lookup_str params StorageClassParameterRootExport in
      derefE rest (\<lambda>rest.
        bindE (wrapE (Errorf_w ''list views (root_export=%s): '' [rootExport])
                 (vms e rest (ViewsList rootExport) (\<lambda>h. v_viewsList (e_vms e) h rest rootExport)))
          (\<lambda>views. ret (Inr (remdups (map (\<lambda>v. TrimRight (view_Path v) ''/'') views))))))"

definition backfillVolumeMapping :: "env \<Rightarrow> StorageClass \<Rightarrow> rest option \<Rightarrow> (err + string list) io" where
  "backfillVolumeMapping e sc rest =
     (let params = ExtractNonPrefixedParams CSIParameterPrefix (sc_Parameters sc) in
      if IsBlockStorageClass sc then backfillBlockMapping e rest params
      else backfillFileMapping e rest params)"

definition backfillMappingContainsPV :: "string list \<Rightarrow> string \<Rightarrow> bool" where
  "backfillMappingContainsPV mapping pvName = list_ex (\<lambda>key. HasSuffix key pvName) mapping"

definition put_PVC :: "env \<Rightarrow> (PVC \<Rightarrow> call) \<Rightarrow> PVC \<Rightarrow> (err + PVC) io" where
  "put_PVC e c v = ask e (c v) (\<lambda>h. k_putPVC (e_k8s e) h (c v))"

definition PatchPVCLabels :: "env \<Rightarrow> PVC \<Rightarrow> err option io" where
  "PatchPVCLabels e pvc =
     (let desiredLabels = oLabels pvc in
      PatchWithRetry e (\<lambda>ns n. GetPVC e n ns) (put_PVC e PatchPVC) (\<lambda>p. p\<lparr>oLabels := desiredLabels\<rparr>) pvc
      \<bind> (\<lambda>(r, pvc'). ret (case r of None \<Rightarrow> None
           | Some x \<Rightarrow> Some (Errorf_w ''failed to patch labels on PVC %s/%s: ''
               [oNamespace pvc', oName pvc'] x))))"

text \<open>What the loop does with one claim: the claim to patch, if any. The list of the replication's
  StorageClasses, which the source passes along, only selects between log messages.\<close>

definition backfill_claim ::
  "string \<Rightarrow> string list \<Rightarrow> string \<Rightarrow> bool \<Rightarrow> PVC \<Rightarrow> PVC option" where
  "backfill_claim scName mapping subsystem isBlock pvc =
     (case pvc_StorageClassName pvc of
        None \<Rightarrow> None
      | Some pvcSC \<Rightarrow>
          if \<not> backfillMappingContainsPV mapping (pvc_VolumeName pvc) then None
          else if pvcSC \<noteq> scName then None
          else
            (let needsSCLabel = \<not> HasLabel pvc LabelStorageClass;
                 needsSubsystemLabel = (isBlock \<and> subsystem \<noteq> [] \<and> \<not> HasLabel pvc LabelSubsystem) in
             if \<not> needsSCLabel \<and> \<not> needsSubsystemLabel then None
             else
               (let p1 = (if needsSCLabel then SetLabel LabelStorageClass scName pvc else pvc);
                    p2 = (if needsSubsystemLabel then SetLabel LabelSubsystem subsystem p1 else p1)
                in Some p2)))"

fun backfill_loop :: "env \<Rightarrow> (PVC \<Rightarrow> PVC option) \<Rightarrow> PVC list \<Rightarrow> unit io" where
  "backfill_loop e f [] = ret ()"
| "backfill_loop e f (pvc # pvcs) =
     (case f pvc of
        None \<Rightarrow> backfill_loop e f pvcs
      | Some p \<Rightarrow> PatchPVCLabels e p \<bind> (\<lambda>_. backfill_loop e f pvcs))"

definition ApplyExistingPVCs ::
  "env \<Rightarrow> string \<Rightarrow> StorageClass option \<Rightarrow> rest option \<Rightarrow> (err + unit) io" where
  "ApplyExistingPVCs e scName scp rest =
     derefE scp (\<lambda>sc.
       bindE (wrapE (Errorf_w ''list backend objects for %s: '' [scName]) (backfillVolumeMapping e sc rest))
         (\<lambda>mapping.
            if mapping = [] then ret (Inr ())
            else bindE (wrapE (Errorf_w ''list PVCs: '' []) (ListAllPVCs e)) (\<lambda>pvcs.
              backfill_loop e (backfill_claim scName mapping
                (lookup_str (sc_Parameters sc) StorageClassParameterSubsystem) (IsBlockStorageClass sc)) pvcs
              \<bind> (\<lambda>_. ret (Inr ())))))"


section \<open>What these actions may request\<close>

lemma within_Views_Get [moves_intro]: "KVmsRead \<in> S \<Longrightarrow> within S (Views_Get e r n)"
  unfolding Views_Get_def by (rule within_vms) simp

lemma within_Predict [moves_intro]:
  "KVmsRead \<in> S \<Longrightarrow> KNewRest \<in> S \<Longrightarrow> KRead \<in> S \<Longrightarrow> within S (Predict e sc b v ns)"
  unfolding Predict_def predictSCR_def predictVVR_def predictBlockVVR_def Let_def
  by (auto intro!: issues_rules within_Views_Get within_clients within_GetPVCandPV split: prod.split)

lemma within_PatchPVCLabels [moves_intro]:
  "KRead \<in> S \<Longrightarrow> KPatchPVC \<in> S \<Longrightarrow> within S (PatchPVCLabels e p)"
  unfolding PatchPVCLabels_def put_PVC_def Let_def
  by (auto intro!: issues_rules within_PatchWithRetry within_reads)

lemma within_backfillVolumeMapping [moves_intro]:
  "KVmsRead \<in> S \<Longrightarrow> within S (backfillVolumeMapping e sc r)"
  unfolding backfillVolumeMapping_def backfillBlockMapping_def backfillFileMapping_def Let_def
  by (auto intro!: issues_rules within_vms)

lemma within_ApplyExistingPVCs [moves_intro]:
  assumes "KRead \<in> S" "KPatchPVC \<in> S" "KVmsRead \<in> S"
  shows "within S (ApplyExistingPVCs e n sc r)"
proof -
  have loop: "within S (backfill_loop e f ps)" for f ps
    using assms(1,2) by (induction ps) (auto intro!: issues_rules within_PatchPVCLabels)
  show ?thesis
    using assms unfolding ApplyExistingPVCs_def
    by (auto intro!: issues_rules within_backfillVolumeMapping within_reads loop)
qed


section \<open>Which claims are relabelled\<close>

lemma HasLabel_SetLabel: "HasLabel (SetLabel k v p) j = (j = k \<or> HasLabel p j)"
  by (auto simp: HasLabel_def SetLabel_def update_conv')

lemma SetLabel_sel [simp]:
  "oName (SetLabel k v p) = oName p" "oNamespace (SetLabel k v p) = oNamespace p"
  "map_of (oLabels (SetLabel k v p)) = (map_of (oLabels p))(k \<mapsto> v)"
  by (simp_all add: SetLabel_def update_conv')

lemma backfill_claim_Some:
  assumes "backfill_claim scName mapping subsystem isBlock q = Some q'"
  shows "pvc_StorageClassName q = Some scName" "oName q' = oName q" "oNamespace q' = oNamespace q"
    "\<exists>key \<in> set mapping. HasSuffix key (pvc_VolumeName q)"
    "HasLabel q' LabelStorageClass" "\<And>k. HasLabel q k \<Longrightarrow> map_of (oLabels q') k = map_of (oLabels q) k"
    "\<And>k. HasLabel q' k \<Longrightarrow> HasLabel q k \<or> k \<in> {LabelStorageClass, LabelSubsystem}"
  using assms
  by (auto simp: backfill_claim_def Let_def backfillMappingContainsPV_def list_ex_iff HasLabel_SetLabel
      HasLabel_def[of q] split: option.splits if_splits)

lemma retry_justified:
  assumes "\<And>v. moves (justified Q) (attempt v)"
  shows "moves (justified Q) (RetryOnConflict e attempt v)"
proof -
  have "moves (justified Q) (retry_loop n attempt v)" for n
    by (induction n arbitrary: v) (auto intro!: jus_rules assms)
  then show ?thesis by (simp add: RetryOnConflict_def)
qed

text \<open>A patch of a claim follows a read of that claim and changes nothing but its labels.\<close>

definition claim_patch :: "env \<Rightarrow> PVC \<Rightarrow> history \<Rightarrow> call \<Rightarrow> bool" where
  "claim_patch e q h c =
     (\<forall>p. c = PatchPVC p \<longrightarrow>
        (\<exists>h' fresh. h = h' @ [GetCall ''PersistentVolumeClaim'' (oNamespace q) (oName q)]
           \<and> k_getPVC (e_k8s e) h' (oNamespace q) (oName q) = Inr fresh \<and> p = fresh\<lparr>oLabels := oLabels q\<rparr>))"

lemma PatchPVCLabels_patch: "moves (justified (claim_patch e q)) (PatchPVCLabels e q)"
proof -
  have at: "justified (claim_patch e q) w (snd (run_state (GetPVC e (oName q) (oNamespace q) \<bind> (\<lambda>r. case r of
         Inl x \<Rightarrow> ret (Some x, o1)
       | Inr fresh \<Rightarrow> put_PVC e PatchPVC (fresh\<lparr>oLabels := oLabels q\<rparr>) \<bind> (\<lambda>r'. ret (case r' of
             Inl x \<Rightarrow> (Some x, fresh\<lparr>oLabels := oLabels q\<rparr>)
           | Inr stored \<Rightarrow> (None, stored))))) w))" for w o1
    by (auto simp: GetPVC_def put_PVC_def run_simps claim_patch_def justified_refl split: sum.split
        intro!: justified_record)
  show ?thesis
    unfolding PatchPVCLabels_def PatchWithRetry_def Let_def
    by (rule jus.bind, rule retry_justified, rule movesI, rule at) (auto intro!: jus_rules)
qed

definition owned_patch :: "env \<Rightarrow> string \<Rightarrow> PVC list \<Rightarrow> (PVC \<Rightarrow> PVC option) \<Rightarrow> history \<Rightarrow> call \<Rightarrow> bool" where
  "owned_patch e scName pvcs f h c =
     (\<forall>p. c = PatchPVC p \<longrightarrow> (\<exists>q q'. q \<in> set pvcs \<and> f q = Some q' \<and> claim_patch e q' h c))"

lemma backfill_loop_owned:
  assumes "set ps \<subseteq> set pvcs"
  shows "moves (justified (owned_patch e scName pvcs f)) (backfill_loop e f ps)"
  using assms
proof (induction ps)
  case (Cons q ps)
  have "moves (justified (owned_patch e scName pvcs f)) (PatchPVCLabels e q')" if "f q = Some q'" for q'
    using Cons.prems that by (intro justified_mono[OF PatchPVCLabels_patch]) (auto simp: owned_patch_def)
  then show ?case using Cons by (auto intro!: jus_rules)
qed (simp add: jus.ret)

text \<open>The names of the backend objects of a StorageClass, as its cluster listed them.\<close>

definition backend_listed :: "env \<Rightarrow> StorageClass \<Rightarrow> rest \<Rightarrow> string list \<Rightarrow> history \<Rightarrow> bool" where
  "backend_listed e sc r mapping h =
     (let params = ExtractNonPrefixedParams CSIParameterPrefix (sc_Parameters sc);
          vg = TrimPrefix (lookup_str params StorageClassParameterVolumeGroup) ''/'' in
      if IsBlockStorageClass sc
      then \<exists>vols. v_volumesList (e_vms e) h r (lookup_str params StorageClassParameterSubsystem)
             (if vg \<noteq> [] then Some vg else None) = Inr vols
             \<and> mapping = remdups (map (\<lambda>v. TrimRight (vol_Name v) ''/'') vols)
      else \<exists>views. v_viewsList (e_vms e) h r (lookup_str params StorageClassParameterRootExport) = Inr views
             \<and> mapping = remdups (map (\<lambda>v. TrimRight (view_Path v) ''/'') views))"

lemma backfillVolumeMapping_listed:
  assumes "run_state (backfillVolumeMapping e sc (Some r)) w = (Inr mapping, w')"
  shows "backend_listed e sc r mapping (hist w)" "prefix (hist w) (hist w')"
  using assms
  by (auto simp: backfillVolumeMapping_def backfillBlockMapping_def backfillFileMapping_def derefE_def
      vms_def run_simps Let_def backend_listed_def split: sum.splits if_splits)

definition backfill_ok :: "env \<Rightarrow> string \<Rightarrow> StorageClass \<Rightarrow> rest \<Rightarrow> history \<Rightarrow> call \<Rightarrow> bool" where
  "backfill_ok e scName sc r h c =
     (\<forall>p. c = PatchPVC p \<longrightarrow>
        (\<exists>h0 mapping h1 pvcs q q'. prefix h0 h \<and> prefix h1 h \<and> backend_listed e sc r mapping h0
           \<and> k_listPVC (e_k8s e) h1 = Inr pvcs \<and> q \<in> set pvcs
           \<and> backfill_claim scName mapping (lookup_str (sc_Parameters sc) StorageClassParameterSubsystem)
               (IsBlockStorageClass sc) q = Some q'
           \<and> claim_patch e q' h c))"

lemma backfill_okI:
  assumes "prefix h0 h" "prefix h1 h" "backend_listed e sc r mapping h0" "k_listPVC (e_k8s e) h1 = Inr pvcs"
    and "owned_patch e scName pvcs (backfill_claim scName mapping
        (lookup_str (sc_Parameters sc) StorageClassParameterSubsystem) (IsBlockStorageClass sc)) h c"
  shows "backfill_ok e scName sc r h c"
  using assms unfolding backfill_ok_def owned_patch_def by blast

lemma backfill_ok_other: "kind_of c \<noteq> KPatchPVC \<Longrightarrow> backfill_ok e n sc r h c"
  by (auto simp: backfill_ok_def)

lemma ListAllPVCs_listed:
  assumes "run_state (wrapE g (ListAllPVCs e)) w = (Inr pvcs, v)"
  shows "k_listPVC (e_k8s e) (hist w) = Inr pvcs" "prefix (hist w) (hist v)"
  using assms by (auto simp: ListAllPVCs_def run_simps split: sum.splits)

lemma ApplyExistingPVCs_ok:
  "moves (justified (backfill_ok e scName sc r)) (ApplyExistingPVCs e scName (Some sc) (Some r))"
proof -
  let ?Q = "backfill_ok e scName sc r"
  let ?f = "\<lambda>mapping. backfill_claim scName mapping (lookup_str (sc_Parameters sc) StorageClassParameterSubsystem)
      (IsBlockStorageClass sc)"
  have reads: "within (- {KPatchPVC}) m \<Longrightarrow> moves (justified ?Q) m" for m :: "'x io"
    by (erule justified_within) (auto intro: backfill_ok_other)
  have loop: "moves (justified (\<lambda>h c. prefix h0 h \<longrightarrow> ?Q h c)) (bindE (wrapE g (ListAllPVCs e))
      (\<lambda>pvcs. backfill_loop e (?f mapping) pvcs \<bind> (\<lambda>_. ret (Inr ()))))"
    if b: "backend_listed e sc r mapping h0" for h0 mapping g
  proof (rule jus.bindE_post)
    show "moves (justified (\<lambda>h c. prefix h0 h \<longrightarrow> ?Q h c)) (wrapE g (ListAllPVCs e))"
      by (rule justified_mono[OF reads], intro iss.wrapE within_reads) auto
    fix w pvcs v
    assume "run_state (wrapE g (ListAllPVCs e)) w = (Inr pvcs, v)"
    note l = ListAllPVCs_listed[OF this]
    show "justified (\<lambda>h c. prefix h0 h \<longrightarrow> ?Q h c) v
        (snd (run_state (backfill_loop e (?f mapping) pvcs \<bind> (\<lambda>_. ret (Inr ()))) v))"
      by (rule justified_run[OF _ l(2)], rule jus.bind,
          rule justified_mono[OF backfill_loop_owned[OF order_refl]])
        (use b l(1) in \<open>auto intro: backfill_okI jus.ret\<close>)
  qed
  show ?thesis
    unfolding ApplyExistingPVCs_def derefE_def option.case
  proof (rule jus.bindE_post)
    show "moves (justified ?Q) (wrapE g (backfillVolumeMapping e sc (Some r)))" for g
      by (intro jus.wrapE reads within_backfillVolumeMapping) simp
    fix w mapping v
    assume "run_state (wrapE (Errorf_w ''list backend objects for %s: '' [scName])
        (backfillVolumeMapping e sc (Some r))) w = (Inr mapping, v)"
    then have m: "run_state (backfillVolumeMapping e sc (Some r)) w = (Inr mapping, v)"
      by (rule run_wrapE_InrE)
    note m = backfillVolumeMapping_listed[OF m]
    show "justified ?Q v (snd (run_state (if mapping = [] then ret (Inr ())
        else bindE (wrapE (Errorf_w ''list PVCs: '' []) (ListAllPVCs e))
          (\<lambda>pvcs. backfill_loop e (?f mapping) pvcs \<bind> (\<lambda>_. ret (Inr ())))) v))"
      by (rule justified_run[OF moves_if[OF jus.ret loop[OF m(1)]] m(2)])
  qed
qed


text \<open>A claim that is not bound yet has an empty volume name, which ends every name: when the cluster
  lists any object for the class, such a claim is relabelled although no backend object is its own.\<close>

theorem unbound_claim_relabelled:
  assumes "pvc_VolumeName q = []" "pvc_StorageClassName q = Some scName" "mapping \<noteq> []"
    and "\<not> HasLabel q LabelStorageClass"
  shows "\<exists>q'. backfill_claim scName mapping subsystem isBlock q = Some q' \<and> HasLabel q' LabelStorageClass"
proof -
  have "backfillMappingContainsPV mapping []"
    using assms(3) by (cases mapping) (auto simp: backfillMappingContainsPV_def HasSuffix_def)
  then show ?thesis using assms by (auto simp: backfill_claim_def Let_def HasLabel_SetLabel)
qed


section \<open>A concrete backfill\<close>

definition file_sc :: StorageClass where
  "file_sc = \<lparr>sc_Name = ''gold'', sc_Provisioner = ''csi'', sc_Parameters = [(''root_export'', ''/k8s'')],
     sc_MountOptions = []\<rparr>"

definition demo_claim :: PVC where
  "demo_claim = \<lparr>oName = ''data'', oNamespace = ''ns'', oLabels = [(''app'', ''db'')], oAnnotations = [],
     oFinalizers = [], oOwners = [], oDeleting = False, oUID = ''u'', oGeneration = 1,
     pvc_StorageClassName = Some ''gold'', pvc_VolumeName = ''pvc-1'',
     pvc_VolumeMode = None, pvc_AccessModes = [], pvc_Requests = []\<rparr>"

definition backfill_env :: env where
  "backfill_env = idle_env\<lparr>
     e_vms := idle_vms\<lparr>v_viewsList := \<lambda>h r s. Inr [\<lparr>view_Id = 1, view_Path = ''/k8s/pvc-1'', view_TenantId = 1\<rparr>]\<rparr>,
     e_k8s := idle_k8s\<lparr>k_listPVC := \<lambda>h. Inr [demo_claim], k_getPVC := \<lambda>h ns n. Inr demo_claim,
       k_putPVC := \<lambda>h c. Inr demo_claim\<rparr>\<rparr>"

definition demo_client :: rest where
  "demo_client = \<lparr>cfg_Host = ''a'', cfg_Username = ''u'', cfg_Password = ''p'', cfg_Tenant = [],
     cfg_Token = [], cfg_SslVerify = False\<rparr>"

abbreviation backfill_run :: "(err + unit) \<times> world" where
  "backfill_run \<equiv> run_state (ApplyExistingPVCs backfill_env ''gold'' (Some file_sc) (Some demo_client)) start_world"

lemma backfill_run_hist:
  "hist (snd backfill_run) ! 3 = PatchPVC (SetLabel LabelStorageClass ''gold'' demo_claim)"
  "length (hist (snd backfill_run)) = 4"
  by (simp_all add: ApplyExistingPVCs_def derefE_def backfillVolumeMapping_def backfillFileMapping_def
      IsBlockStorageClass_def file_sc_def StorageClassParameterSubsystem_def
      StorageClassParameterRootExport_def lookup_str_def ExtractNonPrefixedParams_def CSIParameterPrefix_def
      HasPrefix_def TrimRight_def vms_def run_simps backfill_env_def idle_simps Let_def ListAllPVCs_def
      backfill_claim_def demo_claim_def backfillMappingContainsPV_def HasSuffix_def HasLabel_def
      LabelStorageClass_def Domain_def PatchPVCLabels_def PatchWithRetry_def RetryOnConflict_def
      numeral_eq_Suc GetPVC_def put_PVC_def SetLabel_def)


theorem unbound_claim_relabelled_witness:
  "\<exists>q'. backfill_claim ''gold'' [''/k8s/pvc-2''] [] False (demo_claim\<lparr>pvc_VolumeName := []\<rparr>) = Some q'
     \<and> HasLabel q' LabelStorageClass"
  by (rule unbound_claim_relabelled)
    (simp_all add: demo_claim_def HasLabel_def LabelStorageClass_def Domain_def)

end
