(* ===== verification/Builders.thy ===== *)
theory Builders
  imports K8sClient
begin

text \<open>
  The object builders (internal/provisioner/builder) and the names of replication
  classes (internal/provisioner/utils.go). A builder is a value with the object and
  the error deferred by an error-prone step; a chain of method calls is a composition
  of functions. Setting a controller reference is controller-runtime's
  SetControllerReference, a parameter of the model.
\<close>

section \<open>Metadata\<close>

text \<open>Writing the entries of one map into another.\<close>

definition set_all :: "smap \<Rightarrow> smap \<Rightarrow> smap" where
  "set_all entries m = fold (\<lambda>(k, v). AList.update k v) entries m"

fun setMapEntries :: "smap \<Rightarrow> string list \<Rightarrow> smap" where
  "setMapEntries m [] = m"
| "setMapEntries m [k] = AList.update k [] m"
| "setMapEntries m (k # v # vals) = setMapEntries (AList.update k v m) vals"

definition WithName :: "string \<Rightarrow> 'a ObjectMeta_scheme \<Rightarrow> 'a ObjectMeta_scheme" where
  "WithName val obj = obj\<lparr>oName := val\<rparr>"

definition WithNamespace :: "string \<Rightarrow> 'a ObjectMeta_scheme \<Rightarrow> 'a ObjectMeta_scheme" where
  "WithNamespace val obj = obj\<lparr>oNamespace := val\<rparr>"

definition WithLabels :: "string list \<Rightarrow> 'a ObjectMeta_scheme \<Rightarrow> 'a ObjectMeta_scheme" where
  "WithLabels vals obj = obj\<lparr>oLabels := setMapEntries (oLabels obj) vals\<rparr>"

definition WithLabelsMap :: "smap \<Rightarrow> 'a ObjectMeta_scheme \<Rightarrow> 'a ObjectMeta_scheme" where
  "WithLabelsMap labels obj = obj\<lparr>oLabels := set_all labels (oLabels obj)\<rparr>"

definition WithAnnotations :: "string list \<Rightarrow> 'a ObjectMeta_scheme \<Rightarrow> 'a ObjectMeta_scheme" where
  "WithAnnotations vals obj = obj\<lparr>oAnnotations := setMapEntries (oAnnotations obj) vals\<rparr>"

definition WithAnnotationsMap :: "smap \<Rightarrow> 'a ObjectMeta_scheme \<Rightarrow> 'a ObjectMeta_scheme" where
  "WithAnnotationsMap annotations obj = obj\<lparr>oAnnotations := set_all annotations (oAnnotations obj)\<rparr>"

definition WithoutAnnotations :: "string list \<Rightarrow> 'a ObjectMeta_scheme \<Rightarrow> 'a ObjectMeta_scheme" where
  "WithoutAnnotations keys obj = obj\<lparr>oAnnotations := fold AList.delete keys (oAnnotations obj)\<rparr>"

definition ClearAnnotations :: "'a ObjectMeta_scheme \<Rightarrow> 'a ObjectMeta_scheme" where
  "ClearAnnotations obj = obj\<lparr>oAnnotations := []\<rparr>"

definition ClearLabels :: "'a ObjectMeta_scheme \<Rightarrow> 'a ObjectMeta_scheme" where
  "ClearLabels obj = obj\<lparr>oLabels := []\<rparr>"

definition WithFinalizers :: "string list \<Rightarrow> 'a ObjectMeta_scheme \<Rightarrow> 'a ObjectMeta_scheme" where
  "WithFinalizers vals obj = obj\<lparr>oFinalizers := vals\<rparr>"

definition WithoutFinalizers :: "string list \<Rightarrow> 'a ObjectMeta_scheme \<Rightarrow> 'a ObjectMeta_scheme" where
  "WithoutFinalizers vals obj =
     (if oFinalizers obj = [] then obj
      else obj\<lparr>oFinalizers := filter (\<lambda>f. f \<notin> set vals) (oFinalizers obj)\<rparr>)"

definition ClearFinalizers :: "'a ObjectMeta_scheme \<Rightarrow> 'a ObjectMeta_scheme" where
  "ClearFinalizers obj = obj\<lparr>oFinalizers := []\<rparr>"

definition WithoutUID :: "'a ObjectMeta_scheme \<Rightarrow> 'a ObjectMeta_scheme" where
  "WithoutUID obj = obj\<lparr>oUID := []\<rparr>"


section \<open>VolumeGroupReplication\<close>

record 'o builder =
  b_object :: 'o
  b_err :: "err option"

definition new_meta :: "string \<Rightarrow> string \<Rightarrow> ObjectMeta" where
  "new_meta name namespace = \<lparr>oName = name, oNamespace = namespace, oLabels = [], oAnnotations = [],
     oFinalizers = [], oOwners = [], oDeleting = False, oUID = [], oGeneration = 0\<rparr>"

type_synonym VolumeGroupReplicationBuilder = "VGR builder"

definition ForVolumeGroupReplication :: "VGR \<Rightarrow> VolumeGroupReplicationBuilder" where
  "ForVolumeGroupReplication vgr = \<lparr>b_object = vgr, b_err = None\<rparr>"

definition NewVolumeGroupReplication :: "string \<Rightarrow> string \<Rightarrow> VolumeGroupReplicationBuilder" where
  "NewVolumeGroupReplication name namespace =
     \<lparr>b_object = ObjectMeta.extend (new_meta name namespace)
        \<lparr>vgr_ReplicationState = OtherState [], vgr_VGRClassName = [], vgr_VRClassName = [],
         vgr_AutoResync = False, vgr_Selector = None, vgr_VolumeReplicationName = [], vgr_ContentName = [],
         vgr_External = False, vgr_State = NoState, vgr_PVCs = []\<rparr>, b_err = None\<rparr>"

definition on_object :: "('o \<Rightarrow> 'o) \<Rightarrow> 'o builder \<Rightarrow> 'o builder" where
  "on_object f b = b\<lparr>b_object := f (b_object b)\<rparr>"

definition vgr_WithLabelsMap :: "smap \<Rightarrow> VolumeGroupReplicationBuilder \<Rightarrow> VolumeGroupReplicationBuilder" where
  "vgr_WithLabelsMap labels = on_object (WithLabelsMap labels)"

definition WithReplicationState ::
  "ReplicationState \<Rightarrow> VolumeGroupReplicationBuilder \<Rightarrow> VolumeGroupReplicationBuilder" where
  "WithReplicationState state = on_object (\<lambda>v. v\<lparr>vgr_ReplicationState := state\<rparr>)"

definition WithVolumeGroupReplicationClassName ::
  "string \<Rightarrow> VolumeGroupReplicationBuilder \<Rightarrow> VolumeGroupReplicationBuilder" where
  "WithVolumeGroupReplicationClassName className = on_object (\<lambda>v. v\<lparr>vgr_VGRClassName := className\<rparr>)"

definition WithVolumeReplicationClassName ::
  "string \<Rightarrow> VolumeGroupReplicationBuilder \<Rightarrow> VolumeGroupReplicationBuilder" where
  "WithVolumeReplicationClassName className = on_object (\<lambda>v. v\<lparr>vgr_VRClassName := className\<rparr>)"

definition WithSource ::
  "smap option \<Rightarrow> VolumeGroupReplicationBuilder \<Rightarrow> VolumeGroupReplicationBuilder" where
  "WithSource selector = on_object (\<lambda>v. v\<lparr>vgr_Selector := selector\<rparr>)"

definition WithSourceMatchLabels ::
  "smap \<Rightarrow> VolumeGroupReplicationBuilder \<Rightarrow> VolumeGroupReplicationBuilder" where
  "WithSourceMatchLabels labels = on_object (\<lambda>v. v\<lparr>vgr_Selector :=
     Some (set_all labels (case vgr_Selector v of Some m \<Rightarrow> m | None \<Rightarrow> []))\<rparr>)"

definition WithAutoResync :: "bool \<Rightarrow> VolumeGroupReplicationBuilder \<Rightarrow> VolumeGroupReplicationBuilder" where
  "WithAutoResync autoResync = on_object (\<lambda>v. v\<lparr>vgr_AutoResync := autoResync\<rparr>)"

definition ClearSpecFields :: "VolumeGroupReplicationBuilder \<Rightarrow> VolumeGroupReplicationBuilder" where
  "ClearSpecFields = on_object (\<lambda>v. v\<lparr>vgr_VolumeReplicationName := [], vgr_ContentName := [],
     vgr_External := False\<rparr>)"

definition with_owner ::
  "env \<Rightarrow> string \<Rightarrow> string \<Rightarrow> 'b ObjectMeta_scheme \<Rightarrow> ('a ObjectMeta_scheme) builder
     \<Rightarrow> ('a ObjectMeta_scheme) builder" where
  "with_owner e objKind ownerKind owner b =
     (if b_err b \<noteq> None then b
      else case k_setControllerRef (e_k8s e) ownerKind (ObjectMeta.truncate owner) (oNamespace (b_object b))
                  (oOwners (b_object b)) of
          Inl x \<Rightarrow> b\<lparr>b_err := Some (Errorf_w ''failed to set controller reference on %s %q: ''
                      [objKind, oName (b_object b)] x)\<rparr>
        | Inr refs \<Rightarrow> on_object (\<lambda>v. v\<lparr>oOwners := refs\<rparr>) b)"

definition vgr_WithOwnerRef ::
  "env \<Rightarrow> string \<Rightarrow> 'b ObjectMeta_scheme \<Rightarrow> VolumeGroupReplicationBuilder \<Rightarrow> VolumeGroupReplicationBuilder" where
  "vgr_WithOwnerRef e ownerKind owner = with_owner e ''VolumeGroupReplication'' ownerKind owner"

definition Build :: "'o builder \<Rightarrow> err + 'o" where
  "Build b = (case b_err b of Some x \<Rightarrow> Inl x | None \<Rightarrow> Inr (b_object b))"


section \<open>VolumeReplication\<close>

type_synonym VolumeReplicationBuilder = "VR builder"

definition ForVolumeReplication :: "VR \<Rightarrow> VolumeReplicationBuilder" where
  "ForVolumeReplication vr = \<lparr>b_object = vr, b_err = None\<rparr>"

definition NewVolumeReplication :: "string \<Rightarrow> string \<Rightarrow> VolumeReplicationBuilder" where
  "NewVolumeReplication name namespace =
     \<lparr>b_object = ObjectMeta.extend (new_meta name namespace)
        \<lparr>vr_ReplicationState = OtherState [], vr_ClassName = [], vr_AutoResync = False,
         vr_DataSource = [], vr_State = NoState\<rparr>, b_err = None\<rparr>"

definition vr_WithLabelsMap :: "smap \<Rightarrow> VolumeReplicationBuilder \<Rightarrow> VolumeReplicationBuilder" where
  "vr_WithLabelsMap labels = on_object (WithLabelsMap labels)"

definition vr_WithReplicationState ::
  "ReplicationState \<Rightarrow> VolumeReplicationBuilder \<Rightarrow> VolumeReplicationBuilder" where
  "vr_WithReplicationState state = on_object (\<lambda>v. v\<lparr>vr_ReplicationState := state\<rparr>)"

definition WithVolumeReplicationClass ::
  "string \<Rightarrow> VolumeReplicationBuilder \<Rightarrow> VolumeReplicationBuilder" where
  "WithVolumeReplicationClass className = on_object (\<lambda>v. v\<lparr>vr_ClassName := className\<rparr>)"

definition WithDataSource :: "string \<Rightarrow> VolumeReplicationBuilder \<Rightarrow> VolumeReplicationBuilder" where
  "WithDataSource pvcName = on_object (\<lambda>v. v\<lparr>vr_DataSource := pvcName\<rparr>)"

definition vr_WithAutoResync :: "bool \<Rightarrow> VolumeReplicationBuilder \<Rightarrow> VolumeReplicationBuilder" where
  "vr_WithAutoResync autoResync = on_object (\<lambda>v. v\<lparr>vr_AutoResync := autoResync\<rparr>)"

definition vr_WithOwnerRef ::
  "env \<Rightarrow> string \<Rightarrow> 'b ObjectMeta_scheme \<Rightarrow> VolumeReplicationBuilder \<Rightarrow> VolumeReplicationBuilder" where
  "vr_WithOwnerRef e ownerKind owner = with_owner e ''VolumeReplication'' ownerKind owner"


section \<open>Replication classes\<close>

definition new_class :: "string \<Rightarrow> string \<Rightarrow> ReplicationClass" where
  "new_class name namespace =
     ObjectMeta.extend (new_meta name namespace) \<lparr>rc_Provisioner = [], rc_Parameters = []\<rparr>"

definition NewVolumeReplicationClass :: "string \<Rightarrow> string \<Rightarrow> ReplicationClass" where
  "NewVolumeReplicationClass name namespace = new_class name namespace"

definition NewVolumeGroupReplicationClass :: "string \<Rightarrow> string \<Rightarrow> ReplicationClass" where
  "NewVolumeGroupReplicationClass name namespace = new_class name namespace"

definition WithProvisioner :: "string \<Rightarrow> ReplicationClass \<Rightarrow> ReplicationClass" where
  "WithProvisioner provisioner c = c\<lparr>rc_Provisioner := provisioner\<rparr>"

definition WithParameters :: "smap \<Rightarrow> ReplicationClass \<Rightarrow> ReplicationClass" where
  "WithParameters params c = c\<lparr>rc_Parameters := set_all params (rc_Parameters c)\<rparr>"

definition WithParameter :: "string \<Rightarrow> string \<Rightarrow> ReplicationClass \<Rightarrow> ReplicationClass" where
  "WithParameter key value c = c\<lparr>rc_Parameters := AList.update key value (rc_Parameters c)\<rparr>"

definition WithManagedByLabel :: "'a ObjectMeta_scheme \<Rightarrow> 'a ObjectMeta_scheme" where
  "WithManagedByLabel obj = WithLabelsMap [(LabelManagedBy, LabelManagedByValue)] obj"


section \<open>Names of replication classes\<close>

definition VSCRReplicationClassFormat :: string where
  "VSCRReplicationClassFormat = ''{sc_name}-{provisioner}-vscr''"

definition VVRReplicationClassFormat :: string where
  "VVRReplicationClassFormat = ''{sc_name}-{provisioner}-vvr''"

definition endpointFromStorageClass :: "env \<Rightarrow> StorageClass \<Rightarrow> (err + string) io" where
  "endpointFromStorageClass e sc =
     (let csiParams = ExtractPrefixedParams CSIParameterPrefix (sc_Parameters sc);
          secretName = lookup_str csiParams ''provisioner-secret-name'';
          secretNamespace = lookup_str csiParams ''provisioner-secret-namespace'' in
      if secretName = [] \<or> secretNamespace = [] then
        ret (Inl (Errorf ''StorageClass %s missing provisioner secret parameters'' [sc_Name sc]))
      else GetSecretValue e secretName secretNamespace ''endpoint'')"

definition no_values :: namingValues where
  "no_values = \<lparr>PVCName = [], PVName = [], VRName = [], VGRName = [], VRNamespace = [],
     VGRNamespace = [], Endpoint = [], SCName = [], Provisioner = []\<rparr>"

definition FormatReplicationClassName :: "env \<Rightarrow> string \<Rightarrow> StorageClass \<Rightarrow> (err + string) io" where
  "FormatReplicationClassName e format sc =
     bindE (wrapE (Errorf_w ''failed to get endpoint for SC %s: '' [sc_Name sc]) (endpointFromStorageClass e sc))
       (\<lambda>endpoint. ret (Inr (SanitizeK8sName (formatName (e_urlHost e) format
          (no_values\<lparr>SCName := sc_Name sc, Endpoint := endpoint, Provisioner := slugify (sc_Provisioner sc)\<rparr>)))))"

definition FormatPVCName :: "env \<Rightarrow> string \<Rightarrow> PVC \<Rightarrow> PV \<Rightarrow> StorageClass \<Rightarrow> (err + string) io" where
  "FormatPVCName e format sourcePVC sourcePV destSC =
     bindE (wrapE (Errorf_w ''failed to get endpoint for SC %s: '' [sc_Name destSC])
              (endpointFromStorageClass e destSC))
       (\<lambda>endpoint. ret (Inr (SanitizeK8sName (formatName (e_urlHost e) format
          (no_values\<lparr>PVCName := oName sourcePVC, PVName := oName sourcePV, Endpoint := endpoint,
             SCName := sc_Name destSC\<rparr>)))))"

definition FormatPVName :: "env \<Rightarrow> string \<Rightarrow> PVC \<Rightarrow> PV \<Rightarrow> StorageClass \<Rightarrow> (err + string) io" where
  "FormatPVName e format sourcePVC sourcePV destSC =
     bindE (wrapE (Errorf_w ''failed to get endpoint for SC %s: '' [sc_Name destSC])
              (endpointFromStorageClass e destSC))
       (\<lambda>endpoint. ret (Inr (SanitizeK8sName (formatName (e_urlHost e) format
          (no_values\<lparr>PVCName := oName sourcePVC, PVName := oName sourcePV, Endpoint := endpoint,
             SCName := sc_Name destSC\<rparr>)))))"

lemma within_names [moves_intro]:
  "KRead \<in> S \<Longrightarrow> within S (endpointFromStorageClass e sc)"
  "KRead \<in> S \<Longrightarrow> within S (FormatReplicationClassName e f sc)"
  "KRead \<in> S \<Longrightarrow> within S (FormatPVCName e f c p sc)"
  "KRead \<in> S \<Longrightarrow> within S (FormatPVName e f c p sc)"
  unfolding FormatReplicationClassName_def FormatPVCName_def FormatPVName_def
    endpointFromStorageClass_def Let_def
  by (auto intro!: issues_rules within_reads2)


section \<open>Lookups in built maps\<close>

lemma map_of_set_all: "map_of (set_all entries m) = map_of m ++ map_of (rev entries)"
  by (induction entries arbitrary: m)
    (auto simp: set_all_def update_conv' map_add_def fun_eq_iff split: option.splits)

lemma on_object_sel [simp]: "b_object (on_object f b) = f (b_object b)" "b_err (on_object f b) = b_err b"
  by (simp_all add: on_object_def)

end
