(* ===== verification/Reconciler.thy ===== *)
theory Reconciler
  imports Vmsrest
begin

text \<open>
  What the reconcilers share (internal/controller/reconciler.go, internal/common/backoff):
  the result of a reconcile, the translation of an error into a requeue, the names of the
  events, and the reasoning principles for the steps of a handler, which pass the object
  they mutate from one to the next.

  The backoff tracker wraps the rate limiter of client-go, so its delays are a parameter of
  the environment. Every error that asks for a delay carries one (RetryAfterError is the
  only Retryable of the code base), so the branch of maybeBackoffRetry for a missing delay
  is not reachable.
\<close>

section \<open>Results and retries\<close>

record Result =
  RequeueAfter :: duration

definition no_requeue :: Result where
  "no_requeue = \<lparr>RequeueAfter = 0\<rparr>"

type_synonym key = "string \<times> string"

definition bo_Next :: "env \<Rightarrow> key \<Rightarrow> duration io" where
  "bo_Next e k = ask e (BackoffNext (fst k) (snd k)) (\<lambda>h. e_backoff e h (fst k) (snd k))"

definition bo_Reset :: "env \<Rightarrow> key \<Rightarrow> unit io" where
  "bo_Reset e k = ask e (BackoffReset (fst k) (snd k)) (\<lambda>_. ())"

definition maybeBackoffRetry :: "env \<Rightarrow> key option \<Rightarrow> err option \<Rightarrow> (err + Result) io" where
  "maybeBackoffRetry e bo err =
     (case err of
        None \<Rightarrow> ret (Inr no_requeue)
      | Some x \<Rightarrow> (case errors_As as_retryable x of
          Some delay \<Rightarrow> ret (Inr \<lparr>RequeueAfter = delay\<rparr>)
        | None \<Rightarrow> (case bo of
            Some k \<Rightarrow> bo_Next e k \<bind> (\<lambda>d. ret (Inr \<lparr>RequeueAfter = d\<rparr>))
          | None \<Rightarrow> ret (Inl x))))"

definition ReasonReconcileFailed :: string where "ReasonReconcileFailed = ''ReconcileFailed''"
definition ReasonPpathNotReady :: string where "ReasonPpathNotReady = ''PpathNotReady''"
definition ReasonCleanupStarted :: string where "ReasonCleanupStarted = ''CleanupStarted''"
definition ReasonReplicationClassEnsured :: string where
  "ReasonReplicationClassEnsured = ''ReplicationClassEnsured''"
definition ReasonVolumeGroupReplicationCreated :: string where
  "ReasonVolumeGroupReplicationCreated = ''VolumeGroupReplicationCreated''"
definition ReasonVolumeGroupReplicationUpdated :: string where
  "ReasonVolumeGroupReplicationUpdated = ''VolumeGroupReplicationUpdated''"


section \<open>Steps\<close>

definition map_errS :: "(err \<Rightarrow> err) \<Rightarrow> ('o, 'a) step \<Rightarrow> ('o, 'a) step" where
  "map_errS g m = (\<lambda>v. m v \<bind> (\<lambda>(r, v'). ret (case r of Inl x \<Rightarrow> Inl (wrapErr g x) | Inr a \<Rightarrow> Inr a, v')))"

text \<open>Running a step and going on with its error, and a loop that collects the errors of its
  iterations: neither stops a panic.\<close>

definition catchS :: "('o, 'a) step \<Rightarrow> ('o, err + 'a) step" where
  "catchS m = (\<lambda>v. m v \<bind> (\<lambda>(r, v'). ret (if r = Inl panic_nil then Inl panic_nil else Inr r, v')))"

definition left_err :: "err + 'a \<Rightarrow> err option" where
  "left_err r = (case r of Inl x \<Rightarrow> Some x | Inr _ \<Rightarrow> None)"

fun collectS :: "('a \<Rightarrow> ('o, unit) step) \<Rightarrow> 'a list \<Rightarrow> err list \<Rightarrow> ('o, err list) step" where
  "collectS f [] errs = retS errs"
| "collectS f (x # xs) errs =
     bindS (catchS (f x)) (\<lambda>r. collectS f xs (DeferredError_Add errs (left_err r)))"

definition errS :: "err list \<Rightarrow> ('o, unit) step" where
  "errS errs = (case DeferredError_Err errs of None \<Rightarrow> retS () | Some x \<Rightarrow> failS x)"

lemma run_liftS: "run_state (liftS m v) w = (case run_state m w of (r, w') \<Rightarrow> ((r, v), w'))"
  by (simp add: liftS_def run_simps)

lemma run_doS: "run_state (doS m v) w = (case run_state m w of (a, w') \<Rightarrow> ((Inr a, v), w'))"
  by (simp add: doS_def run_simps)

lemma run_bindS:
  "run_state (bindS m f v) w = (case run_state (m v) w of
     ((Inl x, v'), w') \<Rightarrow> ((Inl x, v'), w') | ((Inr a, v'), w') \<Rightarrow> run_state (f a v') w')"
  by (auto simp: bindS_def run_simps split: prod.splits sum.splits)

lemma run_stepS:
  "run_state (retS a v) w = ((Inr a, v), w)" "run_state (failS x v) w = ((Inl x, v), w)"
  "run_state (modS g v) w = ((Inr (), g v), w)" "run_state (getS h v) w = run_state (h v v) w"
  "run_state (putS p v) w = (case run_state (p v) w of ((r, v'), w') \<Rightarrow> ((optE r, v'), w'))"
  "run_state (map_errS ge m v) w = (case run_state (m v) w of
     ((Inl x, v'), w') \<Rightarrow> ((Inl (wrapErr ge x), v'), w') | ((Inr a, v'), w') \<Rightarrow> ((Inr a, v'), w'))"
  by (auto simp: retS_def failS_def modS_def getS_def putS_def map_errS_def run_simps
      split: prod.splits sum.splits)

lemmas step_simps = optE_def run_simps run_stepS run_bindS run_liftS run_doS Let_def numeral_eq_Suc

lemma within_map_errS [moves_intro]: "within S (m v) \<Longrightarrow> within S (map_errS g m v)"
  unfolding map_errS_def by (auto intro!: issues_rules)

lemma within_backoff [moves_intro]:
  "KBackoff \<in> S \<Longrightarrow> within S (bo_Next e k)" "KBackoff \<in> S \<Longrightarrow> within S (bo_Reset e k)"
  "KBackoff \<in> S \<Longrightarrow> within S (maybeBackoffRetry e (Some k) x)"
  unfolding bo_Next_def bo_Reset_def maybeBackoffRetry_def by (auto intro!: issues_rules)

lemma jus_EmitFor: "moves (justified Q) EmitFor"
  by (rule justified_within[OF issues_prims(4), where S = "{}"]) simp


text \<open>The rules of the program logic for these constructs.\<close>

context world_order
begin

lemma catchS: "moves R (m v) \<Longrightarrow> moves R (catchS m v)"
  unfolding catchS_def by (intro bind) (auto intro: ret)

lemma errS: "moves R (errS errs v)"
  unfolding errS_def retS_def failS_def by (auto intro!: ret split: option.split)

lemma modS: "moves R (modS g v)"
  unfolding modS_def by (rule ret)

lemma map_errS: "moves R (m v) \<Longrightarrow> moves R (map_errS g m v)"
  unfolding map_errS_def by (intro bind) (auto intro: ret)

lemma collectS:
  "(\<And>x v. x \<in> set xs \<Longrightarrow> moves R (f x v)) \<Longrightarrow> moves R (collectS f xs errs v)"
proof (induction xs arbitrary: errs v)
  case Nil
  then show ?case by (simp add: retS_def ret)
next
  case (Cons x xs)
  then show ?case by (auto intro!: bindS catchS)
qed

end

lemmas step_rules = iss.catchS iss.errS iss.modS iss.map_errS iss.collectS
lemmas jus_step_rules = jus.catchS jus.errS jus.modS jus.map_errS jus.collectS

end
