(* ===== verification/VscrController.thy ===== *)
theory VscrController
  imports Ppath PpathDir Builders Reconciler
begin

text \<open>
  The reconciler of VastStorageClassReplication objects
  (internal/controller/vaststorageclassreplication_controller.go).
  The object is read once and then mutated in memory, so the handlers are steps that
  pass it on; the deferred function of Reconcile runs on the last in-memory object.
  The per-object lock is the subject of the theory KeyLock and plays no part in a
  single run. Logging is not modelled.
\<close>

type_synonym 'a vstep = "(VSCR, 'a) step"


section \<open>Status fields\<close>

definition set_status :: "(ReplicationStatus \<Rightarrow> ReplicationStatus) \<Rightarrow> VSCR \<Rightarrow> VSCR" where
  "set_status f v = v\<lparr>vscr_Status := f (vscr_Status v)\<rparr>"

definition hasUnresolvedPeers :: "ReplicationTarget list \<Rightarrow> bool" where
  "hasUnresolvedPeers topology = list_ex (\<lambda>t. PeerName t = []) topology"

definition ensureStorageClassPreview :: "bool vstep" where
  "ensureStorageClassPreview = (\<lambda>v.
     let preview = DisplayableList_String (AllStorageClasses (vscr_Spec v)) in
     if StorageClassesPreview (vscr_Status v) = preview then ret (Inr False, v)
     else ret (Inr True, set_status (\<lambda>s. s\<lparr>StorageClassesPreview := preview\<rparr>) v))"

definition ensurePrimaryStorageClass :: "env \<Rightarrow> bool vstep" where
  "ensurePrimaryStorageClass e = (\<lambda>v.
     let old = CurrentPrimaryStorageClass (vscr_Status v); new = PrimaryStorageClass (vscr_Spec v);
         v' = set_status (\<lambda>s. s\<lparr>CurrentPrimaryStorageClass := new\<rparr>) v in
     if old = new then ret (Inr False, v)
     else (if old = [] then emit_Normal e ''PrimaryStorageClassSet'' (Sprintf ''primary StorageClass set to %q'' [new])
           else emit_Normal e ''PrimaryStorageClassChanged''
                  (Sprintf ''primary StorageClass switched from %q to %q'' [old, new]))
          \<bind> (\<lambda>_. ret (Inr True, v')))"

definition ensureLastFailoverType :: "env \<Rightarrow> bool vstep" where
  "ensureLastFailoverType e = (\<lambda>v.
     let old = LastFailoverType (vscr_Status v); new = FailoverType (vscr_Spec v);
         v' = set_status (\<lambda>s. s\<lparr>LastFailoverType := new\<rparr>) v in
     if old = new then ret (Inr False, v)
     else (if new \<noteq> [] then
             (if old = [] then emit_Normal e ''FailoverTypeSet'' (Sprintf ''failoverType set to %q'' [new])
              else emit_Normal e ''FailoverTypeChanged''
                     (Sprintf ''failoverType changed from %q to %q'' [old, new]))
           else ret ())
          \<bind> (\<lambda>_. ret (Inr True, v')))"

definition persist_sync :: "env \<Rightarrow> VSCR \<Rightarrow> string \<Rightarrow> VSCR io" where
  "persist_sync e v desired =
     (if SyncStatus (vscr_Status v) = desired then ret v
      else UpdateVastStorageClassReplicationStatus e (set_status (\<lambda>s. s\<lparr>SyncStatus := desired\<rparr>) v)
           \<bind> (\<lambda>(_, v'). ret v'))"

definition reconcileSyncStatus :: "env \<Rightarrow> err option \<Rightarrow> VSCR \<Rightarrow> VSCR io" where
  "reconcileSyncStatus e reconcileErr v =
     (if oDeleting v then persist_sync e v SyncStatusDeleting
      else if reconcileErr \<noteq> None \<and> IsNetworkError reconcileErr then persist_sync e v SyncStatusUnreachable
      else if reconcileErr \<noteq> None \<and> isValidationError reconcileErr then persist_sync e v SyncStatusInvalid
      else if reconcileErr \<noteq> None \<and> isPermanentError reconcileErr then persist_sync e v SyncStatusFailed
      else GetVolumeGroupReplication e (vgrNameForSC (oName v) (PrimaryStorageClass (vscr_Spec v)))
             (vscr_PVCNamespace v)
           \<bind> (\<lambda>r. case r of
               Inl _ \<Rightarrow> ret v
             | Inr vgr \<Rightarrow> persist_sync e v
                 (if vgr_State vgr = PrimaryState then SyncStatusCompleted else SyncStatusInProgress)))"


section \<open>Validation\<close>

definition need_tenant :: "string \<Rightarrow> err" where
  "need_tenant scName =
     NewValidationError (''subsystem-level block replication requires \"tenant_name\" parameter on secondary ''
       @ ''StorageClass %q: the subsystem does not exist yet on secondary clusters ''
       @ ''(VAST creates it via replication), so tenant resolution must use \"tenant_name\" directly'') [scName]"

definition subsystem_pre_exists :: "env \<Rightarrow> string \<Rightarrow> rest \<Rightarrow> string \<Rightarrow> err" where
  "subsystem_pre_exists e subsystem rest scName =
     NewValidationError (''subsystem-level block replication requires that the subsystem %q does not pre-exist ''
       @ ''on VMS %s (StorageClass %q): VAST creates it via replication; ''
       @ ''delete the subsystem from that cluster and retry'')
       [subsystem, v_restString (e_vms e) rest, scName]"

definition subsystem_missing :: "env \<Rightarrow> string \<Rightarrow> string \<Rightarrow> rest \<Rightarrow> err" where
  "subsystem_missing e scName subsystem rest =
     NewValidationError (''StorageClass %q: subsystem %q does not exist on VMS %s; ''
       @ ''for block replication the subsystem must be pre-created on all clusters'')
       [scName, subsystem, v_restString (e_vms e) rest]"

definition missing_subsystem_parameter :: "string \<Rightarrow> err" where
  "missing_subsystem_parameter scName =
     NewValidationError ''StorageClass %q is missing required parameter %q''
       [scName, StorageClassParameterSubsystem]"

definition view_exists :: "env \<Rightarrow> rest \<Rightarrow> string \<Rightarrow> string option \<Rightarrow> (err + bool) io" where
  "view_exists e rest name tenant =
     vms e rest (ViewExists name tenant) (\<lambda>h. v_exists (e_vms e) h rest (ViewExists name tenant))"

definition get_sc :: "env \<Rightarrow> string \<Rightarrow> (err + StorageClass) io" where
  "get_sc e scName = wrapE (Errorf_w ''failed to get StorageClass %s: '' [scName]) (GetStorageClass e scName)"

definition validate_secondary ::
  "env \<Rightarrow> (string \<times> rest) list \<Rightarrow> string \<Rightarrow> (err + unit) io" where
  "validate_secondary e rests scName =
     bindE (get_sc e scName) (\<lambda>sc.
       let scSubsystem = lookup_str (ExtractNonPrefixedParams CSIParameterPrefix (sc_Parameters sc))
                           StorageClassParameterSubsystem;
           tenant = lookup_str (sc_Parameters sc) ''tenant_name'' in
       if scSubsystem = [] then ret (Inl (missing_subsystem_parameter scName))
       else if tenant = [] then ret (Inl (need_tenant scName))
       else derefE (map_of rests scName) (\<lambda>rest.
         bindE (wrapE (Errorf_w ''StorageClass %s: failed to check subsystem %q on VMS %s: ''
                         [scName, scSubsystem, v_restString (e_vms e) rest])
                  (view_exists e rest scSubsystem (Some tenant)))
           (\<lambda>exists. if exists then ret (Inl (subsystem_pre_exists e scSubsystem rest scName))
                     else ret (Inr ()))))"

definition validate_subsystem ::
  "env \<Rightarrow> (string \<times> rest) list \<Rightarrow> string \<Rightarrow> (err + unit) io" where
  "validate_subsystem e rests scName =
     bindE (get_sc e scName) (\<lambda>sc.
       let subsystemName = lookup_str (sc_Parameters sc) StorageClassParameterSubsystem;
           tn = lookup_str (sc_Parameters sc) ''tenant_name'' in
       if subsystemName = [] then ret (Inl (missing_subsystem_parameter scName))
       else derefE (map_of rests scName) (\<lambda>rest.
         bindE (wrapE (Errorf_w ''StorageClass %q: failed to check subsystem %q on VMS %s: ''
                         [scName, subsystemName, v_restString (e_vms e) rest])
                  (view_exists e rest subsystemName (if tn \<noteq> [] then Some tn else None)))
           (\<lambda>exists. if \<not> exists then ret (Inl (subsystem_missing e scName subsystemName rest))
                     else ret (Inr ()))))"

definition validate_no_ppath :: "env \<Rightarrow> (string \<times> rest) list \<Rightarrow> string \<Rightarrow> string \<Rightarrow> string \<Rightarrow> (err + unit) io" where
  "validate_no_ppath e rests primary name kind =
     (case map_of rests primary of
        None \<Rightarrow> ret (Inr ())
      | Some primaryRest \<Rightarrow>
          bindE (wrapE (Errorf_w ''failed to check if protected path %q exists on primary cluster: '' [name])
                   (vms e primaryRest (PpathExists name)
                      (\<lambda>h. v_exists (e_vms e) h primaryRest (PpathExists name))))
            (\<lambda>exists. if exists then
                 ret (Inl (NewValidationError (''protected path %q already exists on the primary VAST cluster; ''
                   @ ''please remove it manually before creating this '' @ kind) [name]))
               else ret (Inr ())))"

definition validateOnce :: "env \<Rightarrow> (string \<times> rest) list \<Rightarrow> VSCR \<Rightarrow> (err + unit) io" where
  "validateOnce e rests v =
     (case VSCRSpec_Validate (vscr_Spec v) of
        Some x \<Rightarrow> ret (Inl (NewValidationError ''%s'' [Error_string x]))
      | None \<Rightarrow>
          (let primary = PrimaryStorageClass (vscr_Spec v); scs = AllStorageClasses (vscr_Spec v) in
           bindE (wrapE (Errorf_w ''failed to get primary StorageClass %s: '' [primary])
                    (GetStorageClass e primary)) (\<lambda>primarySC.
           bindE (if IsSubsystemLevel primarySC
                  then forE scs (\<lambda>scName. if scName = primary then ret (Inr ())
                                          else validate_secondary e rests scName)
                  else if IsBlockStorageClass primarySC then forE scs (validate_subsystem e rests)
                  else ret (Inr ())) (\<lambda>_.
           if CurrentPrimaryStorageClass (vscr_Status v) = []
           then validate_no_ppath e rests primary (oName v) ''VSCR''
           else ret (Inr ())))))"


section \<open>VolumeGroupReplications\<close>

definition ensureReplicationState ::
  "env \<Rightarrow> string \<Rightarrow> string \<Rightarrow> string \<Rightarrow> ReplicationState \<Rightarrow> (err + unit) io" where
  "ensureReplicationState e namespace vgrName scName desired =
     bindE (wrapE (Errorf_w ''failed to get VolumeGroupReplication %s/%s: '' [namespace, vgrName])
              (GetVolumeGroupReplication e vgrName namespace)) (\<lambda>existing.
       if vgr_ReplicationState existing = desired then ret (Inr ())
       else PatchVolumeGroupReplicationState e existing desired \<bind> (\<lambda>r. case r of
           Some x \<Rightarrow> ret (Inl (Errorf_w
             ''failed to patch replicationState on VolumeGroupReplication %s/%s: '' [namespace, vgrName] x))
         | None \<Rightarrow> emit_Normal e ReasonVolumeGroupReplicationUpdated
             (Sprintf (''updated VolumeGroupReplication %s/%s replicationState ''
                @ [CHR 0xE2, CHR 0x86, CHR 0x92] @ '' %s (StorageClass %q)'')
                [namespace, vgrName, state_string desired, scName])
             \<bind> (\<lambda>_. ret (Inr ()))))"

definition class_parameters :: "string \<Rightarrow> string \<Rightarrow> string \<Rightarrow> string \<Rightarrow> string \<Rightarrow> string
     \<Rightarrow> string \<Rightarrow> string \<Rightarrow> ReplicationClass \<Rightarrow> ReplicationClass" where
  "class_parameters provisioner nameKey secretName nsKey secretNamespace ppathName scName subsystem c =
     (let c1 = WithManagedByLabel (WithParameter ReplicationParamStorageClass scName
                 (WithParameter ReplicationParamPpathName ppathName
                 (WithParameter nsKey secretNamespace (WithParameter nameKey secretName
                 (WithProvisioner provisioner c))))) in
      if subsystem \<noteq> [] then WithParameter ReplicationParamSubsystem subsystem c1 else c1)"

definition ensureReplicationClasses ::
  "env \<Rightarrow> VSCR \<Rightarrow> string \<Rightarrow> string \<Rightarrow> (err + string) io" where
  "ensureReplicationClasses e v scName ppathName =
     bindE (get_sc e scName) (\<lambda>sc.
     bindE (wrapE (Errorf_w ''failed to format replication class name for SC %s: '' [scName])
              (FormatReplicationClassName e VSCRReplicationClassFormat sc)) (\<lambda>baseClassName.
     let className = SanitizeK8sName (oName v @ ''-'' @ baseClassName);
         csiParams = ExtractPrefixedParams CSIParameterPrefix (sc_Parameters sc);
         secretName = lookup_str csiParams ''provisioner-secret-name'';
         secretNamespace = lookup_str csiParams ''provisioner-secret-namespace'';
         subsystem = lookup_str (sc_Parameters sc) StorageClassParameterSubsystem;
         vrc = class_parameters (sc_Provisioner sc) CSIAddonsParamReplicationSecretName secretName
                 CSIAddonsParamReplicationSecretNamespace secretNamespace ppathName scName subsystem
                 (NewVolumeReplicationClass className []);
         vgrc = class_parameters (sc_Provisioner sc) CSIAddonsParamGroupReplicationSecretName secretName
                  CSIAddonsParamGroupReplicationSecretNamespace secretNamespace ppathName scName subsystem
                  (NewVolumeGroupReplicationClass className []) in
     if secretName = [] \<or> secretNamespace = [] then
       ret (Inl (Errorf (''StorageClass %s is missing provisioner-secret-name / ''
         @ ''provisioner-secret-namespace parameters'') [scName]))
     else
       bindE (wrapE (Errorf_w ''failed to ensure VolumeReplicationClass %s: '' [className])
                (EnsureVolumeReplicationClass e vrc)) (\<lambda>vrcCreated.
       (if vrcCreated then emit_Normal e ReasonReplicationClassEnsured
            (Sprintf ''created VolumeReplicationClass %s for StorageClass %q'' [className, scName])
        else ret ()) \<bind> (\<lambda>_.
       bindE (wrapE (Errorf_w ''failed to ensure VolumeGroupReplicationClass %s: '' [className])
                (EnsureVolumeGroupReplicationClass e vgrc)) (\<lambda>vgrcCreated.
       (if vgrcCreated then emit_Normal e ReasonReplicationClassEnsured
            (Sprintf ''created VolumeGroupReplicationClass %s for StorageClass %q'' [className, scName])
        else ret ()) \<bind> (\<lambda>_. ret (Inr className)))))))"

text \<open>The VolumeGroupReplication of a StorageClass as the reconciler builds it.\<close>

definition desired_state :: "VSCR \<Rightarrow> string \<Rightarrow> ReplicationState" where
  "desired_state v scName = (if scName = PrimaryStorageClass (vscr_Spec v) then Primary else Secondary)"

definition build_VGR :: "env \<Rightarrow> VSCR \<Rightarrow> string \<Rightarrow> string \<Rightarrow> err + VGR" where
  "build_VGR e v scName className =
     (let pvcNS = vscr_PVCNamespace v;
          b = WithSourceMatchLabels [(LabelStorageClass, scName)]
               (WithAutoResync True
               (WithReplicationState (desired_state v scName)
               (WithVolumeReplicationClassName className
               (WithVolumeGroupReplicationClassName className
               (vgr_WithLabelsMap [(LabelManagedBy, LabelManagedByValue), (LabelStorageClass, scName),
                  (LabelSourceVSCR, oName v), (LabelSourceVSCRNamespace, oNamespace v)]
               (NewVolumeGroupReplication (vgrNameForSC (oName v) scName) pvcNS)))))) in
      Build (if pvcNS = oNamespace v then vgr_WithOwnerRef e ''VastStorageClassReplication'' v b else b))"

text \<open>The pair is the name and whether the object was created; the source returns false next to an
  error.\<close>

definition ensureVGR :: "env \<Rightarrow> VSCR \<Rightarrow> string \<Rightarrow> string \<Rightarrow> (err + string \<times> bool) io" where
  "ensureVGR e v scName ppathName =
     bindE (ensureReplicationClasses e v scName ppathName) (\<lambda>className.
       let vgrName = vgrNameForSC (oName v) scName; pvcNS = vscr_PVCNamespace v;
           state = desired_state v scName in
       case build_VGR e v scName className of
         Inl x \<Rightarrow> ret (Inl x)
       | Inr vgr \<Rightarrow>
           bindE (wrapE (Errorf_w ''failed to ensure VolumeGroupReplication %s/%s: '' [pvcNS, vgrName])
                    (EnsureVolumeGroupReplication e vgr)) (\<lambda>wasCreated.
             if wasCreated then
               emit_Normal e ReasonVolumeGroupReplicationCreated
                 (Sprintf (''created VolumeGroupReplication %s/%s for StorageClass %q ''
                    @ ''(replicationState=%s)'') [pvcNS, vgrName, scName, state_string state])
               \<bind> (\<lambda>_. ret (Inr (vgrName, True)))
             else if scName \<noteq> PrimaryStorageClass (vscr_Spec v) then ret (Inr (vgrName, False))
             else bindE (ensureReplicationState e pvcNS vgrName scName state)
                    (\<lambda>_. ret (Inr (vgrName, False)))))"

fun confirmed_primaries :: "env \<Rightarrow> VSCR \<Rightarrow> string list \<Rightarrow> (err + string list) io" where
  "confirmed_primaries e v [] = ret (Inr [])"
| "confirmed_primaries e v (scName # scs) =
     GetVolumeGroupReplication e (vgrNameForSC (oName v) scName) (vscr_PVCNamespace v) \<bind> (\<lambda>r. case r of
         Inl x \<Rightarrow> if IsNotFound x then confirmed_primaries e v scs
                   else ret (Inl (Errorf_w ''failed to get VolumeGroupReplication for SC %s: '' [scName] x))
       | Inr vgr \<Rightarrow> bindE (confirmed_primaries e v scs)
           (\<lambda>cs. ret (Inr (if IsVGRConfirmedPrimary vgr then scName # cs else cs))))"

definition syncVGRReplicationStates :: "env \<Rightarrow> VSCR \<Rightarrow> err option io" where
  "syncVGRReplicationStates e v =
     confirmed_primaries e v (AllStorageClasses (vscr_Spec v)) \<bind> (\<lambda>r. case r of
         Inl x \<Rightarrow> ret (Some x)
       | Inr candidates \<Rightarrow>
           for_collect candidates (\<lambda>scName.
             if scName = PrimaryStorageClass (vscr_Spec v) then ret None
             else ensureReplicationState e (vscr_PVCNamespace v) (vgrNameForSC (oName v) scName) scName Secondary
                  \<bind> (\<lambda>s. ret (case s of Inr _ \<Rightarrow> None | Inl x \<Rightarrow> Some (Errorf_w ''SC %s: '' [scName] x)))) []
           \<bind> (\<lambda>errs. ret (DeferredError_Err errs)))"


section \<open>Resync\<close>

definition ensureResync :: "env \<Rightarrow> unit vstep" where
  "ensureResync e = getS (\<lambda>v.
     let vgrName = vgrNameForSC (oName v) (PrimaryStorageClass (vscr_Spec v)); ns = vscr_PVCNamespace v in
     bindS (doS (GetVolumeGroupReplication e vgrName ns)) (\<lambda>r. case r of
         Inl x \<Rightarrow>
           if IsNotFound x then putS (PatchVSCRResync e)
           else failS (Errorf_w ''ensureResync: failed to get VolumeGroupReplication %s/%s: '' [ns, vgrName] x)
       | Inr existing \<Rightarrow>
           bindS (doS (PatchVolumeGroupReplicationState e existing ResyncState)) (\<lambda>p. case p of
               Some x \<Rightarrow> failS (Errorf_w
                 ''ensureResync: failed to patch replicationState on VolumeGroupReplication %s/%s: ''
                 [ns, vgrName] x)
             | None \<Rightarrow>
                 bindS (doS (emit_Normal e ''ResyncTriggered''
                   (Sprintf ''replicationState set to resync on VolumeGroupReplication %s/%s'' [ns, vgrName])))
                 (\<lambda>_. bindS (liftS (wrapE (Errorf_w ''ensureResync: failed to touch constellation VRCs: '' [])
                               (TouchConstellationVRCs e v)))
                 (\<lambda>touched. bindS (doS (for_each (\<lambda>vrcName. emit_Normal e ''ResyncTriggered''
                      (Sprintf ''triggered reconcile of VastReplicationContent %s/%s'' [ns, vrcName])) touched))
                 (\<lambda>_. map_errS (Errorf_w ''ensureResync: failed to clear Resync flag on VSCR %s/%s: ''
                             [oNamespace v, oName v])
                        (putS (PatchVSCRResync e))))))))"


section \<open>Deletion\<close>

fun countOwnedVGRs :: "env \<Rightarrow> VSCR \<Rightarrow> string list \<Rightarrow> nat io" where
  "countOwnedVGRs e v [] = ret 0"
| "countOwnedVGRs e v (scName # scs) =
     GetVolumeGroupReplication e (vgrNameForSC (oName v) scName) (vscr_PVCNamespace v) \<bind> (\<lambda>r.
       countOwnedVGRs e v scs \<bind> (\<lambda>n. ret (case r of Inr _ \<Rightarrow> Suc n | Inl _ \<Rightarrow> n)))"

definition delete_ppath :: "env \<Rightarrow> rest \<Rightarrow> string \<Rightarrow> unit io" where
  "delete_ppath e rest name =
     ProtectedPaths_Get e rest name \<bind> (\<lambda>r. case r of
         Inl _ \<Rightarrow> ret ()
       | Inr ppath \<Rightarrow>
           if pp_FillError ppath \<noteq> None then ret ()
           else (if pp_Enabled ppath
                 then vms e rest (PpathDisable (pp_Id ppath))
                        (\<lambda>h. v_act (e_vms e) h rest (PpathDisable (pp_Id ppath))) \<bind> (\<lambda>_. ret ())
                 else ret ())
                \<bind> (\<lambda>_. vms e rest (PpathDelete (pp_Id ppath))
                       (\<lambda>h. v_act (e_vms e) h rest (PpathDelete (pp_Id ppath))) \<bind> (\<lambda>_. ret ())))"

definition delete_backend :: "env \<Rightarrow> VSCR \<Rightarrow> unit io" where
  "delete_backend e v =
     (let primary = PrimaryStorageClass (vscr_Spec v); ppathName = PpathName (vscr_Status v) in
      (if primary \<noteq> [] \<and> ppathName \<noteq> [] then
         NewFromStorageClassName e primary (e_sslVerify e) \<bind> (\<lambda>r. case r of
             Inl _ \<Rightarrow> ret ()
           | Inr (rest, _) \<Rightarrow> delete_ppath e rest ppathName)
       else ret ()) \<bind> (\<lambda>_.
      if primary \<noteq> [] then
        DeleteProtectionPolicies e (oName v) primary (ProtectionTopology (vscr_Spec v)) (e_sslVerify e)
      else ret ()))"

definition requeue_waiting :: "env \<Rightarrow> key \<Rightarrow> string \<Rightarrow> nat \<Rightarrow> Result vstep" where
  "requeue_waiting e k fmt n =
     bindS (doS (emit_Normal e ReasonCleanupStarted (Sprintf fmt [Itoa n])))
       (\<lambda>_. bindS (doS (bo_Next e k)) (\<lambda>d. retS \<lparr>RequeueAfter = d\<rparr>))"

definition finish_deletion :: "env \<Rightarrow> key \<Rightarrow> VSCR \<Rightarrow> Result vstep" where
  "finish_deletion e k v =
     bindS (doS (bo_Reset e k)) (\<lambda>_.
     bindS (doS (delete_backend e v)) (\<lambda>_.
     bindS (map_errS (Errorf_w ''failed to remove finalizer: '' [])
              (putS (RemoveFinalizer e (get_VSCR e) (put_VSCR e UpdateVSCR) FinalizerVSCR)))
       (\<lambda>_. retS no_requeue)))"

definition await_VRCs :: "env \<Rightarrow> key \<Rightarrow> VSCR \<Rightarrow> Result vstep" where
  "await_VRCs e k v =
     bindS (liftS (wrapE (Errorf_w ''failed to list VastReplicationContents: '' [])
           (ListVastReplicationContentsByLabelSelector e (vscr_PVCNamespace v)
              [(LabelSourceVSCR, oName v)]))) (\<lambda>vrcs.
     if length vrcs > 0 then requeue_waiting e k
       ''waiting for %d VastReplicationContent(s) to finish cleanup before removing finalizer'' (length vrcs)
     else finish_deletion e k v)"

definition await_VGRs :: "env \<Rightarrow> key \<Rightarrow> VSCR \<Rightarrow> Result vstep" where
  "await_VGRs e k v =
     bindS (doS (countOwnedVGRs e v (AllStorageClasses (vscr_Spec v)))) (\<lambda>remainingVGRs.
     if remainingVGRs > 0 then requeue_waiting e k
       ''waiting for %d owned VolumeGroupReplication(s) to be deleted before removing finalizer'' remainingVGRs
     else await_VRCs e k v)"

definition handleDeletion :: "env \<Rightarrow> key \<Rightarrow> Result vstep" where
  "handleDeletion e k = getS (\<lambda>v.
     if \<not> HasFinalizer e v FinalizerVSCR then retS no_requeue
     else bindS (liftS (forE (AllStorageClasses (vscr_Spec v)) (\<lambda>scName.
         let ns = vscr_PVCNamespace v; name = vgrNameForSC (oName v) scName in
         wrapE (Errorf_w ''failed to delete VolumeGroupReplication %s/%s: '' [ns, name])
           (DeleteVolumeGroupReplication e name ns)))) (\<lambda>_. await_VGRs e k v))"


section \<open>Mappings\<close>

fun apply_overrides ::
  "nat \<Rightarrow> string \<Rightarrow> ReplicationTarget list \<Rightarrow> smap \<Rightarrow> err + smap" where
  "apply_overrides i primaryDir [] mapping = Inr mapping"
| "apply_overrides i primaryDir (t # ts) mapping =
     (if TargetExportedDir t = [] then apply_overrides (Suc i) primaryDir ts mapping
      else case map_of mapping (Destination t) of
          Some existing \<Rightarrow>
            if existing \<noteq> primaryDir \<and> existing \<noteq> TargetExportedDir t then
              Inl (Errorf (''protectionTopology[%d]: conflicting targetExportedDir for StorageClass %q: ''
                @ ''%q vs %q'') [Itoa i, Destination t, existing, TargetExportedDir t])
            else apply_overrides (Suc i) primaryDir ts
                   (AList.update (Destination t) (TargetExportedDir t) mapping)
        | None \<Rightarrow> apply_overrides (Suc i) primaryDir ts
                   (AList.update (Destination t) (TargetExportedDir t) mapping))"

definition ppath_dirs :: "env \<Rightarrow> VSCR \<Rightarrow> (err + smap) io" where
  "ppath_dirs e v =
     (let primary = PrimaryStorageClass (vscr_Spec v); scs = AllStorageClasses (vscr_Spec v) in
      bindE (wrapE (Errorf_w ''failed to get primary StorageClass %s: '' [primary])
               (GetStorageClass e primary)) (\<lambda>primarySC.
        if IsSubsystemLevel primarySC then
          bindE (wrapE (Errorf_w ''failed to compute PpathDir for primary StorageClass %s: '' [primary])
                   (Predict e primarySC (e_sslVerify e) [] []))
            (\<lambda>primaryDir. ret (apply_overrides 0 primaryDir (ProtectionTopology (vscr_Spec v))
               (map (\<lambda>scName. (scName, primaryDir)) scs)))
        else foldE (\<lambda>mapping scName.
               bindE (get_sc e scName) (\<lambda>sc.
               bindE (wrapE (Errorf_w ''failed to compute PpathDir for StorageClass %s: '' [scName])
                        (Predict e sc (e_sslVerify e) [] []))
                 (\<lambda>dir. ret (Inr (AList.update scName dir mapping))))) [] scs))"

definition tenant_map ::
  "env \<Rightarrow> (string \<times> rest) list \<Rightarrow> (string \<times> StorageClass) list \<Rightarrow> string list
     \<Rightarrow> (err + (string \<times> TenantInfo) list) io" where
  "tenant_map e rests scMap scs =
     foldE (\<lambda>mapping scName.
       derefE (map_of scMap scName) (\<lambda>sc. derefE (map_of rests scName) (\<lambda>rest.
         bindE (wrapE (Errorf_w ''failed to resolve tenant for StorageClass %s: '' [scName])
                  (ResolveTenant e rest sc))
           (\<lambda>tenant. ret (Inr (AList.update scName tenant mapping)))))) [] scs"


section \<open>Reconcile\<close>

abbreviation update_status :: "env \<Rightarrow> unit vstep" where
  "update_status e \<equiv> putS (UpdateVastStorageClassReplicationStatus e)"

definition ensure_mappings ::
  "env \<Rightarrow> (string \<times> rest) list \<Rightarrow> (string \<times> StorageClass) list \<Rightarrow> unit vstep" where
  "ensure_mappings e rests scMap =
     bindS (getS (\<lambda>v. if PpathDirMapping (vscr_Status v) = [] then
         bindS (liftS (ppath_dirs e v)) (\<lambda>mapping.
         bindS (modS (set_status (\<lambda>s. s\<lparr>PpathDirMapping := mapping\<rparr>))) (\<lambda>_. update_status e))
       else retS ())) (\<lambda>_.
     getS (\<lambda>v. if TenantMapping (vscr_Status v) = [] then
         bindS (liftS (tenant_map e rests scMap (AllStorageClasses (vscr_Spec v)))) (\<lambda>mapping.
         bindS (modS (set_status (\<lambda>s. s\<lparr>TenantMapping := mapping\<rparr>))) (\<lambda>_. update_status e))
       else retS ()))"

text \<open>The error of the protected path: reported as an event unless it is permanent or a warning was
  emitted already.\<close>

definition ppath_not_ready :: "env \<Rightarrow> err \<Rightarrow> ('o, 'a) step" where
  "ppath_not_ready e x =
     (if x = panic_nil then failS x
      else bindS (doS emit_HasWarned) (\<lambda>warned.
        if \<not> isPermanentError (Some x) \<and> \<not> warned
        then bindS (doS (emit_Normal e ReasonPpathNotReady (Error_string x))) (\<lambda>_. failS x)
        else failS x))"

definition ensure_ppath ::
  "env \<Rightarrow> (string \<times> rest) list \<Rightarrow> (string \<times> StorageClass) list \<Rightarrow> string vstep" where
  "ensure_ppath e rests scMap = getS (\<lambda>v.
     let primary = PrimaryStorageClass (vscr_Spec v); ppathName = PpathName (vscr_Status v) in
     if ppathName \<noteq> [] then
       bindS (liftS (derefE (map_of rests primary)
                (\<lambda>rest. IsPpathActive e rest ppathName \<bind> (\<lambda>r. ret (Inr r))))) (\<lambda>r. case r of
           None \<Rightarrow> retS ppathName
         | Some x \<Rightarrow>
             if v_isNotFound (e_vms e) x then
               bindS (modS (set_status (\<lambda>s. s\<lparr>PpathName := []\<rparr>))) (\<lambda>_.
               bindS (update_status e) (\<lambda>_. retS []))
             else ppath_not_ready e x)
     else
       (let edges = NewReplicationEdgesList (ProtectionTopology (vscr_Spec v)) primary;
            tmpl = SpecTemplateToParams (oName v) (PolicyTemplate (vscr_Spec v)) in
        bindS (doS (DiscoverLinkPolicies e rests (TenantMapping (vscr_Status v)) edges tmpl)) (\<lambda>d. case d of
            Inl x \<Rightarrow> bindS (doS (emit_Warning e ReasonReconcileFailed (Error_string x))) (\<lambda>_.
              failS (Errorf_w ''failed to ensure protection policies: '' [] x))
          | Inr policyPairs \<Rightarrow>
              bindS (doS (derefE (map_of scMap primary) (\<lambda>sc.
                  EnsureConstellationPpath e rests policyPairs primary (oName v)
                    (PpathDirMapping (vscr_Status v)) (\<not> IsBlockStorageClass sc)))) (\<lambda>c. case c of
                  Inl x \<Rightarrow> ppath_not_ready e x
                | Inr name \<Rightarrow>
                    bindS (modS (set_status (\<lambda>s. s\<lparr>PpathName := name\<rparr>))) (\<lambda>_.
                    bindS (update_status e) (\<lambda>_. retS name))))))"

fun ensure_VGRs :: "env \<Rightarrow> VSCR \<Rightarrow> string \<Rightarrow> string list \<Rightarrow> err list \<Rightarrow> err list io" where
  "ensure_VGRs e v ppathName [] errs = ret errs"
| "ensure_VGRs e v ppathName (scName # scs) errs =
     ensureVGR e v scName ppathName \<bind> (\<lambda>r. case r of
         Inl x \<Rightarrow> ensure_VGRs e v ppathName scs (DeferredError_Add errs (Some (Errorf_w ''SC %s: '' [scName] x)))
       | Inr (vgrName, created) \<Rightarrow>
           (if created \<and> scs \<noteq> [] then
              WaitForVRC e (vscr_PVCNamespace v) vgrName (30 * Second) \<bind> (\<lambda>_. ret ())
            else ret ()) \<bind> (\<lambda>_. ensure_VGRs e v ppathName scs errs))"

definition provision :: "env \<Rightarrow> key \<Rightarrow> string \<Rightarrow> Result vstep" where
  "provision e k ppathName = getS (\<lambda>v.
     bindS (doS (ensure_VGRs e v ppathName (AllStorageClassesPrimaryFirst (vscr_Spec v)) [])) (\<lambda>errs.
     bindS (doS (syncVGRReplicationStates e v)) (\<lambda>r.
     case DeferredError_Err (DeferredError_Add errs r) of
       None \<Rightarrow> bindS (doS (bo_Reset e k)) (\<lambda>_. retS no_requeue)
     | Some x \<Rightarrow> failS x)))"

definition resolve_peers :: "env \<Rightarrow> (string \<times> rest) list \<Rightarrow> unit vstep" where
  "resolve_peers e rests = (\<lambda>v.
     ResolveAndFetchTopologyPeers e rests (ProtectionTopology (vscr_Spec v)) \<bind> (\<lambda>(r, topology).
       let v' = v\<lparr>vscr_Spec := (vscr_Spec v)\<lparr>ProtectionTopology := topology\<rparr>\<rparr> in
       ret (case r of
           Some x \<Rightarrow> (Inl (Errorf_w ''failed to resolve replication peers: '' [] x), v')
         | None \<Rightarrow> (Inr (), v'))))"

text \<open>The finalizer is added first; only when it was new the spec is validated, and a failed validation
  takes it away again.\<close>

definition admit :: "env \<Rightarrow> (string \<times> rest) list \<Rightarrow> unit vstep" where
  "admit e rests = (\<lambda>v.
     EnsureFinalizer e (get_VSCR e) (put_VSCR e UpdateVSCR) FinalizerVSCR v \<bind> (\<lambda>(ensured, r, v1).
       case r of
         Some x \<Rightarrow> ret (Inl (Errorf_w ''failed to add finalizer: '' [] x), v1)
       | None \<Rightarrow>
           if \<not> ensured then ret (Inr (), v1)
           else validateOnce e rests v1 \<bind> (\<lambda>val. case val of
               Inr _ \<Rightarrow> ret (Inr (), v1)
             | Inl x \<Rightarrow>
                 if x = panic_nil then ret (Inl x, v1)
                 else RemoveFinalizer e (get_VSCR e) (put_VSCR e UpdateVSCR) FinalizerVSCR v1
                      \<bind> (\<lambda>(_, v2). ret (Inl x, v2)))))"

definition backfill :: "env \<Rightarrow> (string \<times> rest) list \<Rightarrow> (string \<times> StorageClass) list \<Rightarrow> bool \<Rightarrow> unit vstep" where
  "backfill e rests scMap primaryChanged = getS (\<lambda>v.
     let scName = PrimaryStorageClass (vscr_Spec v) in
     if e_applyExistingPVCs e \<and> primaryChanged then
       bindS (doS (ApplyExistingPVCs e scName (map_of scMap scName) (map_of rests scName)))
         (\<lambda>r. if r = Inl panic_nil then failS panic_nil else retS ())
     else retS ())"

definition sync_spec :: "env \<Rightarrow> (string \<times> rest) list \<Rightarrow> (string \<times> StorageClass) list \<Rightarrow> unit vstep" where
  "sync_spec e rests scMap =
     bindS (ensurePrimaryStorageClass e) (\<lambda>primaryChanged.
     bindS (backfill e rests scMap primaryChanged) (\<lambda>_.
     bindS ensureStorageClassPreview (\<lambda>previewChanged.
     bindS (if previewChanged \<or> primaryChanged then retS True else ensureLastFailoverType e) (\<lambda>changed.
     if changed then update_status e else retS ()))))"

definition reconcile_body :: "env \<Rightarrow> key \<Rightarrow> Result vstep" where
  "reconcile_body e k = getS (\<lambda>v.
     if oDeleting v then handleDeletion e k
     else
       bindS (liftS (wrapE (Errorf_w ''failed to build VMS REST clients: '' [])
                (RestFromStorageClasses e (AllStorageClasses (vscr_Spec v)) (e_sslVerify e)))) (\<lambda>rests.
       bindS (liftS (wrapE (Errorf_w ''failed to fetch StorageClass objects: '' [])
                (ScsFromStorageClasses e (AllStorageClasses (vscr_Spec v))))) (\<lambda>scMap.
       bindS (admit e rests) (\<lambda>_.
       bindS (sync_spec e rests scMap) (\<lambda>_.
       getS (\<lambda>v.
         if Resync (vscr_Spec v) then bindS (ensureResync e) (\<lambda>_. retS no_requeue)
         else if hasUnresolvedPeers (ProtectionTopology (vscr_Spec v)) then
           bindS (resolve_peers e rests) (\<lambda>_.
           bindS (putS (UpdateVastStorageClassReplication e)) (\<lambda>_. retS no_requeue))
         else
           bindS (ensure_mappings e rests scMap) (\<lambda>_.
           bindS (ensure_ppath e rests scMap) (\<lambda>ppathName. provision e k ppathName))))))))"

definition deferred :: "env \<Rightarrow> key \<Rightarrow> (err + Result) \<Rightarrow> VSCR \<Rightarrow> (err + Result) io" where
  "deferred e k r v =
     (let retErr = (case r of Inl x \<Rightarrow> if x = panic_nil then None else Some x | Inr _ \<Rightarrow> None) in
      reconcileSyncStatus e retErr v \<bind> (\<lambda>_. case retErr of
          None \<Rightarrow> ret r
        | Some x \<Rightarrow>
            emit_HasWarned \<bind> (\<lambda>warned.
              if isPermanentError (Some x) \<and> \<not> warned
              then emit_Warning e ReasonReconcileFailed (Error_string x) else ret ())
            \<bind> (\<lambda>_. maybeBackoffRetry e (Some k) (Some x))))"

definition Reconcile :: "env \<Rightarrow> key \<Rightarrow> (err + Result) io" where
  "Reconcile e k =
     GetVastStorageClassReplication e (snd k) (fst k) \<bind> (\<lambda>r. case r of
         Inl x \<Rightarrow> if IsNotFound x then ret (Inr no_requeue) else ret (Inl x)
       | Inr v \<Rightarrow> EmitFor \<bind> (\<lambda>_. reconcile_body e k v \<bind> (\<lambda>(r, v'). deferred e k r v')))"


section \<open>What the handlers may request\<close>

lemma within_get_sc [moves_intro]: "KRead \<in> S \<Longrightarrow> within S (get_sc e n)"
  unfolding get_sc_def by (auto intro!: issues_rules within_reads)

lemma within_small_steps [moves_intro]:
  "within S (ensureStorageClassPreview v)"
  "KEvent \<in> S \<Longrightarrow> within S (ensurePrimaryStorageClass e v)"
  "KEvent \<in> S \<Longrightarrow> within S (ensureLastFailoverType e v)"
  unfolding ensureStorageClassPreview_def ensurePrimaryStorageClass_def ensureLastFailoverType_def Let_def
  by (auto intro!: issues_rules)

lemma within_reconcileSyncStatus [moves_intro]:
  "KRead \<in> S \<Longrightarrow> KStatusVSCR \<in> S \<Longrightarrow> within S (reconcileSyncStatus e x v)"
  unfolding reconcileSyncStatus_def persist_sync_def
  by (auto intro!: issues_rules within_reads within_VSCR)

lemma within_validateOnce [moves_intro]:
  assumes "KRead \<in> S" "KVmsRead \<in> S"
  shows "within S (validateOnce e rs v)"
  using assms unfolding validateOnce_def validate_secondary_def validate_subsystem_def
    validate_no_ppath_def view_exists_def Let_def
  by (auto intro!: issues_rules within_reads within_vms within_get_sc)

lemma within_ensureReplicationState [moves_intro]:
  "{KRead, KPatchVGR, KEvent} \<subseteq> S \<Longrightarrow> within S (ensureReplicationState e ns n sc st)"
  unfolding ensureReplicationState_def
  by (auto intro!: issues_rules within_reads within_patch_state)

lemma within_ensureReplicationClasses [moves_intro]:
  "{KRead, KCreateClass, KEvent} \<subseteq> S \<Longrightarrow> within S (ensureReplicationClasses e v sc p)"
  unfolding ensureReplicationClasses_def Let_def
  by (auto intro!: issues_rules within_get_sc within_names within_ensures)

lemma within_ensureVGR [moves_intro]:
  "{KRead, KCreateClass, KCreateVGR, KPatchVGR, KEvent} \<subseteq> S \<Longrightarrow> within S (ensureVGR e v sc p)"
  unfolding ensureVGR_def Let_def
  by (auto intro!: issues_rules within_ensureReplicationClasses within_ensures
      within_ensureReplicationState)

lemma within_confirmed_primaries [moves_intro]: "KRead \<in> S \<Longrightarrow> within S (confirmed_primaries e v scs)"
  by (induction scs) (auto intro!: issues_rules within_reads)

lemma within_syncVGR [moves_intro]:
  "{KRead, KPatchVGR, KEvent} \<subseteq> S \<Longrightarrow> within S (syncVGRReplicationStates e v)"
  unfolding syncVGRReplicationStates_def
  by (auto intro!: issues_rules within_confirmed_primaries within_ensureReplicationState)

lemma within_ensureResync [moves_intro]:
  "{KRead, KPatchVGR, KPatchVRC, KPatchVSCR, KEvent} \<subseteq> S \<Longrightarrow> within S (ensureResync e v)"
  unfolding ensureResync_def TouchConstellationVRCs_def Let_def
  by (intro issues_rules moves_step_control within_reads within_patch_state within_touch within_for_each
      within_VSCR within_map_errS) auto

lemma within_countOwnedVGRs [moves_intro]: "KRead \<in> S \<Longrightarrow> within S (countOwnedVGRs e v scs)"
  by (induction scs) (auto intro!: issues_rules within_reads)

lemma within_delete_backend [moves_intro]:
  "{KRead, KNewRest, KVmsRead, KPpathDisable, KPpathDelete, KPolicyDelete} \<subseteq> S \<Longrightarrow>
   within S (delete_backend e v)"
  unfolding delete_backend_def delete_ppath_def Let_def
  by (auto intro!: issues_rules within_clients within_ppath_reads within_vms within_delete_policies)

lemma within_ppath_dirs [moves_intro]:
  "{KRead, KNewRest, KVmsRead} \<subseteq> S \<Longrightarrow> within S (ppath_dirs e v)"
  unfolding ppath_dirs_def Let_def
  by (auto intro!: issues_rules within_reads within_Predict within_get_sc)

lemma within_tenant_map [moves_intro]: "KVmsRead \<in> S \<Longrightarrow> within S (tenant_map e rs sm scs)"
  unfolding tenant_map_def by (auto intro!: issues_rules within_tenant)

lemma within_ensure_mappings [moves_intro]:
  "{KRead, KNewRest, KVmsRead, KStatusVSCR} \<subseteq> S \<Longrightarrow> within S (ensure_mappings e rs sm v)"
  unfolding ensure_mappings_def
  by (auto intro!: issues_rules moves_step_control within_ppath_dirs within_tenant_map within_VSCR)

lemma within_ppath_not_ready [moves_intro]: "KEvent \<in> S \<Longrightarrow> within S (ppath_not_ready e x v)"
  unfolding ppath_not_ready_def by (auto intro!: issues_rules moves_step_control)

definition ppath_kinds :: "call_kind set" where
  "ppath_kinds = insert KPpathCreate (insert KPolicyCreate stream_kinds)"

lemma within_ensure_ppath [moves_intro]:
  "{KRead, KStatusVSCR} \<union> ppath_kinds \<subseteq> S \<Longrightarrow> within S (ensure_ppath e rs sm v)"
  unfolding ensure_ppath_def Let_def ppath_kinds_def stream_kinds_def
  by (auto intro!: issues_rules moves_step_control within_ppath_reads within_VSCR within_discover
      within_EnsureConstellationPpath within_ppath_not_ready simp: stream_kinds_def)

lemma within_ensure_VGRs [moves_intro]:
  "{KRead, KCreateClass, KCreateVGR, KPatchVGR, KEvent, KSleep} \<subseteq> S \<Longrightarrow>
   within S (ensure_VGRs e v p scs errs)"
  by (induction scs arbitrary: errs)
    (auto intro!: issues_rules within_ensureVGR within_WaitForVRC split: prod.split)

lemma within_provision [moves_intro]:
  "{KRead, KCreateClass, KCreateVGR, KPatchVGR, KEvent, KSleep, KBackoff} \<subseteq> S \<Longrightarrow>
   within S (provision e k p v)"
  unfolding provision_def
  by (auto intro!: issues_rules moves_step_control within_ensure_VGRs within_syncVGR within_backoff)

lemma within_resolve_peers [moves_intro]: "KVmsRead \<in> S \<Longrightarrow> within S (resolve_peers e rs v)"
  unfolding resolve_peers_def Let_def by (auto intro!: issues_rules within_resolve)

lemma within_admit [moves_intro]:
  "{KRead, KVmsRead, KUpdateVSCR} \<subseteq> S \<Longrightarrow> within S (admit e rs v)"
  unfolding admit_def
  by (auto intro!: issues_rules within_finalizers within_reads within_write within_validateOnce)

lemma within_sync_spec [moves_intro]:
  "{KRead, KVmsRead, KPatchPVC, KStatusVSCR, KEvent} \<subseteq> S \<Longrightarrow> within S (sync_spec e rs sm v)"
  unfolding sync_spec_def backfill_def Let_def
  by (auto intro!: issues_rules moves_step_control within_small_steps within_ApplyExistingPVCs within_VSCR)

lemma within_deferred [moves_intro]:
  "{KRead, KStatusVSCR, KEvent, KBackoff} \<subseteq> S \<Longrightarrow> within S (deferred e k r v)"
  unfolding deferred_def Let_def
  by (auto intro!: issues_rules within_reconcileSyncStatus within_backoff)

lemma within_finish_deletion [moves_intro]:
  "{KRead, KBackoff, KNewRest, KVmsRead, KPpathDisable, KPpathDelete, KPolicyDelete, KUpdateVSCR} \<subseteq> S \<Longrightarrow>
   within S (finish_deletion e k v u)"
  unfolding finish_deletion_def
  by (auto intro!: issues_rules within_backoff within_reads within_delete_backend within_map_errS
      within_finalizers within_write)

lemma within_requeue_waiting [moves_intro]:
  "KEvent \<in> S \<Longrightarrow> KBackoff \<in> S \<Longrightarrow> within S (requeue_waiting e k f n v)"
  unfolding requeue_waiting_def by (auto intro!: issues_rules within_backoff)

lemma within_handleDeletion [moves_intro]:
  "{KRead, KDelete, KEvent, KBackoff, KNewRest, KVmsRead, KPpathDisable, KPpathDelete, KPolicyDelete,
    KUpdateVSCR} \<subseteq> S \<Longrightarrow> within S (handleDeletion e k v)"
  unfolding handleDeletion_def await_VGRs_def await_VRCs_def Let_def
  by (auto intro!: issues_rules moves_step_control within_delete within_countOwnedVGRs within_reads
      within_finish_deletion within_requeue_waiting)


section \<open>When the finalizer goes\<close>

lemma countOwnedVGRs_zero:
  assumes "run_state (countOwnedVGRs e v scs) w = (0, w')" "sc \<in> set scs"
  shows "observed w w' (\<lambda>h. \<exists>x. k_getVGR (e_k8s e) h (vscr_PVCNamespace v) (vgrNameForSC (oName v) sc) = Inl x)"
  using assms
proof (induction scs arbitrary: w)
  case (Cons sc' scs)
  let ?n = "vgrNameForSC (oName v) sc'"
  let ?w = "record_call e (GetCall ''VolumeGroupReplication'' (vscr_PVCNamespace v) ?n) 0 w"
  obtain n where rest: "run_state (countOwnedVGRs e v scs) ?w = (n, w')"
    using Cons.prems(1) by (auto simp: GetVolumeGroupReplication_def run_simps split: prod.splits)
  with Cons.prems(1) have "n = 0" and g: "\<exists>x. k_getVGR (e_k8s e) (hist w) (vscr_PVCNamespace v) ?n = Inl x"
    by (auto simp: GetVolumeGroupReplication_def run_simps split: sum.splits)
  have px: "prefix (hist ?w) (hist w')" by (rule prefix_run[OF within_countOwnedVGRs[OF UNIV_I] rest])
  show ?case
  proof (cases "sc = sc'")
    case True
    then show ?thesis using g px unfolding observed_def by (intro exI[of _ "hist w"]) (auto dest: append_prefixD)
  next
    case False
    with Cons rest \<open>n = 0\<close> have "observed ?w w' (\<lambda>h. \<exists>x. k_getVGR (e_k8s e) h (vscr_PVCNamespace v)
        (vgrNameForSC (oName v) sc) = Inl x)" by simp
    then show ?thesis by (rule observed_mono) auto
  qed
qed simp

definition cleaned :: "env \<Rightarrow> VSCR \<Rightarrow> history \<Rightarrow> bool" where
  "cleaned e v h =
     ((\<forall>sc \<in> set (AllStorageClasses (vscr_Spec v)). \<exists>h' x. prefix h' h
         \<and> k_getVGR (e_k8s e) h' (vscr_PVCNamespace v) (vgrNameForSC (oName v) sc) = Inl x)
      \<and> (\<exists>h'. prefix h' h
         \<and> k_listVRC (e_k8s e) h' (vscr_PVCNamespace v) [(LabelSourceVSCR, oName v)] = Inr []))"

lemma list_none:
  assumes "run_state (liftS (wrapE g (ListVastReplicationContentsByLabelSelector e ns sel)) v) w
    = ((Inr vrcs, v'), w1)"
  shows "k_listVRC (e_k8s e) (hist w) ns sel = Inr vrcs" "prefix (hist w) (hist w1)" "v' = v"
  using assms by (auto simp: run_liftS ListVastReplicationContentsByLabelSelector_def run_simps
      split: sum.splits)

definition gated_update :: "env \<Rightarrow> VSCR \<Rightarrow> history \<Rightarrow> call \<Rightarrow> bool" where
  "gated_update e v h c = (kind_of c = KUpdateVSCR \<longrightarrow> cleaned e v h)"

lemma gated_update_within:
  "within (- {KUpdateVSCR}) m \<Longrightarrow> (\<And>h c. gated_update e v h c \<Longrightarrow> Q h c) \<Longrightarrow> moves (justified Q) m"
  by (erule justified_within) (auto simp: gated_update_def)

lemma cleanedI:
  assumes "\<And>sc. sc \<in> set (AllStorageClasses (vscr_Spec v)) \<Longrightarrow> observed u w
      (\<lambda>h. \<exists>x. k_getVGR (e_k8s e) h (vscr_PVCNamespace v) (vgrNameForSC (oName v) sc) = Inl x)"
    and "k_listVRC (e_k8s e) h1 (vscr_PVCNamespace v) [(LabelSourceVSCR, oName v)] = Inr []"
    and "prefix (hist w) h" "prefix h1 h"
  shows "cleaned e v h"
  unfolding cleaned_def using assms unfolding observed_def by (meson prefix_order.trans)

lemma await_VGRs_gated: "moves (justified (gated_update e v)) (await_VGRs e k v u)"
  unfolding await_VGRs_def
proof (rule jus.bindS_post)
  show "moves (justified (gated_update e v)) (doS (countOwnedVGRs e v scs) u)" for scs
    by (rule gated_update_within[OF iss.liftS(2)], rule within_countOwnedVGRs) auto
next
  fix w n u' w1
  assume "run_state (doS (countOwnedVGRs e v (AllStorageClasses (vscr_Spec v))) u) w = ((Inr n, u'), w1)"
  then have n: "run_state (countOwnedVGRs e v (AllStorageClasses (vscr_Spec v))) w = (n, w1)"
    by (auto simp: run_doS split: prod.splits)
  have vrcs: "moves (justified (\<lambda>h c. prefix (hist w1) h \<longrightarrow> gated_update e v h c)) (await_VRCs e k v u')"
    if "n = 0"
    unfolding await_VRCs_def
  proof (rule jus.bindS_post)
    let ?Q = "\<lambda>h c. prefix (hist w1) h \<longrightarrow> gated_update e v h c"
    show "moves (justified ?Q) (liftS (wrapE g (ListVastReplicationContentsByLabelSelector e ns sel)) u')"
      for g ns sel
      by (rule gated_update_within[OF iss.liftS(1)], intro iss.wrapE within_reads) auto
    fix w2 vrcs u2 w3
    assume "run_state (liftS (wrapE (Errorf_w ''failed to list VastReplicationContents: '' [])
           (ListVastReplicationContentsByLabelSelector e (vscr_PVCNamespace v)
              [(LabelSourceVSCR, oName v)])) u') w2 = ((Inr vrcs, u2), w3)"
    note l = list_none[OF this]
    have ok: "gated_update e v h c" if "vrcs = []" "prefix (hist w1) h" "prefix (hist w2) h" for h c
      unfolding gated_update_def
      using cleanedI[OF countOwnedVGRs_zero[OF n[unfolded \<open>n = 0\<close>]] _ that(2,3)] l(1) that(1) by simp
    have "moves (justified (\<lambda>h c. prefix (hist w2) h \<longrightarrow> ?Q h c)) (finish_deletion e k v u2)" if "vrcs = []"
      by (rule justified_within[OF within_finish_deletion[of UNIV]]) (use ok that in auto)
    moreover have "moves (justified (\<lambda>h c. prefix (hist w2) h \<longrightarrow> ?Q h c)) (requeue_waiting e k f i u2)" for f i
      by (rule gated_update_within, rule within_requeue_waiting) auto
    ultimately show "justified ?Q w3 (snd (run_state ((if length vrcs > 0 then requeue_waiting e k
       ''waiting for %d VastReplicationContent(s) to finish cleanup before removing finalizer'' (length vrcs)
       else finish_deletion e k v) u2) w3))"
      by (intro justified_run[OF _ l(2)] moves_step_control) auto
  qed
  have "moves (justified (\<lambda>h c. prefix (hist w1) h \<longrightarrow> gated_update e v h c)) (requeue_waiting e k f i u')" for f i
    by (rule gated_update_within, rule within_requeue_waiting) auto
  with vrcs show "justified (gated_update e v) w1 (snd (run_state ((if n > 0 then requeue_waiting e k
       ''waiting for %d owned VolumeGroupReplication(s) to be deleted before removing finalizer'' n
     else await_VRCs e k v) u') w1))"
    by (intro justified_run[OF _ prefix_order.refl] moves_step_control) auto
qed

lemma handleDeletion_gated: "moves (justified (gated_update e v)) (handleDeletion e k v)"
  unfolding handleDeletion_def getS_def Let_def
  by (intro moves_step_control jus.pureS jus.bindS await_VGRs_gated gated_update_within iss.liftS iss.forE
      iss.wrapE within_delete) auto

lemma run_GetVSCR:
  "k_getVSCR (e_k8s e) (hist w) ns name = Inr v \<Longrightarrow>
   run_state (Reconcile e (ns, name)) w =
     run_state (EmitFor \<bind> (\<lambda>_. reconcile_body e (ns, name) v \<bind> (\<lambda>(r, v'). deferred e (ns, name) r v')))
       (record_call e (GetCall ''VastStorageClassReplication'' ns name) 0 w)"
  by (simp add: Reconcile_def GetVastStorageClassReplication_def get_VSCR_def run_simps)

text \<open>C1: When a VastStorageClassReplication is being deleted, the reconciler writes the object, which is how
  its finalizer goes, only after a read of every VolumeGroupReplication of the constellation failed and
  the list of its VastReplicationContents came back empty.\<close>

theorem VSCR_finalizer_kept_until_cleanup:
  assumes "run_state (Reconcile e (ns, name)) w = (r, w')"
    and "k_getVSCR (e_k8s e) (hist w) ns name = Inr v" "oDeleting v"
    and "length (hist w) \<le> i" "i < length (hist w')" "hist w' ! i = UpdateVSCR u"
  shows "cleaned e v (take i (hist w'))"
proof -
  let ?Q = "gated_update e v"
  let ?w = "record_call e (GetCall ''VastStorageClassReplication'' ns name) 0 w"
  have "moves (justified ?Q) (deferred e (ns, name) r' v')" for r' v'
    by (rule gated_update_within, rule within_deferred) auto
  then have "moves (justified ?Q) (EmitFor \<bind> (\<lambda>_. reconcile_body e (ns, name) v
      \<bind> (\<lambda>(r, v'). deferred e (ns, name) r v')))"
    using handleDeletion_gated[of e v "(ns, name)"] assms(3)
    by (intro jus.bind jus_EmitFor) (auto simp: reconcile_body_def getS_def intro: moves_prod)
  from moves_at[OF this, of ?w] have "justified ?Q ?w w'"
    using assms(1) run_GetVSCR[OF assms(2)] by simp
  moreover have "justified ?Q w ?w"
    by (intro justified_record justified_refl) (simp add: gated_update_def)
  ultimately have "justified ?Q w w'" by (rule justified_trans[rotated])
  from justified_nth[OF this assms(4,5)] show ?thesis by (simp add: gated_update_def assms(6))
qed


section \<open>A concrete object\<close>

definition demo_status :: ReplicationStatus where
  "demo_status = \<lparr>LastFailoverType = [], CurrentPrimaryStorageClass = [], StorageClassesPreview = [],
     PpathDirMapping = [], TenantMapping = [], PpathName = [], SyncStatus = []\<rparr>"

definition demo_vscr :: VSCR where
  "demo_vscr = \<lparr>oName = ''vs'', oNamespace = ''ns'', oLabels = [], oAnnotations = [],
     oFinalizers = [FinalizerVSCR], oOwners = [], oDeleting = True, oUID = ''u'', oGeneration = 1,
     vscr_Spec = example_vscr, vscr_Status = demo_status\<rparr>"

text \<open>An API server that accepts deletions and answers every read of a VolumeGroupReplication with an
  internal error.\<close>

definition flaky_env :: env where
  "flaky_env = idle_env\<lparr>e_k8s := idle_k8s\<lparr>k_getVSCR := \<lambda>h ns n. Inr demo_vscr,
     k_getVGR := \<lambda>h ns n. Inl (StatusError ''InternalError'' ''etcd''), k_write := \<lambda>h c. None,
     k_listVRC := \<lambda>h ns sel. Inr [], k_putVSCR := \<lambda>h c. Inr demo_vscr\<rparr>\<rparr>"

lemma demo_scs: "AllStorageClasses example_vscr = [''a'', ''b'', ''c'']"
  by (simp add: AllStorageClasses_def topology_seen_def sorted_keys_def example_vscr_def example_entry_def)

lemma demo_vscr_sel:
  "oName demo_vscr = ''vs''" "oNamespace demo_vscr = ''ns''" "oFinalizers demo_vscr = [FinalizerVSCR]"
  "oDeleting demo_vscr" "vscr_Spec demo_vscr = example_vscr" "vscr_Status demo_vscr = demo_status"
  "vscr_PVCNamespace demo_vscr = ''ns''"
  by (simp_all add: demo_vscr_def vscr_PVCNamespace_def example_vscr_def TrimSpace_def Trim_def
      TrimLeft_def TrimRight_def)

lemma flaky_sel:
  "e_k8s flaky_env = idle_k8s\<lparr>k_getVSCR := \<lambda>h ns n. Inr demo_vscr,
     k_getVGR := \<lambda>h ns n. Inl (StatusError ''InternalError'' ''etcd''), k_write := \<lambda>h c. None,
     k_listVRC := \<lambda>h ns sel. Inr [], k_putVSCR := \<lambda>h c. Inr demo_vscr\<rparr>"
  "e_vms flaky_env = idle_vms" "e_prio flaky_env = (\<lambda>h k. 0)" "e_retrySteps flaky_env = 4"
  by (simp_all add: flaky_env_def idle_simps)

lemmas deletion_defs = reconcile_body_def handleDeletion_def await_VGRs_def await_VRCs_def
  finish_deletion_def HasFinalizer_def DeleteVolumeGroupReplication_def k8s_write_def
  GetVolumeGroupReplication_def ListVastReplicationContentsByLabelSelector_def bo_Reset_def
  delete_backend_def DeleteProtectionPolicies_def ProtectionPolicyNamesByStorageClass_def
  RemoveFinalizer_def updateFinalizerWithRetry_def RetryOnConflict_def update_attempt_def put_VSCR_def

lemma example_vscr_sel:
  "PrimaryStorageClass example_vscr = ''b''" "FailoverType example_vscr = FailoverTypeUngraceful"
  "ProtectionTopology example_vscr = [example_entry ''a'' ''b'', example_entry ''b'' ''c'']"
  "Resync example_vscr = False" "PeerName (example_entry x y) = []"
  by (simp_all add: example_vscr_def example_entry_def)

lemmas status_defs = deferred_def reconcileSyncStatus_def persist_sync_def UpdateVastStorageClassReplicationStatus_def
  wrap_put_def UpdateStatusWithRetry_def set_status_def

lemma flaky_run: "UpdateVSCR (demo_vscr\<lparr>oFinalizers := []\<rparr>) \<in>
    set (hist (snd (run_state (Reconcile flaky_env (''ns'', ''vs'')) start_world)))"
  by (simp add: run_GetVSCR step_simps demo_vscr_sel deletion_defs flaky_sel idle_simps demo_scs
      demo_status_def example_vscr_sel status_defs)

lemma flaky_hist:
  "hist (snd (run_state (Reconcile flaky_env (''ns'', ''vs'')) start_world)) ! 9 =
     UpdateVSCR (demo_vscr\<lparr>oFinalizers := []\<rparr>)"
  "length (hist (snd (run_state (Reconcile flaky_env (''ns'', ''vs'')) start_world))) = 11"
  by (simp_all add: run_GetVSCR step_simps demo_vscr_sel deletion_defs flaky_sel idle_simps demo_scs
      demo_status_def example_vscr_sel status_defs sync_status_defs)

theorem VSCR_finalizer_kept_until_cleanup_witness:
  "cleaned flaky_env demo_vscr
     (take 9 (hist (snd (run_state (Reconcile flaky_env (''ns'', ''vs'')) start_world))))"
  by (rule VSCR_finalizer_kept_until_cleanup[OF prod.collapse[symmetric] _ _ _ _ flaky_hist(1)])
    (simp_all add: flaky_hist(2) flaky_sel demo_vscr_sel start_world_sel)



section \<open>The synchronisation status\<close>

definition same_core :: "VSCR \<Rightarrow> VSCR \<Rightarrow> bool" where
  "same_core v u = (vscr_Spec u = vscr_Spec v \<and> vscr_Status u = vscr_Status v \<and> oName u = oName v
     \<and> oNamespace u = oNamespace v)"

lemma UpdateStatus_writes:
  "moves (issues (\<lambda>c. \<forall>u. c = UpdateVSCRStatus u \<longrightarrow> same_core v u)) (UpdateVastStorageClassReplicationStatus e v)"
proof -
  let ?P = "\<lambda>c. \<forall>u. c = UpdateVSCRStatus u \<longrightarrow> same_core v u"
  have loop: "same_core v u \<Longrightarrow>
      moves (issues ?P) (retry_loop n (update_attempt (get_VSCR e) (put_VSCR e UpdateVSCRStatus)) u)" for n u
  proof (induction n arbitrary: u)
    case 0
    then show ?case unfolding retry_loop.simps update_attempt_def refreshObjectMetadata_def get_VSCR_def put_VSCR_def
      by (intro issues_rules) auto
  next
    case (Suc n)
    show ?case
    proof (rule movesI)
      fix w
      let ?a = "update_attempt (get_VSCR e) (put_VSCR e UpdateVSCRStatus)"
      obtain r u' w1 where a: "run_state (?a u) w = ((r, u'), w1)" by (metis surj_pair)
      have m: "moves (issues ?P) (?a u)"
        using Suc.prems unfolding update_attempt_def refreshObjectMetadata_def get_VSCR_def put_VSCR_def
        by (intro issues_rules) auto
      have "r = Some x \<Longrightarrow> same_core v u'" for x
        using a Suc.prems by (auto simp: update_attempt_def refreshObjectMetadata_def get_VSCR_def
            put_VSCR_def run_simps same_core_def split: sum.splits if_splits prod.splits)
      then have "r = Some x \<Longrightarrow> issues ?P w1 (snd (run_state (retry_loop n ?a u') w1))" for x
        using Suc.IH by (simp add: moves_def)
      then show "issues ?P w (snd (run_state (retry_loop (Suc n) ?a u) w))"
        using movesD[OF m a] a iss.R_trans
        by (auto simp: run_simps split: option.split)
    qed
  qed
  show ?thesis
    unfolding UpdateVastStorageClassReplicationStatus_def wrap_put_def UpdateStatusWithRetry_def
      RetryOnConflict_def
    by (intro issues_rules loop) (simp add: same_core_def)
qed

definition sync_status_for :: "env \<Rightarrow> err option \<Rightarrow> VSCR \<Rightarrow> history \<Rightarrow> string \<Rightarrow> bool" where
  "sync_status_for e err v h s =
     (if oDeleting v then s = SyncStatusDeleting
      else if IsNetworkError err then s = SyncStatusUnreachable
      else if isValidationError err then s = SyncStatusInvalid
      else if isPermanentError err then s = SyncStatusFailed
      else (\<exists>vgr. k_getVGR (e_k8s e) h (vscr_PVCNamespace v)
              (vgrNameForSC (oName v) (PrimaryStorageClass (vscr_Spec v))) = Inr vgr
            \<and> s = (if vgr_State vgr = PrimaryState then SyncStatusCompleted else SyncStatusInProgress)))"

lemma error_classes_None:
  "\<not> IsNetworkError None" "\<not> isValidationError None" "\<not> isPermanentError None"
  by (simp_all add: IsNetworkError_def isValidationError_def isPermanentError_def)

definition status_write_ok :: "env \<Rightarrow> err option \<Rightarrow> VSCR \<Rightarrow> history \<Rightarrow> call \<Rightarrow> bool" where
  "status_write_ok e err v h c = (\<forall>u. c = UpdateVSCRStatus u \<longrightarrow> (\<exists>s. sync_status_for e err v h s
     \<and> s \<noteq> SyncStatus (vscr_Status v) \<and> vscr_Status u = (vscr_Status v)\<lparr>SyncStatus := s\<rparr>
     \<and> vscr_Spec u = vscr_Spec v \<and> oName u = oName v))"

lemma persist_sync_writes:
  assumes "sync_status_for e err v h s"
  shows "moves (issues (status_write_ok e err v h)) (persist_sync e v s)"
proof (cases "SyncStatus (vscr_Status v) = s")
  case True
  then have "persist_sync e v s = ret v" by (simp add: persist_sync_def)
  then show ?thesis by (simp only: iss.ret)
next
  case False
  let ?v = "set_status (\<lambda>x. x\<lparr>SyncStatus := s\<rparr>) v"
  have ok: "status_write_ok e err v h c" if "\<forall>u. c = UpdateVSCRStatus u \<longrightarrow> same_core ?v u" for c
  proof (cases "\<exists>u. c = UpdateVSCRStatus u")
    case True
    then obtain u where u: "c = UpdateVSCRStatus u" by blast
    then have "same_core ?v u" using that by simp
    then have "vscr_Status u = (vscr_Status v)\<lparr>SyncStatus := s\<rparr>" "vscr_Spec u = vscr_Spec v" "oName u = oName v"
      by (simp_all add: same_core_def set_status_def)
    then show ?thesis unfolding status_write_ok_def u using assms False by blast
  next
    case False
    then show ?thesis unfolding status_write_ok_def by blast
  qed
  have "moves (issues (status_write_ok e err v h)) (UpdateVastStorageClassReplicationStatus e ?v)"
    by (rule issues_mono[OF UpdateStatus_writes]) (rule ok)
  then have "moves (issues (status_write_ok e err v h))
      (UpdateVastStorageClassReplicationStatus e ?v \<bind> (\<lambda>(_, v'). ret v'))"
    by (rule iss.bind) (simp only: split_beta iss.ret)
  then show ?thesis unfolding persist_sync_def if_not_P[OF False] .
qed

lemma early_sync_status:
  assumes "oDeleting v \<or> IsNetworkError err \<or> isValidationError err \<or> isPermanentError err"
  obtains s where "reconcileSyncStatus e err v = persist_sync e v s" "sync_status_for e err v h s"
proof (cases err)
  case None
  then show ?thesis using assms that[of SyncStatusDeleting]
    by (simp add: reconcileSyncStatus_def sync_status_for_def error_classes_None)
next
  case (Some x)
  let ?s = "if oDeleting v then SyncStatusDeleting else if IsNetworkError err then SyncStatusUnreachable
    else if isValidationError err then SyncStatusInvalid else SyncStatusFailed"
  show ?thesis using Some assms by (intro that[of ?s]) (auto simp: reconcileSyncStatus_def sync_status_for_def)
qed

lemma reconcileSyncStatus_writes:
  "issues (status_write_ok e err v (hist w)) w (snd (run_state (reconcileSyncStatus e err v) w))"
proof (cases "oDeleting v \<or> IsNetworkError err \<or> isValidationError err \<or> isPermanentError err")
  case True
  then show ?thesis
    by (rule early_sync_status[of v err e "hist w"]) (simp only: moves_at[OF persist_sync_writes])
next
  case False
  let ?n = "vgrNameForSC (oName v) (PrimaryStorageClass (vscr_Spec v))"
  let ?w = "record_call e (GetCall ''VolumeGroupReplication'' (vscr_PVCNamespace v) ?n) 0 w"
  have w: "issues (status_write_ok e err v (hist w)) w ?w" by (simp add: issues_def status_write_ok_def)
  show ?thesis
  proof (cases "k_getVGR (e_k8s e) (hist w) (vscr_PVCNamespace v) ?n")
    case (Inl x)
    then show ?thesis using False w by (simp add: reconcileSyncStatus_def GetVolumeGroupReplication_def run_simps)
  next
    case (Inr vgr)
    let ?s = "if vgr_State vgr = PrimaryState then SyncStatusCompleted else SyncStatusInProgress"
    have "sync_status_for e err v (hist w) ?s" using False Inr by (simp add: sync_status_for_def)
    from iss.R_trans[OF w moves_at[OF persist_sync_writes[OF this]]] show ?thesis
      using False Inr by (simp add: reconcileSyncStatus_def GetVolumeGroupReplication_def run_simps)
  qed
qed


lemma demo_sync_run:
  "UpdateVSCRStatus (set_status (\<lambda>s. s\<lparr>SyncStatus := SyncStatusDeleting\<rparr>)
       (set_status (\<lambda>s. s\<lparr>SyncStatus := SyncStatusCompleted\<rparr>) demo_vscr))
   \<in> set (new_calls start_world (snd (run_state (reconcileSyncStatus flaky_env None
       (set_status (\<lambda>s. s\<lparr>SyncStatus := SyncStatusCompleted\<rparr>) demo_vscr)) start_world)))"
  by (simp add: set_status_def new_calls_def run_simps status_defs RetryOnConflict_def flaky_sel idle_simps
      update_attempt_def put_VSCR_def demo_vscr_sel sync_status_defs start_world_sel
      numeral_eq_Suc)


end
