(* ===== verification/VolumeBuilders.thy ===== *)
theory VolumeBuilders
  imports Builders
begin

text \<open>
  The builders of PersistentVolume and PersistentVolumeClaim objects
  (internal/provisioner/builder/persistent_volume_builder.go and
  persistent_volume_claim_builder.go). No step of these builders can fail, so a builder is the
  object itself. A step that writes a field of the CSI source allocates the source first.
\<close>

section \<open>PersistentVolume\<close>

definition no_csi :: CSIPersistentVolumeSource where
  "no_csi = \<lparr>csi_Driver = [], csi_VolumeHandle = [], csi_VolumeAttributes = [],
     csi_ControllerPublishSecretRef = None, csi_NodeStageSecretRef = None, csi_NodePublishSecretRef = None,
     csi_ControllerExpandSecretRef = None\<rparr>"

definition NewPersistentVolume :: "string \<Rightarrow> PV" where
  "NewPersistentVolume name = ObjectMeta.extend (new_meta name [])
     \<lparr>pv_CSI = None, pv_StorageClass = [], pv_ReclaimPolicy = [], pv_VolumeMode = None,
      pv_AccessModes = [], pv_Capacity = []\<rparr>"

definition on_csi :: "(CSIPersistentVolumeSource \<Rightarrow> CSIPersistentVolumeSource) \<Rightarrow> PV \<Rightarrow> PV" where
  "on_csi f pv = pv\<lparr>pv_CSI := Some (f (case pv_CSI pv of Some c \<Rightarrow> c | None \<Rightarrow> no_csi))\<rparr>"

definition pv_WithAnnotationsMap :: "smap \<Rightarrow> PV \<Rightarrow> PV" where
  "pv_WithAnnotationsMap annotations pv = pv\<lparr>oAnnotations := set_all annotations (oAnnotations pv)\<rparr>"

definition pv_WithLabelsMap :: "smap \<Rightarrow> PV \<Rightarrow> PV" where
  "pv_WithLabelsMap labels pv = pv\<lparr>oLabels := set_all labels (oLabels pv)\<rparr>"

definition pv_WithManagedByLabel :: "PV \<Rightarrow> PV" where
  "pv_WithManagedByLabel = pv_WithLabelsMap [(LabelManagedBy, LabelManagedByValue)]"

definition pv_WithStorageClass :: "string \<Rightarrow> PV \<Rightarrow> PV" where
  "pv_WithStorageClass name pv = pv\<lparr>pv_StorageClass := name\<rparr>"

definition WithVolumeHandle :: "string \<Rightarrow> PV \<Rightarrow> PV" where
  "WithVolumeHandle volumeHandle = on_csi (\<lambda>c. c\<lparr>csi_VolumeHandle := volumeHandle\<rparr>)"

definition WithCSIDriver :: "string \<Rightarrow> PV \<Rightarrow> PV" where
  "WithCSIDriver driver = on_csi (\<lambda>c. c\<lparr>csi_Driver := driver\<rparr>)"

definition WithVolumeAttributes :: "smap \<Rightarrow> PV \<Rightarrow> PV" where
  "WithVolumeAttributes attrs =
     on_csi (\<lambda>c. c\<lparr>csi_VolumeAttributes := set_all attrs (csi_VolumeAttributes c)\<rparr>)"

definition ClearVolumeAttributes :: "PV \<Rightarrow> PV" where
  "ClearVolumeAttributes pv =
     pv\<lparr>pv_CSI := map_option (\<lambda>c. c\<lparr>csi_VolumeAttributes := []\<rparr>) (pv_CSI pv)\<rparr>"

definition WithoutVolumeAttribute :: "string \<Rightarrow> PV \<Rightarrow> PV" where
  "WithoutVolumeAttribute key pv = pv\<lparr>pv_CSI :=
     map_option (\<lambda>c. c\<lparr>csi_VolumeAttributes := AList.delete key (csi_VolumeAttributes c)\<rparr>) (pv_CSI pv)\<rparr>"

definition WithReclaimPolicy :: "string \<Rightarrow> PV \<Rightarrow> PV" where
  "WithReclaimPolicy policy pv = pv\<lparr>pv_ReclaimPolicy := policy\<rparr>"

definition pv_WithVolumeMode :: "string \<Rightarrow> PV \<Rightarrow> PV" where
  "pv_WithVolumeMode volMode pv = pv\<lparr>pv_VolumeMode := Some volMode\<rparr>"

definition pv_WithAccessModes :: "string list \<Rightarrow> PV \<Rightarrow> PV" where
  "pv_WithAccessModes modes pv = pv\<lparr>pv_AccessModes := modes\<rparr>"

definition WithCapacity :: "ResourceList \<Rightarrow> PV \<Rightarrow> PV" where
  "WithCapacity capacity pv = pv\<lparr>pv_Capacity := capacity\<rparr>"

definition WithControllerPublishSecretRef :: "SecretReference \<Rightarrow> PV \<Rightarrow> PV" where
  "WithControllerPublishSecretRef secretRef =
     on_csi (\<lambda>c. c\<lparr>csi_ControllerPublishSecretRef := Some secretRef\<rparr>)"

definition WithNodeStageSecretRef :: "SecretReference \<Rightarrow> PV \<Rightarrow> PV" where
  "WithNodeStageSecretRef secretRef = on_csi (\<lambda>c. c\<lparr>csi_NodeStageSecretRef := Some secretRef\<rparr>)"

definition WithNodePublishSecretRef :: "SecretReference \<Rightarrow> PV \<Rightarrow> PV" where
  "WithNodePublishSecretRef secretRef = on_csi (\<lambda>c. c\<lparr>csi_NodePublishSecretRef := Some secretRef\<rparr>)"

definition WithControllerExpandSecretRef :: "SecretReference \<Rightarrow> PV \<Rightarrow> PV" where
  "WithControllerExpandSecretRef secretRef =
     on_csi (\<lambda>c. c\<lparr>csi_ControllerExpandSecretRef := Some secretRef\<rparr>)"


section \<open>PersistentVolumeClaim\<close>

definition NewPersistentVolumeClaim :: "string \<Rightarrow> string \<Rightarrow> PVC" where
  "NewPersistentVolumeClaim ns name = ObjectMeta.extend (new_meta name ns)
     \<lparr>pvc_StorageClassName = None, pvc_VolumeName = [], pvc_VolumeMode = None, pvc_AccessModes = [],
      pvc_Requests = []\<rparr>"

definition pvc_WithAnnotationsMap :: "smap \<Rightarrow> PVC \<Rightarrow> PVC" where
  "pvc_WithAnnotationsMap annotations pvc =
     pvc\<lparr>oAnnotations := set_all annotations (oAnnotations pvc)\<rparr>"

definition pvc_WithLabelsMap :: "smap \<Rightarrow> PVC \<Rightarrow> PVC" where
  "pvc_WithLabelsMap labels pvc = pvc\<lparr>oLabels := set_all labels (oLabels pvc)\<rparr>"

definition pvc_WithManagedByLabel :: "PVC \<Rightarrow> PVC" where
  "pvc_WithManagedByLabel = pvc_WithLabelsMap [(LabelManagedBy, LabelManagedByValue)]"

definition pvc_WithFinalizers :: "string list \<Rightarrow> PVC \<Rightarrow> PVC" where
  "pvc_WithFinalizers finalizers pvc = pvc\<lparr>oFinalizers := finalizers\<rparr>"

definition WithVolumeName :: "string \<Rightarrow> PVC \<Rightarrow> PVC" where
  "WithVolumeName name pvc = pvc\<lparr>pvc_VolumeName := name\<rparr>"

definition pvc_WithStorageClass :: "string \<Rightarrow> PVC \<Rightarrow> PVC" where
  "pvc_WithStorageClass name pvc =
     pvc\<lparr>pvc_StorageClassName := (if name = [] then None else Some name)\<rparr>"

definition pvc_WithVolumeMode :: "string \<Rightarrow> PVC \<Rightarrow> PVC" where
  "pvc_WithVolumeMode mode pvc = pvc\<lparr>pvc_VolumeMode := Some mode\<rparr>"

definition pvc_WithAccessModes :: "string list \<Rightarrow> PVC \<Rightarrow> PVC" where
  "pvc_WithAccessModes modes pvc = pvc\<lparr>pvc_AccessModes := modes\<rparr>"

definition WithResources :: "ResourceList \<Rightarrow> PVC \<Rightarrow> PVC" where
  "WithResources requests pvc = pvc\<lparr>pvc_Requests := requests\<rparr>"

lemmas pv_builder_defs = NewPersistentVolume_def on_csi_def pv_WithAnnotationsMap_def pv_WithLabelsMap_def
  pv_WithManagedByLabel_def pv_WithStorageClass_def WithVolumeHandle_def WithCSIDriver_def
  WithVolumeAttributes_def WithReclaimPolicy_def pv_WithVolumeMode_def pv_WithAccessModes_def
  WithCapacity_def WithControllerPublishSecretRef_def WithNodeStageSecretRef_def
  WithNodePublishSecretRef_def WithControllerExpandSecretRef_def

lemmas pvc_builder_defs = NewPersistentVolumeClaim_def pvc_WithLabelsMap_def pvc_WithManagedByLabel_def
  pvc_WithFinalizers_def WithVolumeName_def pvc_WithStorageClass_def pvc_WithVolumeMode_def
  pvc_WithAccessModes_def WithResources_def

end
