(* ===== verification/StorageObjects.thy ===== *)
theory StorageObjects
  imports PpathDir VolumeBuilders
begin

text \<open>
  The parts of the Kubernetes client (internal/common/k8s_client) that only the provisioner and
  the later reconcilers use: claims, volumes, pods, VastVolumeReplication objects, and the writes
  of VastReplicationContent objects, with the methods of that type
  (api/v1alpha1/vastreplicationcontent_types.go).
\<close>

section \<open>Constants\<close>

definition LabelSourcePVC :: string where "LabelSourcePVC = Domain @ ''/source-pvc''"
definition LabelSourcePVCNamespace :: string where "LabelSourcePVCNamespace = Domain @ ''/source-pvc-namespace''"
definition LabelSourceVolumeReplication :: string where
  "LabelSourceVolumeReplication = Domain @ ''/source-volume-replication''"
definition LabelSourceVolumeReplicationNamespace :: string where
  "LabelSourceVolumeReplicationNamespace = Domain @ ''/source-volume-replication-namespace''"
definition LabelSourceVolumeGroupReplication :: string where
  "LabelSourceVolumeGroupReplication = Domain @ ''/source-volume-group-replication''"
definition LabelSourceVolumeGroupReplicationNamespace :: string where
  "LabelSourceVolumeGroupReplicationNamespace = Domain @ ''/source-volume-group-replication-namespace''"
definition FinalizerPVC :: string where "FinalizerPVC = Domain @ ''/pvc-protection''"
definition FinalizerReplicationContent :: string where
  "FinalizerReplicationContent = Domain @ ''/replication-content-protection''"
definition AnnotationCleanupDone :: string where "AnnotationCleanupDone = Domain @ ''/cleanup-done''"
definition AnnotationSnapshotCleanupWaitDone :: string where
  "AnnotationSnapshotCleanupWaitDone = Domain @ ''/snapshot-cleanup-wait-done''"
definition VMS_SNAPSHOT_DISCOVERY_INTERVAL :: duration where
  "VMS_SNAPSHOT_DISCOVERY_INTERVAL = 15 * Second"
definition DestinationKindVolumeReplication :: string where
  "DestinationKindVolumeReplication = ''VolumeReplication''"
definition DestinationKindVolumeGroupReplication :: string where
  "DestinationKindVolumeGroupReplication = ''VolumeGroupReplication''"
definition ProvisionerTypeBlock :: string where "ProvisionerTypeBlock = ''Block''"
definition ProvisionerTypeFile :: string where "ProvisionerTypeFile = ''File''"

lemmas label_defs = Domain_def LabelManagedBy_def LabelManagedByValue_def LabelStorageClass_def
  LabelSourceVSCR_def LabelSourceVSCRNamespace_def LabelSourceVVR_def LabelSourceVVRNamespace_def
  LabelSourcePVC_def LabelSourcePVCNamespace_def LabelSourceVolumeReplication_def
  LabelSourceVolumeReplicationNamespace_def LabelSourceVolumeGroupReplication_def
  LabelSourceVolumeGroupReplicationNamespace_def


section \<open>Labels\<close>

definition GetLabel :: "'a ObjectMeta_scheme \<Rightarrow> string \<Rightarrow> string option" where
  "GetLabel obj key = map_of (oLabels obj) key"

definition RemoveLabel :: "string \<Rightarrow> 'a ObjectMeta_scheme \<Rightarrow> 'a ObjectMeta_scheme" where
  "RemoveLabel key obj = obj\<lparr>oLabels := AList.delete key (oLabels obj)\<rparr>"


section \<open>Claims, volumes and pods\<close>

definition get_PVC :: "env \<Rightarrow> string \<Rightarrow> string \<Rightarrow> (err + PVC) io" where
  "get_PVC e ns n = GetPVC e n ns"

definition ListPVCsByLabelSelector :: "env \<Rightarrow> string \<Rightarrow> smap \<Rightarrow> (err + PVC list) io" where
  "ListPVCsByLabelSelector e ns selector =
     ask e (ListCall ''PersistentVolumeClaim'' ns selector) (\<lambda>h. s_listPVC (e_storage e) h ns selector)"

definition EnsurePVC :: "env \<Rightarrow> PVC \<Rightarrow> (err + bool) io" where
  "EnsurePVC e pvc =
     ensure_object (object_path ''PersistentVolumeClaim'' (oNamespace pvc) (oName pvc))
       (GetPVC e (oName pvc) (oNamespace pvc)) (k8s_write e (CreatePVC pvc))"

definition EnsurePV :: "env \<Rightarrow> PV \<Rightarrow> (err + bool) io" where
  "EnsurePV e pv =
     ensure_object (''PersistentVolume '' @ oName pv) (GetPV e (oName pv)) (k8s_write e (CreatePV pv))"

definition put_PV :: "env \<Rightarrow> (PV \<Rightarrow> call) \<Rightarrow> PV \<Rightarrow> (err + PV) io" where
  "put_PV e c v = ask e (c v) (\<lambda>h. s_putPV (e_storage e) h (c v))"

definition PatchPVLabels :: "env \<Rightarrow> PV \<Rightarrow> err option io" where
  "PatchPVLabels e pv =
     (let desiredLabels = oLabels pv in
      PatchWithRetry e (\<lambda>ns n. GetPV e n) (put_PV e PatchPV) (\<lambda>p. p\<lparr>oLabels := desiredLabels\<rparr>) pv
      \<bind> (\<lambda>(r, pv'). ret (case r of None \<Rightarrow> None
           | Some x \<Rightarrow> Some (Errorf_w ''failed to patch labels on PV %s: '' [oName pv'] x))))"

definition IsPVCUsedByPod :: "env \<Rightarrow> PVC \<Rightarrow> (err + bool) io" where
  "IsPVCUsedByPod e pvc =
     bindE (wrapE (Errorf_w ''list pods in namespace %s: '' [oNamespace pvc])
              (ask e (ListCall ''Pod'' (oNamespace pvc) []) (\<lambda>h. s_listPods (e_storage e) h (oNamespace pvc))))
       (\<lambda>pods. ret (Inr (list_ex (\<lambda>pod. pod_Phase pod \<noteq> ''Succeeded'' \<and> pod_Phase pod \<noteq> ''Failed''
          \<and> list_ex (\<lambda>(_, claim). claim = Some (oName pvc)) (pod_Volumes pod)) pods)))"


section \<open>VastVolumeReplication objects\<close>

definition get_VVR :: "env \<Rightarrow> string \<Rightarrow> string \<Rightarrow> (err + VVR) io" where
  "get_VVR e ns n = ask e (GetCall ''VastVolumeReplication'' ns n) (\<lambda>h. k_getVVR (e_k8s e) h ns n)"

definition GetVastVolumeReplication :: "env \<Rightarrow> string \<Rightarrow> string \<Rightarrow> (err + VVR) io" where
  "GetVastVolumeReplication e name ns = wrapE (wrapGetError ''VastVolumeReplication'' name ns) (get_VVR e ns name)"

definition put_VVR :: "env \<Rightarrow> (VVR \<Rightarrow> call) \<Rightarrow> VVR \<Rightarrow> (err + VVR) io" where
  "put_VVR e c v = ask e (c v) (\<lambda>h. k_putVVR (e_k8s e) h (c v))"

definition UpdateVastVolumeReplication :: "env \<Rightarrow> VVR \<Rightarrow> (err option \<times> VVR) io" where
  "UpdateVastVolumeReplication e v =
     wrap_put ''failed to update VastVolumeReplication %s/%s: ''
       (RetryOnConflict e (update_attempt (get_VVR e) (put_VVR e UpdateVVR)) v)"

definition UpdateVastVolumeReplicationStatus :: "env \<Rightarrow> VVR \<Rightarrow> (err option \<times> VVR) io" where
  "UpdateVastVolumeReplicationStatus e v =
     wrap_put ''failed to update VastVolumeReplication status %s/%s: ''
       (UpdateStatusWithRetry e (get_VVR e) (put_VVR e UpdateVVRStatus) v)"

definition PatchVVRResync :: "env \<Rightarrow> VVR \<Rightarrow> (err option \<times> VVR) io" where
  "PatchVVRResync e v =
     wrap_put ''failed to clear Resync on VastVolumeReplication %s/%s: ''
       (PatchWithRetry e (get_VVR e) (put_VVR e PatchVVR)
          (\<lambda>u. u\<lparr>vvr_Spec := (vvr_Spec u)\<lparr>v_Resync := False\<rparr>\<rparr>) v)"


section \<open>VastReplicationContent objects\<close>

definition ErrVastReplicationContentTerminating :: err where
  "ErrVastReplicationContentTerminating = Sentinel ''VastReplicationContent is terminating''"

definition CreateVastReplicationContent :: "env \<Rightarrow> VRC \<Rightarrow> err option io" where
  "CreateVastReplicationContent e vrc = k8s_write e (CreateVRC vrc) \<bind> (\<lambda>r. ret (case r of
       None \<Rightarrow> None
     | Some x \<Rightarrow> Some (Errorf_w ''failed to create VastReplicationContent %s/%s: '' [oNamespace vrc, oName vrc] x)))"

definition PatchVastReplicationContentSpec :: "env \<Rightarrow> VRC \<Rightarrow> (err option \<times> VRC) io" where
  "PatchVastReplicationContentSpec e vrc =
     (let desiredPVCs = vrc_PVCs vrc; desiredState = vrc_ReplicationState vrc in
      wrap_put ''failed to patch VastReplicationContent spec %s/%s: ''
        (PatchWithRetry e (get_VRC e) (put_VRC e PatchVRC)
           (\<lambda>v. v\<lparr>vrc_PVCs := desiredPVCs, vrc_ReplicationState := desiredState\<rparr>) vrc))"

definition UpdateVastReplicationContentStatus :: "env \<Rightarrow> VRC \<Rightarrow> (err option \<times> VRC) io" where
  "UpdateVastReplicationContentStatus e vrc =
     wrap_put ''failed to update VastReplicationContent status %s/%s: ''
       (UpdateStatusWithRetry e (get_VRC e) (put_VRC e UpdateVRCStatus) vrc)"

definition DeleteVastReplicationContent :: "env \<Rightarrow> VRC \<Rightarrow> err option io" where
  "DeleteVastReplicationContent e vrc =
     k8s_write e (DeleteCall ''VastReplicationContent'' (oNamespace vrc) (oName vrc)) \<bind> (\<lambda>r. ret (case r of
         None \<Rightarrow> None
       | Some x \<Rightarrow> if IsNotFound x then None
           else Some (Errorf_w ''failed to delete VastReplicationContent %s/%s: '' [oNamespace vrc, oName vrc] x)))"

definition SourceName :: "VRC \<Rightarrow> string" where
  "SourceName vrc =
     (if vrc_Kind vrc = DestinationKindVolumeReplication
      then lookup_str (oLabels vrc) LabelSourceVolumeReplication
      else if vrc_Kind vrc = DestinationKindVolumeGroupReplication
      then lookup_str (oLabels vrc) LabelSourceVolumeGroupReplication
      else [])"

text \<open>The labels that tie a content to its constellation: the name of the VSCR, or else of the VVR.\<close>

definition constellation_label :: "VRC \<Rightarrow> (string \<times> string) option" where
  "constellation_label vrc =
     (let scr = lookup_str (oLabels vrc) LabelSourceVSCR; vvr = lookup_str (oLabels vrc) LabelSourceVVR in
      if scr \<noteq> [] then Some (LabelSourceVSCR, scr)
      else if vvr \<noteq> [] then Some (LabelSourceVVR, vvr) else None)"

definition GetConstellationVRCs :: "env \<Rightarrow> VRC \<Rightarrow> (err + VRC list) io" where
  "GetConstellationVRCs e vrc = (case constellation_label vrc of
       None \<Rightarrow> ret (Inr [])
     | Some l \<Rightarrow> wrapE (Errorf_w ''failed to list constellation VRCs: '' [])
                  (ListVastReplicationContentsByLabelSelector e (oNamespace vrc) [l]))"

definition ListVolumeReplicationsByLabelSelector :: "env \<Rightarrow> string \<Rightarrow> smap \<Rightarrow> (err + VR list) io" where
  "ListVolumeReplicationsByLabelSelector e ns selector =
     ask e (ListCall ''VolumeReplication'' ns selector) (\<lambda>h. s_listVR (e_storage e) h ns selector)"

definition ListVolumeGroupReplicationsByLabelSelector :: "env \<Rightarrow> string \<Rightarrow> smap \<Rightarrow> (err + VGR list) io" where
  "ListVolumeGroupReplicationsByLabelSelector e ns selector =
     ask e (ListCall ''VolumeGroupReplication'' ns selector) (\<lambda>h. s_listVGR (e_storage e) h ns selector)"


section \<open>What the wrappers may request\<close>

lemma within_storage_reads [moves_intro]:
  assumes "KRead \<in> S"
  shows "within S (get_PVC e ns n)" "within S (ListPVCsByLabelSelector e ns sel)" "within S (IsPVCUsedByPod e p)"
    "within S (get_VVR e ns n)" "within S (GetVastVolumeReplication e n ns)" "within S (get_VRC e ns n)"
    "within S (GetConstellationVRCs e vrc)" "within S (ListVolumeReplicationsByLabelSelector e ns sel)"
    "within S (ListVolumeGroupReplicationsByLabelSelector e ns sel)"
  using assms unfolding get_PVC_def ListPVCsByLabelSelector_def IsPVCUsedByPod_def get_VVR_def
    GetVastVolumeReplication_def get_VRC_def GetConstellationVRCs_def
    ListVolumeReplicationsByLabelSelector_def ListVolumeGroupReplicationsByLabelSelector_def
  by (auto intro!: issues_rules within_reads)

lemma within_storage_writes [moves_intro]:
  "KRead \<in> S \<Longrightarrow> KCreatePVC \<in> S \<Longrightarrow> within S (EnsurePVC e pvc)"
  "KRead \<in> S \<Longrightarrow> KCreatePV \<in> S \<Longrightarrow> within S (EnsurePV e pv)"
  "KRead \<in> S \<Longrightarrow> KPatchPV \<in> S \<Longrightarrow> within S (PatchPVLabels e pv)"
  unfolding EnsurePVC_def EnsurePV_def PatchPVLabels_def put_PV_def Let_def
  by (auto intro!: issues_rules within_ensure within_PatchWithRetry within_reads within_write)

lemma within_put [moves_intro]:
  "kind_of (c v) \<in> S \<Longrightarrow> within S (put_VVR e c v)" "kind_of (c2 v2) \<in> S \<Longrightarrow> within S (put_VRC e c2 v2)"
  "kind_of (c3 v3) \<in> S \<Longrightarrow> within S (put_PVC e c3 v3)"
  unfolding put_VVR_def put_VRC_def put_PVC_def by (auto intro!: issues_rules)

lemma within_VVR [moves_intro]:
  "KRead \<in> S \<Longrightarrow> KUpdateVVR \<in> S \<Longrightarrow> within S (UpdateVastVolumeReplication e v)"
  "KRead \<in> S \<Longrightarrow> KStatusVVR \<in> S \<Longrightarrow> within S (UpdateVastVolumeReplicationStatus e v)"
  "KRead \<in> S \<Longrightarrow> KPatchVVR \<in> S \<Longrightarrow> within S (PatchVVRResync e v)"
  unfolding UpdateVastVolumeReplication_def UpdateVastVolumeReplicationStatus_def
    PatchVVRResync_def wrap_put_def UpdateStatusWithRetry_def
  by (auto intro!: issues_rules within_retry within_update_attempt within_PatchWithRetry
      within_storage_reads within_put)

lemma within_VRC [moves_intro]:
  "KCreateVRC \<in> S \<Longrightarrow> within S (CreateVastReplicationContent e vrc)"
  "KRead \<in> S \<Longrightarrow> KPatchVRC \<in> S \<Longrightarrow> within S (PatchVastReplicationContentSpec e vrc)"
  "KRead \<in> S \<Longrightarrow> KStatusVRC \<in> S \<Longrightarrow> within S (UpdateVastReplicationContentStatus e vrc)"
  "KDelete \<in> S \<Longrightarrow> within S (DeleteVastReplicationContent e vrc)"
  unfolding CreateVastReplicationContent_def PatchVastReplicationContentSpec_def
    UpdateVastReplicationContentStatus_def DeleteVastReplicationContent_def wrap_put_def
    UpdateStatusWithRetry_def Let_def
  by (auto intro!: issues_rules within_write within_update_attempt within_PatchWithRetry within_retry
      within_storage_reads within_put)

lemma within_annotate [moves_intro]:
  "KRead \<in> S \<Longrightarrow> KPatchVRC \<in> S \<Longrightarrow> within S (SetAnnotationAndUpdate e (get_VRC e) (put_VRC e PatchVRC) k v vrc)"
  unfolding SetAnnotationAndUpdate_def
  by (auto intro!: issues_rules within_PatchWithRetry within_storage_reads within_put)

end
