(* ===== verification/Triples.thy ===== *)
theory Triples
  imports Reconciler
begin

text \<open>
  A weakest-precondition calculus for the handlers. \<open>wp Q m P w\<close>: run from the world \<open>w\<close>, the action
  \<open>m\<close> issues only requests that satisfy \<open>Q\<close> at the moment they are issued, and ends with a result and
  a world that satisfy \<open>P\<close>. The rules follow the constructs the handlers are built from, so a fact
  about an answer is at hand for everything that runs after it.
\<close>

definition wp :: "(history \<Rightarrow> call \<Rightarrow> bool) \<Rightarrow> 'a io \<Rightarrow> ('a \<Rightarrow> world \<Rightarrow> bool) \<Rightarrow> world \<Rightarrow> bool" where
  "wp Q m P w = (case run_state m w of (a, w') \<Rightarrow> justified Q w w' \<and> P a w')"

text \<open>\<open>earlier F h\<close>: the fact \<open>F\<close> held of the history at some moment up to \<open>h\<close>; replies are functions of
  the history, so this says what a server answered by then.\<close>

definition earlier :: "(history \<Rightarrow> bool) \<Rightarrow> history \<Rightarrow> bool" where
  "earlier F h = (\<exists>h'. prefix h' h \<and> F h')"

lemma earlier_now: "F h \<Longrightarrow> earlier F h"
  unfolding earlier_def by (rule exI[of _ h]) simp

lemma earlier_mono: "earlier F h \<Longrightarrow> prefix h h' \<Longrightarrow> earlier F h'"
  unfolding earlier_def by (meson prefix_order.trans)

lemma earlier_weaken: "earlier F h \<Longrightarrow> (\<And>h'. F h' \<Longrightarrow> G h') \<Longrightarrow> earlier G h"
  unfolding earlier_def by blast

lemma earlier_append: "F h \<Longrightarrow> earlier F (h @ cs)"
  by (rule earlier_mono[OF earlier_now[of F h]]) simp_all

lemma earlier_append2: "F (h @ [a]) \<Longrightarrow> earlier F (h @ a # cs)"
  using earlier_append[of F "h @ [a]" cs] by simp

lemma earlier_longer: "earlier F h \<Longrightarrow> earlier F (h @ cs)"
  by (erule earlier_mono) simp

text \<open>For simplification: the fact now, or before the requests that were appended.\<close>

lemma earlier_snoc:
  "earlier F (h @ [a]) \<longleftrightarrow> earlier F h \<or> F (h @ [a])"
  "earlier F (h @ [a, b]) \<longleftrightarrow> earlier F h \<or> F (h @ [a]) \<or> F (h @ [a, b])"
  "earlier F (h @ [a, b, c]) \<longleftrightarrow> earlier F h \<or> F (h @ [a]) \<or> F (h @ [a, b]) \<or> F (h @ [a, b, c])"
  "earlier F (h @ [a, b, c, d]) \<longleftrightarrow>
     earlier F h \<or> F (h @ [a]) \<or> F (h @ [a, b]) \<or> F (h @ [a, b, c]) \<or> F (h @ [a, b, c, d])"
proof -
  have one: "earlier F (k @ [x]) \<longleftrightarrow> earlier F k \<or> F (k @ [x])" for k x
    unfolding earlier_def by (auto simp: prefix_snoc)
  show "earlier F (h @ [a]) \<longleftrightarrow> earlier F h \<or> F (h @ [a])" by (rule one)
  show "earlier F (h @ [a, b]) \<longleftrightarrow> earlier F h \<or> F (h @ [a]) \<or> F (h @ [a, b])"
    using one[of "h @ [a]" b] one[of h a] by simp
  then show "earlier F (h @ [a, b, c]) \<longleftrightarrow> earlier F h \<or> F (h @ [a]) \<or> F (h @ [a, b]) \<or> F (h @ [a, b, c])"
    using one[of "h @ [a, b]" c] by simp
  then show "earlier F (h @ [a, b, c, d]) \<longleftrightarrow>
      earlier F h \<or> F (h @ [a]) \<or> F (h @ [a, b]) \<or> F (h @ [a, b, c]) \<or> F (h @ [a, b, c, d])"
    using one[of "h @ [a, b, c]" d] by simp
qed

lemmas earlier_simps = earlier_now earlier_snoc

text \<open>No restriction on the requests, for facts about the result only.\<close>

abbreviation anything :: "history \<Rightarrow> call \<Rightarrow> bool" where
  "anything \<equiv> \<lambda>_ _. True"

lemma wp_justified: "wp Q m P w \<Longrightarrow> run_state m w = (a, w') \<Longrightarrow> justified Q w w'"
  by (simp add: wp_def)

lemma wp_post: "wp Q m P w \<Longrightarrow> run_state m w = (a, w') \<Longrightarrow> P a w'"
  by (simp add: wp_def)

lemma justified_prefix: "justified Q w w' \<Longrightarrow> prefix (hist w) (hist w')"
  by (auto simp: justified_def)

lemma wp_run:
  assumes "moves (justified Q) m"
    and "\<And>a w'. run_state m w = (a, w') \<Longrightarrow> prefix (hist w) (hist w') \<Longrightarrow> P a w'"
  shows "wp Q m P w"
  using movesD[OF assms(1)] assms(2) justified_prefix
  by (cases "run_state m w") (fastforce simp: wp_def)

lemma wp_moves: "(\<And>w. wp Q m (\<lambda>_ _. True) w) \<Longrightarrow> moves (justified Q) m"
  by (rule movesI) (simp add: wp_def split_beta)

text \<open>Only requests made from here on count.\<close>

lemma wp_from: "wp (\<lambda>h c. prefix (hist w) h \<longrightarrow> Q h c) m P w \<Longrightarrow> wp Q m P w"
  by (auto simp: wp_def justified_def split: prod.splits)

lemma wp_weaken:
  "wp Q m P w \<Longrightarrow> (\<And>h c. prefix (hist w) h \<Longrightarrow> Q h c \<Longrightarrow> Q' h c) \<Longrightarrow> wp Q' m P w"
  by (auto simp: wp_def justified_def split: prod.splits)

lemma wp_mono:
  assumes "wp Q m P w" "\<And>a w'. P a w' \<Longrightarrow> prefix (hist w) (hist w') \<Longrightarrow> P' a w'"
  shows "wp Q m P' w"
  using assms justified_prefix by (fastforce simp: wp_def split: prod.splits)

lemma wp_ret: "P a w \<Longrightarrow> wp Q (ret a) P w"
  by (simp add: wp_def run_simps justified_refl)

lemma wp_bind: "wp Q m (\<lambda>a. wp Q (f a) P) w \<Longrightarrow> wp Q (m \<bind> f) P w"
  by (auto simp: wp_def run_simps split: prod.splits intro: justified_trans)

lemma wp_ask: "Q (hist w) c \<Longrightarrow> P (f (hist w)) (record_call e c 0 w) \<Longrightarrow> wp Q (ask e c f) P w"
  by (simp add: wp_def run_simps justified_record justified_refl)

lemma wp_bindE:
  "wp Q m (\<lambda>r. case r of Inl x \<Rightarrow> P (Inl x) | Inr a \<Rightarrow> wp Q (f a) P) w \<Longrightarrow> wp Q (bindE m f) P w"
  by (auto simp: wp_def run_simps split: prod.splits sum.splits intro: justified_trans)

lemma wp_wrapE:
  "wp Q m (\<lambda>r. P (case r of Inl x \<Rightarrow> Inl (wrapErr g x) | Inr y \<Rightarrow> Inr y)) w \<Longrightarrow> wp Q (wrapE g m) P w"
  by (auto simp: wp_def run_simps split: prod.splits sum.splits)

lemma wp_derefE:
  "(p = None \<Longrightarrow> P (Inl panic_nil) w) \<Longrightarrow> (\<And>x. p = Some x \<Longrightarrow> wp Q (f x) P w) \<Longrightarrow> wp Q (derefE p f) P w"
  by (cases p) (auto simp: derefE_def intro: wp_ret)

lemma wp_emit:
  "Q (hist w) (EventCall True r s) \<Longrightarrow> P () ((record_call e (EventCall True r s) 0 w)\<lparr>warned := True\<rparr>)
     \<Longrightarrow> wp Q (emit_Warning e r s) P w"
  "Q (hist w) (EventCall False r s) \<Longrightarrow> P () (record_call e (EventCall False r s) 0 w)
     \<Longrightarrow> wp Q (emit_Normal e r s) P w"
  "Pb (warned w) w \<Longrightarrow> wp Q emit_HasWarned Pb w"
  "P () (w\<lparr>warned := False\<rparr>) \<Longrightarrow> wp Q EmitFor P w"
  "Pt (clock w) w \<Longrightarrow> wp Q time_Now Pt w"
  by (simp_all add: wp_def run_simps justified_record justified_refl justified_warned)

lemma wp_control:
  "(b \<Longrightarrow> wp Q m P w) \<Longrightarrow> (\<not> b \<Longrightarrow> wp Q n P w) \<Longrightarrow> wp Q (if b then m else n) P w"
  "(x = None \<Longrightarrow> wp Q m P w) \<Longrightarrow> (\<And>a. x = Some a \<Longrightarrow> wp Q (f1 a) P w) \<Longrightarrow>
     wp Q (case x of None \<Rightarrow> m | Some a \<Rightarrow> f1 a) P w"
  "(\<And>a. y = Inl a \<Longrightarrow> wp Q (f2 a) P w) \<Longrightarrow> (\<And>b. y = Inr b \<Longrightarrow> wp Q (g2 b) P w) \<Longrightarrow>
     wp Q (case y of Inl a \<Rightarrow> f2 a | Inr b \<Rightarrow> g2 b) P w"
  "(\<And>a b. z = (a, b) \<Longrightarrow> wp Q (f3 a b) P w) \<Longrightarrow> wp Q (case z of (a, b) \<Rightarrow> f3 a b) P w"
  "(l = [] \<Longrightarrow> wp Q m P w) \<Longrightarrow> (\<And>a b. l = a # b \<Longrightarrow> wp Q (f4 a b) P w) \<Longrightarrow>
     wp Q (case l of [] \<Rightarrow> m | a # b \<Rightarrow> f4 a b) P w"
  by (auto split: option.split sum.split prod.split list.split)

text \<open>A read whose error ends the action, as it is or wrapped once or twice.\<close>

lemma wp_bindE_read:
  assumes "Q (hist w) c" "\<And>x w'. P (Inl x) w'" "\<And>a. f (hist w) = Inr a \<Longrightarrow> wp Q (g a) P (record_call e c 0 w)"
  shows "wp Q (bindE (ask e c f) g) P w" "wp Q (bindE (wrapE h1 (ask e c f)) g) P w"
    "wp Q (bindE (wrapE h2 (wrapE h1 (ask e c f))) g) P w"
  using assms by (auto intro!: wp_bindE wp_wrapE wp_ask split: sum.split)

lemma wp_sleep:
  "Q (hist w) (SleepCall d) \<Longrightarrow> P () (record_call e (SleepCall d) (max 0 d) w) \<Longrightarrow> wp Q (time_Sleep e d) P w"
  by (simp add: wp_def run_simps justified_record justified_refl time_Sleep_def)

lemma wp_range: "(\<And>entries. set entries = set m \<Longrightarrow> P entries w) \<Longrightarrow> wp Q (range_map e m) P w"
  by (simp add: wp_def run_simps justified_refl)

lemmas wp_rules = wp_ret wp_bind wp_bindE wp_wrapE wp_derefE wp_emit wp_range wp_control


section \<open>Steps\<close>

lemma wp_retS: "P (Inr a, v) w \<Longrightarrow> wp Q (retS a v) P w"
  by (simp add: wp_ret retS_def)

lemma wp_failS: "P (Inl x, v) w \<Longrightarrow> wp Q (failS x v) P w"
  by (simp add: wp_ret failS_def)

lemma wp_modS: "P (Inr (), g v) w \<Longrightarrow> wp Q (modS g v) P w"
  by (simp add: wp_ret modS_def)

lemma wp_getS: "wp Q (f v v) P w \<Longrightarrow> wp Q (getS f v) P w"
  by (simp add: getS_def)

lemma wp_liftS: "wp Q m (\<lambda>r. P (r, v)) w \<Longrightarrow> wp Q (liftS m v) P w"
  unfolding liftS_def by (auto simp: wp_def run_simps split: prod.splits)

lemma wp_doS: "wp Q m (\<lambda>a. P (Inr a, v)) w \<Longrightarrow> wp Q (doS m v) P w"
  unfolding doS_def by (auto simp: wp_def run_simps split: prod.splits)

lemma wp_putS: "wp Q (m v) (\<lambda>(r, v'). P (optE r, v')) w \<Longrightarrow> wp Q (putS m v) P w"
  unfolding putS_def by (auto simp: wp_def run_simps split: prod.splits)

lemma wp_bindS:
  "wp Q (m v) (\<lambda>(r, v'). case r of Inl x \<Rightarrow> P (Inl x, v') | Inr a \<Rightarrow> wp Q (f a v') P) w \<Longrightarrow>
   wp Q (bindS m f v) P w"
  by (auto simp: wp_def run_bindS split: prod.splits sum.splits intro: justified_trans)

lemma wp_map_errS:
  "wp Q (m v) (\<lambda>(r, v'). P (case r of Inl x \<Rightarrow> Inl (wrapErr g x) | Inr a \<Rightarrow> Inr a, v')) w \<Longrightarrow>
   wp Q (map_errS g m v) P w"
  unfolding map_errS_def by (auto simp: wp_def run_simps split: prod.splits)

lemma wp_catchS:
  "wp Q (m v) (\<lambda>(r, v'). P (if r = Inl panic_nil then Inl panic_nil else Inr r, v')) w \<Longrightarrow>
   wp Q (catchS m v) P w"
  unfolding catchS_def by (auto simp: wp_def run_simps split: prod.splits)

lemma wp_step_control:
  "(b \<Longrightarrow> wp Q (s v) P w) \<Longrightarrow> (\<not> b \<Longrightarrow> wp Q (t v) P w) \<Longrightarrow> wp Q ((if b then s else t) v) P w"
  "(x = None \<Longrightarrow> wp Q (s v) P w) \<Longrightarrow> (\<And>a. x = Some a \<Longrightarrow> wp Q (f1 a v) P w) \<Longrightarrow>
     wp Q ((case x of None \<Rightarrow> s | Some a \<Rightarrow> f1 a) v) P w"
  "(\<And>a. y = Inl a \<Longrightarrow> wp Q (f2 a v) P w) \<Longrightarrow> (\<And>b. y = Inr b \<Longrightarrow> wp Q (g2 b v) P w) \<Longrightarrow>
     wp Q ((case y of Inl a \<Rightarrow> f2 a | Inr b \<Rightarrow> g2 b) v) P w"
  "(\<And>a b. z = (a, b) \<Longrightarrow> wp Q (f3 a b v) P w) \<Longrightarrow> wp Q ((case z of (a, b) \<Rightarrow> f3 a b) v) P w"
  by (auto split: option.split sum.split prod.split)

lemma wp_errS: "(\<And>r. P (r, v) w) \<Longrightarrow> wp Q (errS errs v) P w"
  unfolding errS_def by (auto split: option.split intro!: wp_retS wp_failS)

lemma wp_vms: "Q (hist w) (VmsCall r op) \<Longrightarrow> P (f (hist w)) (record_call e (VmsCall r op) 0 w) \<Longrightarrow> wp Q (vms e r op f) P w"
  unfolding vms_def by (rule wp_ask)

text \<open>\<open>allows S Q\<close>: \<open>Q\<close> restricts no request of the kinds \<open>S\<close>.\<close>

definition allows :: "call_kind set \<Rightarrow> (history \<Rightarrow> call \<Rightarrow> bool) \<Rightarrow> bool" where
  "allows S Q = (\<forall>h c. kind_of c \<in> S \<longrightarrow> Q h c)"

lemma allowsD: "allows S Q \<Longrightarrow> kind_of c \<in> S \<Longrightarrow> Q h c"
  by (simp add: allows_def)

lemma allows_mono: "allows S Q \<Longrightarrow> T \<subseteq> S \<Longrightarrow> allows T Q"
  by (auto simp: allows_def)

text \<open>What is known of an action only by the kinds of its requests.\<close>

lemma wp_within:
  assumes "within S m" "allows S Q"
    and "\<And>a w'. run_state m w = (a, w') \<Longrightarrow> prefix (hist w) (hist w') \<Longrightarrow> P a w'"
  shows "wp Q m P w"
  by (rule wp_run[OF justified_within[OF assms(1)] assms(3)]) (rule allowsD[OF assms(2)])

lemma wp_bindE_within:
  assumes "within S m" "allows S Q" "\<And>x w'. prefix (hist w) (hist w') \<Longrightarrow> P (Inl x) w'"
    and "\<And>a w'. prefix (hist w) (hist w') \<Longrightarrow> wp Q (f a) P w'"
  shows "wp Q (bindE m f) P w"
  by (intro wp_bindE wp_within[OF assms(1,2)]) (auto split: sum.split intro: assms(3,4))

lemma wp_bind_within:
  assumes "within S m" "allows S Q" "\<And>a w'. prefix (hist w) (hist w') \<Longrightarrow> wp Q (f a) P w'"
  shows "wp Q (m \<bind> f) P w"
  by (intro wp_bind wp_within[OF assms(1,2)] assms(3))

text \<open>A loop keeps an invariant; the postcondition follows from it.\<close>

lemma wp_collectS:
  assumes "I v w"
    and "\<And>x v w. I v w \<Longrightarrow> x \<in> set xs \<Longrightarrow> wp Q (f x v) (\<lambda>(r, v') w'. I v' w') w"
    and "\<And>r v w. I v w \<Longrightarrow> P (r, v) w"
  shows "wp Q (collectS f xs errs v) P w"
  using assms
proof (induction xs arbitrary: errs v w)
  case Nil
  then show ?case by (simp add: wp_retS)
next
  case (Cons x xs)
  show ?case
    unfolding collectS.simps
  proof (intro wp_bindS wp_catchS wp_mono[OF Cons.prems(2)[OF Cons.prems(1)]], goal_cases)
    case (2 a w')
    then show ?case
      using Cons.IH[of _ w'] Cons.prems(2,3) by (auto split: prod.splits sum.splits)
  qed simp
qed

lemma wp_foldE:
  assumes "I s w"
    and "\<And>s x w. I s w \<Longrightarrow> x \<in> set xs \<Longrightarrow>
          wp Q (f s x) (\<lambda>r w'. case r of Inl y \<Rightarrow> P (Inl y) w' | Inr t \<Rightarrow> I t w') w"
    and "\<And>s w. I s w \<Longrightarrow> P (Inr s) w"
  shows "wp Q (foldE f s xs) P w"
  using assms
proof (induction xs arbitrary: s w)
  case Nil
  then show ?case by (simp add: wp_ret)
next
  case (Cons x xs)
  show ?case
    unfolding foldE.simps
  proof (intro wp_bindE wp_mono[OF Cons.prems(2)[OF Cons.prems(1)]])
    fix r w' assume "case r of Inl y \<Rightarrow> P (Inl y) w' | Inr t \<Rightarrow> I t w'"
    then show "(case r of Inl x \<Rightarrow> P (Inl x) | Inr a \<Rightarrow> wp Q (foldE f a xs) P) w'"
      using Cons.IH[of _ w'] Cons.prems(2,3) by (auto split: sum.splits)
  qed simp
qed

text \<open>The same with an invariant over the part of the list that was visited.\<close>

lemma wp_foldE_seen:
  assumes "I [] s w"
    and "\<And>seen s x w. I seen s w \<Longrightarrow> x \<in> set xs \<Longrightarrow>
          wp Q (f s x) (\<lambda>r w'. case r of Inl y \<Rightarrow> P (Inl y) w' | Inr t \<Rightarrow> I (seen @ [x]) t w') w"
    and "\<And>s w. I xs s w \<Longrightarrow> P (Inr s) w"
  shows "wp Q (foldE f s xs) P w"
proof -
  have "wp Q (foldE f s ys) P w" if "I seen s w" "xs = seen @ ys" for seen ys s w
    using that
  proof (induction ys arbitrary: seen s w)
    case Nil
    then show ?case using assms(3) by (simp add: wp_ret)
  next
    case (Cons y ys)
    have "wp Q (f s y) (\<lambda>r w'. case r of Inl z \<Rightarrow> P (Inl z) w' | Inr t \<Rightarrow> I (seen @ [y]) t w') w"
      by (rule assms(2)) (use Cons.prems in auto)
    then show ?case unfolding foldE.simps
      by (intro wp_bindE, elim wp_mono) (use Cons.IH Cons.prems(2) in \<open>auto split: sum.splits\<close>)
  qed
  then show ?thesis using assms(1) by simp
qed

lemma wp_prefix: "wp Q m P w \<Longrightarrow> wp Q m (\<lambda>a w'. P a w' \<and> prefix (hist w) (hist w')) w"
  by (elim wp_mono) simp

lemma wp_forE:
  assumes "I w"
    and "\<And>x w. I w \<Longrightarrow> x \<in> set xs \<Longrightarrow>
          wp Q (f x) (\<lambda>r w'. case r of Inl y \<Rightarrow> P (Inl y) w' | Inr _ \<Rightarrow> I w') w"
    and "\<And>w. I w \<Longrightarrow> P (Inr ()) w"
  shows "wp Q (forE xs f) P w"
  using assms
proof (induction xs arbitrary: w)
  case Nil
  then show ?case by (simp add: wp_ret)
next
  case (Cons x xs)
  show ?case
    unfolding forE.simps
  proof (intro wp_bindE wp_mono[OF Cons.prems(2)[OF Cons.prems(1)]])
    fix r w' assume "case r of Inl y \<Rightarrow> P (Inl y) w' | Inr _ \<Rightarrow> I w'"
    then show "(case r of Inl x \<Rightarrow> P (Inl x) | Inr a \<Rightarrow> wp Q (forE xs f) P) w'"
      using Cons.IH[of w'] Cons.prems(2,3) by (auto split: sum.splits)
  qed simp
qed

lemma wp_retry:
  assumes "I v w" "\<And>v w. I v w \<Longrightarrow> wp Q (attempt v) (\<lambda>(r, v') w'. I v' w') w" "\<And>r v w. I v w \<Longrightarrow> P (r, v) w"
  shows "wp Q (RetryOnConflict e attempt v) P w"
proof -
  have "wp Q (retry_loop n attempt v) P w" if "I v w" for n v w
    using that
  proof (induction n arbitrary: v w)
    case 0
    then show ?case using assms(3) by (auto intro!: wp_mono[OF assms(2)] split: prod.splits)
  next
    case (Suc n)
    show ?case unfolding retry_loop.simps
      by (intro wp_bind wp_mono[OF assms(2)[OF Suc.prems]])
        (use Suc.IH assms(3) in \<open>auto split: option.split intro!: wp_ret\<close>)
  qed
  then show ?thesis using assms(1) by (simp add: RetryOnConflict_def)
qed

lemma wp_PatchWithRetry:
  assumes "\<And>ns n w. wp Q (get ns n) (\<lambda>_ _. True) w" "\<And>v w. wp Q (put v) (\<lambda>r w'. \<forall>s. r = Inr s \<longrightarrow> S s w') w"
  shows "wp Q (PatchWithRetry e get put f v) (\<lambda>(r, v') w'. r = None \<longrightarrow> S v' w') w"
proof -
  let ?attempt = "\<lambda>o1. get (oNamespace v) (oName v) \<bind> (\<lambda>r. case r of Inl x \<Rightarrow> ret (Some x, o1)
       | Inr fresh \<Rightarrow> put (f fresh) \<bind> (\<lambda>r'. ret (case r' of Inl x \<Rightarrow> (Some x, f fresh) | Inr stored \<Rightarrow> (None, stored))))"
  let ?P = "\<lambda>(r, v') w'. r = None \<longrightarrow> S v' w'"
  have att: "wp Q (?attempt v1) ?P w" for v1 w
    by (intro wp_bind wp_mono[OF assms(1)]) (auto split: sum.split sum.split_asm intro!: wp_ret wp_bind wp_mono[OF assms(2)])
  have "wp Q (retry_loop n ?attempt v1) ?P w" for n v1 w
  proof (induction n arbitrary: v1 w)
    case 0
    show ?case using att by simp
  next
    case (Suc n)
    show ?case unfolding retry_loop.simps
      by (intro wp_bind wp_mono[OF att]) (auto split: option.split intro!: wp_ret Suc.IH)
  qed
  then show ?thesis by (simp add: PatchWithRetry_def RetryOnConflict_def)
qed

definition okey :: "'a ObjectMeta_scheme \<Rightarrow> string \<times> string" where
  "okey v = (oNamespace v, oName v)"

lemma wp_RemoveFinalizer:
  assumes "okey v = k" "\<And>v w. okey v = k \<Longrightarrow> wp Q (put v) (\<lambda>r _. case r of Inr s \<Rightarrow> okey s = k | _ \<Rightarrow> True) w"
    and "\<And>ns n w. wp Q (get ns n) (\<lambda>_ _. True) w" "\<And>r v w. okey v = k \<Longrightarrow> P (r, v) w"
  shows "wp Q (RemoveFinalizer e get put f v) P w"
proof -
  have "wp Q (update_attempt get put v) (\<lambda>(r, v') _. okey v' = k) w" if "okey v = k" for v w
    unfolding update_attempt_def refreshObjectMetadata_def
    by (intro wp_bind wp_mono[OF assms(2)[OF that]])
      (use that in \<open>auto split: sum.splits intro!: wp_rules wp_mono[OF assms(3)] simp: okey_def\<close>)
  then show ?thesis
    using assms(1,4) unfolding RemoveFinalizer_def updateFinalizerWithRetry_def Let_def
    by (auto split: prod.split option.split intro!: wp_rules wp_retry[where I = "\<lambda>v _. okey v = k"] simp: okey_def)
qed

lemmas wp_stepS = wp_retS wp_failS wp_modS wp_getS wp_liftS wp_doS wp_putS wp_bindS wp_map_errS wp_catchS
  wp_step_control

text \<open>What a run that starts with \<open>wp\<close> shows of the request at a position of the history.\<close>

lemma wp_nth:
  assumes "wp Q m P w" "run_state m w = (a, w')" "length (hist w) \<le> i" "i < length (hist w')"
  shows "Q (take i (hist w')) (hist w' ! i)"
  by (rule justified_nth[OF wp_justified[OF assms(1,2)] assms(3,4)])


section \<open>Concrete runs\<close>

lemma lookup_str_list:
  "lookup_str [] k = []" "lookup_str ((a, v) # m) k = (if a = k then v else lookup_str m k)"
  by (simp_all add: lookup_str_def)

lemma kind_at: "map kind_of h = ks \<Longrightarrow> i < length ks \<Longrightarrow> i < length h \<and> kind_of (h ! i) = ks ! i"
  by auto

lemma kind_call:
  "kind_of c = KCreatePVC \<Longrightarrow> \<exists>m. c = CreatePVC m" "kind_of c = KUpdateVRC \<Longrightarrow> \<exists>v. c = UpdateVRC v"
  "kind_of c = KCreateVRC \<Longrightarrow> \<exists>v. c = CreateVRC v"
  by (cases c; auto elim!: vms_kind.elims)+

end
