(* ===== verification/VvrController.thy ===== *)
theory VvrController
  imports VscrController StorageObjects Triples
begin

text \<open>
  The reconciler of VastVolumeReplication objects
  (internal/controller/vastvolumereplication_controller.go). It has the shape of the
  VastStorageClassReplication reconciler with a VolumeReplication per StorageClass in place of the
  groups; what the two sources share word for word is taken from the theory VscrController.
  It differs in its validation, in the order of its steps (the mappings come before the resolution of
  peers, and a protected path that vanished is created again in the same run), in the care it takes
  not to override a resync, and in its resolution of a split brain.
\<close>

type_synonym 'a wstep = "(VVR, 'a) step"

definition ReasonVolumeReplicationCreated :: string where
  "ReasonVolumeReplicationCreated = ''VolumeReplicationCreated''"
definition ReasonVolumeReplicationUpdated :: string where
  "ReasonVolumeReplicationUpdated = ''VolumeReplicationUpdated''"


section \<open>Status fields\<close>

definition VVR_set_status :: "(ReplicationStatus \<Rightarrow> ReplicationStatus) \<Rightarrow> VVR \<Rightarrow> VVR" where
  "VVR_set_status f v = v\<lparr>vvr_Status := f (vvr_Status v)\<rparr>"

definition VVR_ensureStorageClassPreview :: "bool wstep" where
  "VVR_ensureStorageClassPreview = (\<lambda>v.
     let preview = DisplayableList_String (v_AllStorageClasses (vvr_Spec v)) in
     if StorageClassesPreview (vvr_Status v) = preview then ret (Inr False, v)
     else ret (Inr True, VVR_set_status (\<lambda>s. s\<lparr>StorageClassesPreview := preview\<rparr>) v))"

definition VVR_ensurePrimaryStorageClass :: "env \<Rightarrow> bool wstep" where
  "VVR_ensurePrimaryStorageClass e = (\<lambda>v.
     let old = CurrentPrimaryStorageClass (vvr_Status v); new = v_PrimaryStorageClass (vvr_Spec v);
         v' = VVR_set_status (\<lambda>s. s\<lparr>CurrentPrimaryStorageClass := new\<rparr>) v in
     if old = new then ret (Inr False, v)
     else (if old = [] then emit_Normal e ''PrimaryStorageClassSet'' (Sprintf ''primary StorageClass set to %q'' [new])
           else emit_Normal e ''PrimaryStorageClassChanged''
                  (Sprintf ''primary StorageClass switched from %q to %q'' [old, new]))
          \<bind> (\<lambda>_. ret (Inr True, v')))"

definition VVR_ensureLastFailoverType :: "env \<Rightarrow> bool wstep" where
  "VVR_ensureLastFailoverType e = (\<lambda>v.
     let old = LastFailoverType (vvr_Status v); new = v_FailoverType (vvr_Spec v);
         v' = VVR_set_status (\<lambda>s. s\<lparr>LastFailoverType := new\<rparr>) v in
     if old = new then ret (Inr False, v)
     else (if new \<noteq> [] then
             (if old = [] then emit_Normal e ''FailoverTypeSet'' (Sprintf ''failoverType set to %q'' [new])
              else emit_Normal e ''FailoverTypeChanged''
                     (Sprintf ''failoverType changed from %q to %q'' [old, new]))
           else ret ())
          \<bind> (\<lambda>_. ret (Inr True, v')))"

definition VVR_persist_sync :: "env \<Rightarrow> VVR \<Rightarrow> string \<Rightarrow> VVR io" where
  "VVR_persist_sync e v desired =
     (if SyncStatus (vvr_Status v) = desired then ret v
      else UpdateVastVolumeReplicationStatus e (VVR_set_status (\<lambda>s. s\<lparr>SyncStatus := desired\<rparr>) v)
           \<bind> (\<lambda>(_, v'). ret v'))"

definition VVR_reconcileSyncStatus :: "env \<Rightarrow> err option \<Rightarrow> VVR \<Rightarrow> VVR io" where
  "VVR_reconcileSyncStatus e reconcileErr v =
     (if oDeleting v then VVR_persist_sync e v SyncStatusDeleting
      else if reconcileErr \<noteq> None \<and> IsNetworkError reconcileErr then VVR_persist_sync e v SyncStatusUnreachable
      else if reconcileErr \<noteq> None \<and> isValidationError reconcileErr then VVR_persist_sync e v SyncStatusInvalid
      else if reconcileErr \<noteq> None \<and> isPermanentError reconcileErr then VVR_persist_sync e v SyncStatusFailed
      else GetVolumeReplication e (vrNameForSC (oName v) (v_PrimaryStorageClass (vvr_Spec v)))
             (vvr_PVCNamespace v)
           \<bind> (\<lambda>r. case r of
               Inl _ \<Rightarrow> ret v
             | Inr vr \<Rightarrow> VVR_persist_sync e v
                 (if vr_State vr = PrimaryState then SyncStatusCompleted else SyncStatusInProgress)))"


section \<open>Validation\<close>

definition VVR_subsystem_missing :: "env \<Rightarrow> string \<Rightarrow> string \<Rightarrow> rest \<Rightarrow> err" where
  "VVR_subsystem_missing e scName subsystem rest =
     NewValidationError (''StorageClass %q: subsystem %q does not exist on VMS %s; ''
       @ ''for VVR block replication the subsystem must be pre-created on all clusters'')
       [scName, subsystem, v_restString (e_vms e) rest]"

definition VVR_validate_class ::
  "env \<Rightarrow> (string \<times> rest) list \<Rightarrow> (string \<times> StorageClass) list \<Rightarrow> string \<Rightarrow> (err + unit) io" where
  "VVR_validate_class e rests scMap scName =
     derefE (map_of scMap scName) (\<lambda>sc.
       let subsystemName = lookup_str (sc_Parameters sc) StorageClassParameterSubsystem;
           tn = lookup_str (sc_Parameters sc) ''tenant_name'' in
       if \<not> IsBlockStorageClass sc then ret (Inr ())
       else if subsystemName = [] then ret (Inl (missing_subsystem_parameter scName))
       else derefE (map_of rests scName) (\<lambda>rest.
         bindE (wrapE (Errorf_w ''StorageClass %q: failed to check subsystem %q on VMS %s: ''
                         [scName, subsystemName, v_restString (e_vms e) rest])
                  (view_exists e rest subsystemName (if tn \<noteq> [] then Some tn else None)))
           (\<lambda>exists. if \<not> exists then ret (Inl (VVR_subsystem_missing e scName subsystemName rest))
                     else ret (Inr ()))))"

definition VVR_validateOnce ::
  "env \<Rightarrow> (string \<times> rest) list \<Rightarrow> (string \<times> StorageClass) list \<Rightarrow> VVR \<Rightarrow> (err + unit) io" where
  "VVR_validateOnce e rests scMap v =
     (case VVRSpec_Validate (vvr_Spec v) of
        Some x \<Rightarrow> ret (Inl (NewValidationError ''%s'' [Error_string x]))
      | None \<Rightarrow>
          bindE (if CurrentPrimaryStorageClass (vvr_Status v) = []
                 then validate_no_ppath e rests (v_PrimaryStorageClass (vvr_Spec v)) (oName v) ''VVR''
                 else ret (Inr ()))
            (\<lambda>_. forE (v_AllStorageClasses (vvr_Spec v)) (VVR_validate_class e rests scMap)))"


section \<open>VolumeReplications\<close>

definition VVR_ensureReplicationState ::
  "env \<Rightarrow> string \<Rightarrow> string \<Rightarrow> string \<Rightarrow> ReplicationState \<Rightarrow> bool \<Rightarrow> (err + unit) io" where
  "VVR_ensureReplicationState e namespace vrName scName desired primaryChanged =
     bindE (wrapE (Errorf_w ''failed to get VolumeReplication %s/%s: '' [namespace, vrName])
              (GetVolumeReplication e vrName namespace)) (\<lambda>existing.
       if vr_ReplicationState existing = desired then ret (Inr ())
       else if desired = Primary \<and> vr_ReplicationState existing = ResyncState \<and> \<not> primaryChanged then ret (Inr ())
       else PatchVolumeReplicationState e existing desired \<bind> (\<lambda>r. case r of
           Some x \<Rightarrow> ret (Inl (Errorf_w
             ''failed to patch replicationState on VolumeReplication %s/%s: '' [namespace, vrName] x))
         | None \<Rightarrow> emit_Normal e ReasonVolumeReplicationUpdated
             (Sprintf (''updated VolumeReplication %s/%s replicationState ''
                @ [CHR 0xE2, CHR 0x86, CHR 0x92] @ '' %s (StorageClass %q)'')
                [namespace, vrName, state_string desired, scName])
             \<bind> (\<lambda>_. ret (Inr ()))))"

definition ensureVolumeReplicationClass :: "env \<Rightarrow> VVR \<Rightarrow> string \<Rightarrow> string \<Rightarrow> (err + string) io" where
  "ensureVolumeReplicationClass e v scName ppathName =
     bindE (get_sc e scName) (\<lambda>sc.
     bindE (wrapE (Errorf_w ''failed to format replication class name for SC %s: '' [scName])
              (FormatReplicationClassName e VVRReplicationClassFormat sc)) (\<lambda>baseClassName.
     let className = SanitizeK8sName (oName v @ ''-'' @ baseClassName);
         csiParams = ExtractPrefixedParams CSIParameterPrefix (sc_Parameters sc);
         secretName = lookup_str csiParams ''provisioner-secret-name'';
         secretNamespace = lookup_str csiParams ''provisioner-secret-namespace'';
         subsystem = lookup_str (sc_Parameters sc) StorageClassParameterSubsystem;
         vrc = class_parameters (sc_Provisioner sc) CSIAddonsParamReplicationSecretName secretName
                 CSIAddonsParamReplicationSecretNamespace secretNamespace ppathName scName subsystem
                 (NewVolumeReplicationClass className []) in
     if secretName = [] \<or> secretNamespace = [] then
       ret (Inl (Errorf (''StorageClass %s is missing provisioner-secret-name / ''
         @ ''provisioner-secret-namespace parameters'') [scName]))
     else
       bindE (wrapE (Errorf_w ''failed to ensure VolumeReplicationClass %s: '' [className])
                (EnsureVolumeReplicationClass e vrc)) (\<lambda>vrcCreated.
       (if vrcCreated then emit_Normal e ReasonReplicationClassEnsured
            (Sprintf ''created VolumeReplicationClass %s for StorageClass %q'' [className, scName])
        else ret ()) \<bind> (\<lambda>_. ret (Inr className)))))"

definition mirrorPVCName :: "env \<Rightarrow> VVR \<Rightarrow> string \<Rightarrow> (err + string) io" where
  "mirrorPVCName e v destSCName =
     (let ns = vvr_PVCNamespace v; vol = v_VolumeName (vvr_Spec v) in
      bindE (wrapE (Errorf_w ''failed to get source PVC/PV %s/%s: '' [ns, vol]) (GetPVCandPV e vol ns)) (\<lambda>(pvc, pv).
      case pv of
        None \<Rightarrow> ret (Inl (NewRetryAfterError (Errorf ''PVC %s/%s not yet bound'' [ns, vol]) (15 * Second)))
      | Some sourcePV \<Rightarrow>
          bindE (wrapE (Errorf_w ''failed to get destination StorageClass %s: '' [destSCName])
                   (GetStorageClass e destSCName)) (\<lambda>destSC.
          FormatPVCName e (e_pvcNameFormat e) pvc sourcePV destSC)))"

definition VVR_desired_state :: "VVR \<Rightarrow> string \<Rightarrow> ReplicationState" where
  "VVR_desired_state v scName = (if scName = v_PrimaryStorageClass (vvr_Spec v) then Primary else Secondary)"

definition build_VR :: "env \<Rightarrow> VVR \<Rightarrow> string \<Rightarrow> string \<Rightarrow> string \<Rightarrow> err + VR" where
  "build_VR e v scName className dataSourcePVC =
     (let pvcNS = vvr_PVCNamespace v;
          b = vr_WithAutoResync True
               (WithDataSource dataSourcePVC
               (vr_WithReplicationState (VVR_desired_state v scName)
               (WithVolumeReplicationClass className
               (vr_WithLabelsMap [(LabelStorageClass, scName), (LabelSourceVVR, oName v),
                  (LabelSourceVVRNamespace, oNamespace v)]
               (vr_WithLabelsMap [(LabelManagedBy, LabelManagedByValue)]
               (NewVolumeReplication (vrNameForSC (oName v) scName) pvcNS)))))) in
      Build (if pvcNS = oNamespace v then vr_WithOwnerRef e ''VastVolumeReplication'' v b else b))"

text \<open>The data source is the source claim for the primary, the mirror claim for a secondary.\<close>

definition data_source :: "env \<Rightarrow> VVR \<Rightarrow> string \<Rightarrow> (err + string) io" where
  "data_source e v scName =
     (if scName = v_PrimaryStorageClass (vvr_Spec v) then ret (Inr (v_VolumeName (vvr_Spec v)))
      else wrapE (Errorf_w ''failed to compute mirror PVC name for SC %s: '' [scName]) (mirrorPVCName e v scName))"

definition ensureVR :: "env \<Rightarrow> VVR \<Rightarrow> string \<Rightarrow> string \<Rightarrow> bool \<Rightarrow> (err + string \<times> bool) io" where
  "ensureVR e v scName ppathName primaryChanged =
     bindE (ensureVolumeReplicationClass e v scName ppathName) (\<lambda>className.
     bindE (data_source e v scName) (\<lambda>dataSourcePVC.
       let vrName = vrNameForSC (oName v) scName; pvcNS = vvr_PVCNamespace v;
           state = VVR_desired_state v scName in
       case build_VR e v scName className dataSourcePVC of
         Inl x \<Rightarrow> ret (Inl x)
       | Inr vr \<Rightarrow>
           bindE (wrapE (Errorf_w ''failed to ensure VolumeReplication %s/%s: '' [pvcNS, vrName])
                    (EnsureVolumeReplication e vr)) (\<lambda>wasCreated.
             if wasCreated then
               emit_Normal e ReasonVolumeReplicationCreated
                 (Sprintf (''created VolumeReplication %s/%s for StorageClass %q ''
                    @ ''(replicationState=%s, dataSource=%s)'')
                    [pvcNS, vrName, scName, state_string state, dataSourcePVC])
               \<bind> (\<lambda>_. ret (Inr (vrName, True)))
             else if scName \<noteq> v_PrimaryStorageClass (vvr_Spec v) then ret (Inr (vrName, False))
             else bindE (VVR_ensureReplicationState e pvcNS vrName scName state primaryChanged)
                    (\<lambda>_. ret (Inr (vrName, False))))))"

fun VVR_confirmed_primaries :: "env \<Rightarrow> VVR \<Rightarrow> string list \<Rightarrow> (err + string list) io" where
  "VVR_confirmed_primaries e v [] = ret (Inr [])"
| "VVR_confirmed_primaries e v (scName # scs) =
     GetVolumeReplication e (vrNameForSC (oName v) scName) (vvr_PVCNamespace v) \<bind> (\<lambda>r. case r of
         Inl x \<Rightarrow> if IsNotFound x then VVR_confirmed_primaries e v scs
                   else ret (Inl (Errorf_w ''failed to get VolumeReplication for SC %s: '' [scName] x))
       | Inr vr \<Rightarrow> bindE (VVR_confirmed_primaries e v scs)
           (\<lambda>cs. ret (Inr (if IsVRConfirmedPrimary vr then scName # cs else cs))))"

text \<open>The candidate whose cluster reports the protected path in the role source.\<close>

fun true_primary :: "env \<Rightarrow> string \<Rightarrow> string list \<Rightarrow> (err + string) io" where
  "true_primary e ppathName [] = ret (Inr [])"
| "true_primary e ppathName (scName # scs) =
     bindE (wrapE (Errorf_w ''failed to build REST client for SC %s: '' [scName])
              (NewFromStorageClassName e scName (e_sslVerify e))) (\<lambda>(rest, _).
     bindE (wrapE (Errorf_w ''failed to get ppath %q for SC %s: '' [ppathName, scName])
              (GetPpath e rest ppathName)) (\<lambda>ppath.
     if ToLower (pp_Role ppath) = ''source'' then ret (Inr scName) else true_primary e ppathName scs))"

definition syncVRReplicationStates :: "env \<Rightarrow> VVR \<Rightarrow> err option io" where
  "syncVRReplicationStates e v =
     VVR_confirmed_primaries e v (v_AllStorageClasses (vvr_Spec v)) \<bind> (\<lambda>r. case r of
         Inl x \<Rightarrow> ret (Some x)
       | Inr candidates \<Rightarrow>
           if length candidates \<le> 1 then ret None
           else true_primary e (PpathName (vvr_Status v)) candidates \<bind> (\<lambda>r. case r of
               Inl x \<Rightarrow> ret (Some x)
             | Inr truePrimarySC \<Rightarrow>
                 if truePrimarySC = [] then ret None
                 else for_collect candidates (\<lambda>scName.
                     if scName = truePrimarySC then ret None
                     else VVR_ensureReplicationState e (vvr_PVCNamespace v) (vrNameForSC (oName v) scName) scName
                            Secondary False
                          \<bind> (\<lambda>s. ret (case s of Inr _ \<Rightarrow> None | Inl x \<Rightarrow> Some (Errorf_w ''SC %s: '' [scName] x)))) []
                   \<bind> (\<lambda>errs. ret (DeferredError_Err errs))))"


section \<open>Resync\<close>

definition VVR_ensureResync :: "env \<Rightarrow> unit wstep" where
  "VVR_ensureResync e = getS (\<lambda>v.
     let vrName = vrNameForSC (oName v) (v_PrimaryStorageClass (vvr_Spec v)); ns = vvr_PVCNamespace v in
     bindS (doS (GetVolumeReplication e vrName ns)) (\<lambda>r. case r of
         Inl x \<Rightarrow>
           if IsNotFound x then putS (PatchVVRResync e)
           else failS (Errorf_w ''ensureResync: failed to get VolumeReplication %s/%s: '' [ns, vrName] x)
       | Inr existing \<Rightarrow>
           bindS (doS (PatchVolumeReplicationState e existing ResyncState)) (\<lambda>p. case p of
               Some x \<Rightarrow> failS (Errorf_w
                 ''ensureResync: failed to patch replicationState on VolumeReplication %s/%s: '' [ns, vrName] x)
             | None \<Rightarrow>
                 bindS (doS (emit_Normal e ''ResyncTriggered''
                   (Sprintf ''replicationState set to resync on VolumeReplication %s/%s'' [ns, vrName])))
                 (\<lambda>_. map_errS (Errorf_w ''ensureResync: failed to clear Resync flag on VVR %s/%s: ''
                             [oNamespace v, oName v])
                        (putS (PatchVVRResync e))))))"



section \<open>Deletion\<close>

fun countOwnedVRs :: "env \<Rightarrow> VVR \<Rightarrow> string list \<Rightarrow> nat io" where
  "countOwnedVRs e v [] = ret 0"
| "countOwnedVRs e v (scName # scs) =
     GetVolumeReplication e (vrNameForSC (oName v) scName) (vvr_PVCNamespace v) \<bind> (\<lambda>r.
       countOwnedVRs e v scs \<bind> (\<lambda>n. ret (case r of Inr _ \<Rightarrow> Suc n | Inl _ \<Rightarrow> n)))"

definition VVR_delete_backend :: "env \<Rightarrow> VVR \<Rightarrow> unit io" where
  "VVR_delete_backend e v =
     (let primary = v_PrimaryStorageClass (vvr_Spec v); ppathName = PpathName (vvr_Status v) in
      (if primary \<noteq> [] \<and> ppathName \<noteq> [] then
         NewFromStorageClassName e primary (e_sslVerify e) \<bind> (\<lambda>r. case r of
             Inl _ \<Rightarrow> ret ()
           | Inr (rest, _) \<Rightarrow> delete_ppath e rest ppathName)
       else ret ()) \<bind> (\<lambda>_.
      if primary \<noteq> [] then
        DeleteProtectionPolicies e (oName v) primary (v_ProtectionTopology (vvr_Spec v)) (e_sslVerify e)
      else ret ()))"

definition VVR_requeue_waiting :: "env \<Rightarrow> key \<Rightarrow> string \<Rightarrow> nat \<Rightarrow> Result wstep" where
  "VVR_requeue_waiting e k fmt n =
     bindS (doS (emit_Normal e ReasonCleanupStarted (Sprintf fmt [Itoa n])))
       (\<lambda>_. bindS (doS (bo_Next e k)) (\<lambda>d. retS \<lparr>RequeueAfter = d\<rparr>))"

definition VVR_finish_deletion :: "env \<Rightarrow> key \<Rightarrow> VVR \<Rightarrow> Result wstep" where
  "VVR_finish_deletion e k v =
     bindS (doS (bo_Reset e k)) (\<lambda>_.
     bindS (doS (VVR_delete_backend e v)) (\<lambda>_.
     bindS (map_errS (Errorf_w ''failed to remove finalizer: '' [])
              (putS (RemoveFinalizer e (get_VVR e) (put_VVR e UpdateVVR) FinalizerVVR)))
       (\<lambda>_. retS no_requeue)))"

definition VVR_await_VRCs :: "env \<Rightarrow> key \<Rightarrow> VVR \<Rightarrow> Result wstep" where
  "VVR_await_VRCs e k v =
     bindS (liftS (wrapE (Errorf_w ''failed to list VastReplicationContents: '' [])
           (ListVastReplicationContentsByLabelSelector e (vvr_PVCNamespace v)
              [(LabelSourceVVR, oName v)]))) (\<lambda>vrcs.
     if length vrcs > 0 then VVR_requeue_waiting e k
       ''waiting for %d VastReplicationContent(s) to finish cleanup before removing finalizer'' (length vrcs)
     else VVR_finish_deletion e k v)"

definition await_VRs :: "env \<Rightarrow> key \<Rightarrow> VVR \<Rightarrow> Result wstep" where
  "await_VRs e k v =
     bindS (doS (countOwnedVRs e v (v_AllStorageClasses (vvr_Spec v)))) (\<lambda>remainingVRs.
     if remainingVRs > 0 then VVR_requeue_waiting e k
       ''waiting for %d owned VolumeReplication(s) to be deleted before removing finalizer'' remainingVRs
     else VVR_await_VRCs e k v)"

definition VVR_handleDeletion :: "env \<Rightarrow> key \<Rightarrow> Result wstep" where
  "VVR_handleDeletion e k = getS (\<lambda>v.
     if \<not> HasFinalizer e v FinalizerVVR then retS no_requeue
     else bindS (liftS (forE (v_AllStorageClasses (vvr_Spec v)) (\<lambda>scName.
         let ns = vvr_PVCNamespace v; name = vrNameForSC (oName v) scName in
         wrapE (Errorf_w ''failed to delete VolumeReplication %s/%s: '' [ns, name])
           (DeleteVolumeReplication e name ns)))) (\<lambda>_. await_VRs e k v))"


section \<open>Reconcile\<close>

abbreviation VVR_update_status :: "env \<Rightarrow> unit wstep" where
  "VVR_update_status e \<equiv> putS (UpdateVastVolumeReplicationStatus e)"

definition VVR_ppath_dirs :: "env \<Rightarrow> VVR \<Rightarrow> (err + smap) io" where
  "VVR_ppath_dirs e v =
     foldE (\<lambda>mapping scName.
       bindE (get_sc e scName) (\<lambda>sc.
       bindE (wrapE (Errorf_w ''failed to compute PpathDir for StorageClass %s: '' [scName])
                (Predict e sc (e_sslVerify e) (v_VolumeName (vvr_Spec v)) (vvr_PVCNamespace v)))
         (\<lambda>dir. ret (Inr (AList.update scName dir mapping))))) [] (v_AllStorageClasses (vvr_Spec v))"

definition VVR_ensure_mappings ::
  "env \<Rightarrow> (string \<times> rest) list \<Rightarrow> (string \<times> StorageClass) list \<Rightarrow> unit wstep" where
  "VVR_ensure_mappings e rests scMap =
     bindS (getS (\<lambda>v. if PpathDirMapping (vvr_Status v) = [] then
         bindS (liftS (VVR_ppath_dirs e v)) (\<lambda>mapping.
         bindS (modS (VVR_set_status (\<lambda>s. s\<lparr>PpathDirMapping := mapping\<rparr>))) (\<lambda>_. VVR_update_status e))
       else retS ())) (\<lambda>_.
     getS (\<lambda>v. if TenantMapping (vvr_Status v) = [] then
         bindS (liftS (tenant_map e rests scMap (v_AllStorageClasses (vvr_Spec v)))) (\<lambda>mapping.
         bindS (modS (VVR_set_status (\<lambda>s. s\<lparr>TenantMapping := mapping\<rparr>))) (\<lambda>_. VVR_update_status e))
       else retS ()))"

text \<open>The slow path: the policies of the mesh and the protected path with its streams.\<close>

definition build_ppath ::
  "env \<Rightarrow> (string \<times> rest) list \<Rightarrow> (string \<times> StorageClass) list \<Rightarrow> string wstep" where
  "build_ppath e rests scMap = getS (\<lambda>v.
     let primary = v_PrimaryStorageClass (vvr_Spec v);
         edges = NewReplicationEdgesList (v_ProtectionTopology (vvr_Spec v)) primary;
         tmpl = SpecTemplateToParams (oName v) (v_PolicyTemplate (vvr_Spec v)) in
     bindS (doS (DiscoverLinkPolicies e rests (TenantMapping (vvr_Status v)) edges tmpl)) (\<lambda>d. case d of
         Inl x \<Rightarrow> bindS (doS (emit_Warning e ReasonReconcileFailed (Error_string x))) (\<lambda>_.
           failS (Errorf_w ''failed to ensure protection policies: '' [] x))
       | Inr policyPairs \<Rightarrow>
           bindS (doS (derefE (map_of scMap primary) (\<lambda>sc.
               EnsureConstellationPpath e rests policyPairs primary (oName v)
                 (PpathDirMapping (vvr_Status v)) (\<not> IsBlockStorageClass sc)))) (\<lambda>c. case c of
               Inl x \<Rightarrow> ppath_not_ready e x
             | Inr name \<Rightarrow>
                 bindS (modS (VVR_set_status (\<lambda>s. s\<lparr>PpathName := name\<rparr>))) (\<lambda>_.
                 bindS (VVR_update_status e) (\<lambda>_. retS name)))))"

definition VVR_ensure_ppath ::
  "env \<Rightarrow> (string \<times> rest) list \<Rightarrow> (string \<times> StorageClass) list \<Rightarrow> string wstep" where
  "VVR_ensure_ppath e rests scMap = getS (\<lambda>v.
     let primary = v_PrimaryStorageClass (vvr_Spec v); ppathName = PpathName (vvr_Status v) in
     if ppathName = [] then build_ppath e rests scMap
     else
       bindS (liftS (derefE (map_of rests primary)
                (\<lambda>rest. IsPpathActive e rest ppathName \<bind> (\<lambda>r. ret (Inr r))))) (\<lambda>r. case r of
           None \<Rightarrow> retS ppathName
         | Some x \<Rightarrow>
             if v_isNotFound (e_vms e) x then
               bindS (modS (VVR_set_status (\<lambda>s. s\<lparr>PpathName := []\<rparr>))) (\<lambda>_.
               bindS (VVR_update_status e) (\<lambda>_. build_ppath e rests scMap))
             else ppath_not_ready e x))"

fun ensure_VRs :: "env \<Rightarrow> VVR \<Rightarrow> string \<Rightarrow> bool \<Rightarrow> string list \<Rightarrow> err list \<Rightarrow> err list io" where
  "ensure_VRs e v ppathName primaryChanged [] errs = ret errs"
| "ensure_VRs e v ppathName primaryChanged (scName # scs) errs =
     ensureVR e v scName ppathName primaryChanged \<bind> (\<lambda>r. case r of
         Inl x \<Rightarrow> ensure_VRs e v ppathName primaryChanged scs
                    (DeferredError_Add errs (Some (Errorf_w ''SC %s: '' [scName] x)))
       | Inr (vrName, created) \<Rightarrow>
           (if created \<and> scs \<noteq> [] then
              WaitForVRC e (vvr_PVCNamespace v) vrName (30 * Second) \<bind> (\<lambda>_. ret ())
            else ret ()) \<bind> (\<lambda>_. ensure_VRs e v ppathName primaryChanged scs errs))"

definition VVR_provision :: "env \<Rightarrow> key \<Rightarrow> bool \<Rightarrow> string \<Rightarrow> Result wstep" where
  "VVR_provision e k primaryChanged ppathName = getS (\<lambda>v.
     bindS (doS (ensure_VRs e v ppathName primaryChanged (v_AllStorageClassesPrimaryFirst (vvr_Spec v)) [])) (\<lambda>errs.
     bindS (doS (syncVRReplicationStates e v)) (\<lambda>r.
     case DeferredError_Err (DeferredError_Add errs r) of
       None \<Rightarrow> bindS (doS (bo_Reset e k)) (\<lambda>_. retS no_requeue)
     | Some x \<Rightarrow> failS x)))"

definition VVR_resolve_peers :: "env \<Rightarrow> (string \<times> rest) list \<Rightarrow> unit wstep" where
  "VVR_resolve_peers e rests = (\<lambda>v.
     ResolveAndFetchTopologyPeers e rests (v_ProtectionTopology (vvr_Spec v)) \<bind> (\<lambda>(r, topology).
       let v' = v\<lparr>vvr_Spec := (vvr_Spec v)\<lparr>v_ProtectionTopology := topology\<rparr>\<rparr> in
       ret (case r of
           Some x \<Rightarrow> (Inl (Errorf_w ''failed to resolve replication peers: '' [] x), v')
         | None \<Rightarrow> (Inr (), v'))))"

definition VVR_admit :: "env \<Rightarrow> (string \<times> rest) list \<Rightarrow> (string \<times> StorageClass) list \<Rightarrow> unit wstep" where
  "VVR_admit e rests scMap = (\<lambda>v.
     EnsureFinalizer e (get_VVR e) (put_VVR e UpdateVVR) FinalizerVVR v \<bind> (\<lambda>(ensured, r, v1).
       case r of
         Some x \<Rightarrow> ret (Inl (Errorf_w ''failed to add finalizer: '' [] x), v1)
       | None \<Rightarrow>
           if \<not> ensured then ret (Inr (), v1)
           else VVR_validateOnce e rests scMap v1 \<bind> (\<lambda>val. case val of
               Inr _ \<Rightarrow> ret (Inr (), v1)
             | Inl x \<Rightarrow>
                 if x = panic_nil then ret (Inl x, v1)
                 else RemoveFinalizer e (get_VVR e) (put_VVR e UpdateVVR) FinalizerVVR v1
                      \<bind> (\<lambda>(_, v2). ret (Inl x, v2)))))"

definition VVR_backfill ::
  "env \<Rightarrow> (string \<times> rest) list \<Rightarrow> (string \<times> StorageClass) list \<Rightarrow> bool \<Rightarrow> unit wstep" where
  "VVR_backfill e rests scMap primaryChanged = getS (\<lambda>v.
     let scName = v_PrimaryStorageClass (vvr_Spec v) in
     if e_applyExistingPVCs e \<and> primaryChanged then
       bindS (doS (ApplyExistingPVCs e scName (map_of scMap scName) (map_of rests scName)))
         (\<lambda>r. if r = Inl panic_nil then failS panic_nil else retS ())
     else retS ())"

definition VVR_sync_spec ::
  "env \<Rightarrow> (string \<times> rest) list \<Rightarrow> (string \<times> StorageClass) list \<Rightarrow> bool wstep" where
  "VVR_sync_spec e rests scMap =
     bindS (VVR_ensurePrimaryStorageClass e) (\<lambda>primaryChanged.
     bindS (VVR_backfill e rests scMap primaryChanged) (\<lambda>_.
     bindS VVR_ensureStorageClassPreview (\<lambda>previewChanged.
     bindS (if previewChanged \<or> primaryChanged then retS True else VVR_ensureLastFailoverType e) (\<lambda>changed.
     bindS (if changed then VVR_update_status e else retS ()) (\<lambda>_. retS primaryChanged)))))"

definition VVR_reconcile_body :: "env \<Rightarrow> key \<Rightarrow> Result wstep" where
  "VVR_reconcile_body e k = getS (\<lambda>v.
     if oDeleting v then VVR_handleDeletion e k
     else
       bindS (liftS (wrapE (Errorf_w ''failed to build VMS REST clients: '' [])
                (RestFromStorageClasses e (v_AllStorageClasses (vvr_Spec v)) (e_sslVerify e)))) (\<lambda>rests.
       bindS (liftS (wrapE (Errorf_w ''failed to fetch StorageClass objects: '' [])
                (ScsFromStorageClasses e (v_AllStorageClasses (vvr_Spec v))))) (\<lambda>scMap.
       bindS (VVR_admit e rests scMap) (\<lambda>_.
       bindS (VVR_sync_spec e rests scMap) (\<lambda>primaryChanged.
       getS (\<lambda>v.
         if v_Resync (vvr_Spec v) then bindS (VVR_ensureResync e) (\<lambda>_. retS no_requeue)
         else
           bindS (VVR_ensure_mappings e rests scMap) (\<lambda>_.
           getS (\<lambda>v.
           if hasUnresolvedPeers (v_ProtectionTopology (vvr_Spec v)) then
             bindS (VVR_resolve_peers e rests) (\<lambda>_.
             bindS (putS (UpdateVastVolumeReplication e)) (\<lambda>_. retS no_requeue))
           else
             bindS (VVR_ensure_ppath e rests scMap) (\<lambda>ppathName.
             VVR_provision e k primaryChanged ppathName)))))))))"

definition VVR_deferred :: "env \<Rightarrow> key \<Rightarrow> (err + Result) \<Rightarrow> VVR \<Rightarrow> (err + Result) io" where
  "VVR_deferred e k r v =
     (let retErr = (case r of Inl x \<Rightarrow> if x = panic_nil then None else Some x | Inr _ \<Rightarrow> None) in
      VVR_reconcileSyncStatus e retErr v \<bind> (\<lambda>_. case retErr of
          None \<Rightarrow> ret r
        | Some x \<Rightarrow>
            emit_HasWarned \<bind> (\<lambda>warned.
              if isPermanentError (Some x) \<and> \<not> warned
              then emit_Warning e ReasonReconcileFailed (Error_string x) else ret ())
            \<bind> (\<lambda>_. maybeBackoffRetry e (Some k) (Some x))))"

definition VVR_Reconcile :: "env \<Rightarrow> key \<Rightarrow> (err + Result) io" where
  "VVR_Reconcile e k =
     GetVastVolumeReplication e (snd k) (fst k) \<bind> (\<lambda>r. case r of
         Inl x \<Rightarrow> if IsNotFound x then ret (Inr no_requeue) else ret (Inl x)
       | Inr v \<Rightarrow> EmitFor \<bind> (\<lambda>_. VVR_reconcile_body e k v \<bind> (\<lambda>(r, v'). VVR_deferred e k r v')))"


section \<open>When a deleted resource is retired\<close>

text \<open>Every VolumeReplication of the constellation failed to be read, and the contents were listed as none.\<close>

definition VVR_cleaned :: "env \<Rightarrow> VVR \<Rightarrow> history \<Rightarrow> bool" where
  "VVR_cleaned e v h =
     ((\<forall>sc \<in> set (v_AllStorageClasses (vvr_Spec v)). earlier (\<lambda>h. \<exists>x. k_getVR (e_k8s e) h (vvr_PVCNamespace v)
          (vrNameForSC (oName v) sc) = Inl x) h)
      \<and> earlier (\<lambda>h. k_listVRC (e_k8s e) h (vvr_PVCNamespace v) [(LabelSourceVVR, oName v)] = Inr []) h)"

definition retire_kinds :: "call_kind set" where
  "retire_kinds = {KUpdateVVR, KPpathDisable, KPpathDelete, KPolicyDelete}"

definition retire_request :: "env \<Rightarrow> VVR \<Rightarrow> history \<Rightarrow> call \<Rightarrow> bool" where
  "retire_request e v h c = (kind_of c \<in> retire_kinds \<longrightarrow> VVR_cleaned e v h)"

lemma retire_request_other: "S \<inter> retire_kinds = {} \<Longrightarrow> allows S (retire_request e v)"
  unfolding allows_def retire_request_def by auto

lemma VVR_cleaned_mono: "VVR_cleaned e v h \<Longrightarrow> prefix h h' \<Longrightarrow> VVR_cleaned e v h'"
  unfolding VVR_cleaned_def by (blast intro: earlier_mono)

lemma countOwnedVRs_wp:
  assumes "allows {KRead} Q"
  shows "wp Q (countOwnedVRs e v scs) (\<lambda>n w'. n = 0 \<longrightarrow> (\<forall>sc \<in> set scs. earlier (\<lambda>h. \<exists>x. k_getVR (e_k8s e) h (vvr_PVCNamespace v)
          (vrNameForSC (oName v) sc) = Inl x) (hist w'))) w"
proof (induction scs arbitrary: w)
  case (Cons sc scs)
  have Q: "Q h (GetCall a b c)" for h a b c using allowsD[OF assms] by simp
  have now: "earlier (\<lambda>h. \<exists>x. k_getVR (e_k8s e) h (vvr_PVCNamespace v) (vrNameForSC (oName v) sc) = Inl x) (hist w @ [c])"
    if "k_getVR (e_k8s e) (hist w) (vvr_PVCNamespace v) (vrNameForSC (oName v) sc) = Inl x" for x c
    by (rule earlier_append) (use that in blast)
  show ?case
    unfolding countOwnedVRs.simps GetVolumeReplication_def
    by (intro wp_bind wp_ask Q wp_mono[OF Cons.IH] wp_ret) (auto split: sum.splits dest: now intro: earlier_mono)
qed (simp add: wp_ret)

lemma within_VVR_waiting: "{KEvent, KBackoff} \<subseteq> S \<Longrightarrow> within S (VVR_requeue_waiting e k fmt n v)"
  unfolding VVR_requeue_waiting_def by (auto intro!: issues_rules within_backoff)

lemma within_VVR_finish:
  "{KRead, KNewRest, KVmsRead, KBackoff} \<union> retire_kinds \<subseteq> S \<Longrightarrow> within S (VVR_finish_deletion e k v u)"
  unfolding VVR_finish_deletion_def VVR_delete_backend_def delete_ppath_def retire_kinds_def Let_def
  by (auto intro!: issues_rules within_backoff within_clients within_ppath_reads within_vms within_delete_policies
      within_map_errS within_finalizers within_storage_reads within_put)

lemma wp_cleaned:
  assumes "within S m" "VVR_cleaned e v (hist w)" "\<And>a w'. P a w'"
  shows "wp (retire_request e v) m P w"
  by (rule wp_from, rule wp_within[OF assms(1)])
    (use assms(2,3) in \<open>auto simp: allows_def retire_request_def intro: VVR_cleaned_mono\<close>)

lemma await_VRs_wp: "wp (retire_request e v) (await_VRs e k v u) (\<lambda>_ _. True) w"
proof -
  have reads: "allows {KRead} (retire_request e v)" and wait: "allows {KEvent, KBackoff} (retire_request e v)"
    by (rule retire_request_other, simp add: retire_kinds_def)+
  have contents: "wp (retire_request e v) (VVR_await_VRCs e k v u') (\<lambda>_ _. True) x"
    if "\<forall>sc \<in> set (v_AllStorageClasses (vvr_Spec v)). earlier (\<lambda>h. \<exists>x. k_getVR (e_k8s e) h (vvr_PVCNamespace v)
          (vrNameForSC (oName v) sc) = Inl x) (hist x)" for u' x
  proof -
    have "VVR_cleaned e v (hist x @ [c])"
      if "k_listVRC (e_k8s e) (hist x) (vvr_PVCNamespace v) [(LabelSourceVVR, oName v)] = Inr []" for c
      unfolding VVR_cleaned_def using \<open>\<forall>sc \<in> _. _\<close> that by (auto intro: earlier_longer earlier_append)
    then show ?thesis
      unfolding VVR_await_VRCs_def ListVastReplicationContentsByLabelSelector_def
      by (intro wp_bindS wp_liftS wp_wrapE wp_ask allowsD[OF reads])
        (auto split: sum.split intro!: wp_within[OF within_VVR_waiting[where S = "{KEvent, KBackoff}"] wait]
          wp_cleaned[OF within_VVR_finish[where S = UNIV]])
  qed
  show ?thesis
    unfolding await_VRs_def
    by (intro wp_bindS wp_doS wp_mono[OF countOwnedVRs_wp[OF reads]])
      (auto intro!: contents wp_within[OF within_VVR_waiting[where S = "{KEvent, KBackoff}"] wait])
qed

lemma within_VVR_deletions:
  "KDelete \<in> S \<Longrightarrow> within S (forE scs (\<lambda>sc. wrapE (g sc) (DeleteVolumeReplication e (n sc) ns)))"
  by (auto intro!: issues_rules within_write simp: DeleteVolumeReplication_def)

lemma VVR_handleDeletion_wp: "wp (retire_request e v) (VVR_handleDeletion e k v) (\<lambda>_ _. True) w"
proof -
  have del: "allows {KDelete} (retire_request e v)" by (rule retire_request_other) (simp add: retire_kinds_def)
  show ?thesis
    unfolding VVR_handleDeletion_def Let_def
    by (intro wp_getS wp_step_control wp_retS wp_bindS wp_liftS
        wp_within[OF within_VVR_deletions[where S = "{KDelete}"] del] TrueI)
      (auto split: sum.split intro: await_VRs_wp)
qed

lemma within_VVR_syncStatus: "{KRead, KStatusVVR} \<subseteq> S \<Longrightarrow> within S (VVR_reconcileSyncStatus e x v)"
  unfolding VVR_reconcileSyncStatus_def VVR_persist_sync_def GetVolumeReplication_def
  by (intro issues_rules within_VVR) auto

lemma within_VVR_deferred: "{KRead, KStatusVVR, KEvent, KBackoff} \<subseteq> S \<Longrightarrow> within S (VVR_deferred e k r v)"
  unfolding VVR_deferred_def Let_def
  by (intro issues_rules within_backoff within_VVR_syncStatus) auto

lemma VVR_Reconcile_wp:
  assumes "k_getVVR (e_k8s e) (hist w) (fst k) (snd k) = Inr v" "oDeleting v"
  shows "wp (retire_request e v) (VVR_Reconcile e k) (\<lambda>_ _. True) w"
proof -
  have reads: "allows {KRead} (retire_request e v)" and after: "allows {KRead, KStatusVVR, KEvent, KBackoff} (retire_request e v)"
    by (rule retire_request_other, simp add: retire_kinds_def)+
  have body: "wp (retire_request e v) (VVR_reconcile_body e k v) (\<lambda>_ _. True) u" for u
    unfolding VVR_reconcile_body_def by (rule wp_getS) (simp add: assms(2) VVR_handleDeletion_wp)
  show ?thesis
    unfolding VVR_Reconcile_def GetVastVolumeReplication_def get_VVR_def
  proof (intro wp_bind wp_wrapE wp_ask allowsD[OF reads], simp, simp add: assms(1),
      intro wp_bind wp_emit wp_mono[OF body], goal_cases)
    case (1 a u)
    then show ?case by (cases a) (simp add: wp_within[OF within_VVR_deferred after])
  qed
qed

text \<open>C12: When a VastVolumeReplication is being deleted, the reconciler touches the protected path and the policies on
  the clusters and writes the object, which is how its finalizer goes, only after a read of every VolumeReplication
  of the constellation failed and the list of its VastReplicationContents came back empty.\<close>

theorem VVR_retired_after_cleanup:
  assumes "run_state (VVR_Reconcile e k) w = (r, w')" "k_getVVR (e_k8s e) (hist w) (fst k) (snd k) = Inr v" "oDeleting v"
    and "length (hist w) \<le> i" "i < length (hist w')" "kind_of (hist w' ! i) \<in> {KUpdateVVR, KPpathDisable, KPpathDelete, KPolicyDelete}"
  shows "VVR_cleaned e v (take i (hist w'))"
  using wp_nth[OF VVR_Reconcile_wp[OF assms(2,3)] assms(1,4,5)] assms(6) unfolding retire_request_def retire_kinds_def by blast


section \<open>A concrete deletion\<close>

definition demo_vvr :: VVR where
  "demo_vvr = \<lparr>oName = ''vv'', oNamespace = ''ns'', oLabels = [], oAnnotations = [], oFinalizers = [FinalizerVVR], oOwners = [],
     oDeleting = True, oUID = ''u'', oGeneration = 1, vvr_Spec = example_vvr, vvr_Status = demo_status\<rparr>"

definition gone_env :: env where
  "gone_env = idle_env\<lparr>e_k8s := idle_k8s\<lparr>k_getVVR := \<lambda>h ns n. Inr demo_vvr, k_write := \<lambda>h c. None,
     k_listVRC := \<lambda>h ns sel. Inr [], k_putVVR := \<lambda>h c. Inr demo_vvr\<rparr>\<rparr>"

lemma gone_env_sel:
  "k_getVVR (e_k8s gone_env) = (\<lambda>h ns n. Inr demo_vvr)" "k_write (e_k8s gone_env) = (\<lambda>h c. None)"
  "k_listVRC (e_k8s gone_env) = (\<lambda>h ns sel. Inr [])" "k_putVVR (e_k8s gone_env) = (\<lambda>h c. Inr demo_vvr)"
  "k_getVR (e_k8s gone_env) = (\<lambda>h ns n. Inl unavailable)" "k_containsFinalizer (e_k8s gone_env) = (\<lambda>fs f. f \<in> set fs)"
  "k_removeFinalizer (e_k8s gone_env) = (\<lambda>fs f. (f \<in> set fs, filter (\<lambda>g. g \<noteq> f) fs))"
  "e_prio gone_env = (\<lambda>h k. 0)" "e_retrySteps gone_env = 4"
  by (simp_all add: gone_env_def idle_simps)

lemma demo_vvr_sel:
  "oName demo_vvr = ''vv''" "oNamespace demo_vvr = ''ns''" "oFinalizers demo_vvr = [FinalizerVVR]" "oDeleting demo_vvr"
  "vvr_Status demo_vvr = demo_status" "vvr_PVCNamespace demo_vvr = ''ns''" "vvr_Spec demo_vvr = example_vvr"
  by (simp_all add: demo_vvr_def vvr_PVCNamespace_def example_vvr_def TrimSpace_def Trim_def TrimLeft_def TrimRight_def)

lemma example_vvr_eval:
  "v_AllStorageClasses example_vvr = [''a'', ''b'', ''c'']" "v_PrimaryStorageClass example_vvr = ''b''"
  "ProtectionPolicyNamesByStorageClass n p (v_ProtectionTopology example_vvr) = []"
  by (simp_all add: v_AllStorageClasses_def topology_seen_def sorted_keys_def example_vvr_def example_entry_def
      ProtectionPolicyNamesByStorageClass_def)

abbreviation gone_run :: "(err + Result) \<times> world" where
  "gone_run \<equiv> run_state (VVR_Reconcile gone_env (''ns'', ''vv'')) start_world"

lemma gone_run_hist:
  "hist (snd gone_run) ! 9 = UpdateVVR (demo_vvr\<lparr>oFinalizers := []\<rparr>)" "length (hist (snd gone_run)) = 11"
  by (simp_all add: VVR_Reconcile_def GetVastVolumeReplication_def get_VVR_def gone_env_sel demo_vvr_sel step_simps
      VVR_reconcile_body_def VVR_handleDeletion_def HasFinalizer_def DeleteVolumeReplication_def k8s_write_def await_VRs_def
      GetVolumeReplication_def VVR_await_VRCs_def ListVastReplicationContentsByLabelSelector_def VVR_finish_deletion_def
      bo_Reset_def VVR_delete_backend_def example_vvr_eval demo_status_def DeleteProtectionPolicies_def RemoveFinalizer_def
      updateFinalizerWithRetry_def RetryOnConflict_def update_attempt_def put_VVR_def VVR_deferred_def VVR_reconcileSyncStatus_def
      VVR_persist_sync_def SyncStatusDeleting_def UpdateVastVolumeReplicationStatus_def wrap_put_def UpdateStatusWithRetry_def
      VVR_set_status_def start_world_sel)

theorem VVR_retired_after_cleanup_witness:
  "VVR_cleaned gone_env demo_vvr (take 9 (hist (snd gone_run)))"
  by (rule VVR_retired_after_cleanup[OF prod.collapse[symmetric]])
    (simp_all add: gone_run_hist gone_env_sel demo_vvr_sel start_world_sel)

end
