(* ===== verification/Admission.thy ===== *)
theory Admission
  imports VvrController Triples
begin

text \<open>
  The admission webhooks for VastStorageClassReplication and VastVolumeReplication objects
  (internal/webhook/vast_replication_crd_validation_webhook.go). A validator answers a response; the
  handlers run their validators in turn and return the first response that does not allow the
  request. The decoders of controller-runtime and the lists of the stored objects are arguments.
  A raw object is its JSON value: the decoder has already accepted its text.
\<close>

section \<open>Responses\<close>

datatype 'o Response =
    Allowed string
  | Denied string
  | Errored nat err
  | Patched 'o
  | Panicked err

text \<open>\<^verbatim>\<open>Patched obj\<close> is \<^verbatim>\<open>PatchResponseFromRaw\<close>: an allowed response whose patch turns the object of
  the request into \<open>obj\<close>.\<close>

fun resp_Allowed :: "'o Response \<Rightarrow> bool" where
  "resp_Allowed (Allowed _) = True"
| "resp_Allowed (Patched _) = True"
| "resp_Allowed _ = False"

definition StatusBadRequest :: nat where "StatusBadRequest = 400"
definition StatusInternalServerError :: nat where "StatusInternalServerError = 500"

text \<open>\<^verbatim>\<open>if resp := ...; !resp.Allowed { return resp }\<close>, and a loop of such checks.\<close>

definition check_resp :: "'o Response io \<Rightarrow> 'o Response io \<Rightarrow> 'o Response io" where
  "check_resp m k = m \<bind> (\<lambda>r. if resp_Allowed r then k else ret r)"

fun check_each :: "('a \<Rightarrow> 'o Response io) \<Rightarrow> 'a list \<Rightarrow> 'o Response io" where
  "check_each f [] = ret (Allowed [])"
| "check_each f (x # xs) = check_resp (f x) (check_each f xs)"

datatype json = JNull | JBool bool | JNum string | JStr string | JArr "json list" | JObj "(string \<times> json) list"

datatype Operation = Create | Update | OtherOperation

record AdmissionRequest =
  req_Operation :: Operation
  req_Namespace :: string
  req_Name :: string
  req_Object :: json
  req_OldObject :: json

record admission_api =
  a_decodeVSCR :: "json \<Rightarrow> err + VSCR"
  a_decodeVVR :: "json \<Rightarrow> err + VVR"
  a_listVSCR :: "history \<Rightarrow> string \<Rightarrow> err + VSCR list"
  a_listVVR :: "history \<Rightarrow> string \<Rightarrow> err + VVR list"

text \<open>An empty namespace lists all of them.\<close>

definition ListVastStorageClassReplications :: "env \<Rightarrow> admission_api \<Rightarrow> string \<Rightarrow> (err + VSCR list) io" where
  "ListVastStorageClassReplications e a namespace =
     ask e (ListCall ''VastStorageClassReplication'' namespace []) (\<lambda>h. a_listVSCR a h namespace)"

definition ListVastVolumeReplications :: "env \<Rightarrow> admission_api \<Rightarrow> string \<Rightarrow> (err + VVR list) io" where
  "ListVastVolumeReplications e a namespace =
     wrapE (Errorf_w ''failed to list VastVolumeReplications: '' [])
       (ask e (ListCall ''VastVolumeReplication'' namespace []) (\<lambda>h. a_listVVR a h namespace))"


section \<open>Defaulting the peer names\<close>

text \<open>\<^verbatim>\<open>json.Unmarshal\<close> into a map or a list of maps: null gives nil, another kind of value is an error.\<close>

fun json_kind :: "json \<Rightarrow> string" where
  "json_kind JNull = ''null''"
| "json_kind (JBool _) = ''bool''"
| "json_kind (JNum _) = ''number''"
| "json_kind (JStr _) = ''string''"
| "json_kind (JArr _) = ''array''"
| "json_kind (JObj _) = ''object''"

definition unmarshal_type_error :: "json \<Rightarrow> string \<Rightarrow> err" where
  "unmarshal_type_error j t =
     Sentinel (''json: cannot unmarshal '' @ json_kind j @ '' into Go value of type '' @ t)"

fun unmarshal_map :: "json \<Rightarrow> err + (string \<times> json) list option" where
  "unmarshal_map (JObj m) = Inr (Some m)"
| "unmarshal_map JNull = Inr None"
| "unmarshal_map j = Inl (unmarshal_type_error j ''map[string]json.RawMessage'')"

fun unmarshal_maps :: "json list \<Rightarrow> err + (string \<times> json) list option list" where
  "unmarshal_maps [] = Inr []"
| "unmarshal_maps (j # js) =
     (case unmarshal_map j of Inl x \<Rightarrow> Inl x
      | Inr m \<Rightarrow> (case unmarshal_maps js of Inl x \<Rightarrow> Inl x | Inr ms \<Rightarrow> Inr (m # ms)))"

fun unmarshal_entries :: "json \<Rightarrow> err + (string \<times> json) list option list" where
  "unmarshal_entries (JArr js) = unmarshal_maps js"
| "unmarshal_entries JNull = Inr []"
| "unmarshal_entries j = Inl (unmarshal_type_error j ''[]map[string]json.RawMessage'')"

definition nil_map :: "'a list option \<Rightarrow> 'a list" where
  "nil_map m = (case m of Some xs \<Rightarrow> xs | None \<Rightarrow> [])"

text \<open>\<^verbatim>\<open>json.Marshal\<close> writes the keys of a map in order.\<close>

fun marshal_map :: "(string \<times> json) list option \<Rightarrow> json" where
  "marshal_map (Some m) = JObj (sort_key fst m)"
| "marshal_map None = JNull"

definition peer_unset :: "(string \<times> json) list option \<Rightarrow> bool" where
  "peer_unset m = (map_of (nil_map m) ''peerName'' \<in> {None, Some (JStr []), Some JNull})"

definition panic_nil_map :: err where
  "panic_nil_map = Sentinel ''assignment to entry in nil map''"

fun default_entries ::
  "ReplicationTarget list \<Rightarrow> (string \<times> json) list option list
     \<Rightarrow> err + bool \<times> (string \<times> json) list option list" where
  "default_entries (t # ts) (m # ms) =
     (let put = peer_unset m \<and> PeerName t \<noteq> [] in
      if put \<and> m = None then Inl panic_nil_map
      else case default_entries ts ms of
             Inl x \<Rightarrow> Inl x
           | Inr (changed, ms') \<Rightarrow>
               Inr (put \<or> changed,
                    (if put then Some (AList.update ''peerName'' (JStr (PeerName t)) (nil_map m)) else m) # ms'))"
| "default_entries _ ms = Inr (False, ms)"

definition applyTopologyDefaults :: "json \<Rightarrow> ReplicationTarget list \<Rightarrow> err + json option" where
  "applyTopologyDefaults originalRaw topology =
     (case unmarshal_map originalRaw of
        Inl x \<Rightarrow> Inl (Errorf_w ''unmarshal object: '' [] x)
      | Inr raw \<Rightarrow> (case map_of (nil_map raw) ''spec'' of
          None \<Rightarrow> Inr None
        | Some specRaw \<Rightarrow> (case unmarshal_map specRaw of
            Inl x \<Rightarrow> Inl (Errorf_w ''unmarshal spec: '' [] x)
          | Inr spec \<Rightarrow> (case map_of (nil_map spec) ''protectionTopology'' of
              None \<Rightarrow> Inr None
            | Some topologyRaw \<Rightarrow> (case unmarshal_entries topologyRaw of
                Inl x \<Rightarrow> Inl (Errorf_w ''unmarshal protectionTopology: '' [] x)
              | Inr entries \<Rightarrow> (case default_entries topology entries of
                  Inl x \<Rightarrow> Inl x
                | Inr (changed, entries') \<Rightarrow>
                    if \<not> changed then Inr None
                    else let newTopology = JArr (map marshal_map entries');
                             newSpec = marshal_map (Some
                               (AList.update ''protectionTopology'' newTopology (nil_map spec))) in
                         Inr (Some (marshal_map (Some
                           (AList.update ''spec'' newSpec (nil_map raw)))))))))))"


section \<open>Validating the topology\<close>

definition class_client ::
  "env \<Rightarrow> nat \<Rightarrow> (string \<times> rest) list \<Rightarrow> string \<Rightarrow> (json Response + (string \<times> rest) list) io" where
  "class_client e i rests scName =
     (if map_of rests scName \<noteq> None then ret (Inr rests)
      else GetStorageClass e scName \<bind> (\<lambda>r. case r of
          Inl x \<Rightarrow> ret (Inl (Denied (Sprintf ''protectionTopology[%d]: StorageClass %q not found: %v''
                     [Itoa i, scName, Error_string x])))
        | Inr sc \<Rightarrow> NewFromStorageClass e sc (e_sslVerify e) \<bind> (\<lambda>r. ret (case r of
              Inl x \<Rightarrow> Inl (Errored StatusInternalServerError
                         (Errorf_w ''protectionTopology[%d]: REST client for %q: '' [Itoa i, scName] x))
            | Inr rest \<Rightarrow> Inr (rests @ [(scName, rest)])))))"

fun topology_clients ::
  "env \<Rightarrow> nat \<Rightarrow> (string \<times> rest) list \<Rightarrow> ReplicationTarget list
     \<Rightarrow> (json Response + (string \<times> rest) list) io" where
  "topology_clients e i rests [] = ret (Inr rests)"
| "topology_clients e i rests (t # ts) =
     class_client e i rests (Source t) \<bind> (\<lambda>r. case r of
         Inl resp \<Rightarrow> ret (Inl resp)
       | Inr rests1 \<Rightarrow> class_client e i rests1 (Destination t) \<bind> (\<lambda>r. case r of
             Inl resp \<Rightarrow> ret (Inl resp)
           | Inr rests2 \<Rightarrow> topology_clients e (Suc i) rests2 ts))"

definition peer_response :: "err \<Rightarrow> json Response" where
  "peer_response x =
     (if x = panic_nil then Panicked x
      else case errors_As as_validation x of
          Some m \<Rightarrow> Denied m
        | None \<Rightarrow> Errored StatusInternalServerError (Errorf_w ''failed to resolve replication peers: '' [] x))"

definition defaults_response :: "json \<Rightarrow> ReplicationTarget list \<Rightarrow> json Response" where
  "defaults_response raw topology =
     (case applyTopologyDefaults raw topology of
        Inl x \<Rightarrow> if x = panic_nil_map then Panicked x else Errored StatusInternalServerError x
      | Inr (Some modified) \<Rightarrow> Patched modified
      | Inr None \<Rightarrow> Allowed [])"

text \<open>The peer names found are written to the entries of the decoded object, so the topology is
  returned with the response.\<close>

definition validateAndDefaultTopology ::
  "env \<Rightarrow> AdmissionRequest \<Rightarrow> ReplicationTarget list \<Rightarrow> (json Response \<times> ReplicationTarget list) io" where
  "validateAndDefaultTopology e req topology =
     topology_clients e 0 [] topology \<bind> (\<lambda>r. case r of
         Inl resp \<Rightarrow> ret (resp, topology)
       | Inr rests \<Rightarrow> ResolveAndFetchTopologyPeers e rests topology \<bind> (\<lambda>(r, topology'). ret (case r of
             Some x \<Rightarrow> (peer_response x, topology')
           | None \<Rightarrow> (defaults_response (req_Object req) topology', topology'))))"

text \<open>The arrow and the dash of the messages, in UTF-8.\<close>

definition utf8_arrow :: string where "utf8_arrow = [CHR 0xE2, CHR 0x86, CHR 0x92]"
definition em_dash :: string where "em_dash = [CHR 0xE2, CHR 0x80, CHR 0x94]"

fun immutable_from :: "nat \<Rightarrow> ReplicationTarget list \<Rightarrow> ReplicationTarget list \<Rightarrow> json Response" where
  "immutable_from i (t # ts) (n # ns) =
     (if Source t \<noteq> Source n \<or> Destination t \<noteq> Destination n then
        Denied (Sprintf (''protectionTopology[%d] is immutable: source/destination cannot change after creation ''
                  @ ''(was %q'' @ utf8_arrow @ ''%q, got %q'' @ utf8_arrow @ ''%q)'') [Itoa i, Source t, Destination t, Source n, Destination n])
      else if TargetExportedDir t \<noteq> TargetExportedDir n then
        Denied (Sprintf (''protectionTopology[%d] is immutable: targetExportedDir cannot change after creation ''
                  @ ''(was %q, got %q)'') [Itoa i, TargetExportedDir t, TargetExportedDir n])
      else immutable_from (Suc i) ts ns)"
| "immutable_from i _ _ = Allowed []"

definition validateTopologyImmutable :: "ReplicationTarget list \<Rightarrow> ReplicationTarget list \<Rightarrow> json Response" where
  "validateTopologyImmutable oldTopology newTopology =
     (if length oldTopology \<noteq> length newTopology then
        Denied ''protectionTopology is immutable: the number of entries cannot change after creation''
      else immutable_from 0 oldTopology newTopology)"


section \<open>Validating the StorageClasses\<close>

definition sc_not_found :: "string \<Rightarrow> err \<Rightarrow> json Response" where
  "sc_not_found scName x = Denied (Sprintf ''StorageClass %q not found: %v'' [scName, Error_string x])"

definition claim_classes ::
  "string \<Rightarrow> ('a ObjectMeta_scheme \<Rightarrow> string list) \<Rightarrow> 'a ObjectMeta_scheme list \<Rightarrow> smap \<Rightarrow> smap" where
  "claim_classes kind classes objs used =
     fold (\<lambda>obj. fold (\<lambda>sc. AList.update sc (Sprintf ''%s %s/%s'' [kind, oNamespace obj, oName obj])) (classes obj))
       objs used"

definition isSelf :: "string \<Rightarrow> string \<Rightarrow> string \<Rightarrow> string \<Rightarrow> 'a ObjectMeta_scheme \<Rightarrow> bool" where
  "isSelf kind k namespace name obj = (kind = k \<and> oName obj = name \<and> oNamespace obj = namespace)"

definition already_used :: "string \<Rightarrow> string \<Rightarrow> json Response" where
  "already_used sc owner =
     Denied (Sprintf (''StorageClass %q is already used by %s; each StorageClass may appear in at most ''
               @ ''one VastStorageClassReplication or VastVolumeReplication'') [sc, owner])"

fun first_used :: "smap \<Rightarrow> (string \<times> unit) list \<Rightarrow> json Response" where
  "first_used used [] = Allowed []"
| "first_used used ((sc, _) # rest) =
     (case map_of used sc of Some owner \<Rightarrow> already_used sc owner | None \<Rightarrow> first_used used rest)"

definition validate ::
  "env \<Rightarrow> admission_api \<Rightarrow> string \<Rightarrow> string \<Rightarrow> string \<Rightarrow> string list \<Rightarrow> json Response io" where
  "validate e a namespace name kind storageClasses =
     ListVastStorageClassReplications e a [] \<bind> (\<lambda>r. case r of
         Inl x \<Rightarrow> ret (Errored StatusInternalServerError x)
       | Inr vscrList \<Rightarrow> ListVastVolumeReplications e a [] \<bind> (\<lambda>r. case r of
             Inl x \<Rightarrow> ret (Errored StatusInternalServerError x)
           | Inr vvrList \<Rightarrow>
               let used1 = claim_classes ''VastStorageClassReplication'' (AllStorageClasses \<circ> vscr_Spec)
                     (filter (\<lambda>v. \<not> isSelf kind ''VastStorageClassReplication'' namespace name v) vscrList) [];
                   used = claim_classes ''VastVolumeReplication'' (v_AllStorageClasses \<circ> vvr_Spec)
                     (filter (\<lambda>v. \<not> isSelf kind ''VastVolumeReplication'' namespace name v) vvrList) used1 in
               range_map e (map (\<lambda>sc. (sc, ())) (remdups storageClasses)) \<bind> (\<lambda>incoming.
                 ret (first_used used incoming))))"

definition driverType :: "bool \<Rightarrow> string" where
  "driverType isBlock = (if isBlock then ''block'' else ''file'')"

definition same_driver :: "env \<Rightarrow> string \<Rightarrow> bool \<Rightarrow> string \<Rightarrow> json Response io" where
  "same_driver e first firstIsBlock scName =
     GetStorageClass e scName \<bind> (\<lambda>r. ret (case r of
         Inl x \<Rightarrow> sc_not_found scName x
       | Inr sc \<Rightarrow>
           if IsBlockStorageClass sc \<noteq> firstIsBlock then
             Denied (Sprintf (''StorageClass %q is a %s driver but %q is a %s driver; ''
                       @ ''all StorageClasses must use the same driver type'')
                 [scName, driverType (IsBlockStorageClass sc), first, driverType firstIsBlock])
           else Allowed []))"

fun validateStorageClassConsistency :: "env \<Rightarrow> string list \<Rightarrow> json Response io" where
  "validateStorageClassConsistency e (first # sc # scs) =
     GetStorageClass e first \<bind> (\<lambda>r. case r of
         Inl x \<Rightarrow> ret (sc_not_found first x)
       | Inr firstSC \<Rightarrow> check_each (same_driver e first (IsBlockStorageClass firstSC)) (sc # scs))"
| "validateStorageClassConsistency e _ = ret (Allowed [])"

definition tenant_given :: "env \<Rightarrow> string \<Rightarrow> string \<Rightarrow> json Response io" where
  "tenant_given e primarySCName scName =
     (if scName = primarySCName then ret (Allowed [])
      else GetStorageClass e scName \<bind> (\<lambda>r. ret (case r of
          Inl x \<Rightarrow> sc_not_found scName x
        | Inr sc \<Rightarrow>
            if lookup_str (sc_Parameters sc) ''tenant_name'' = [] then
              Denied (Sprintf (''StorageClass %q is missing required parameter ''
                  @ [CHR 0x22] @ ''tenant_name'' @ [CHR 0x22] @ '': ''
                  @ ''subsystem-level block replication cannot resolve the tenant on secondary clusters ''
                  @ ''before the subsystem exists '' @ em_dash @ '' set ''
                  @ [CHR 0x22] @ ''tenant_name'' @ [CHR 0x22] @ '' to the target tenant's name'') [scName])
            else Allowed [])))"

definition validateSubsystemLevelTenantName :: "env \<Rightarrow> string \<Rightarrow> string list \<Rightarrow> json Response io" where
  "validateSubsystemLevelTenantName e primarySCName allSCNames =
     check_each (tenant_given e primarySCName) allSCNames"

definition subsystem_expected :: "env \<Rightarrow> bool \<Rightarrow> string \<Rightarrow> string \<Rightarrow> rest \<Rightarrow> bool \<Rightarrow> json Response" where
  "subsystem_expected e mustExist scName subsystemName rest exists =
     (if mustExist \<and> \<not> exists then
        Denied (Sprintf (''StorageClass %q: subsystem %q does not exist on VMS %s; ''
                  @ ''for block replication the subsystem must be pre-created on all clusters'')
            [scName, subsystemName, v_restString (e_vms e) rest])
      else if \<not> mustExist \<and> exists then
        Denied (Sprintf (''subsystem-level block replication requires that subsystem %q does not pre-exist ''
                  @ ''on VMS %s (StorageClass %q): VAST creates it via replication; ''
                  @ ''delete the subsystem from that cluster and retry'')
            [subsystemName, v_restString (e_vms e) rest, scName])
      else Allowed [])"

definition subsystem_check :: "env \<Rightarrow> bool \<Rightarrow> string \<Rightarrow> json Response io" where
  "subsystem_check e mustExist scName =
     GetStorageClass e scName \<bind> (\<lambda>r. case r of
         Inl x \<Rightarrow> ret (sc_not_found scName x)
       | Inr sc \<Rightarrow>
           let subsystemName = lookup_str (sc_Parameters sc) StorageClassParameterSubsystem;
               tn = lookup_str (sc_Parameters sc) ''tenant_name'' in
           if \<not> IsBlockStorageClass sc then ret (Allowed [])
           else if subsystemName = [] then
             ret (Denied (Sprintf ''StorageClass %q is missing required parameter %q''
                     [scName, StorageClassParameterSubsystem]))
           else NewFromStorageClass e sc (e_sslVerify e) \<bind> (\<lambda>r. case r of
               Inl x \<Rightarrow> ret (Errored StatusInternalServerError
                          (Errorf_w ''StorageClass %q: failed to build REST client: '' [scName] x))
             | Inr rest \<Rightarrow> view_exists e rest subsystemName (if tn \<noteq> [] then Some tn else None) \<bind> (\<lambda>r.
                   ret (case r of
                       Inl x \<Rightarrow> Errored StatusInternalServerError
                                  (Errorf_w ''StorageClass %q: failed to check subsystem %q on VMS %s: ''
                                     [scName, subsystemName, v_restString (e_vms e) rest] x)
                     | Inr exists \<Rightarrow> subsystem_expected e mustExist scName subsystemName rest exists))))"

definition validateSubsystemPresence :: "env \<Rightarrow> string list \<Rightarrow> bool \<Rightarrow> json Response io" where
  "validateSubsystemPresence e scNames mustExist = check_each (subsystem_check e mustExist) scNames"

definition validateVVRPVCStorageClass :: "env \<Rightarrow> VVR \<Rightarrow> json Response io" where
  "validateVVRPVCStorageClass e obj =
     (let pvcNS = vvr_PVCNamespace obj; name = v_VolumeName (vvr_Spec obj);
          primary = v_PrimaryStorageClass (vvr_Spec obj) in
      GetPVC e name pvcNS \<bind> (\<lambda>r. ret (case r of
          Inl x \<Rightarrow> Denied (Sprintf ''spec.volumeName: PVC %s/%s not found: %v'' [pvcNS, name, Error_string x])
        | Inr pvc \<Rightarrow>
            if pvc_StorageClassName pvc \<in> {None, Some []} then
              Denied (Sprintf ''spec.volumeName: PVC %s/%s has no StorageClass set'' [pvcNS, name])
            else if pvc_StorageClassName pvc \<noteq> Some primary then
              Denied (Sprintf (''spec.primaryStorageClass %q does not match the StorageClass of PVC %s/%s (%q); ''
                        @ ''the PVC must be provisioned by the primary StorageClass'')
                  [primary, pvcNS, name, (case pvc_StorageClassName pvc of Some c \<Rightarrow> c | None \<Rightarrow> [])])
            else Allowed [])))"


section \<open>The handlers\<close>

definition immutable_check ::
  "(json \<Rightarrow> err + 'v) \<Rightarrow> ('v \<Rightarrow> ReplicationTarget list) \<Rightarrow> AdmissionRequest \<Rightarrow> 'v \<Rightarrow> json Response" where
  "immutable_check decode topology req obj =
     (if req_Operation req \<noteq> Update then Allowed []
      else case decode (req_OldObject req) of
          Inl x \<Rightarrow> Errored StatusBadRequest x
        | Inr old \<Rightarrow> validateTopologyImmutable (topology old) (topology obj))"

definition primary_class_check :: "env \<Rightarrow> VSCR \<Rightarrow> json Response io" where
  "primary_class_check e obj =
     (let primary = PrimaryStorageClass (vscr_Spec obj); classes = AllStorageClasses (vscr_Spec obj) in
      GetStorageClass e primary \<bind> (\<lambda>r. case r of
          Inl x \<Rightarrow> ret (Denied (Sprintf ''primaryStorageClass %q not found: %v'' [primary, Error_string x]))
        | Inr primarySC \<Rightarrow>
            if \<not> IsBlockStorageClass primarySC then ret (Allowed [])
            else if IsSubsystemLevel primarySC then validateSubsystemLevelTenantName e primary classes
            else validateSubsystemPresence e classes True))"

definition set_topology :: "ReplicationTarget list \<Rightarrow> VSCR \<Rightarrow> VSCR" where
  "set_topology topology obj = obj\<lparr>vscr_Spec := (vscr_Spec obj)\<lparr>ProtectionTopology := topology\<rparr>\<rparr>"

definition VVR_set_topology :: "ReplicationTarget list \<Rightarrow> VVR \<Rightarrow> VVR" where
  "VVR_set_topology topology obj = obj\<lparr>vvr_Spec := (vvr_Spec obj)\<lparr>v_ProtectionTopology := topology\<rparr>\<rparr>"

definition VSCR_checks :: "env \<Rightarrow> admission_api \<Rightarrow> VSCR \<Rightarrow> json Response io" where
  "VSCR_checks e a obj =
     check_resp (validateStorageClassConsistency e (AllStorageClasses (vscr_Spec obj)))
       (validate e a (oNamespace obj) (oName obj) ''VastStorageClassReplication''
          (AllStorageClasses (vscr_Spec obj)))"

definition VSCR_Handle :: "env \<Rightarrow> admission_api \<Rightarrow> AdmissionRequest \<Rightarrow> json Response io" where
  "VSCR_Handle e a req =
     (case a_decodeVSCR a (req_Object req) of
        Inl x \<Rightarrow> ret (Errored StatusBadRequest x)
      | Inr obj \<Rightarrow>
          check_resp (ret (immutable_check (a_decodeVSCR a) (ProtectionTopology \<circ> vscr_Spec) req obj))
            (case VSCRSpec_Validate (vscr_Spec obj) of
               Some x \<Rightarrow> ret (Denied (Error_string x))
             | None \<Rightarrow>
                 if req_Operation req \<noteq> Create then VSCR_checks e a obj
                 else validateAndDefaultTopology e req (ProtectionTopology (vscr_Spec obj))
                        \<bind> (\<lambda>(resp, topology).
                          let obj' = set_topology topology obj in
                          if \<not> resp_Allowed resp then ret resp
                          else check_resp (primary_class_check e obj') (VSCR_checks e a obj'))))"

definition VVR_checks :: "env \<Rightarrow> VVR \<Rightarrow> json Response io" where
  "VVR_checks e obj =
     check_resp (validateStorageClassConsistency e (v_AllStorageClasses (vvr_Spec obj))) (ret (Allowed []))"

definition VVR_Handle :: "env \<Rightarrow> admission_api \<Rightarrow> AdmissionRequest \<Rightarrow> json Response io" where
  "VVR_Handle e a req =
     (case a_decodeVVR a (req_Object req) of
        Inl x \<Rightarrow> ret (Errored StatusBadRequest x)
      | Inr obj \<Rightarrow>
          check_resp (ret (immutable_check (a_decodeVVR a) (v_ProtectionTopology \<circ> vvr_Spec) req obj))
            (case VVRSpec_Validate (vvr_Spec obj) of
               Some x \<Rightarrow> ret (Denied (Error_string x))
             | None \<Rightarrow>
                 if req_Operation req \<noteq> Create then VVR_checks e obj
                 else validateAndDefaultTopology e req (v_ProtectionTopology (vvr_Spec obj))
                        \<bind> (\<lambda>(resp, topology).
                          let obj' = VVR_set_topology topology obj in
                          if \<not> resp_Allowed resp then ret resp
                          else check_resp (validateVVRPVCStorageClass e obj')
                            (check_resp (validateSubsystemPresence e (v_AllStorageClasses (vvr_Spec obj')) True)
                               (VVR_checks e obj')))))"


section \<open>What an allowed request has passed\<close>

lemma run_check_resp:
  assumes "run_state (check_resp m k) w = (r, w')" "resp_Allowed r"
  obtains r1 w1 where "run_state m w = (r1, w1)" "resp_Allowed r1" "run_state k w1 = (r, w')"
  using assms by (auto simp: check_resp_def run_simps split: prod.splits if_splits)

lemma ResolvePeerName_ends:
  "ResolvePeerName t p = Inr t' \<Longrightarrow> Source t' = Source t \<and> Destination t' = Destination t"
  by (auto simp: ResolvePeerName_def Let_def split: option.splits if_splits list.splits)

lemma resolve_entries_ends:
  "resolve_entries i p ts = (r, ts') \<Longrightarrow> topology_seen ts' = topology_seen ts"
proof (induction ts arbitrary: i r ts')
  case (Cons t ts)
  then show ?case
    by (auto simp: topology_seen_def split: sum.splits prod.splits dest: ResolvePeerName_ends)
qed simp

lemma validateAndDefaultTopology_ends:
  "run_state (validateAndDefaultTopology e req ts) w = ((resp, ts'), w') \<Longrightarrow> topology_seen ts' = topology_seen ts"
  by (auto simp: validateAndDefaultTopology_def ResolveAndFetchTopologyPeers_def run_simps
      split: prod.splits sum.splits option.splits dest: resolve_entries_ends)

lemma set_topology_classes:
  "topology_seen ts = topology_seen (ProtectionTopology (vscr_Spec obj)) \<Longrightarrow>
     AllStorageClasses (vscr_Spec (set_topology ts obj)) = AllStorageClasses (vscr_Spec obj)"
  by (simp add: AllStorageClasses_def set_topology_def)

lemma set_topology_meta [simp]:
  "oName (set_topology ts obj) = oName obj" "oNamespace (set_topology ts obj) = oNamespace obj"
  by (simp_all add: set_topology_def)

text \<open>An allowed VastStorageClassReplication went through \<open>validate\<close> with its own classes, and through
  the check of the update.\<close>

lemma VSCR_Handle_allowed:
  assumes "run_state (VSCR_Handle e a req) w = (r, w')" "resp_Allowed r"
  obtains obj w1 where "a_decodeVSCR a (req_Object req) = Inr obj"
    "resp_Allowed (immutable_check (a_decodeVSCR a) (ProtectionTopology \<circ> vscr_Spec) req obj)"
    "VSCRSpec_Validate (vscr_Spec obj) = None"
    "run_state (validate e a (oNamespace obj) (oName obj) ''VastStorageClassReplication''
       (AllStorageClasses (vscr_Spec obj))) w1 = (r, w')"
proof (cases "a_decodeVSCR a (req_Object req)")
  case (Inl x)
  then show thesis using assms by (auto simp: VSCR_Handle_def run_simps)
next
  case (Inr obj)
  note run = assms(1)[unfolded VSCR_Handle_def Inr sum.case]
  obtain r0 w0 where "run_state (ret (immutable_check (a_decodeVSCR a) (ProtectionTopology \<circ> vscr_Spec) req obj)) w = (r0, w0)"
    "resp_Allowed r0" and rest0: "run_state (case VSCRSpec_Validate (vscr_Spec obj) of Some x \<Rightarrow> ret (Denied (Error_string x))
       | None \<Rightarrow> if req_Operation req \<noteq> Create then VSCR_checks e a obj
           else validateAndDefaultTopology e req (ProtectionTopology (vscr_Spec obj)) \<bind> (\<lambda>(resp, topology).
             let obj' = set_topology topology obj in
             if \<not> resp_Allowed resp then ret resp
             else check_resp (primary_class_check e obj') (VSCR_checks e a obj'))) w0 = (r, w')"
    by (rule run_check_resp[OF run assms(2)])
  then have imm: "resp_Allowed (immutable_check (a_decodeVSCR a) (ProtectionTopology \<circ> vscr_Spec) req obj)"
    and w0: "w0 = w" by (simp_all add: run_simps)
  note rest = rest0[unfolded w0]
  have valid: "VSCRSpec_Validate (vscr_Spec obj) = None"
    using rest assms(2) by (cases "VSCRSpec_Validate (vscr_Spec obj)") (auto simp: run_simps)
  have "\<exists>obj' w1. run_state (VSCR_checks e a obj') w1 = (r, w') \<and> oName obj' = oName obj
      \<and> oNamespace obj' = oNamespace obj \<and> AllStorageClasses (vscr_Spec obj') = AllStorageClasses (vscr_Spec obj)"
  proof (cases "req_Operation req = Create")
    case False
    then show ?thesis using rest valid by auto
  next
    case True
    with rest valid obtain resp ts w2 where
      v: "run_state (validateAndDefaultTopology e req (ProtectionTopology (vscr_Spec obj))) w = ((resp, ts), w2)"
      and c: "run_state (if \<not> resp_Allowed resp then ret resp else check_resp (primary_class_check e (set_topology ts obj))
         (VSCR_checks e a (set_topology ts obj))) w2 = (r, w')"
      by (auto simp: run_simps Let_def split: prod.splits)
    have allowed: "resp_Allowed resp" using c assms(2) by (cases "resp_Allowed resp") (simp_all add: run_simps)
    then have "run_state (check_resp (primary_class_check e (set_topology ts obj)) (VSCR_checks e a (set_topology ts obj))) w2
      = (r, w')" using c by simp
    then obtain w1 where "run_state (VSCR_checks e a (set_topology ts obj)) w1 = (r, w')"
      by (rule run_check_resp[OF _ assms(2)])
    then show ?thesis
      using set_topology_classes[OF validateAndDefaultTopology_ends[OF v]] by (intro exI[of _ "set_topology ts obj"]) auto
  qed
  then obtain obj' w1 where "run_state (VSCR_checks e a obj') w1 = (r, w')" "oName obj' = oName obj"
      "oNamespace obj' = oNamespace obj" "AllStorageClasses (vscr_Spec obj') = AllStorageClasses (vscr_Spec obj)"
    by blast
  note c = this
  show thesis
  proof (rule run_check_resp[OF c(1)[unfolded VSCR_checks_def] assms(2)])
    fix r1 w2 assume "run_state (validate e a (oNamespace obj') (oName obj') ''VastStorageClassReplication''
       (AllStorageClasses (vscr_Spec obj'))) w2 = (r, w')"
    then show thesis unfolding c(2-4) by (rule that[OF Inr imm valid])
  qed
qed


lemma first_used_allowed:
  "resp_Allowed (first_used used scs) \<Longrightarrow> sc \<in> fst ` set scs \<Longrightarrow> map_of used sc = None"
  by (induction used scs rule: first_used.induct) (auto simp: already_used_def split: option.splits)

lemma first_used_plain: "first_used used scs \<noteq> Patched p"
  by (induction used scs rule: first_used.induct) (auto simp: already_used_def split: option.splits)

lemma dom_update_fold:
  "dom (map_of (fold (\<lambda>sc. AList.update sc v) scs m)) = dom (map_of m) \<union> set scs"
  by (induction scs arbitrary: m) (auto simp: update_conv')

lemma dom_claim_classes:
  "dom (map_of (claim_classes kind classes objs used)) = dom (map_of used) \<union> (\<Union>obj \<in> set objs. set (classes obj))"
  unfolding claim_classes_def by (induction objs arbitrary: used) (auto simp: dom_update_fold)

text \<open>A request that \<open>validate\<close> allows names no class of another stored object.\<close>

lemma validate_allowed:
  fixes scs :: "string list"
  assumes "run_state (validate e a namespace name ''VastStorageClassReplication'' scs) w = (r, w')" "resp_Allowed r"
  shows "\<exists>h vscrs. a_listVSCR a h [] = Inr vscrs \<and> (\<forall>v \<in> set vscrs. (oNamespace v, oName v) \<noteq> (namespace, name) \<longrightarrow>
       set (AllStorageClasses (vscr_Spec v)) \<inter> set scs = {})"
    and "\<exists>h vvrs. a_listVVR a h [] = Inr vvrs \<and> (\<forall>v \<in> set vvrs. set (v_AllStorageClasses (vvr_Spec v)) \<inter> set scs = {})"
proof -
  define free where "free used = (\<forall>sc \<in> set scs. sc \<notin> dom (map_of used))" for used :: smap
  have first: "free used" if "resp_Allowed (first_used used es)" "set es = set (map (\<lambda>sc. (sc, ())) (remdups scs))" for used es
    using that first_used_allowed[OF that(1)] by (force simp: free_def)
  define seen where "seen vscrs vvrs = free (claim_classes ''VastVolumeReplication'' (v_AllStorageClasses \<circ> vvr_Spec) vvrs
      (claim_classes ''VastStorageClassReplication'' (AllStorageClasses \<circ> vscr_Spec)
         (filter (\<lambda>v. \<not> (oName v = name \<and> oNamespace v = namespace)) vscrs) []))" for vscrs :: "VSCR list" and vvrs :: "VVR list"
  have "wp (\<lambda>_ _. True) (validate e a namespace name ''VastStorageClassReplication'' scs)
     (\<lambda>r _. resp_Allowed r \<longrightarrow> (\<exists>h h' vscrs vvrs. a_listVSCR a h [] = Inr vscrs \<and> a_listVVR a h' [] = Inr vvrs \<and> seen vscrs vvrs)) w"
    unfolding validate_def ListVastStorageClassReplications_def ListVastVolumeReplications_def Let_def isSelf_def
    by (intro wp_rules wp_ask) (auto intro!: wp_rules wp_ask split: sum.splits simp: seen_def dest!: first) 
  from wp_post[OF this assms(1)] assms(2) obtain h h' vscrs vvrs where
    "a_listVSCR a h [] = Inr vscrs" "a_listVVR a h' [] = Inr vvrs" "seen vscrs vvrs" by blast
  moreover from this(3) have "\<forall>v \<in> set vscrs. (oNamespace v, oName v) \<noteq> (namespace, name) \<longrightarrow>
       set (AllStorageClasses (vscr_Spec v)) \<inter> set scs = {}"
      "\<forall>v \<in> set vvrs. set (v_AllStorageClasses (vvr_Spec v)) \<inter> set scs = {}"
    by (auto simp: seen_def free_def dom_claim_classes)
  ultimately show "\<exists>h vscrs. a_listVSCR a h [] = Inr vscrs \<and> (\<forall>v \<in> set vscrs. (oNamespace v, oName v) \<noteq> (namespace, name) \<longrightarrow>
       set (AllStorageClasses (vscr_Spec v)) \<inter> set scs = {})"
    and "\<exists>h vvrs. a_listVVR a h [] = Inr vvrs \<and> (\<forall>v \<in> set vvrs. set (v_AllStorageClasses (vvr_Spec v)) \<inter> set scs = {})"
    by blast+
qed


section \<open>The stored objects\<close>

text \<open>The API server keeps the objects the webhook allowed: a VastStorageClassReplication is created
  under a new key or replaces the stored one as the request carries it, its status may change, it may
  be deleted, and VastVolumeReplications come and go. The webhook sees the objects stored at the time
  of the request.\<close>

definition vscr_key :: "VSCR \<Rightarrow> key" where
  "vscr_key v = (oNamespace v, oName v)"

definition store_api :: "(json \<Rightarrow> err + VSCR) \<Rightarrow> (json \<Rightarrow> err + VVR) \<Rightarrow> VSCR list \<Rightarrow> VVR list \<Rightarrow> admission_api" where
  "store_api dV dW vscrs vvrs =
     \<lparr>a_decodeVSCR = dV, a_decodeVVR = dW,
      a_listVSCR = \<lambda>h ns. Inr (filter (\<lambda>v. ns = [] \<or> oNamespace v = ns) vscrs),
      a_listVVR = \<lambda>h ns. Inr (filter (\<lambda>v. ns = [] \<or> oNamespace v = ns) vvrs)\<rparr>"

definition put_vscr :: "VSCR \<Rightarrow> VSCR list \<Rightarrow> VSCR list" where
  "put_vscr v vs = v # filter (\<lambda>u. vscr_key u \<noteq> vscr_key v) vs"

inductive stored :: "env \<Rightarrow> (json \<Rightarrow> err + VSCR) \<Rightarrow> (json \<Rightarrow> err + VVR) \<Rightarrow> VSCR list \<Rightarrow> VVR list \<Rightarrow> bool"
  for e dV dW where
  empty: "stored e dV dW [] []"
| admit: "stored e dV dW vs ws \<Longrightarrow> dV (req_Object req) = Inr v \<Longrightarrow>
    run_state (VSCR_Handle e (store_api dV dW vs ws) req) w = (r, w') \<Longrightarrow> resp_Allowed r \<Longrightarrow>
    stored e dV dW (put_vscr v vs) ws"
| status: "stored e dV dW vs ws \<Longrightarrow> v \<in> set vs \<Longrightarrow> stored e dV dW (put_vscr (v\<lparr>vscr_Status := s\<rparr>) vs) ws"
| gone: "stored e dV dW vs ws \<Longrightarrow> stored e dV dW (filter (\<lambda>u. vscr_key u \<noteq> k) vs) ws"
| volumes: "stored e dV dW vs ws \<Longrightarrow> stored e dV dW vs ws'"

definition exclusive :: "VSCR list \<Rightarrow> bool" where
  "exclusive vs = (distinct (map vscr_key vs) \<and> (\<forall>u \<in> set vs. \<forall>v \<in> set vs. vscr_key u \<noteq> vscr_key v \<longrightarrow>
     set (AllStorageClasses (vscr_Spec u)) \<inter> set (AllStorageClasses (vscr_Spec v)) = {}))"

lemma exclusive_put:
  assumes "exclusive vs"
    and "\<And>u. u \<in> set vs \<Longrightarrow> vscr_key u \<noteq> vscr_key v \<Longrightarrow>
          set (AllStorageClasses (vscr_Spec u)) \<inter> set (AllStorageClasses (vscr_Spec v)) = {}"
  shows "exclusive (put_vscr v vs)"
  using assms unfolding exclusive_def put_vscr_def
  by (auto simp: distinct_map_filter)

lemma stored_exclusive: "stored e dV dW vs ws \<Longrightarrow> exclusive vs"
proof (induction rule: stored.induct)
  case empty
  then show ?case by (simp add: exclusive_def)
next
  case (admit vs ws req v w r w')
  show ?case
  proof (rule exclusive_put[OF admit.IH])
    fix u assume u: "u \<in> set vs" "vscr_key u \<noteq> vscr_key v"
    obtain obj w1 where o: "a_decodeVSCR (store_api dV dW vs ws) (req_Object req) = Inr obj" and
      v: "run_state (validate e (store_api dV dW vs ws) (oNamespace obj) (oName obj) ''VastStorageClassReplication''
       (AllStorageClasses (vscr_Spec obj))) w1 = (r, w')"
      by (rule VSCR_Handle_allowed[OF admit.hyps(3,4)])
    have "obj = v" using o admit.hyps(2) by (simp add: store_api_def)
    show "set (AllStorageClasses (vscr_Spec u)) \<inter> set (AllStorageClasses (vscr_Spec v)) = {}"
      using validate_allowed(1)[OF v admit.hyps(4)] u \<open>obj = v\<close> by (auto simp: store_api_def vscr_key_def)
  qed
next
  case (status vs ws v s)
  then show ?case
    by (intro exclusive_put) (auto simp: exclusive_def vscr_key_def)
next
  case (gone vs ws k)
  then show ?case by (auto simp: exclusive_def distinct_map_filter)
qed

lemma stored_valid: "stored e dV dW vs ws \<Longrightarrow> v \<in> set vs \<Longrightarrow> VSCRSpec_Validate (vscr_Spec v) = None"
proof (induction arbitrary: v rule: stored.induct)
  case (admit vs ws req u w r w')
  obtain obj where "a_decodeVSCR (store_api dV dW vs ws) (req_Object req) = Inr obj" "VSCRSpec_Validate (vscr_Spec obj) = None"
    by (rule VSCR_Handle_allowed[OF admit.hyps(3,4)])
  with admit show ?case by (auto simp: put_vscr_def store_api_def)
qed (auto simp: put_vscr_def)

text \<open>The response that allows a request carries no patch: the peer names that
  \<open>validateAndDefaultTopology\<close> found, and the patch it built of them, are dropped by the handler.\<close>

lemma validate_plain:
  "wp (\<lambda>_ _. True) (validate e a namespace name kind scs) (\<lambda>r _. resp_Allowed r \<longrightarrow> r = Allowed []) w"
proof -
  have "resp_Allowed (first_used used es) \<longrightarrow> first_used used es = Allowed []" for used es
    by (induction used es rule: first_used.induct) (auto simp: already_used_def split: option.splits)
  then show ?thesis
    unfolding validate_def ListVastStorageClassReplications_def ListVastVolumeReplications_def Let_def
    by (intro wp_rules wp_ask) (auto intro!: wp_rules wp_ask split: sum.splits)
qed

lemma VSCR_Handle_unpatched:
  assumes "run_state (VSCR_Handle e a req) w = (r, w')" "resp_Allowed r"
  shows "r = Allowed []"
  by (rule VSCR_Handle_allowed[OF assms]) (use wp_post[OF validate_plain] assms(2) in blast)



section \<open>Two stored objects\<close>

definition pair_vscr :: "string \<Rightarrow> string \<Rightarrow> string \<Rightarrow> VSCR" where
  "pair_vscr n sc1 sc2 = demo_vscr\<lparr>oName := n, oDeleting := False,
     vscr_Spec := example_vscr\<lparr>PrimaryStorageClass := sc1, ProtectionTopology := [example_entry sc1 sc2]\<rparr>\<rparr>"

definition pair_json :: "string \<Rightarrow> json" where
  "pair_json n = JObj [(''metadata'', JObj [(''name'', JStr n)]),
     (''spec'', JObj [(''protectionTopology'', JArr [JObj [(''source'', JStr ''x'')]])])]"

definition pair_decode :: "json \<Rightarrow> err + VSCR" where
  "pair_decode j = (if j = pair_json ''v1'' then Inr (pair_vscr ''v1'' ''a'' ''b'') else Inr (pair_vscr ''v2'' ''c'' ''d''))"

definition class_params :: smap where
  "class_params = [(''csi.storage.k8s.io/provisioner-secret-name'', ''s''),
     (''csi.storage.k8s.io/provisioner-secret-namespace'', ''ns'')]"

definition class_env :: env where
  "class_env = idle_env\<lparr>e_k8s := idle_k8s\<lparr>
      k_getSC := \<lambda>h n. Inr \<lparr>sc_Name = n, sc_Provisioner = ''csi.vastdata.com'',
         sc_Parameters = class_params, sc_MountOptions = []\<rparr>,
      k_getSecret := \<lambda>h ns n. Inr [(''endpoint'', ''vms''), (''token'', ''t'')]\<rparr>,
    e_vms := mesh_vms\<lparr>v_newRest := \<lambda>h cfg. None\<rparr>\<rparr>"

definition class_rest :: rest where
  "class_rest = \<lparr>cfg_Host = ''vms'', cfg_Username = [], cfg_Password = [], cfg_Tenant = [],
     cfg_Token = ''t'', cfg_SslVerify = False\<rparr>"

lemma class_env_sel:
  "k_getSC (e_k8s class_env) h n = Inr \<lparr>sc_Name = n, sc_Provisioner = ''csi.vastdata.com'',
     sc_Parameters = class_params, sc_MountOptions = []\<rparr>"
  "k_getSecret (e_k8s class_env) h ns n = Inr [(''endpoint'', ''vms''), (''token'', ''t'')]"
  "v_newRest (e_vms class_env) h cfg = None" "v_peersList (e_vms class_env) = v_peersList mesh_vms"
  "e_prio class_env = (\<lambda>h k. 0)" "e_sslVerify class_env = False"
  by (simp_all add: class_env_def idle_simps)

lemma class_params_eval:
  "ExtractPrefixedParams CSIParameterPrefix class_params =
     [(''provisioner-secret-name'', ''s''), (''provisioner-secret-namespace'', ''ns'')]"
  by code_simp

lemma class_block: "\<not> IsBlockStorageClass \<lparr>sc_Name = n, sc_Provisioner = ''csi.vastdata.com'',
     sc_Parameters = class_params, sc_MountOptions = []\<rparr>"
  by (simp add: IsBlockStorageClass_def class_params_def lookup_str_def
      StorageClassParameterRootExport_def StorageClassParameterSubsystem_def)

lemma class_client_run:
  "run_state (class_client class_env i rests sc) w =
    (Inr (if map_of rests sc \<noteq> None then rests else rests @ [(sc, class_rest)]),
     snd (run_state (class_client class_env i rests sc) w))"
  by (simp add: class_client_def GetStorageClass_def NewFromStorageClass_def NewFromSecretData_def New_def
      GetSecret_def class_params_eval class_env_sel lookup_str_def run_simps Let_def class_rest_def)

abbreviation pair_request :: "string \<Rightarrow> AdmissionRequest" where
  "pair_request n \<equiv> \<lparr>req_Operation = Create, req_Namespace = ''ns'', req_Name = n, req_Object = pair_json n,
     req_OldObject = JNull\<rparr>"

abbreviation pair_handle :: "VSCR list \<Rightarrow> string \<Rightarrow> json Response \<times> world" where
  "pair_handle vs n \<equiv> run_state (VSCR_Handle class_env (store_api pair_decode (\<lambda>_. Inl unavailable) vs []) (pair_request n))
     start_world"

lemma pair_sel:
  "oName (pair_vscr n a b) = n" "oNamespace (pair_vscr n a b) = ''ns''"
  "ProtectionTopology (vscr_Spec (pair_vscr n a b)) = [example_entry a b]"
  "PrimaryStorageClass (vscr_Spec (pair_vscr n a b)) = a"
  by (simp_all add: pair_vscr_def demo_vscr_def)

lemma pair_valid:
  "a \<noteq> [] \<Longrightarrow> b \<noteq> [] \<Longrightarrow> a \<noteq> b \<Longrightarrow> VSCRSpec_Validate (vscr_Spec (pair_vscr n a b)) = None"
  by (simp add: VSCRSpec_Validate_def example_template_valid pair_vscr_def example_vscr_def
      example_entry_def Let_def normPair_def)

text \<open>The peer name the entry leaves out is the one peer the two clusters share.\<close>

lemma pair_topology:
  assumes "a \<noteq> b"
  shows "\<exists>patch. fst (run_state (validateAndDefaultTopology class_env (pair_request n) [example_entry a b]) w) =
     (Patched patch, [(example_entry a b)\<lparr>PeerName := ''link''\<rparr>])"
  using assms
  apply (simp add: validateAndDefaultTopology_def run_simps example_entry_def)
  apply (subst class_client_run, simp)
  apply (subst class_client_run, simp)
  apply (simp add: peer_defs run_simps class_env_sel mesh_vms_def idle_simps vms_def Let_def
      defaults_response_def applyTopologyDefaults_def pair_json_def nil_map_def peer_unset_def)
  done

lemma first_used_free: "\<forall>(sc, u) \<in> set es. sc \<notin> dom (map_of used) \<Longrightarrow> first_used used es = Allowed []"
  by (induction used es rule: first_used.induct) (auto simp: domIff)

lemma pair_allowed:
  assumes "a \<noteq> b" "a \<noteq> []" "b \<noteq> []" "sorted_keys [a, b] = [a, b]"
    and "pair_decode (pair_json n) = Inr (pair_vscr n a b)"
    and "\<forall>v \<in> set vs. set (AllStorageClasses (vscr_Spec v)) \<inter> {a, b} = {}"
  shows "resp_Allowed (fst (pair_handle vs n))"
proof -
  obtain patch w where t: "run_state (validateAndDefaultTopology class_env (pair_request n) [example_entry a b]) start_world =
     ((Patched patch, [(example_entry a b)\<lparr>PeerName := ''link''\<rparr>]), w)"
    using pair_topology[OF assms(1)] by (metis prod.collapse)
  have c: "AllStorageClasses (vscr_Spec (set_topology [(example_entry a b)\<lparr>PeerName := ''link''\<rparr>] (pair_vscr n a b))) = [a, b]"
    using assms(4) by (simp add: AllStorageClasses_def topology_seen_def set_topology_def example_entry_def)
  have "resp_Allowed (fst (run_state (VSCR_checks class_env (store_api pair_decode (\<lambda>_. Inl unavailable) vs [])
      (set_topology [(example_entry a b)\<lparr>PeerName := ''link''\<rparr>] (pair_vscr n a b))) w'))" for w'
    using assms(6) unfolding VSCR_checks_def c
    by (auto simp: check_resp_def run_simps GetStorageClass_def same_driver_def class_env_sel class_block
        validate_def ListVastStorageClassReplications_def ListVastVolumeReplications_def store_api_def Let_def
        dom_claim_classes first_used_free)
  then show ?thesis
    using assms(1-3,5)
    by (simp add: VSCR_Handle_def immutable_check_def check_resp_def run_simps pair_valid pair_sel t
        Let_def primary_class_check_def GetStorageClass_def class_env_sel class_block store_api_def)
qed

lemma pair_stored:
  "stored class_env pair_decode (\<lambda>_. Inl unavailable) (put_vscr (pair_vscr ''v2'' ''c'' ''d'')
     (put_vscr (pair_vscr ''v1'' ''a'' ''b'') [])) []"
proof -
  have "stored class_env pair_decode (\<lambda>_. Inl unavailable) (put_vscr (pair_vscr ''v1'' ''a'' ''b'') []) []"
    by (rule stored.admit[OF stored.empty _ prod.collapse[symmetric] pair_allowed[of "''a''" "''b''" "''v1''"]])
      (simp_all add: pair_decode_def sorted_keys_def)
  then show ?thesis
    by (rule stored.admit[OF _ _ prod.collapse[symmetric] pair_allowed[of "''c''" "''d''" "''v2''"]])
      (simp_all add: pair_decode_def pair_json_def sorted_keys_def put_vscr_def AllStorageClasses_def topology_seen_def
        pair_sel example_entry_def)
qed


end
