(* ===== verification/Provisioner.thy ===== *)
theory Provisioner
  imports StorageObjects Reconciler
begin

text \<open>
  The part of the provisioner that block and file volumes share
  (internal/provisioner/base.go, provisioner.go, lazy_cache.go). The struct baseProvisioner with the
  caches of the two implementations is the record \<open>prov\<close>; a method is a step over it. The interface
  a concrete provisioner fills in is the record \<open>provisioner\<close> of its methods, and the methods of the
  base that call back into it take that record as an argument, like the field self of the source.
\<close>

section \<open>Parsing numbers and times\<close>

text \<open>\<^verbatim>\<open>strconv.ParseInt\<close> in base ten for 64 bits, which \<^verbatim>\<open>strconv.Atoi\<close> shares up to the name in its
  errors.\<close>

definition strconv_err :: "string \<Rightarrow> string \<Rightarrow> string \<Rightarrow> err" where
  "strconv_err fn s why = Plain (''strconv.'' @ fn @ '': parsing '' @ Quote s @ '': '' @ why)"

definition parse_int :: "string \<Rightarrow> string \<Rightarrow> err + int" where
  "parse_int fn s =
     (let neg = HasPrefix s ''-''; ds = (if neg \<or> HasPrefix s ''+'' then tl s else s);
          n = int (Atoi_nat ds); v = (if neg then - n else n) in
      if ds = [] \<or> \<not> list_all is_digit ds then Inl (strconv_err fn s ''invalid syntax'')
      else if v < - (2 ^ 63) \<or> 2 ^ 63 \<le> v then Inl (strconv_err fn s ''value out of range'')
      else Inr v)"

text \<open>The nanoseconds since 1970 of a time in RFC 3339 format; the fraction of the seconds is cut after
  nine digits.\<close>

definition days_from_civil :: "int \<Rightarrow> int \<Rightarrow> int \<Rightarrow> int" where
  "days_from_civil y m d =
     (let y' = (if m \<le> 2 then y - 1 else y); era = y' div 400; yoe = y' mod 400;
          doy = (153 * (if m > 2 then m - 3 else m + 9) + 2) div 5 + d - 1;
          doe = yoe * 365 + yoe div 4 - yoe div 100 + doy in
      era * 146097 + doe - 719468)"

definition fraction_nanos :: "string \<Rightarrow> int" where
  "fraction_nanos s =
     (let ds = take 9 (takeWhile is_digit (tl s)) in
      if skip_fraction s = s then 0 else int (Atoi_nat ds * 10 ^ (9 - length ds)))"

definition zone_offset :: "string \<Rightarrow> int" where
  "zone_offset s =
     (if HasPrefix s ''Z'' then 0
      else (if hd s = CHR ''-'' then - 1 else 1)
        * int ((Atoi_nat (take 2 (drop 1 s)) * 60 + Atoi_nat (take 2 (drop 4 s))) * 60))"

definition rfc3339_nanos :: "string \<Rightarrow> int" where
  "rfc3339_nanos s =
     (let (hour, r) = the (getnum False (drop 11 s)); mins = Atoi_nat (take 2 (drop 1 r));
          secs = Atoi_nat (take 2 (drop 4 r)); f = drop 6 r;
          days = days_from_civil (int (Atoi_nat (take 4 s))) (int (Atoi_nat (take 2 (drop 5 s))))
                   (int (Atoi_nat (take 2 (drop 8 s)))) in
      ((days * 86400 + int (hour * 3600 + mins * 60 + secs)) - zone_offset (skip_fraction f))
        * 1000000000 + fraction_nanos f)"

definition time_Parse_RFC3339 :: "string \<Rightarrow> int option" where
  "time_Parse_RFC3339 s = (if time_Parse_ok layout_rfc3339 s then Some (rfc3339_nanos s) else None)"


section \<open>The provisioner's state\<close>

type_synonym VolumePair = "PVC \<times> PV"

record prov =
  p_rp :: VRC
  p_sourceRest :: rest
  p_sourceSc :: StorageClass
  p_primaryStorageClass :: string
  p_ppathCache :: "(string \<times> Ppath) list"
  p_toEnsure :: "VolumePair list"
  p_toDelete :: "string list"
  p_volumeCaches :: "(string \<times> (string \<times> Volume) list) list"
  p_viewCaches :: "(string \<times> (string \<times> View) list) list"
  p_quotaCaches :: "(string \<times> (string \<times> Quota) list) list"
  p_viewPolicyCaches :: "(string \<times> (int \<times> int)) list"

type_synonym 'a pstep = "(prov, 'a) step"

text \<open>A cached value is fetched at most once per key; a failed fetch leaves no entry. An object that was
  created is added to a bucket that was loaded.\<close>

definition lazyCache_get ::
  "(prov \<Rightarrow> (string \<times> 'v) list) \<Rightarrow> ((string \<times> 'v) list \<Rightarrow> prov \<Rightarrow> prov) \<Rightarrow> string \<Rightarrow> (err + 'v) io
     \<Rightarrow> 'v pstep" where
  "lazyCache_get sel upd key fetch = (\<lambda>p. case map_of (sel p) key of
       Some v \<Rightarrow> ret (Inr v, p)
     | None \<Rightarrow> fetch \<bind> (\<lambda>r. ret (case r of
           Inl x \<Rightarrow> (Inl x, p)
         | Inr v \<Rightarrow> (Inr v, upd (AList.update key v (sel p)) p))))"

definition lazyCache_add ::
  "(prov \<Rightarrow> (string \<times> (string \<times> 'v) list) list) \<Rightarrow> ((string \<times> (string \<times> 'v) list) list \<Rightarrow> prov \<Rightarrow> prov)
     \<Rightarrow> string \<Rightarrow> string \<Rightarrow> 'v \<Rightarrow> prov \<Rightarrow> prov" where
  "lazyCache_add sel upd cacheKey entryKey val p = (case map_of (sel p) cacheKey of
       None \<Rightarrow> p
     | Some m \<Rightarrow> upd (AList.update cacheKey (AList.update (TrimRight entryKey ''/'') val m) (sel p)) p)"

text \<open>A listing as a map from trimmed names; of two entries with the same key the later one stays.\<close>

definition keyed :: "('v \<Rightarrow> string) \<Rightarrow> 'v list \<Rightarrow> (string \<times> 'v) list" where
  "keyed name vs = fold (\<lambda>v. AList.update (TrimRight (name v) ''/'') v) vs []"

record provisioner =
  VolumeKeys :: "env \<Rightarrow> StorageClass \<Rightarrow> string list pstep"
  BackendObjectKey :: "prov \<Rightarrow> string \<Rightarrow> string"
  ProvisionVolumeCb :: "env \<Rightarrow> VRC \<Rightarrow> rest \<Rightarrow> StorageClass \<Rightarrow> unit pstep"
  CleanVolumeCb :: "env \<Rightarrow> VRC \<Rightarrow> rest \<Rightarrow> StorageClass \<Rightarrow> unit pstep"

definition VolumeIDs :: "provisioner \<Rightarrow> env \<Rightarrow> StorageClass \<Rightarrow> string list pstep" where
  "VolumeIDs self e sc = bindS (VolumeKeys self e sc) (\<lambda>keys. retS (sorted_keys keys))"

definition VolumeCount :: "provisioner \<Rightarrow> env \<Rightarrow> StorageClass \<Rightarrow> nat pstep" where
  "VolumeCount self e sc = bindS (VolumeIDs self e sc) (\<lambda>ids. retS (length ids))"

definition hasVolume :: "provisioner \<Rightarrow> env \<Rightarrow> StorageClass \<Rightarrow> string \<Rightarrow> bool pstep" where
  "hasVolume self e sc vol = bindS (VolumeKeys self e sc) (\<lambda>keys. retS (TrimRight vol ''/'' \<in> set keys))"

definition isVolumeGroup :: "prov \<Rightarrow> bool" where
  "isVolumeGroup p = (vrc_Kind (p_rp p) = DestinationKindVolumeGroupReplication)"


section \<open>The parent\<close>

definition sourceVSCR :: "env \<Rightarrow> VRC \<Rightarrow> (err + VSCR option) io" where
  "sourceVSCR e rp =
     (let name = lookup_str (oLabels rp) LabelSourceVSCR;
          ns = ParentNamespace (oLabels rp) LabelSourceVSCRNamespace (oNamespace rp) in
      if name = [] then ret (Inr None)
      else bindE (wrapE (Errorf_w ''get VastStorageClassReplication %s/%s: '' [ns, name])
                    (GetVastStorageClassReplication e name ns)) (\<lambda>v. ret (Inr (Some v))))"

definition sourceVVR :: "env \<Rightarrow> VRC \<Rightarrow> (err + VVR option) io" where
  "sourceVVR e rp =
     (let name = lookup_str (oLabels rp) LabelSourceVVR;
          ns = ParentNamespace (oLabels rp) LabelSourceVVRNamespace (oNamespace rp) in
      if name = [] then ret (Inr None)
      else bindE (wrapE (Errorf_w ''get VastVolumeReplication %s/%s: '' [ns, name])
                    (GetVastVolumeReplication e name ns)) (\<lambda>v. ret (Inr (Some v))))"

text \<open>A content without a parent label makes lookupPrimaryStorageClass panic; all panics are the same
  value in the model.\<close>

definition lookupPrimaryStorageClass :: "env \<Rightarrow> VRC \<Rightarrow> (err + string) io" where
  "lookupPrimaryStorageClass e rp =
     bindE (sourceVSCR e rp) (\<lambda>vscr. case vscr of
         Some v \<Rightarrow> ret (Inr (PrimaryStorageClass (vscr_Spec v)))
       | None \<Rightarrow> bindE (sourceVVR e rp) (\<lambda>vvr. case vvr of
             Some v \<Rightarrow> ret (Inr (v_PrimaryStorageClass (vvr_Spec v)))
           | None \<Rightarrow> ret (Inl panic_nil)))"

definition no_parent :: "VRC \<Rightarrow> err" where
  "no_parent rp = Errorf ''VastReplicationContent %s/%s has neither %s nor %s label''
     [oNamespace rp, oName rp, LabelSourceVSCR, LabelSourceVVR]"

definition DestVolReclaimPolicyRetain :: string where "DestVolReclaimPolicyRetain = ''Retain''"

definition or_retain :: "string \<Rightarrow> string" where
  "or_retain policy = (if policy = [] then DestVolReclaimPolicyRetain else policy)"

definition lookupDestVolReclaimPolicy :: "env \<Rightarrow> VRC \<Rightarrow> (err + string) io" where
  "lookupDestVolReclaimPolicy e rp =
     bindE (sourceVSCR e rp) (\<lambda>vscr. case vscr of
         Some v \<Rightarrow> ret (Inr (or_retain (DestVolReclaimPolicy (vscr_Spec v))))
       | None \<Rightarrow> bindE (sourceVVR e rp) (\<lambda>vvr. case vvr of
             Some v \<Rightarrow> ret (Inr (or_retain (v_DestVolReclaimPolicy (vvr_Spec v))))
           | None \<Rightarrow> ret (Inl (no_parent rp))))"

definition shouldRetainDestVolumes :: "env \<Rightarrow> VRC \<Rightarrow> (err + bool) io" where
  "shouldRetainDestVolumes e rp =
     bindE (lookupDestVolReclaimPolicy e rp) (\<lambda>policy. ret (Inr (policy = DestVolReclaimPolicyRetain)))"

definition newBase :: "env \<Rightarrow> VRC \<Rightarrow> (err + prov) io" where
  "newBase e rp =
     bindE (NewFromStorageClassName e (vrc_StorageClass rp) (e_sslVerify e)) (\<lambda>(rest, sc).
     bindE (lookupPrimaryStorageClass e rp) (\<lambda>primarySC.
     ret (Inr \<lparr>p_rp = rp, p_sourceRest = rest, p_sourceSc = sc, p_primaryStorageClass = primarySC,
       p_ppathCache = [], p_toEnsure = [], p_toDelete = [], p_volumeCaches = [], p_viewCaches = [],
       p_quotaCaches = [], p_viewPolicyCaches = []\<rparr>)))"

definition mirrorVolumeHandle :: "env \<Rightarrow> VRC \<Rightarrow> string \<Rightarrow> StorageClass \<Rightarrow> (err + string) io" where
  "mirrorVolumeHandle e rp sourceHandle sibSc =
     (let volumeBaseName = path_Base sourceHandle;
          sibParams = ExtractNonPrefixedParams CSIParameterPrefix (sc_Parameters sibSc);
          volumeGroup = TrimPrefix (lookup_str sibParams StorageClassParameterVolumeGroup) ''/'' in
      if IsBlockStorageClass sibSc then ret (Inr (path_Join [''/'', volumeGroup, volumeBaseName]))
      else bindE (sourceVSCR e rp) (\<lambda>vscr. case vscr of
          Some v \<Rightarrow> ret (case map_of (PpathDirMapping (vscr_Status v)) (sc_Name sibSc) of
              None \<Rightarrow> Inl (Errorf ''StorageClass %q has no entry in VSCR %s PpathDirMapping''
                        [sc_Name sibSc, oName v])
            | Some dir \<Rightarrow> Inr (path_Join [dir, volumeBaseName]))
        | None \<Rightarrow> bindE (sourceVVR e rp) (\<lambda>vvr. ret (case vvr of
              Some v \<Rightarrow> (case map_of (PpathDirMapping (vvr_Status v)) (sc_Name sibSc) of
                  None \<Rightarrow> Inl (Errorf ''StorageClass %q has no entry in VVR %s PpathDirMapping''
                            [sc_Name sibSc, oName v])
                | Some dir \<Rightarrow> Inr dir)
            | None \<Rightarrow> Inl (no_parent rp)))))"


section \<open>Which claims are replicated\<close>

definition is_managed :: "'a ObjectMeta_scheme \<Rightarrow> bool" where
  "is_managed obj = (lookup_str (oLabels obj) LabelManagedBy = LabelManagedByValue)"

definition constellation_claims :: "VRC list \<Rightarrow> (string \<times> string) list" where
  "constellation_claims vrcs = concat (map (\<lambda>v. map (\<lambda>n. (oNamespace v, n)) (vrc_PVCs v)) vrcs)"

definition classify_claim :: "env \<Rightarrow> VolumePair list \<Rightarrow> string \<times> string \<Rightarrow> (err + VolumePair list) io" where
  "classify_claim e acc = (\<lambda>(ns, pvcName). GetPVCandPV e pvcName ns \<bind> (\<lambda>r. ret (case r of
       Inl x \<Rightarrow> if IsNotFound x then Inr acc else Inl (Errorf_w ''get PVC+PV %s/%s: '' [ns, pvcName] x)
     | Inr (pvc, None) \<Rightarrow>
         Inl (NewRetryAfterError (Errorf ''PVC %s/%s not yet bound'' [ns, pvcName]) (15 * Second))
     | Inr (pvc, Some pv) \<Rightarrow> Inr (if is_managed pvc then acc else acc @ [(pvc, pv)]))))"

definition classifyConstellationPVCs :: "env \<Rightarrow> VRC \<Rightarrow> (err + VolumePair list) io" where
  "classifyConstellationPVCs e rp =
     bindE (wrapE (Errorf_w ''list constellation VastReplicationContents: '' []) (GetConstellationVRCs e rp))
       (\<lambda>vrcs. foldE (classify_claim e) [] (constellation_claims vrcs))"

definition source_to_delete :: "env \<Rightarrow> VRC \<Rightarrow> string list \<Rightarrow> string \<Rightarrow> (err + string list) io" where
  "source_to_delete e rp acc pvcName =
     (if pvcName \<in> set (vrc_PVCs rp) then ret (Inr acc)
      else GetPVC e pvcName (oNamespace rp) \<bind> (\<lambda>r. ret (case r of
          Inl x \<Rightarrow> if IsNotFound x then Inr (acc @ [pvcName])
                    else Inl (Errorf_w ''get PVC %s/%s: '' [oNamespace rp, pvcName] x)
        | Inr pvc \<Rightarrow> Inr (if is_managed pvc then acc else acc @ [pvcName]))))"

definition computeSourceToDelete :: "env \<Rightarrow> VRC \<Rightarrow> (err + string list) io" where
  "computeSourceToDelete e rp = foldE (source_to_delete e rp) [] (vrc_StatusPVCs rp)"

definition sibling_pair :: "env \<Rightarrow> VolumePair list \<Rightarrow> string \<times> string \<Rightarrow> (err + VolumePair list) io" where
  "sibling_pair e acc = (\<lambda>(ns, pvcName). GetPVCandPV e pvcName ns \<bind> (\<lambda>r. ret (case r of
       Inl x \<Rightarrow> if IsNotFound x then Inr acc else Inl (Errorf_w ''get PVC+PV %s/%s: '' [ns, pvcName] x)
     | Inr (pvc, None) \<Rightarrow> Inr acc
     | Inr (pvc, Some pv) \<Rightarrow> Inr (if is_managed pvc then acc
         else case pv_CSI pv of
             None \<Rightarrow> acc
           | Some csi \<Rightarrow> if csi_VolumeHandle csi = [] then acc else acc @ [(pvc, pv)]))))"

definition sourcePairsFromSiblingVRCs :: "env \<Rightarrow> VRC \<Rightarrow> (err + VolumePair list) io" where
  "sourcePairsFromSiblingVRCs e rp =
     bindE (wrapE (Errorf_w ''list constellation VRCs: '' []) (GetConstellationVRCs e rp))
       (\<lambda>vrcs. foldE (sibling_pair e) []
          (constellation_claims (filter (\<lambda>v. vrc_StorageClass v \<noteq> vrc_StorageClass rp) vrcs)))"


section \<open>Mirror claims and volumes\<close>

definition ReasonPVCPVCreated :: string where "ReasonPVCPVCreated = ''PVCPVCreated''"
definition ReasonProvisionSkipped :: string where "ReasonProvisionSkipped = ''ProvisionSkipped''"
definition ReasonCleanupFailed :: string where "ReasonCleanupFailed = ''CleanupFailed''"
definition ReasonPpathDisabled :: string where "ReasonPpathDisabled = ''PpathDisabled''"
definition ReasonPpathDeleted :: string where "ReasonPpathDeleted = ''PpathDeleted''"
definition ReasonSnapshotsDeleted :: string where "ReasonSnapshotsDeleted = ''SnapshotsDeleted''"
definition ReasonPVCDeleted :: string where "ReasonPVCDeleted = ''PVCDeleted''"
definition ReasonPVCDeleteSkipped :: string where "ReasonPVCDeleteSkipped = ''PVCDeleteSkipped''"
definition ReasonVolumeReplicationDeleted :: string where
  "ReasonVolumeReplicationDeleted = ''VolumeReplicationDeleted''"
definition ReasonVolumeGroupReplicationDeleted :: string where
  "ReasonVolumeGroupReplicationDeleted = ''VolumeGroupReplicationDeleted''"

definition arrow :: string where "arrow = [CHR 0xE2, CHR 0x86, CHR 0x92]"

definition mirror_pv_labels :: "PVC \<Rightarrow> smap" where
  "mirror_pv_labels src = [(LabelManagedBy, LabelManagedByValue), (LabelSourcePVC, oName src),
     (LabelSourcePVCNamespace, oNamespace src)]"

definition parent_labels :: "smap \<Rightarrow> string \<Rightarrow> string \<Rightarrow> smap" where
  "parent_labels labels nameKey nsKey =
     (let name = lookup_str labels nameKey; ns = ParentNamespace labels nsKey [] in
      if name = [] then [] else (nameKey, name) # (if ns = [] then [] else [(nsKey, ns)]))"

definition mirror_pvc_labels :: "VRC \<Rightarrow> PVC \<Rightarrow> StorageClass \<Rightarrow> smap" where
  "mirror_pvc_labels rp src sibSc =
     [(LabelManagedBy, LabelManagedByValue), (LabelStorageClass, sc_Name sibSc),
      (LabelSourcePVC, oName src), (LabelSourcePVCNamespace, oNamespace src)]
     @ parent_labels (oLabels rp) LabelSourceVSCR LabelSourceVSCRNamespace
     @ parent_labels (oLabels rp) LabelSourceVVR LabelSourceVVRNamespace"

definition mirror_PV ::
  "string \<Rightarrow> string \<Rightarrow> string \<Rightarrow> SecretReference \<Rightarrow> PVC \<Rightarrow> PV \<Rightarrow> StorageClass \<Rightarrow> PV" where
  "mirror_PV destPVName handle csiDriver secretRef src sourcePV sibSc =
     (let pv = WithControllerExpandSecretRef secretRef (WithNodePublishSecretRef secretRef
               (WithNodeStageSecretRef secretRef (WithControllerPublishSecretRef secretRef
               (WithCapacity (pv_Capacity sourcePV) (pv_WithAccessModes (pv_AccessModes sourcePV)
               (WithReclaimPolicy ''Delete''
               (WithVolumeAttributes (ExtractNonPrefixedParams CSIParameterPrefix (sc_Parameters sibSc))
               (WithCSIDriver csiDriver (WithVolumeHandle handle (pv_WithStorageClass (sc_Name sibSc)
               (pv_WithAnnotationsMap [(''pv.kubernetes.io/provisioned-by'', csiDriver)]
               (pv_WithLabelsMap (mirror_pv_labels src)
               (pv_WithManagedByLabel (NewPersistentVolume destPVName)))))))))))))) in
      case pv_VolumeMode sourcePV of None \<Rightarrow> pv | Some m \<Rightarrow> pv_WithVolumeMode m pv)"

definition mirror_PVC :: "string \<Rightarrow> string \<Rightarrow> VRC \<Rightarrow> PVC \<Rightarrow> PV \<Rightarrow> StorageClass \<Rightarrow> PVC" where
  "mirror_PVC destPVCName destPVName rp src sourcePV sibSc =
     (let pvc = WithResources (pv_Capacity sourcePV) (pvc_WithAccessModes (pv_AccessModes sourcePV)
                (WithVolumeName destPVName (pvc_WithStorageClass (sc_Name sibSc)
                (pvc_WithFinalizers [FinalizerPVC] (pvc_WithLabelsMap (mirror_pvc_labels rp src sibSc)
                (pvc_WithManagedByLabel (NewPersistentVolumeClaim (oNamespace src) destPVCName))))))) in
      case pv_VolumeMode sourcePV of None \<Rightarrow> pvc | Some m \<Rightarrow> pvc_WithVolumeMode m pvc)"

definition ensureMirrorPVCPV :: "env \<Rightarrow> VRC \<Rightarrow> PVC \<Rightarrow> PV \<Rightarrow> StorageClass \<Rightarrow> (err + bool) io" where
  "ensureMirrorPVCPV e rp sourcePVC sourcePV sibSc =
     (case pv_CSI sourcePV of
        None \<Rightarrow> ret (Inl (Errorf ''source PV %s has no CSI volume handle'' [oName sourcePV]))
      | Some csi \<Rightarrow>
        if csi_VolumeHandle csi = [] then
          ret (Inl (Errorf ''source PV %s has no CSI volume handle'' [oName sourcePV]))
        else
          let ns = oNamespace sourcePVC in
          bindE (wrapE (Errorf_w ''format mirror PVC name: '' [])
                   (FormatPVCName e (e_pvcNameFormat e) sourcePVC sourcePV sibSc)) (\<lambda>destPVCName.
          bindE (wrapE (Errorf_w ''format mirror PV name: '' [])
                   (FormatPVName e (e_pvNameFormat e) sourcePVC sourcePV sibSc)) (\<lambda>destPVName.
          let csiSecrets = ExtractPrefixedParams CSIParameterPrefix (sc_Parameters sibSc);
              secretName = lookup_str csiSecrets ''provisioner-secret-name'';
              secretNS = lookup_str csiSecrets ''provisioner-secret-namespace'' in
          if secretName = [] \<or> secretNS = [] then
            ret (Inl (Errorf ''StorageClass %s is missing provisioner secret parameters'' [sc_Name sibSc]))
          else if csi_Driver csi = [] then
            ret (Inl (Errorf ''source PV %s has no CSI driver'' [oName sourcePV]))
          else if pv_Capacity sourcePV = [] then
            ret (Inl (Errorf ''source PV %s has no capacity'' [oName sourcePV]))
          else
          bindE (wrapE (Errorf_w ''compute mirror volume handle: '' [])
                   (mirrorVolumeHandle e rp (csi_VolumeHandle csi) sibSc)) (\<lambda>mirrorHandle.
          bindE (wrapE (Errorf_w ''ensure mirror PV %s: '' [destPVName])
                   (EnsurePV e (mirror_PV destPVName mirrorHandle (csi_Driver csi)
                      \<lparr>sec_Name = secretName, sec_Namespace = secretNS\<rparr> sourcePVC sourcePV sibSc))) (\<lambda>pvCreated.
          bindE (wrapE (Errorf_w ''ensure mirror PVC %s/%s: '' [ns, destPVCName])
                   (EnsurePVC e (mirror_PVC destPVCName destPVName rp sourcePVC sourcePV sibSc))) (\<lambda>pvcCreated.
          if pvCreated \<or> pvcCreated then
            emit_Normal e ReasonPVCPVCreated
              (Sprintf (''created mirror PVC+PV for %s/%s '' @ arrow @ '' StorageClass %q (pvc=%s, pv=%s)'')
                 [ns, oName sourcePVC, sc_Name sibSc, destPVCName, destPVName])
            \<bind> (\<lambda>_. ret (Inr True))
          else ret (Inr False)))))))"

text \<open>The loop of ensureReplicaMirrors: the errors so far, and whether the rest is skipped because the
  cluster cannot be reached, in which case they are dropped. The handle of a volume without a CSI source
  is a nil dereference.\<close>

fun mirror_loop :: "provisioner \<Rightarrow> env \<Rightarrow> StorageClass \<Rightarrow> VolumePair list \<Rightarrow> err list \<Rightarrow> unit pstep" where
  "mirror_loop self e sc [] errs = errS errs"
| "mirror_loop self e sc ((pvc, pv) # pairs) errs = getS (\<lambda>p.
     let mirror = bindS (doS (ensureMirrorPVCPV e (p_rp p) pvc pv sc)) (\<lambda>r.
           mirror_loop self e sc pairs (DeferredError_Add errs (map_option
             (Errorf_w (''mirror %s '' @ arrow @ '' %s: '') [oName pvc, sc_Name sc]) (left_err r)))) in
     if \<not> isVolumeGroup p then mirror
     else case pv_CSI pv of
         None \<Rightarrow> failS panic_nil
       | Some csi \<Rightarrow>
           bindS (catchS (hasVolume self e sc (BackendObjectKey self p (csi_VolumeHandle csi)))) (\<lambda>r. case r of
               Inl x \<Rightarrow> if IsNetworkError (Some x)
                 then bindS (doS (emit_Warning e ReasonProvisionSkipped
                        (Sprintf ''cluster %s is unreachable, skipping mirror PVC/PV sync: %v''
                           [sc_Name sc, Error_string x]))) (\<lambda>_. retS ())
                 else failS x
             | Inr _ \<Rightarrow> mirror))"

definition ensureReplicaMirrors ::
  "provisioner \<Rightarrow> env \<Rightarrow> StorageClass \<Rightarrow> VolumePair list \<Rightarrow> unit pstep" where
  "ensureReplicaMirrors self e sc pairs = mirror_loop self e sc pairs []"


section \<open>Removing mirrors\<close>

definition managedPVForPVC :: "env \<Rightarrow> PVC \<Rightarrow> (err + PV option) io" where
  "managedPVForPVC e pvc =
     (if pvc_VolumeName pvc = [] then ret (Inr None)
      else GetPV e (pvc_VolumeName pvc) \<bind> (\<lambda>r. ret (case r of
          Inl x \<Rightarrow> if IsNotFound x then Inr None
                    else Inl (Errorf_w ''failed to get PV %s: '' [pvc_VolumeName pvc] x)
        | Inr pv \<Rightarrow> Inr (if is_managed pv then Some pv else None))))"

definition mirrorReplicationLabelKeys :: "string list" where
  "mirrorReplicationLabelKeys = [LabelManagedBy, LabelSourcePVC, LabelSourcePVCNamespace, LabelStorageClass,
     LabelSourceVSCR, LabelSourceVSCRNamespace, LabelSourceVVR, LabelSourceVVRNamespace]"

definition stripMirrorReplicationLabels :: "'a ObjectMeta_scheme \<Rightarrow> 'a ObjectMeta_scheme" where
  "stripMirrorReplicationLabels obj = fold RemoveLabel mirrorReplicationLabelKeys obj"

definition detachMirrorFromReplication :: "env \<Rightarrow> PVC \<Rightarrow> (err + unit) io" where
  "detachMirrorFromReplication e pvc =
     bindE (managedPVForPVC e pvc) (\<lambda>pv.
     RemoveFinalizer e (get_PVC e) (put_PVC e UpdatePVC) FinalizerPVC pvc \<bind> (\<lambda>(r, pvc'). case r of
         Some x \<Rightarrow> ret (Inl (Errorf_w ''remove finalizer on mirror PVC %s/%s: '' [oNamespace pvc', oName pvc'] x))
       | None \<Rightarrow> PatchPVCLabels e (stripMirrorReplicationLabels pvc') \<bind> (\<lambda>r. case r of
             Some x \<Rightarrow> ret (Inl (Errorf_w ''strip replication labels on mirror PVC %s/%s: ''
                               [oNamespace pvc', oName pvc'] x))
           | None \<Rightarrow> (case pv of
                 None \<Rightarrow> ret (Inr ())
               | Some pv \<Rightarrow> PatchPVLabels e (stripMirrorReplicationLabels pv) \<bind> (\<lambda>r. ret (case r of
                     Some x \<Rightarrow> Inl (Errorf_w ''strip replication labels on mirror PV %s: '' [oName pv] x)
                   | None \<Rightarrow> Inr ()))))))"

text \<open>An orphan under the Delete policy: the finalizer of the controller goes, then the claim.\<close>

definition delete_orphan :: "env \<Rightarrow> err list \<Rightarrow> PVC \<Rightarrow> (err + err list) io" where
  "delete_orphan e errs pvc =
     bindE (IsPVCUsedByPod e pvc) (\<lambda>inUse.
     (if inUse then emit_Warning e ReasonPVCDeleteSkipped
         (Sprintf (''mirror PVC %s/%s is still in use by a pod; deletion will complete automatically ''
            @ ''once the pod is removed'') [oNamespace pvc, oName pvc]) else ret ()) \<bind> (\<lambda>_.
     RemoveFinalizer e (get_PVC e) (put_PVC e UpdatePVC) FinalizerPVC pvc \<bind> (\<lambda>(r, pvc'). case r of
         Some x \<Rightarrow> ret (Inr (DeferredError_Add errs (Some (Errorf_w
             ''delete orphaned mirror PVC %s: remove vastdata finalizer: '' [oName pvc'] x))))
       | None \<Rightarrow> k8s_write e (DeleteCall ''PersistentVolumeClaim'' (oNamespace pvc') (oName pvc')) \<bind> (\<lambda>d. case d of
             Some x \<Rightarrow> ret (Inr (if IsNotFound x then errs else DeferredError_Add errs (Some (Errorf_w
                 ''delete orphaned mirror PVC %s: '' [oName pvc'] x))))
           | None \<Rightarrow> emit_Normal e ReasonPVCDeleted
                 (Sprintf ''deleted orphaned mirror PVC %s/%s'' [oNamespace pvc', oName pvc'])
               \<bind> (\<lambda>_. ret (Inr errs))))))"

definition clean_orphan :: "env \<Rightarrow> bool \<Rightarrow> string list \<Rightarrow> err list \<Rightarrow> PVC \<Rightarrow> (err + err list) io" where
  "clean_orphan e retain keep errs pvc =
     (if lookup_str (oLabels pvc) LabelSourcePVC \<in> set keep then ret (Inr errs)
      else if retain then detachMirrorFromReplication e pvc \<bind> (\<lambda>r. ret (Inr (DeferredError_Add errs
          (map_option (Errorf_w ''detach orphaned mirror PVC %s: '' [oName pvc]) (left_err r)))))
      else delete_orphan e errs pvc)"

definition mirror_selector :: "VRC \<Rightarrow> StorageClass \<Rightarrow> smap" where
  "mirror_selector vrc sc =
     (let vvrName = lookup_str (oLabels vrc) LabelSourceVVR; vscrName = lookup_str (oLabels vrc) LabelSourceVSCR in
      [(LabelManagedBy, LabelManagedByValue), (LabelStorageClass, sc_Name sc)]
      @ (if vvrName \<noteq> [] then [(LabelSourceVVR, vvrName)]
         else if vscrName \<noteq> [] then [(LabelSourceVSCR, vscrName)] else []))"

definition cleanReplicaMirrorOrphans ::
  "env \<Rightarrow> VRC \<Rightarrow> VRC \<Rightarrow> StorageClass \<Rightarrow> string list \<Rightarrow> (err + unit) io" where
  "cleanReplicaMirrorOrphans e rp vrc sc currentSourcePVCNames =
     bindE (shouldRetainDestVolumes e rp) (\<lambda>retain.
     bindE (wrapE (Errorf_w ''failed to list mirror PVCs for %s: '' [oName vrc])
              (ListPVCsByLabelSelector e (oNamespace rp) (mirror_selector vrc sc))) (\<lambda>pvcs.
     bindE (foldE (clean_orphan e retain currentSourcePVCNames) [] pvcs) (\<lambda>errs.
     ret (optE (DeferredError_Err errs)))))"


section \<open>Provisioning\<close>

definition own_class :: "VRC \<Rightarrow> VolumePair \<Rightarrow> bool" where
  "own_class rp pair = (pvc_StorageClassName (fst pair) = Some (vrc_StorageClass rp))"

definition sync_mirrors :: "provisioner \<Rightarrow> env \<Rightarrow> VolumePair list \<Rightarrow> unit pstep" where
  "sync_mirrors self e unmanaged = getS (\<lambda>p.
     let otherPairs = filter (\<lambda>pair. \<not> own_class (p_rp p) pair) unmanaged;
         keepNames = map (\<lambda>pair. oName (fst pair)) otherPairs in
     if \<not> vrc_SyncPVCPV (p_rp p) then retS ()
     else bindS (catchS (ensureReplicaMirrors self e (p_sourceSc p) otherPairs)) (\<lambda>r1.
          bindS (doS (cleanReplicaMirrorOrphans e (p_rp p) (p_rp p) (p_sourceSc p) keepNames)) (\<lambda>r2.
          errS (DeferredError_Add (DeferredError_Add []
                  (map_option (Errorf_w ''ensure mirrors: '' []) (left_err r1)))
                  (map_option (Errorf_w ''orphan cleanup: '' []) (left_err r2))))))"

definition ProvisionVolumes :: "provisioner \<Rightarrow> env \<Rightarrow> unit pstep" where
  "ProvisionVolumes self e = getS (\<lambda>p.
     bindS (liftS (classifyConstellationPVCs e (p_rp p))) (\<lambda>unmanaged.
     bindS (modS (\<lambda>p. p\<lparr>p_toEnsure := unmanaged\<rparr>)) (\<lambda>_.
     bindS (liftS (computeSourceToDelete e (p_rp p))) (\<lambda>toDelete.
     bindS (modS (\<lambda>p. p\<lparr>p_toDelete := toDelete\<rparr>)) (\<lambda>_.
     bindS (ProvisionVolumeCb self e (p_rp p) (p_sourceRest p) (p_sourceSc p)) (\<lambda>_.
     sync_mirrors self e unmanaged))))))"


section \<open>Cleaning up\<close>

definition getPPath :: "env \<Rightarrow> StorageClass \<Rightarrow> Ppath pstep" where
  "getPPath e sc = getS (\<lambda>p. lazyCache_get p_ppathCache (\<lambda>c p. p\<lparr>p_ppathCache := c\<rparr>) (sc_Name sc)
     (bindE (wrapE (Errorf_w ''build REST client for StorageClass %s: '' [sc_Name sc])
               (NewFromStorageClass e sc (e_sslVerify e)))
        (\<lambda>rest. vms e rest (PpathGet (vrc_ProtectedPathName (p_rp p)))
           (\<lambda>h. v_ppathGet (e_vms e) h rest (vrc_ProtectedPathName (p_rp p))))))"

definition getPPathForSource :: "env \<Rightarrow> Ppath pstep" where
  "getPPathForSource e = getS (\<lambda>p. getPPath e (p_sourceSc p))"

definition disable_ppath :: "env \<Rightarrow> rest \<Rightarrow> Ppath \<Rightarrow> (err + unit) io" where
  "disable_ppath e rest ppath =
     (if \<not> pp_Enabled ppath then ret (Inr ())
      else vms e rest (PpathDisable (pp_Id ppath)) (\<lambda>h. v_act (e_vms e) h rest (PpathDisable (pp_Id ppath)))
        \<bind> (\<lambda>r. case r of
            Some x \<Rightarrow> ret (Inl (Errorf_w ''failed to disable protected path %q: '' [pp_Name ppath] x))
          | None \<Rightarrow> emit_Normal e ReasonPpathDisabled (Sprintf ''disabled protected path %q'' [pp_Name ppath])
              \<bind> (\<lambda>_. ret (Inr ()))))"

definition waitAfterPpathDisable :: "env \<Rightarrow> unit pstep" where
  "waitAfterPpathDisable e = getS (\<lambda>p.
     if lookup_str (oAnnotations (p_rp p)) AnnotationSnapshotCleanupWaitDone = ''true'' then retS ()
     else bindS (doS (time_Sleep e VMS_SNAPSHOT_DISCOVERY_INTERVAL)) (\<lambda>_.
       (\<lambda>p. SetAnnotationAndUpdate e (get_VRC e) (put_VRC e PatchVRC) AnnotationSnapshotCleanupWaitDone ''true'' (p_rp p)
          \<bind> (\<lambda>(r, rp'). ret (case r of
              Some x \<Rightarrow> Inl (Errorf_w ''record snapshot cleanup wait: '' [] x)
            | None \<Rightarrow> Inr (), p\<lparr>p_rp := rp'\<rparr>)))))"

text \<open>\<^verbatim>\<open>IgnoreStatusCodes\<close> of go-vast-client drops an error with the given status.\<close>

definition ignore_404 :: "env \<Rightarrow> err option \<Rightarrow> err option" where
  "ignore_404 e r = (case r of
     Some x \<Rightarrow> if v_expectStatus (e_vms e) x 404 then None else Some x | None \<Rightarrow> None)"

definition delete_snapshot :: "env \<Rightarrow> rest \<Rightarrow> Snapshot \<Rightarrow> (err + unit) io" where
  "delete_snapshot e rest snapshot =
     vms e rest (SnapshotDelete (snap_Id snapshot)) (\<lambda>h. v_act (e_vms e) h rest (SnapshotDelete (snap_Id snapshot)))
     \<bind> (\<lambda>r. (case ignore_404 e r of
         Some x \<Rightarrow> emit_Warning e ReasonCleanupFailed
           (Sprintf ''failed to delete snapshot %s: %v'' [snap_Name snapshot, Error_string x])
       | None \<Rightarrow> emit_Normal e ReasonSnapshotsDeleted (Sprintf ''deleted snapshot %s'' [snap_Name snapshot]))
     \<bind> (\<lambda>_. ret (Inr ())))"

definition deleteSnapshots :: "env \<Rightarrow> rest \<Rightarrow> string \<Rightarrow> string list \<Rightarrow> (err + unit) io" where
  "deleteSnapshots e rest snapshotPath0 policyNames =
     (let snapshotPath = TrimRight snapshotPath0 ''/'' @ ''/'' in
      forE policyNames (\<lambda>policyName.
        bindE (wrapE (Errorf_w ''failed to list snapshots for path %s policy %s: '' [snapshotPath, policyName])
                 (vms e rest (SnapshotsList snapshotPath policyName)
                    (\<lambda>h. s_snapshotsList (e_storage e) h rest snapshotPath policyName)))
          (\<lambda>snapshots. forE snapshots (delete_snapshot e rest))))"

definition remove_ppath :: "env \<Rightarrow> rest \<Rightarrow> Ppath \<Rightarrow> (err + unit) io" where
  "remove_ppath e rest ppath =
     vms e rest (PpathDelete (pp_Id ppath)) (\<lambda>h. v_act (e_vms e) h rest (PpathDelete (pp_Id ppath)))
     \<bind> (\<lambda>r. case r of
         Some x \<Rightarrow> ret (if \<not> v_isNotFound (e_vms e) x \<and> \<not> v_expectStatus (e_vms e) x 404
             then Inl (Errorf_w ''delete protected path %q: '' [pp_Name ppath] x) else Inr ())
       | None \<Rightarrow> bindE (wrapE (Errorf_w ''waiting for protected path %q deletion: '' [pp_Name ppath])
             (WaitForResource e rest (PpathExists (pp_Name ppath)) WaitConditionAbsent (2 * Minute) (15 * Second)
                (Sprintf ''protected path %q'' [pp_Name ppath])))
           (\<lambda>_. emit_Normal e ReasonPpathDeleted (Sprintf ''deleted protected path %q'' [pp_Name ppath])
              \<bind> (\<lambda>_. ret (Inr ()))))"

definition cleanVolumeReplication :: "env \<Rightarrow> VRC \<Rightarrow> string \<Rightarrow> (err + unit) io" where
  "cleanVolumeReplication e rp storageClass =
     (let namespace = oNamespace rp; sourceVRName = SourceName rp;
          labelSelector = [(LabelManagedBy, LabelManagedByValue), (LabelSourceVolumeReplication, sourceVRName),
             (LabelSourceVolumeReplicationNamespace, namespace)]
             @ (if storageClass \<noteq> [] then [(LabelStorageClass, storageClass)] else []) in
      emit_Normal e ''CleanupStarted''
        (Sprintf ''cleaning up resources for VolumeReplication %s/%s'' [namespace, sourceVRName]) \<bind> (\<lambda>_.
      bindE (wrapE (Errorf_w ''failed to list VolumeReplications: '' [])
               (ListVolumeReplicationsByLabelSelector e namespace labelSelector)) (\<lambda>destVRs.
      if destVRs = [] then ret (Inr ())
      else bindE (forE destVRs (\<lambda>destVR.
          emit_Normal e ReasonVolumeReplicationDeleted
            (Sprintf ''deleting destination VolumeReplication %s (source=%s)'' [oName destVR, sourceVRName]) \<bind> (\<lambda>_.
          k8s_write e (DeleteCall ''VolumeReplication'' (oNamespace destVR) (oName destVR)) \<bind> (\<lambda>r.
          (case r of
             Some x \<Rightarrow> if IsNotFound x then ret () else emit_Warning e ReasonCleanupFailed
               (Sprintf ''failed to delete destination VolumeReplication %s: %v'' [oName destVR, Error_string x])
           | None \<Rightarrow> ret ()) \<bind> (\<lambda>_. ret (Inr ()))))))
        (\<lambda>_. ret (Inl (Errorf (''waiting for %d managed VolumeReplication(s) to be fully deleted before ''
           @ ''cleaning PVCs (source=%s/%s)'') [Itoa (length destVRs), namespace, sourceVRName]))))))"

definition cleanVolumeGroupReplication :: "env \<Rightarrow> VRC \<Rightarrow> string \<Rightarrow> (err + unit) io" where
  "cleanVolumeGroupReplication e rp storageClass =
     (let namespace = oNamespace rp; sourceVGRName = SourceName rp;
          labelSelector = [(LabelManagedBy, LabelManagedByValue), (LabelSourceVolumeGroupReplication, sourceVGRName),
             (LabelSourceVolumeGroupReplicationNamespace, namespace)]
             @ (if storageClass \<noteq> [] then [(LabelStorageClass, storageClass)] else []) in
      emit_Normal e ''CleanupStarted''
        (Sprintf ''cleaning up resources for VolumeGroupReplication %s/%s'' [namespace, sourceVGRName]) \<bind> (\<lambda>_.
      bindE (wrapE (Errorf_w ''failed to list VolumeGroupReplications: '' [])
               (ListVolumeGroupReplicationsByLabelSelector e namespace labelSelector)) (\<lambda>destVGRs.
      if destVGRs = [] then ret (Inr ())
      else bindE (forE destVGRs (\<lambda>destVGR.
          emit_Normal e ReasonVolumeGroupReplicationDeleted
            (Sprintf ''deleting destination VolumeGroupReplication %s (source=%s)'' [oName destVGR, sourceVGRName]) \<bind> (\<lambda>_.
          k8s_write e (DeleteCall ''VolumeGroupReplication'' (oNamespace destVGR) (oName destVGR)) \<bind> (\<lambda>r.
          ret (case r of
             Some x \<Rightarrow> if IsNotFound x then Inr () else Inl x
           | None \<Rightarrow> Inr ())))))
        (\<lambda>_. ret (Inl (Errorf (''waiting for %d managed VolumeGroupReplication(s) to be fully deleted before ''
           @ ''cleaning PVCs (source=%s/%s)'') [Itoa (length destVGRs), namespace, sourceVGRName]))))))"

definition CleanKubernetesResources :: "env \<Rightarrow> VRC \<Rightarrow> (err + unit) io" where
  "CleanKubernetesResources e rp =
     (if vrc_Kind rp = DestinationKindVolumeReplication then cleanVolumeReplication e rp (vrc_StorageClass rp)
      else if vrc_Kind rp = DestinationKindVolumeGroupReplication
      then cleanVolumeGroupReplication e rp (vrc_StorageClass rp)
      else ret (Inl (Errorf ''unsupported kind %q'' [vrc_Kind rp])))"

definition CleanVolumes :: "provisioner \<Rightarrow> env \<Rightarrow> unit pstep" where
  "CleanVolumes self e = getS (\<lambda>p. let rest = p_sourceRest p; sc = p_sourceSc p in
     bindS (catchS (getPPathForSource e)) (\<lambda>r.
     bindS (case r of
         Inl x \<Rightarrow> if v_isNotFound (e_vms e) x then retS None else failS x
       | Inr ppath \<Rightarrow> bindS (liftS (disable_ppath e rest ppath)) (\<lambda>_. retS (Some ppath))) (\<lambda>ppath.
     bindS (waitAfterPpathDisable e) (\<lambda>_.
     getS (\<lambda>p. let rp = p_rp p in
     bindS (liftS (deleteSnapshots e rest (vrc_ReplicationPath rp) (vrc_ProtectionPolicyNames rp))) (\<lambda>_.
     bindS (case ppath of None \<Rightarrow> retS () | Some pp \<Rightarrow> liftS (remove_ppath e rest pp)) (\<lambda>_.
     bindS (CleanVolumeCb self e rp rest sc) (\<lambda>_.
     bindS (liftS (cleanReplicaMirrorOrphans e rp rp sc [])) (\<lambda>_.
     liftS (CleanKubernetesResources e rp))))))))))"

end
