(* ===== verification/ReplicationCli.thy ===== *)
theory ReplicationCli
  imports Admission Provisioner Triples
begin

text \<open>
  The commands of the replication command line that change objects (internal/cmd/cli): \<^verbatim>\<open>failover\<close>, \<^verbatim>\<open>sync\<close> and
  \<^verbatim>\<open>delete\<close> (internal/cmd/cli/actions), and the patches they send (internal/cmd/cli/client/client.go). A command is a
  step on the text it has printed. The colour package and the construction of the Kubernetes client are parameters,
  and so is the line the user types. \<^verbatim>\<open>list\<close> and \<^verbatim>\<open>status\<close>, which only print, are not modelled.
\<close>


section \<open>The terminal\<close>

type_synonym 'a tstep = "(string, 'a) step"

record terminal =
  t_client :: "err option"
  t_answer :: string
  t_Green :: "string \<Rightarrow> string"
  t_Yellow :: "string \<Rightarrow> string"
  t_Cyan :: "string \<Rightarrow> string"
  t_Bold :: "string \<Rightarrow> string"

definition Printf :: "string list \<Rightarrow> unit tstep" where
  "Printf parts = modS (\<lambda>out. out @ concat parts)"

definition newline :: string where "newline = [CHR 0x0A]"
definition check_mark :: string where "check_mark = [CHR 0xE2, CHR 0x9C, CHR 0x93]"

definition failover_label :: "terminal \<Rightarrow> string \<Rightarrow> string" where
  "failover_label t ft = (if ft \<in> {FailoverTypeGraceful, FailoverTypeUngraceful} then t_Yellow t ft else ft)"


section \<open>Patches of the custom resources\<close>

definition PatchCRD :: "('o \<Rightarrow> (err + 'o) io) \<Rightarrow> 'o \<Rightarrow> ('o \<Rightarrow> 'o) \<Rightarrow> (err + unit) io" where
  "PatchCRD patch obj mutate = bindE (patch (mutate obj)) (\<lambda>_. ret (Inr ()))"

definition UpdateCRD :: "('o \<Rightarrow> (err + 'o) io) \<Rightarrow> 'o \<Rightarrow> ('o \<Rightarrow> 'o) \<Rightarrow> (err + unit) io" where
  "UpdateCRD update obj mutate = bindE (update (mutate obj)) (\<lambda>_. ret (Inr ()))"

definition switch_VSCR :: "string \<Rightarrow> string \<Rightarrow> VSCR \<Rightarrow> VSCR" where
  "switch_VSCR failoverType primary v =
     (let s = vscr_Spec v;
          s = (if failoverType \<noteq> [] then s\<lparr>FailoverType := failoverType\<rparr> else s);
          s = (if primary \<noteq> [] then s\<lparr>PrimaryStorageClass := primary\<rparr> else s) in
      v\<lparr>vscr_Spec := s\<rparr>)"

definition switch_VVR :: "string \<Rightarrow> string \<Rightarrow> VVR \<Rightarrow> VVR" where
  "switch_VVR failoverType primary v =
     (let s = vvr_Spec v;
          s = (if failoverType \<noteq> [] then s\<lparr>v_FailoverType := failoverType\<rparr> else s);
          s = (if primary \<noteq> [] then s\<lparr>v_PrimaryStorageClass := primary\<rparr> else s) in
      v\<lparr>vvr_Spec := s\<rparr>)"

definition found_VSCR :: "env \<Rightarrow> string \<Rightarrow> string \<Rightarrow> (err + VSCR) io" where
  "found_VSCR e name ns = wrapE (Errorf_w ''VastStorageClassReplication %s/%s not found: '' [ns, name])
     (GetVastStorageClassReplication e name ns)"

definition found_VVR :: "env \<Rightarrow> string \<Rightarrow> string \<Rightarrow> (err + VVR) io" where
  "found_VVR e name ns = wrapE (Errorf_w ''VastVolumeReplication %s/%s not found: '' [ns, name])
     (GetVastVolumeReplication e name ns)"

definition no_object :: err where "no_object = Errorf ''must specify --vscr or --vvr'' []"

definition PatchReplicationSpec ::
  "env \<Rightarrow> string \<Rightarrow> string \<Rightarrow> string \<Rightarrow> string \<Rightarrow> string \<Rightarrow> (err + unit) io" where
  "PatchReplicationSpec e vscr vvr ns failoverType primary =
     (if vscr \<noteq> [] then bindE (found_VSCR e vscr ns) (\<lambda>obj.
        PatchCRD (put_VSCR e PatchVSCR) obj (switch_VSCR failoverType primary))
      else if vvr \<noteq> [] then bindE (found_VVR e vvr ns) (\<lambda>obj.
        PatchCRD (put_VVR e PatchVVR) obj (switch_VVR failoverType primary))
      else ret (Inl no_object))"

definition PatchReplicationResync :: "env \<Rightarrow> string \<Rightarrow> string \<Rightarrow> string \<Rightarrow> (err + unit) io" where
  "PatchReplicationResync e vscr vvr ns =
     (if vscr \<noteq> [] then bindE (found_VSCR e vscr ns) (\<lambda>obj.
        PatchCRD (put_VSCR e PatchVSCR) obj (\<lambda>v. v\<lparr>vscr_Spec := (vscr_Spec v)\<lparr>Resync := True\<rparr>\<rparr>))
      else if vvr \<noteq> [] then bindE (found_VVR e vvr ns) (\<lambda>obj.
        PatchCRD (put_VVR e PatchVVR) obj (\<lambda>v. v\<lparr>vvr_Spec := (vvr_Spec v)\<lparr>v_Resync := True\<rparr>\<rparr>))
      else ret (Inl no_object))"

definition UpdateReplicationSpec ::
  "env \<Rightarrow> string \<Rightarrow> string \<Rightarrow> string \<Rightarrow> string \<Rightarrow> string \<Rightarrow> (err + unit) io" where
  "UpdateReplicationSpec e vscr vvr ns failoverType primary =
     (if vscr \<noteq> [] then bindE (found_VSCR e vscr ns) (\<lambda>obj.
        UpdateCRD (put_VSCR e UpdateVSCR) obj (switch_VSCR failoverType primary))
      else if vvr \<noteq> [] then bindE (found_VVR e vvr ns) (\<lambda>obj.
        UpdateCRD (put_VVR e UpdateVVR) obj (switch_VVR failoverType primary))
      else ret (Inl no_object))"

definition DeleteVastStorageClassReplication :: "env \<Rightarrow> VSCR \<Rightarrow> (err + unit) io" where
  "DeleteVastStorageClassReplication e v =
     k8s_write e (DeleteCall ''VastStorageClassReplication'' (oNamespace v) (oName v)) \<bind> (\<lambda>r. ret (case r of
         Some x \<Rightarrow> if IsNotFound x then Inr ()
           else Inl (Errorf_w ''failed to delete VastStorageClassReplication %s/%s: '' [oNamespace v, oName v] x)
       | None \<Rightarrow> Inr ()))"

definition DeleteVastVolumeReplication :: "env \<Rightarrow> VVR \<Rightarrow> (err + unit) io" where
  "DeleteVastVolumeReplication e v =
     k8s_write e (DeleteCall ''VastVolumeReplication'' (oNamespace v) (oName v)) \<bind> (\<lambda>r. ret (case r of
         Some x \<Rightarrow> if IsNotFound x then Inr ()
           else Inl (Errorf_w ''failed to delete VastVolumeReplication %s/%s: '' [oNamespace v, oName v] x)
       | None \<Rightarrow> Inr ()))"


section \<open>The commands\<close>

text \<open>The flags that name the object: exactly one of the two.\<close>

definition one_object :: "string \<Rightarrow> string \<Rightarrow> err option" where
  "one_object vscr vvr =
     (if vscr = [] \<and> vvr = [] then Some (Errorf ''must specify --vscr <name> or --vvr <name>'' [])
      else if vscr \<noteq> [] \<and> vvr \<noteq> [] then Some (Errorf ''--vscr and --vvr are mutually exclusive'' [])
      else None)"

definition kind_and_name :: "string \<Rightarrow> string \<Rightarrow> string \<times> string" where
  "kind_and_name vscr vvr = (if vvr \<noteq> [] then (''vvr'', vvr) else (''vscr'', vscr))"

definition manner_type :: "string \<Rightarrow> err + string" where
  "manner_type manner =
     (if manner = [] then Inr []
      else if manner = ''graceful'' then Inr FailoverTypeGraceful
      else if manner = ''ungraceful'' then Inr FailoverTypeUngraceful
      else Inl (Errorf ''--manner must be 'graceful' or 'ungraceful', got %q'' [manner]))"

text \<open>The list of candidates is allocated with one place less than the topology has classes, which panics when the
  topology is empty.\<close>

definition panic_makeslice :: err where
  "panic_makeslice = Sentinel ''runtime error: makeslice: cap out of range''"

definition validateFailoverPrimary :: "string \<Rightarrow> string \<Rightarrow> string list \<Rightarrow> err option" where
  "validateFailoverPrimary primary currentPrimary all =
     (if primary = currentPrimary then
        Some (Errorf ''cannot failover: %q is already the primary StorageClass'' [primary])
      else if primary \<in> set all then None
      else if all = [] then Some panic_makeslice
      else Some (Errorf (''StorageClass %q is not part of the replication topology'' @ newline @ ''available options: %s'')
             [primary, DisplayableList_String (filter (\<lambda>sc. sc \<noteq> currentPrimary) all)]))"

definition validate_failover :: "env \<Rightarrow> string \<Rightarrow> string \<Rightarrow> string \<Rightarrow> string \<Rightarrow> (err + unit) io" where
  "validate_failover e vscr vvr ns primary =
     (if vscr \<noteq> [] then bindE (found_VSCR e vscr ns) (\<lambda>obj.
        ret (optE (validateFailoverPrimary primary (PrimaryStorageClass (vscr_Spec obj)) (AllStorageClasses (vscr_Spec obj)))))
      else bindE (found_VVR e vvr ns) (\<lambda>obj.
        ret (optE (validateFailoverPrimary primary (v_PrimaryStorageClass (vvr_Spec obj)) (v_AllStorageClasses (vvr_Spec obj))))))"

record FailoverFlags =
  f_vscr :: string
  f_vvr :: string
  f_namespace :: string
  f_manner :: string
  f_primary :: string

definition failover_RunE :: "env \<Rightarrow> terminal \<Rightarrow> FailoverFlags \<Rightarrow> unit tstep" where
  "failover_RunE e t f =
     bindS (liftS (ret (optE (one_object (f_vscr f) (f_vvr f))))) (\<lambda>_.
     bindS (liftS (ret (manner_type (f_manner f)))) (\<lambda>failoverType.
     bindS (liftS (ret (optE (t_client t)))) (\<lambda>_.
     let (kind, name) = kind_and_name (f_vscr f) (f_vvr f);
         desc = (if f_manner f \<noteq> [] then f_manner f @ '' failover'' else ''primary switch'') in
     bindS (Printf [t_Cyan t arrow, '' Triggering '', desc, '' on '', kind, ''/'', t_Bold t name, '' ...'', newline]) (\<lambda>_.
     bindS (liftS (validate_failover e (f_vscr f) (f_vvr f) (f_namespace f) (f_primary f))) (\<lambda>_.
     bindS (liftS (wrapE (Errorf_w ''failover failed: '' [])
             (PatchReplicationSpec e (f_vscr f) (f_vvr f) (f_namespace f) failoverType (f_primary f)))) (\<lambda>_.
     Printf [t_Green t check_mark, '' Primary StorageClass will switch to '', t_Bold t (f_primary f),
       if failoverType \<noteq> [] then ''; failoverType set to '' @ failover_label t failoverType else [], newline]))))))"

definition sync_RunE :: "env \<Rightarrow> terminal \<Rightarrow> string \<Rightarrow> string \<Rightarrow> string \<Rightarrow> unit tstep" where
  "sync_RunE e t vscr vvr ns =
     bindS (liftS (ret (optE (one_object vscr vvr)))) (\<lambda>_.
     bindS (liftS (ret (optE (t_client t)))) (\<lambda>_.
     let (kind, name) = kind_and_name vscr vvr in
     bindS (Printf [t_Cyan t arrow, '' Requesting resync on '', kind, ''/'', t_Bold t name, '' ...'', newline]) (\<lambda>_.
     bindS (liftS (wrapE (Errorf_w ''sync failed: '' []) (PatchReplicationResync e vscr vvr ns))) (\<lambda>_.
     Printf [t_Green t check_mark, '' Resync action set on '', kind, ''/'', t_Bold t name, newline]))))"

text \<open>Lower-casing gives the letter y for two answers.\<close>

definition confirmed :: "string \<Rightarrow> bool" where
  "confirmed answer = (TrimSpace answer \<in> {''y'', ''Y''})"

definition delete_object :: "env \<Rightarrow> string \<Rightarrow> string \<Rightarrow> string \<Rightarrow> (err + unit) io" where
  "delete_object e vscr vvr ns =
     (if vscr \<noteq> [] then bindE (found_VSCR e vscr ns) (DeleteVastStorageClassReplication e)
      else bindE (found_VVR e vvr ns) (DeleteVastVolumeReplication e))"

definition delete_RunE :: "env \<Rightarrow> terminal \<Rightarrow> string \<Rightarrow> string \<Rightarrow> string \<Rightarrow> bool \<Rightarrow> unit tstep" where
  "delete_RunE e t vscr vvr ns yes =
     bindS (liftS (ret (optE (one_object vscr vvr)))) (\<lambda>_.
     bindS (liftS (ret (optE (t_client t)))) (\<lambda>_.
     let (kind, name) = kind_and_name vscr vvr in
     bindS (if yes then retS () else Printf [''Delete '', kind, ''/'', t_Bold t name, '' '',
             t_Yellow t ''(this triggers cleanup of all owned resources)'', ''? [y/N] '']) (\<lambda>_.
     if \<not> yes \<and> \<not> confirmed (t_answer t) then Printf [''Aborted.'', newline]
     else
     bindS (Printf [t_Cyan t arrow, '' Deleting '', kind, ''/'', t_Bold t name, '' ...'', newline]) (\<lambda>_.
     bindS (liftS (delete_object e vscr vvr ns)) (\<lambda>_.
     Printf [t_Green t check_mark, '' Deletion request accepted for '', kind, ''/'', t_Bold t name, newline,
       ''  The object will disappear once the controller finishes cleaning up owned resources.'', newline])))))"


section \<open>What a failover requests\<close>

text \<open>The patch is the object of a second read with the new primary and the failover type; the first read checked
  the new primary. Both changes pass the checks of the admission webhook on the spec when nothing changed the topology
  between the reads.\<close>

definition switched_VSCR :: "env \<Rightarrow> FailoverFlags \<Rightarrow> history \<Rightarrow> VSCR \<Rightarrow> VSCR \<Rightarrow> VSCR \<Rightarrow> bool" where
  "switched_VSCR e f h v0 v obj = (earlier (\<lambda>h. k_getVSCR (e_k8s e) h (f_namespace f) (f_vscr f) = Inr v0) h
     \<and> earlier (\<lambda>h. k_getVSCR (e_k8s e) h (f_namespace f) (f_vscr f) = Inr v) h
     \<and> f_primary f \<noteq> PrimaryStorageClass (vscr_Spec v0) \<and> f_primary f \<in> set (AllStorageClasses (vscr_Spec v0))
     \<and> (\<exists>ft. manner_type (f_manner f) = Inr ft \<and> obj = switch_VSCR ft (f_primary f) v))"

definition switched_VVR :: "env \<Rightarrow> FailoverFlags \<Rightarrow> history \<Rightarrow> VVR \<Rightarrow> VVR \<Rightarrow> VVR \<Rightarrow> bool" where
  "switched_VVR e f h v0 v obj = (earlier (\<lambda>h. k_getVVR (e_k8s e) h (f_namespace f) (f_vvr f) = Inr v0) h
     \<and> earlier (\<lambda>h. k_getVVR (e_k8s e) h (f_namespace f) (f_vvr f) = Inr v) h
     \<and> f_primary f \<noteq> v_PrimaryStorageClass (vvr_Spec v0) \<and> f_primary f \<in> set (v_AllStorageClasses (vvr_Spec v0))
     \<and> (\<exists>ft. manner_type (f_manner f) = Inr ft \<and> obj = switch_VVR ft (f_primary f) v))"

definition failover_request :: "env \<Rightarrow> FailoverFlags \<Rightarrow> history \<Rightarrow> call \<Rightarrow> bool" where
  "failover_request e f h c = (case c of
       PatchVSCR obj \<Rightarrow> \<exists>v0 v. switched_VSCR e f h v0 v obj
     | PatchVVR obj \<Rightarrow> \<exists>v0 v. switched_VVR e f h v0 v obj
     | c \<Rightarrow> kind_of c = KRead)"

lemma failover_request_read: "failover_request e f h (GetCall k ns n)"
  by (simp add: failover_request_def)

lemma validateFailoverPrimary_None:
  "validateFailoverPrimary p c all = None \<longleftrightarrow> p \<noteq> c \<and> p \<in> set all"
  by (auto simp: validateFailoverPrimary_def)

lemma optE_Inr: "optE r = Inr u \<longleftrightarrow> r = None"
  by (cases r) (simp_all add: optE_def)

text \<open>What the check of the new primary has seen.\<close>

definition failover_checked :: "env \<Rightarrow> FailoverFlags \<Rightarrow> history \<Rightarrow> bool" where
  "failover_checked e f h =
     (if f_vscr f \<noteq> [] then \<exists>v. earlier (\<lambda>h. k_getVSCR (e_k8s e) h (f_namespace f) (f_vscr f) = Inr v) h
        \<and> f_primary f \<noteq> PrimaryStorageClass (vscr_Spec v) \<and> f_primary f \<in> set (AllStorageClasses (vscr_Spec v))
      else \<exists>v. earlier (\<lambda>h. k_getVVR (e_k8s e) h (f_namespace f) (f_vvr f) = Inr v) h
        \<and> f_primary f \<noteq> v_PrimaryStorageClass (vvr_Spec v) \<and> f_primary f \<in> set (v_AllStorageClasses (vvr_Spec v)))"

lemmas found_defs = found_VSCR_def GetVastStorageClassReplication_def get_VSCR_def
  found_VVR_def GetVastVolumeReplication_def get_VVR_def

lemma validate_failover_wp:
  "wp (failover_request e f) (validate_failover e (f_vscr f) (f_vvr f) (f_namespace f) (f_primary f))
     (\<lambda>r w'. r = Inr () \<longrightarrow> failover_checked e f (hist w')) w"
  unfolding validate_failover_def found_defs
  by (intro wp_control(1) wp_bindE wp_wrapE wp_ask failover_request_read)
    (auto intro!: wp_ret simp: failover_checked_def optE_Inr validateFailoverPrimary_None split: sum.split;
      blast intro: earlier_append)+

lemma PatchReplicationSpec_wp:
  assumes "failover_checked e f (hist w)" "manner_type (f_manner f) = Inr ft"
  shows "wp (failover_request e f)
     (PatchReplicationSpec e (f_vscr f) (f_vvr f) (f_namespace f) ft (f_primary f)) (\<lambda>_ _. True) w"
  unfolding PatchReplicationSpec_def found_defs PatchCRD_def put_VSCR_def put_VVR_def
proof (intro wp_control(1) wp_bindE wp_wrapE wp_ask failover_request_read, goal_cases)
  case 1
  with assms show ?case
    by (auto intro!: wp_rules wp_ask split: sum.split simp: failover_request_def switched_VSCR_def failover_checked_def;
        blast intro: earlier_append earlier_longer)
next
  case 2
  with assms show ?case
    by (auto intro!: wp_rules wp_ask split: sum.split simp: failover_request_def switched_VVR_def failover_checked_def;
        blast intro: earlier_append earlier_longer)
next
  case 3
  show ?case by (rule wp_ret) simp
qed

lemma failover_RunE_wp: "wp (failover_request e f) (failover_RunE e t f out) (\<lambda>_ _. True) w"
  unfolding failover_RunE_def Printf_def Let_def
  by (auto intro!: wp_bindS wp_liftS wp_ret wp_modS wp_wrapE wp_mono[OF validate_failover_wp] wp_mono[OF PatchReplicationSpec_wp]
      split: sum.split prod.split)

lemma switch_VSCR_sel:
  "ProtectionTopology (vscr_Spec (switch_VSCR ft p v)) = ProtectionTopology (vscr_Spec v)"
  "PolicyTemplate (vscr_Spec (switch_VSCR ft p v)) = PolicyTemplate (vscr_Spec v)"
  "PVCRemap (vscr_Spec (switch_VSCR ft p v)) = PVCRemap (vscr_Spec v)"
  "SyncPVCPV (vscr_Spec (switch_VSCR ft p v)) = SyncPVCPV (vscr_Spec v)"
  "PrimaryStorageClass (vscr_Spec (switch_VSCR ft p v)) = (if p = [] then PrimaryStorageClass (vscr_Spec v) else p)"
  by (simp_all add: switch_VSCR_def Let_def)

lemma switch_VVR_sel:
  "v_VolumeName (vvr_Spec (switch_VVR ft p v)) = v_VolumeName (vvr_Spec v)"
  "v_ProtectionTopology (vvr_Spec (switch_VVR ft p v)) = v_ProtectionTopology (vvr_Spec v)"
  "v_PolicyTemplate (vvr_Spec (switch_VVR ft p v)) = v_PolicyTemplate (vvr_Spec v)"
  "v_PrimaryStorageClass (vvr_Spec (switch_VVR ft p v)) = (if p = [] then v_PrimaryStorageClass (vvr_Spec v) else p)"
  by (simp_all add: switch_VVR_def Let_def)

lemma switch_VSCR_valid:
  assumes "VSCRSpec_Validate (vscr_Spec v) = None" "p \<in> endpoints (ProtectionTopology (vscr_Spec v))"
  shows "VSCRSpec_Validate (vscr_Spec (switch_VSCR ft p v)) = None"
  using assms by (auto simp: VSCRSpec_Validate_def switch_VSCR_sel split: if_splits option.splits sum.splits
      dest!: validate_topology_ok)

lemma switch_VVR_valid:
  assumes "VVRSpec_Validate (vvr_Spec v) = None" "p \<in> endpoints (v_ProtectionTopology (vvr_Spec v))"
  shows "VVRSpec_Validate (vvr_Spec (switch_VVR ft p v)) = None"
  using assms by (auto simp: VVRSpec_Validate_def switch_VVR_sel Let_def split: if_splits option.splits sum.splits
      dest!: validate_topology_ok)

text \<open>The failover command only reads, until it patches the one object the flags name. The patch is that object as it
  was read, with the new primary and the failover type of the manner; the new primary was checked to be another class
  of the topology. If nobody changed the topology between the two reads, a valid spec stays valid and keeps its
  topology, so the spec checks of the admission webhook accept the patch.\<close>

theorem failover_patch_admissible:
  assumes "run_state (failover_RunE e t f out) w = (r, w')" "length (hist w) \<le> i" "i < length (hist w')"
  shows "case hist w' ! i of
      PatchVSCR obj \<Rightarrow> \<exists>v0 v. switched_VSCR e f (take i (hist w')) v0 v obj
        \<and> (ProtectionTopology (vscr_Spec v0) = ProtectionTopology (vscr_Spec v) \<and> VSCRSpec_Validate (vscr_Spec v) = None \<longrightarrow>
           VSCRSpec_Validate (vscr_Spec obj) = None \<and> ProtectionTopology (vscr_Spec obj) = ProtectionTopology (vscr_Spec v))
    | PatchVVR obj \<Rightarrow> \<exists>v0 v. switched_VVR e f (take i (hist w')) v0 v obj
        \<and> (v_ProtectionTopology (vvr_Spec v0) = v_ProtectionTopology (vvr_Spec v) \<and> VVRSpec_Validate (vvr_Spec v) = None \<longrightarrow>
           VVRSpec_Validate (vvr_Spec obj) = None \<and> v_ProtectionTopology (vvr_Spec obj) = v_ProtectionTopology (vvr_Spec v))
    | c \<Rightarrow> kind_of c = KRead"
proof -
  have VSCR: "ProtectionTopology (vscr_Spec v0) = ProtectionTopology (vscr_Spec v) \<and> VSCRSpec_Validate (vscr_Spec v) = None \<longrightarrow>
       VSCRSpec_Validate (vscr_Spec obj) = None \<and> ProtectionTopology (vscr_Spec obj) = ProtectionTopology (vscr_Spec v)"
    if "switched_VSCR e f h v0 v obj" for h v0 v obj
    using that by (auto simp: switched_VSCR_def switch_VSCR_sel vscr.classes_set intro: switch_VSCR_valid)
  have VVR: "v_ProtectionTopology (vvr_Spec v0) = v_ProtectionTopology (vvr_Spec v) \<and> VVRSpec_Validate (vvr_Spec v) = None \<longrightarrow>
       VVRSpec_Validate (vvr_Spec obj) = None \<and> v_ProtectionTopology (vvr_Spec obj) = v_ProtectionTopology (vvr_Spec v)"
    if "switched_VVR e f h v0 v obj" for h v0 v obj
    using that by (auto simp: switched_VVR_def switch_VVR_sel vvr.classes_set intro: switch_VVR_valid)
  have "failover_request e f (take i (hist w')) (hist w' ! i)"
    using wp_nth[OF failover_RunE_wp assms] .
  then show ?thesis unfolding failover_request_def using VSCR VVR by (simp split: call.splits) blast+
qed


section \<open>A concrete failover\<close>

definition plain_terminal :: terminal where
  "plain_terminal = \<lparr>t_client = None, t_answer = [], t_Green = id, t_Yellow = id, t_Cyan = id, t_Bold = id\<rparr>"

definition switch_flags :: FailoverFlags where
  "switch_flags = \<lparr>f_vscr = ''vs'', f_vvr = [], f_namespace = ''ns'', f_manner = ''graceful'', f_primary = ''c''\<rparr>"

abbreviation switch_run :: "((err + unit) \<times> string) \<times> world" where
  "switch_run \<equiv> run_state (failover_RunE flaky_env plain_terminal switch_flags []) start_world"

lemma flaky_env_reads:
  "k_getVSCR (e_k8s flaky_env) = (\<lambda>h ns n. Inr demo_vscr)" "k_putVSCR (e_k8s flaky_env) = (\<lambda>h c. Inr demo_vscr)"
  "e_prio flaky_env = (\<lambda>h k. 0)"
  by (simp_all add: flaky_env_def idle_simps)

lemma demo_vscr_spec: "vscr_Spec demo_vscr = example_vscr"
  by (simp add: demo_vscr_def)

lemma switch_run_hist:
  "hist (snd switch_run) = [GetCall ''VastStorageClassReplication'' ''ns'' ''vs'', GetCall ''VastStorageClassReplication'' ''ns'' ''vs'',
     PatchVSCR (switch_VSCR FailoverTypeGraceful ''c'' demo_vscr)]"
  by (simp add: failover_RunE_def switch_flags_def plain_terminal_def one_object_def optE_def manner_type_def kind_and_name_def
      Printf_def validate_failover_def found_defs flaky_env_reads demo_vscr_spec validateFailoverPrimary_def example_vscr_def
      AllStorageClasses_def topology_seen_def sorted_keys_def example_entry_def PatchReplicationSpec_def PatchCRD_def put_VSCR_def
      step_simps start_world_sel)

theorem failover_patch_admissible_witness:
  "VSCRSpec_Validate (vscr_Spec (switch_VSCR FailoverTypeGraceful ''c'' demo_vscr)) = None
     \<and> PrimaryStorageClass (vscr_Spec (switch_VSCR FailoverTypeGraceful ''c'' demo_vscr)) = ''c''"
  using failover_patch_admissible[of flaky_env plain_terminal switch_flags "[]" start_world "fst switch_run" "snd switch_run" 2]
  by (auto simp: switch_run_hist start_world_sel switched_VSCR_def earlier_def flaky_env_reads demo_vscr_spec example_vscr_valid
      switch_VSCR_sel)

end
