(* ===== verification/Mirrors.thy ===== *)
theory Mirrors
  imports Provisioner Triples
begin

text \<open>
  What the shared part of the provisioner does to claims and volumes of Kubernetes: where a mirror comes
  from, and when it goes. The callbacks of the concrete provisioners are known by a contract, the locale
  \<open>provisioner_contract\<close>, which the theories of the two provisioners discharge.
\<close>

section \<open>What the callbacks of a provisioner may do\<close>

text \<open>The callbacks read, and work on volumes, views and quotas of the cluster; they touch no claim and
  no volume of Kubernetes, and leave the content and its StorageClass alone.\<close>

definition backend_kinds :: "call_kind set" where
  "backend_kinds = {KRead, KNewRest, KVmsRead, KViewCreate, KViewDelete, KVolumeCreate, KVolumeDelete,
     KQuotaCreate, KQuotaDelete, KEvent, KSleep}"

lemma backend_mem [simp]:
  "KRead \<in> backend_kinds" "KNewRest \<in> backend_kinds" "KVmsRead \<in> backend_kinds" "KViewCreate \<in> backend_kinds"
  "KViewDelete \<in> backend_kinds" "KVolumeCreate \<in> backend_kinds" "KVolumeDelete \<in> backend_kinds"
  "KQuotaCreate \<in> backend_kinds" "KQuotaDelete \<in> backend_kinds" "KEvent \<in> backend_kinds" "KSleep \<in> backend_kinds"
  by (simp_all add: backend_kinds_def)

definition same_base :: "prov \<Rightarrow> prov \<Rightarrow> bool" where
  "same_base p p' = (p_rp p' = p_rp p \<and> p_sourceSc p' = p_sourceSc p \<and> p_sourceRest p' = p_sourceRest p)"

lemma same_base_refl: "same_base p p"
  by (simp add: same_base_def)

lemma same_base_trans: "same_base p p' \<Longrightarrow> same_base p' p'' \<Longrightarrow> same_base p p''"
  by (simp add: same_base_def)

text \<open>\<open>framed S m\<close>: the step issues only requests of the kinds \<open>S\<close> and keeps the base.\<close>

definition framed :: "call_kind set \<Rightarrow> 'a pstep \<Rightarrow> bool" where
  "framed S m = (\<forall>p. within S (m p) \<and> (\<forall>w. same_base p (snd (fst (run_state (m p) w)))))"

lemma framed_base: "framed S m \<Longrightarrow> run_state (m p) w = ((r, p'), w') \<Longrightarrow> same_base p p'"
  unfolding framed_def by (metis fst_conv snd_conv)

lemma framed_within: "framed S m \<Longrightarrow> within S (m p)"
  by (simp add: framed_def)

lemma wp_framed:
  assumes "framed S m" "allows S Q"
    and "\<And>r p' w'. same_base p p' \<Longrightarrow> prefix (hist w) (hist w') \<Longrightarrow> P (r, p') w'"
  shows "wp Q (m p) P w"
  by (rule wp_within[OF framed_within[OF assms(1)] assms(2)]) (auto intro: assms(3) dest: framed_base[OF assms(1)])

lemma framed_io: "within S m \<Longrightarrow> framed S (liftS m)" "within S m2 \<Longrightarrow> framed S (doS m2)"
  unfolding framed_def
  by (auto simp: run_liftS run_doS same_base_refl liftS_def doS_def split: prod.splits intro!: issues_rules)

lemma framed_pure:
  "framed S (retS a)" "framed S (failS x)" "(\<And>p. same_base p (g p)) \<Longrightarrow> framed S (modS g)" "framed S (errS errs)"
  unfolding framed_def errS_def
  by (auto simp: run_stepS same_base_refl retS_def failS_def modS_def run_simps split: option.splits intro!: issues_rules)

lemma framedI:
  "(\<And>p. within S (m p)) \<Longrightarrow> (\<And>p w r p' w'. run_state (m p) w = ((r, p'), w') \<Longrightarrow> same_base p p') \<Longrightarrow> framed S m"
  unfolding framed_def by (metis prod.collapse)

lemma framed_bindS:
  assumes "framed S m" "\<And>a. framed S (f a)"
  shows "framed S (bindS m f)"
proof (rule framedI)
  fix p w r p' w' assume run: "run_state (bindS m f p) w = ((r, p'), w')"
  obtain r1 p1 w1 where m: "run_state (m p) w = ((r1, p1), w1)" by (metis prod.collapse)
  show "same_base p p'"
    using run m framed_base[OF assms(1) m] by (cases r1) (auto simp: run_bindS dest: framed_base[OF assms(2)] same_base_trans)
qed (use assms in \<open>auto simp: framed_def intro!: issues_rules\<close>)

lemma framed_getS: "(\<And>p. framed S (f p)) \<Longrightarrow> framed S (getS f)"
  unfolding framed_def getS_def by blast

lemma framed_map_errS: "framed S m \<Longrightarrow> framed S (map_errS g m)"
  by (rule framedI) (auto simp: run_stepS dest: framed_base framed_within split: prod.splits sum.splits
      intro!: step_rules)

lemma framed_catchS: "framed S m \<Longrightarrow> framed S (catchS m)"
  by (rule framedI) (auto simp: catchS_def run_simps dest: framed_base framed_within split: prod.splits
      intro!: issues_rules)

lemma framed_collectS: "(\<And>x. framed S (f x)) \<Longrightarrow> framed S (collectS f xs errs)"
  by (induction xs arbitrary: errs) (auto intro!: framed_pure framed_bindS framed_catchS)

lemma framed_lazyCache:
  assumes "within S fetch" "\<And>c p. same_base p (upd c p)"
  shows "framed S (lazyCache_get sel upd k fetch)"
  unfolding framed_def lazyCache_get_def using assms
  by (auto simp: run_simps same_base_refl split: option.splits prod.splits sum.splits intro!: issues_rules)

lemma framed_control:
  "(b \<Longrightarrow> framed S s) \<Longrightarrow> (\<not> b \<Longrightarrow> framed S t) \<Longrightarrow> framed S (if b then s else t)"
  "(x = None \<Longrightarrow> framed S s) \<Longrightarrow> (\<And>a. x = Some a \<Longrightarrow> framed S (f1 a)) \<Longrightarrow>
     framed S (case x of None \<Rightarrow> s | Some a \<Rightarrow> f1 a)"
  "(\<And>a. y = Inl a \<Longrightarrow> framed S (f2 a)) \<Longrightarrow> (\<And>b. y = Inr b \<Longrightarrow> framed S (g2 b)) \<Longrightarrow>
     framed S (case y of Inl a \<Rightarrow> f2 a | Inr b \<Rightarrow> g2 b)"
  "(\<And>a b. z = (a, b) \<Longrightarrow> framed S (f3 a b)) \<Longrightarrow> framed S (case z of (a, b) \<Rightarrow> f3 a b)"
  by (auto split: option.split sum.split prod.split)

lemmas framed_rules = framed_pure framed_bindS framed_getS framed_map_errS framed_catchS framed_collectS
  framed_lazyCache framed_control framed_io

lemma within_parent [moves_intro]:
  "KRead \<in> S \<Longrightarrow> within S (sourceVSCR e rp)" "KRead \<in> S \<Longrightarrow> within S (sourceVVR e rp)"
  "KRead \<in> S \<Longrightarrow> within S (shouldRetainDestVolumes e rp)" "KRead \<in> S \<Longrightarrow> within S (managedPVForPVC e pvc)"
  "KRead \<in> S \<Longrightarrow> within S (sourcePairsFromSiblingVRCs e rp)" "KRead \<in> S \<Longrightarrow> within S (mirrorVolumeHandle e rp s sc)"
  unfolding sourceVSCR_def sourceVVR_def shouldRetainDestVolumes_def lookupDestVolReclaimPolicy_def
    managedPVForPVC_def sourcePairsFromSiblingVRCs_def sibling_pair_def mirrorVolumeHandle_def Let_def
  by (auto intro!: issues_rules within_reads within_storage_reads within_GetPVCandPV split: option.split)


section \<open>Where mirrors come from and when they go\<close>

definition source_read :: "env \<Rightarrow> history \<Rightarrow> PVC \<Rightarrow> PV \<Rightarrow> bool" where
  "source_read e h src pv = (\<not> is_managed src
     \<and> earlier (\<lambda>h. \<exists>ns n. k_getPVC (e_k8s e) h ns n = Inr src) h
     \<and> earlier (\<lambda>h. k_getPV (e_k8s e) h (pvc_VolumeName src) = Inr pv) h)"

text \<open>A claim that counts as no source: it or its volume is gone, or it is itself a mirror.\<close>

definition skipped :: "env \<Rightarrow> history \<Rightarrow> string \<Rightarrow> string \<Rightarrow> bool" where
  "skipped e h ns n =
     (earlier (\<lambda>h. case k_getPVC (e_k8s e) h ns n of Inl x \<Rightarrow> IsNotFound x | Inr c \<Rightarrow> is_managed c) h
      \<or> (\<exists>c. earlier (\<lambda>h. k_getPVC (e_k8s e) h ns n = Inr c) h
            \<and> earlier (\<lambda>h. \<exists>x. k_getPV (e_k8s e) h (pvc_VolumeName c) = Inl x \<and> IsNotFound x) h))"

lemma source_read_mono: "source_read e h src pv \<Longrightarrow> prefix h h' \<Longrightarrow> source_read e h' src pv"
  unfolding source_read_def by (auto elim: earlier_mono)

lemma skipped_mono: "skipped e h ns n \<Longrightarrow> prefix h h' \<Longrightarrow> skipped e h' ns n"
  unfolding skipped_def by (blast intro: earlier_mono)

lemma skipped_now:
  "k_getPVC (e_k8s e) h ns n = Inl x \<Longrightarrow> IsNotFound x \<Longrightarrow> skipped e (h @ cs) ns n"
  "k_getPVC (e_k8s e) h ns n = Inr c \<Longrightarrow> k_getPV (e_k8s e) (h @ [a]) (pvc_VolumeName c) = Inl x \<Longrightarrow> IsNotFound x \<Longrightarrow>
     skipped e (h @ a # cs) ns n"
  unfolding skipped_def
  by (rule disjI1, rule earlier_append, simp, rule disjI2, rule exI[of _ c],
      rule conjI, rule earlier_append, simp, rule earlier_append2, auto)

lemma skipped_managed:
  "earlier (\<lambda>h. k_getPVC (e_k8s e) h ns n = Inr c) h \<Longrightarrow> is_managed c \<Longrightarrow> skipped e h ns n"
  unfolding skipped_def by (rule disjI1, erule earlier_weaken) simp

lemma GetPVCandPV_wp:
  assumes "allows {KRead} Q"
  shows "wp Q (GetPVCandPV e n ns) (\<lambda>r w'. case r of
       Inl x \<Rightarrow> IsNotFound x \<longrightarrow> skipped e (hist w') ns n
     | Inr (c, pv) \<Rightarrow> earlier (\<lambda>h. k_getPVC (e_k8s e) h ns n = Inr c) (hist w')
         \<and> (\<forall>v. pv = Some v \<longrightarrow> earlier (\<lambda>h. k_getPV (e_k8s e) h (pvc_VolumeName c) = Inr v) (hist w'))) w"
  unfolding GetPVCandPV_def GetPVC_def GetPVFromPVC_def GetPV_def Let_def
  by (intro wp_rules wp_ask allowsD[OF assms])
    (auto split: sum.split if_splits intro!: wp_rules wp_ask allowsD[OF assms]
      simp: earlier_simps intro: skipped_now)

definition classified :: "env \<Rightarrow> history \<Rightarrow> (string \<times> string) list \<Rightarrow> VolumePair list \<Rightarrow> bool" where
  "classified e h claims acc = ((\<forall>(src, pv) \<in> set acc. source_read e h src pv)
     \<and> (\<forall>(ns, n) \<in> set claims. skipped e h ns n \<or> (\<exists>(src, pv) \<in> set acc. oName src = n)))"

lemma classified_mono: "classified e h claims acc \<Longrightarrow> prefix h h' \<Longrightarrow> classified e h' claims acc"
  unfolding classified_def by (fastforce intro: source_read_mono skipped_mono)

text \<open>What the API server promises of a claim it answers: it is the one asked for.\<close>

definition claims_keyed :: "env \<Rightarrow> bool" where
  "claims_keyed e = ((\<forall>h ns n c. k_getPVC (e_k8s e) h ns n = Inr c \<longrightarrow> okey c = (ns, n))
     \<and> (\<forall>h c d. k_putPVC (e_k8s e) h (UpdatePVC c) = Inr d \<longrightarrow> okey d = okey c))"

lemma claims_keyed_name:
  "claims_keyed e \<Longrightarrow> earlier (\<lambda>h. k_getPVC (e_k8s e) h ns n = Inr c) h \<Longrightarrow> oName c = n"
  unfolding claims_keyed_def earlier_def okey_def by blast

lemma classify_claim_wp:
  assumes "allows {KRead} Q" "claims_keyed e" "classified e (hist w) seen acc"
  shows "wp Q (classify_claim e acc x) (\<lambda>r w'. case r of Inl y \<Rightarrow> True | Inr acc' \<Rightarrow> classified e (hist w') (seen @ [x]) acc') w"
proof (cases x)
  case (Pair ns n)
  show ?thesis
    unfolding Pair classify_claim_def prod.case
  proof (intro wp_bind wp_ret wp_mono[OF GetPVCandPV_wp[OF assms(1)]], goal_cases)
    case (1 r w')
    from classified_mono[OF assms(3) 1(2)] have c: "classified e (hist w') seen acc" .
    show ?case
    proof (cases r)
      case (Inl y)
      with 1 c show ?thesis by (auto simp: classified_def)
    next
      case (Inr cp)
      obtain cl pv where cp: "cp = (cl, pv)" by force
      show ?thesis
        using 1 c Inr cp claims_keyed_name[OF assms(2)]
        by (cases pv) (auto simp: classified_def source_read_def intro: skipped_managed earlier_weaken)
    qed
  qed
qed

text \<open>The claims of the constellation, as it was listed.\<close>

definition constellation_read :: "env \<Rightarrow> VRC \<Rightarrow> history \<Rightarrow> VRC list \<Rightarrow> bool" where
  "constellation_read e rp h vrcs = (case constellation_label rp of
       None \<Rightarrow> vrcs = []
     | Some l \<Rightarrow> earlier (\<lambda>h. k_listVRC (e_k8s e) h (oNamespace rp) [l] = Inr vrcs) h)"

lemma constellation_read_mono:
  "constellation_read e rp h vrcs \<Longrightarrow> prefix h h' \<Longrightarrow> constellation_read e rp h' vrcs"
  unfolding constellation_read_def by (auto split: option.splits elim: earlier_mono)

lemma GetConstellationVRCs_wp:
  assumes "allows {KRead} Q"
  shows "wp Q (GetConstellationVRCs e rp) (\<lambda>r w'. \<forall>vrcs. r = Inr vrcs \<longrightarrow> constellation_read e rp (hist w') vrcs) w"
  unfolding GetConstellationVRCs_def ListVastReplicationContentsByLabelSelector_def constellation_read_def
  by (cases "constellation_label rp")
    (auto intro!: wp_rules wp_ask allowsD[OF assms] simp: earlier_simps split: sum.splits)

lemma classifyConstellationPVCs_wp:
  assumes "allows {KRead} Q" "claims_keyed e"
  shows "wp Q (classifyConstellationPVCs e rp) (\<lambda>r w'. \<forall>acc. r = Inr acc \<longrightarrow>
     (\<exists>vrcs. constellation_read e rp (hist w') vrcs \<and> classified e (hist w') (constellation_claims vrcs) acc)) w"
  unfolding classifyConstellationPVCs_def
proof (intro wp_rules wp_mono[OF GetConstellationVRCs_wp[OF assms(1)]], goal_cases)
  case (1 r w')
  show ?case
  proof (cases r)
    case (Inr vrcs)
    with 1 have c: "constellation_read e rp (hist w') vrcs" by simp
    have "wp Q (foldE (classify_claim e) [] (constellation_claims vrcs)) (\<lambda>r w''. \<forall>acc. r = Inr acc \<longrightarrow>
       constellation_read e rp (hist w'') vrcs \<and> classified e (hist w'') (constellation_claims vrcs) acc) w'"
      by (rule wp_foldE_seen[where I = "\<lambda>seen acc w. constellation_read e rp (hist w) vrcs \<and> classified e (hist w) seen acc"])
        (use c in \<open>auto simp: classified_def[of _ _ "[]" "[]"] split: sum.splits
          intro!: wp_mono[OF wp_prefix[OF classify_claim_wp[OF assms]]] intro: constellation_read_mono\<close>)
    then show ?thesis using Inr by (auto elim!: wp_mono)
  qed simp
qed

definition absent_claim :: "env \<Rightarrow> history \<Rightarrow> string \<times> string \<Rightarrow> bool" where
  "absent_claim e h k = earlier (\<lambda>h. \<exists>x. k_getPVC (e_k8s e) h (fst k) (snd k) = Inl x \<and> IsNotFound x) h"

definition absent_volume :: "env \<Rightarrow> history \<Rightarrow> string \<Rightarrow> bool" where
  "absent_volume e h n = earlier (\<lambda>h. \<exists>x. k_getPV (e_k8s e) h n = Inl x \<and> IsNotFound x) h"

text \<open>The reclaim policy of the parent was read, and it is not to retain.\<close>

definition not_retained :: "env \<Rightarrow> VRC \<Rightarrow> history \<Rightarrow> bool" where
  "not_retained e rp h =
     (earlier (\<lambda>h. \<exists>v. k_getVSCR (e_k8s e) h (ParentNamespace (oLabels rp) LabelSourceVSCRNamespace (oNamespace rp))
          (lookup_str (oLabels rp) LabelSourceVSCR) = Inr v
        \<and> or_retain (DestVolReclaimPolicy (vscr_Spec v)) \<noteq> DestVolReclaimPolicyRetain) h
      \<or> earlier (\<lambda>h. \<exists>v. k_getVVR (e_k8s e) h (ParentNamespace (oLabels rp) LabelSourceVVRNamespace (oNamespace rp))
          (lookup_str (oLabels rp) LabelSourceVVR) = Inr v
        \<and> or_retain (v_DestVolReclaimPolicy (vvr_Spec v)) \<noteq> DestVolReclaimPolicyRetain) h)"

lemma not_retained_mono: "not_retained e rp h \<Longrightarrow> prefix h h' \<Longrightarrow> not_retained e rp h'"
  unfolding not_retained_def by (blast intro: earlier_mono)

text \<open>No claim of the constellation with this name is a source of another StorageClass.\<close>

definition source_dropped :: "env \<Rightarrow> VRC \<Rightarrow> history \<Rightarrow> string \<Rightarrow> bool" where
  "source_dropped e rp h s = (\<exists>vrcs. constellation_read e rp h vrcs
     \<and> (\<forall>(ns, n) \<in> set (constellation_claims vrcs). n = s \<longrightarrow> skipped e h ns n
          \<or> (\<exists>src pv. source_read e h src pv \<and> oName src = n \<and> own_class rp (src, pv))))"

lemma source_dropped_mono: "source_dropped e rp h s \<Longrightarrow> prefix h h' \<Longrightarrow> source_dropped e rp h' s"
  unfolding source_dropped_def case_prod_beta
  by (elim exE conjE, intro exI conjI, erule constellation_read_mono, assumption)
    (metis skipped_mono source_read_mono)

definition orphaned :: "env \<Rightarrow> VRC \<Rightarrow> StorageClass \<Rightarrow> history \<Rightarrow> (string \<Rightarrow> bool) \<Rightarrow> string \<times> string \<Rightarrow> bool" where
  "orphaned e rp sc h dropped k = (\<exists>pvc. okey pvc = k \<and> dropped (lookup_str (oLabels pvc) LabelSourcePVC)
     \<and> earlier (\<lambda>h. \<exists>pvcs. s_listPVC (e_storage e) h (oNamespace rp) (mirror_selector rp sc) = Inr pvcs \<and> pvc \<in> set pvcs) h
     \<and> not_retained e rp h)"

definition orphan_kinds :: "call_kind set" where
  "orphan_kinds = {KRead, KUpdatePVC, KPatchPVC, KPatchPV, KEvent}"

lemma orphan_mem [simp]: "KRead \<in> orphan_kinds" "KUpdatePVC \<in> orphan_kinds" "KPatchPVC \<in> orphan_kinds"
  "KPatchPV \<in> orphan_kinds" "KEvent \<in> orphan_kinds" "KDelete \<notin> orphan_kinds"
  by (simp_all add: orphan_kinds_def)

text \<open>What provisioning may ask of claims and volumes: to create the mirror of a source of another class
  that is missing, and to delete a mirror whose source is gone.\<close>

definition mirror_request :: "env \<Rightarrow> VRC \<Rightarrow> StorageClass \<Rightarrow> history \<Rightarrow> call \<Rightarrow> bool" where
  "mirror_request e rp sc h c = (case c of
       CreatePVC m \<Rightarrow> \<exists>src pv v. vrc_SyncPVCPV rp \<and> source_read e h src pv \<and> \<not> own_class rp (src, pv)
         \<and> m = mirror_PVC (oName m) v rp src pv sc \<and> absent_claim e h (okey m)
     | CreatePV m \<Rightarrow> \<exists>src pv hdl dr ref. vrc_SyncPVCPV rp \<and> source_read e h src pv \<and> \<not> own_class rp (src, pv)
         \<and> m = mirror_PV (oName m) hdl dr ref src pv sc \<and> absent_volume e h (oName m)
     | DeleteCall kind ns n \<Rightarrow> kind = ''PersistentVolumeClaim'' \<and> orphaned e rp sc h (source_dropped e rp h) (ns, n)
     | _ \<Rightarrow> kind_of c \<in> backend_kinds \<union> orphan_kinds)"

lemma mirror_request_other: "allows (backend_kinds \<union> orphan_kinds) (mirror_request e rp sc)"
  unfolding allows_def mirror_request_def by (auto simp: backend_kinds_def orphan_kinds_def split: call.splits)

lemma mirror_names:
  "oName (mirror_PVC n v rp src pv sc) = n" "oNamespace (mirror_PVC n v rp src pv sc) = oNamespace src"
  "oName (mirror_PV n hdl dr ref src pv sc) = n"
  by (simp_all add: mirror_PVC_def mirror_PV_def pvc_builder_defs pv_builder_defs new_meta_def ObjectMeta.defs Let_def split: option.split)

lemma mirror_requestI:
  "vrc_SyncPVCPV rp \<Longrightarrow> source_read e h src pv \<Longrightarrow> \<not> own_class rp (src, pv) \<Longrightarrow> absent_volume e h n \<Longrightarrow>
     mirror_request e rp sc h (CreatePV (mirror_PV n hdl dr ref src pv sc))"
  "vrc_SyncPVCPV rp \<Longrightarrow> source_read e h src pv \<Longrightarrow> \<not> own_class rp (src, pv) \<Longrightarrow>
     absent_claim e h (oNamespace src, n) \<Longrightarrow> mirror_request e rp sc h (CreatePVC (mirror_PVC n v rp src pv sc))"
  by (simp_all add: mirror_request_def mirror_names okey_def) blast+

lemma absent_now:
  "k_getPVC (e_k8s e) h ns n = Inl x \<Longrightarrow> IsNotFound x \<Longrightarrow> absent_claim e (h @ cs) (ns, n)"
  "k_getPV (e_k8s e) h n = Inl x \<Longrightarrow> IsNotFound x \<Longrightarrow> absent_volume e (h @ cs) n"
  by (simp_all add: absent_claim_def absent_volume_def earlier_append)

lemma Ensure_wp:
  assumes "allows {KRead} Q"
  shows "(\<And>h. prefix (hist w) h \<Longrightarrow> absent_claim e h (oNamespace c, oName c) \<Longrightarrow> Q h (CreatePVC c)) \<Longrightarrow>
      wp Q (EnsurePVC e c) (\<lambda>_ _. True) w"
    and "(\<And>h. prefix (hist w) h \<Longrightarrow> absent_volume e h (oName v) \<Longrightarrow> Q h (CreatePV v)) \<Longrightarrow>
      wp Q (EnsurePV e v) (\<lambda>_ _. True) w"
proof -
  have rd: "Q h (GetCall kind ns n)" for h kind ns n using allowsD[OF assms] by simp
  show "wp Q (EnsurePVC e c) (\<lambda>_ _. True) w"
    if "\<And>h. prefix (hist w) h \<Longrightarrow> absent_claim e h (oNamespace c, oName c) \<Longrightarrow> Q h (CreatePVC c)"
    unfolding EnsurePVC_def ensure_object_def GetPVC_def k8s_write_def
    by (intro wp_rules wp_ask rd that TrueI) (simp_all add: absent_now)
  show "wp Q (EnsurePV e v) (\<lambda>_ _. True) w"
    if "\<And>h. prefix (hist w) h \<Longrightarrow> absent_volume e h (oName v) \<Longrightarrow> Q h (CreatePV v)"
    unfolding EnsurePV_def ensure_object_def GetPV_def k8s_write_def
    by (intro wp_rules wp_ask rd that TrueI) (simp_all add: absent_now)
qed

lemma ensureMirrorPVCPV_wp:
  assumes "source_read e (hist w) src pv" "\<not> own_class rp (src, pv)" "vrc_SyncPVCPV rp"
  shows "wp (mirror_request e rp sc) (ensureMirrorPVCPV e rp src pv sc) (\<lambda>_ _. True) w"
proof -
  have reads: "allows {KRead} (mirror_request e rp sc)" and ev: "\<And>h b r s. mirror_request e rp sc h (EventCall b r s)"
    by (rule allows_mono[OF mirror_request_other]) (auto simp: mirror_request_def)
  note ok = mirror_requestI[OF assms(3) source_read_mono[OF assms(1)] assms(2)]
  have finish: "wp (mirror_request e rp sc)
      (bindE (wrapE g1 (EnsurePV e (mirror_PV n hdl dr ref src pv sc))) (\<lambda>a.
       bindE (wrapE g2 (EnsurePVC e (mirror_PVC m n rp src pv sc))) (k a))) (\<lambda>_ _. True) v"
    if "prefix (hist w) (hist v)" "\<And>a b u. wp (mirror_request e rp sc) (k a b) (\<lambda>_ _. True) u" for v g1 g2 n hdl dr ref m k
  proof -
    have c: "wp (mirror_request e rp sc) (EnsurePVC e (mirror_PVC m n rp src pv sc)) (\<lambda>_ _. True) u"
      if "prefix (hist w) (hist u)" for u
      by (rule Ensure_wp(1)[OF reads]) (auto simp: mirror_names intro!: ok(2) intro: prefix_order.trans[OF that])
    have "wp (mirror_request e rp sc) (EnsurePV e (mirror_PV n hdl dr ref src pv sc)) (\<lambda>_ _. True) v"
      by (rule Ensure_wp(2)[OF reads]) (auto simp: mirror_names intro!: ok(1) intro: prefix_order.trans[OF that(1)])
    then show ?thesis
      by (intro wp_bindE wp_wrapE, elim wp_mono)
        (auto split: sum.split intro!: wp_bindE wp_wrapE wp_mono[OF c] that(2) prefix_order.trans[OF that(1)])
  qed
  show ?thesis
    unfolding ensureMirrorPVCPV_def Let_def
    by (intro wp_control wp_ret wp_bindE_within[OF _ reads] finish TrueI issues_rules within_names within_parent wp_bind wp_emit ev)
      (auto intro: prefix_order.trans)
qed

lemma shouldRetainDestVolumes_wp:
  assumes "allows {KRead} Q"
  shows "wp Q (shouldRetainDestVolumes e rp) (\<lambda>r w'. r = Inr False \<longrightarrow> not_retained e rp (hist w')) w"
proof -
  have rd: "Q h (GetCall kind ns n)" for h kind ns n using allowsD[OF assms] by simp
  show ?thesis
    unfolding shouldRetainDestVolumes_def lookupDestVolReclaimPolicy_def sourceVSCR_def sourceVVR_def Let_def
      GetVastStorageClassReplication_def get_VSCR_def GetVastVolumeReplication_def get_VVR_def
    by (intro wp_rules wp_ask rd)
      (auto split: sum.split option.split intro!: wp_rules wp_ask rd simp: not_retained_def earlier_simps)
qed

lemma delete_orphan_wp:
  assumes "allows orphan_kinds Q" "claims_keyed e"
    and "\<And>h. prefix (hist w) h \<Longrightarrow> Q h (DeleteCall ''PersistentVolumeClaim'' (oNamespace pvc) (oName pvc))"
  shows "wp Q (delete_orphan e errs pvc) (\<lambda>_ _. True) w"
proof -
  have Q: "kind_of c \<in> orphan_kinds \<Longrightarrow> Q h c" for h c
    using assms(1) by (auto simp: allows_def)
  have fin: "wp Q (RemoveFinalizer e (get_PVC e) (put_PVC e UpdatePVC) FinalizerPVC pvc) P v"
    if "\<And>r c v'. okey c = okey pvc \<Longrightarrow> prefix (hist v) (hist v') \<Longrightarrow> P (r, c) v'" for P v
  proof -
    have "wp Q (RemoveFinalizer e (get_PVC e) (put_PVC e UpdatePVC) FinalizerPVC pvc) (\<lambda>(r, c) _. okey c = okey pvc) v"
      using assms(2) by (intro wp_RemoveFinalizer[where k = "okey pvc"])
        (auto simp: get_PVC_def GetPVC_def put_PVC_def claims_keyed_def intro!: wp_ask Q split: sum.split)
    from wp_prefix[OF this] show ?thesis by (rule wp_mono) (auto intro: that)
  qed
  have used: "wp Q (IsPVCUsedByPod e pvc) P v" if "\<And>r v'. prefix (hist v) (hist v') \<Longrightarrow> P r v'" for P v
    by (rule wp_within[OF within_storage_reads(3)[where S = "{KRead}"]]) (auto intro: that allows_mono[OF assms(1)])
  have ev: "Q h (EventCall b r s)" for h b r s by (simp add: Q)
  show ?thesis
    unfolding delete_orphan_def k8s_write_def
    by (intro wp_bindE used)
      (auto split: sum.split option.split intro!: wp_rules wp_ask fin ev assms(3) simp: okey_def
        dest!: append_prefixD intro: prefix_order.trans)
qed

lemma within_detach:
  "KRead \<in> S \<Longrightarrow> KUpdatePVC \<in> S \<Longrightarrow> KPatchPVC \<in> S \<Longrightarrow> KPatchPV \<in> S \<Longrightarrow> within S (detachMirrorFromReplication e pvc)"
  unfolding detachMirrorFromReplication_def
  by (auto intro!: issues_rules within_parent within_finalizers within_storage_reads within_put
      within_PatchPVCLabels within_storage_writes split: option.split)

lemma cleanReplicaMirrorOrphans_wp:
  assumes "allows orphan_kinds Q" "claims_keyed e"
    and del: "\<And>h ns n. prefix (hist w) h \<Longrightarrow> orphaned e rp sc h (\<lambda>s. s \<notin> set keep) (ns, n) \<Longrightarrow>
      Q h (DeleteCall ''PersistentVolumeClaim'' ns n)"
  shows "wp Q (cleanReplicaMirrorOrphans e rp rp sc keep) (\<lambda>_ _. True) w"
proof -
  have reads: "allows {KRead} Q" by (rule allows_mono[OF assms(1)]) auto
  let ?listed = "\<lambda>h pvcs. earlier (\<lambda>h. s_listPVC (e_storage e) h (oNamespace rp) (mirror_selector rp sc) = Inr pvcs) h"
  have orphan: "wp Q (clean_orphan e retain keep errs pvc) (\<lambda>_ _. True) v"
    if "prefix (hist w) (hist v)" "retain \<or> not_retained e rp (hist v)" "?listed (hist v) pvcs" "pvc \<in> set pvcs"
    for v errs pvc pvcs retain
  proof -
    have "orphaned e rp sc h (\<lambda>s. s \<notin> set keep) (oNamespace pvc, oName pvc)"
      if "prefix (hist v) h" "\<not> retain" "lookup_str (oLabels pvc) LabelSourcePVC \<notin> set keep" for h
      unfolding orphaned_def using that \<open>pvc \<in> set pvcs\<close> not_retained_mono[OF _ that(1)] \<open>retain \<or> _\<close>
        earlier_weaken[OF earlier_mono[OF \<open>?listed (hist v) pvcs\<close> that(1)]]
      by (intro exI[of _ pvc]) (auto simp: okey_def)
    note o = this
    have "wp Q (detachMirrorFromReplication e pvc) (\<lambda>_ _. True) v"
      by (rule wp_within[OF within_detach assms(1)]) auto
    then show ?thesis
      unfolding clean_orphan_def
      by (intro wp_control wp_ret wp_bind TrueI delete_orphan_wp[OF assms(1,2)] del o)
        (auto elim!: wp_mono intro!: wp_ret intro: prefix_order.trans[OF that(1)])
  qed
  have "wp Q (ListPVCsByLabelSelector e (oNamespace rp) (mirror_selector rp sc))
      (\<lambda>r v'. \<forall>pvcs. r = Inr pvcs \<longrightarrow> ?listed (hist v') pvcs) v" for v
    unfolding ListPVCsByLabelSelector_def by (auto intro!: wp_ask allowsD[OF reads] simp: earlier_simps)
  note list = wp_prefix[OF this]
  show ?thesis
    unfolding cleanReplicaMirrorOrphans_def
  proof (intro wp_bindE wp_mono[OF wp_prefix[OF shouldRetainDestVolumes_wp[OF reads]]], goal_cases)
    case (1 r v)
    show ?case
    proof (cases r)
      case (Inr retain)
      with 1 have ret: "retain \<or> not_retained e rp (hist v)" "prefix (hist w) (hist v)" by auto
      have loop: "wp Q (foldE (clean_orphan e retain keep) [] pvcs) (\<lambda>_ _. True) u"
        if "prefix (hist v) (hist u)" "?listed (hist u) pvcs" for u pvcs
        by (rule wp_foldE[where I = "\<lambda>_ u'. prefix (hist u) (hist u')"])
          (use that ret in \<open>auto intro!: wp_mono[OF wp_prefix[OF orphan[of _ _ pvcs]]] split: sum.split
             intro: prefix_order.trans not_retained_mono earlier_mono\<close>)
      show ?thesis
        unfolding Inr sum.case
        by (intro wp_bindE wp_wrapE wp_mono[OF list])
          (auto split: sum.split intro!: wp_bindE wp_ret wp_mono[OF loop])
    qed simp
  qed
qed


section \<open>Cleaning up\<close>

text \<open>A version of a content that the API server answered.\<close>

definition content_version :: "env \<Rightarrow> history \<Rightarrow> VRC \<Rightarrow> bool" where
  "content_version e h rp = (earlier (\<lambda>h. \<exists>ns n. k_getVRC (e_k8s e) h ns n = Inr rp) h
     \<or> earlier (\<lambda>h. \<exists>c. k_putVRC (e_k8s e) h c = Inr rp) h)"

lemma content_version_mono: "content_version e h rp \<Longrightarrow> prefix h h' \<Longrightarrow> content_version e h' rp"
  unfolding content_version_def by (blast intro: earlier_mono)

lemma content_version_now:
  "k_getVRC (e_k8s e) h ns n = Inr rp \<Longrightarrow> content_version e (h @ cs) rp"
  "k_putVRC (e_k8s e) h c = Inr rp \<Longrightarrow> content_version e (h @ cs) rp"
  unfolding content_version_def by (blast intro: earlier_append)+

definition clean_kinds :: "call_kind set" where
  "clean_kinds = backend_kinds \<union> orphan_kinds \<union> {KPpathDisable, KPpathDelete, KSnapshotDelete, KPatchVRC}"

lemma clean_mem [simp]:
  "KPpathDisable \<in> clean_kinds" "KPpathDelete \<in> clean_kinds" "KSnapshotDelete \<in> clean_kinds" "KPatchVRC \<in> clean_kinds"
  "k \<in> backend_kinds \<Longrightarrow> k \<in> clean_kinds" "k \<in> orphan_kinds \<Longrightarrow> k \<in> clean_kinds"
  by (simp_all add: clean_kinds_def)

lemma annotate_wp:
  assumes "allows {KRead, KPatchVRC} Q"
  shows "wp Q (SetAnnotationAndUpdate e (get_VRC e) (put_VRC e PatchVRC) key val rp)
     (\<lambda>(r, rp') w'. r = None \<longrightarrow> content_version e (hist w') rp') w"
proof -
  have "wp Q (PatchWithRetry e (get_VRC e) (put_VRC e PatchVRC) (SetAnnotation key val) rp)
     (\<lambda>(r, rp') w'. r = None \<longrightarrow> content_version e (hist w') rp') w"
    by (rule wp_PatchWithRetry) (auto simp: get_VRC_def GetVastReplicationContent_def put_VRC_def
        intro!: wp_ask wp_wrapE content_version_now allowsD[OF assms])
  then show ?thesis
    unfolding SetAnnotationAndUpdate_def by (intro wp_bind, elim wp_mono) (auto split: option.splits intro!: wp_ret)
qed

lemma waitAfterPpathDisable_wp:
  assumes "allows clean_kinds Q" "content_version e (hist w) (p_rp p)"
  shows "wp Q (waitAfterPpathDisable e p) (\<lambda>(r, p') w'. (\<forall>a. r = Inr a \<longrightarrow> content_version e (hist w') (p_rp p'))
     \<and> p_sourceSc p' = p_sourceSc p \<and> p_sourceRest p' = p_sourceRest p) w"
proof -
  have slp: "Q h (SleepCall d)" for h d by (rule allowsD[OF assms(1)]) simp
  have an: "allows {KRead, KPatchVRC} Q" by (rule allows_mono[OF assms(1)]) auto
  show ?thesis
    unfolding waitAfterPpathDisable_def
    by (intro wp_getS wp_step_control wp_bindS wp_doS wp_retS wp_sleep)
      (auto simp: assms(2) slp split: option.splits intro!: wp_bind wp_ret wp_mono[OF annotate_wp[OF an]])
qed

lemma within_clean_path:
  "KVmsRead \<in> S \<Longrightarrow> KPpathDisable \<in> S \<Longrightarrow> KEvent \<in> S \<Longrightarrow> within S (disable_ppath e rest pp)"
  "KVmsRead \<in> S \<Longrightarrow> KSnapshotDelete \<in> S \<Longrightarrow> KEvent \<in> S \<Longrightarrow> within S (deleteSnapshots e rest path names)"
  "KVmsRead \<in> S \<Longrightarrow> KPpathDelete \<in> S \<Longrightarrow> KEvent \<in> S \<Longrightarrow> KSleep \<in> S \<Longrightarrow> within S (remove_ppath e rest pp)"
  unfolding disable_ppath_def deleteSnapshots_def delete_snapshot_def remove_ppath_def Let_def
  by (auto intro!: issues_rules within_vms within_WaitForResource split: option.split)

lemma CleanKubernetesResources_wp:
  assumes "allows {KRead, KEvent} Q" "\<And>h kind ns n. kind \<noteq> ''PersistentVolumeClaim'' \<Longrightarrow> Q h (DeleteCall kind ns n)"
  shows "wp Q (CleanKubernetesResources e rp) (\<lambda>_ _. True) w"
proof -
  have rd: "Q h (ListCall kind ns sel)" and ev: "Q h (EventCall b r s)" for h kind ns sel b r s
    by (auto intro: allowsD[OF assms(1)])
  show ?thesis
    unfolding CleanKubernetesResources_def cleanVolumeReplication_def cleanVolumeGroupReplication_def Let_def
      ListVolumeReplicationsByLabelSelector_def ListVolumeGroupReplicationsByLabelSelector_def k8s_write_def
    by (intro wp_rules wp_ask rd ev assms(2) TrueI)
      (auto split: sum.split option.split intro!: wp_rules wp_ask rd ev assms(2) wp_forE[where I = "\<lambda>_. True"])
qed

text \<open>What the clean-up needs of the request policy from the world \<open>w\<close> on, and the state it keeps.\<close>

definition clean_allowed :: "env \<Rightarrow> StorageClass \<Rightarrow> world \<Rightarrow> (history \<Rightarrow> call \<Rightarrow> bool) \<Rightarrow> bool" where
  "clean_allowed e sc w Q = (allows clean_kinds Q
     \<and> (\<forall>h rp ns n. prefix (hist w) h \<longrightarrow> content_version e h rp \<longrightarrow> orphaned e rp sc h (\<lambda>_. True) (ns, n) \<longrightarrow>
          Q h (DeleteCall ''PersistentVolumeClaim'' ns n))
     \<and> (\<forall>h kind ns n. kind \<noteq> ''PersistentVolumeClaim'' \<longrightarrow> Q h (DeleteCall kind ns n)))"

lemma clean_allowedD:
  assumes "clean_allowed e sc w Q"
  shows "allows clean_kinds Q" "allows backend_kinds Q" "allows orphan_kinds Q" "allows {KRead, KEvent} Q"
  using assms by (auto simp: clean_allowed_def elim!: allows_mono)

definition cleaning :: "env \<Rightarrow> prov \<Rightarrow> world \<Rightarrow> prov \<Rightarrow> world \<Rightarrow> bool" where
  "cleaning e p w p' w' = (content_version e (hist w') (p_rp p') \<and> p_sourceSc p' = p_sourceSc p \<and> prefix (hist w) (hist w'))"

lemma cleaning_step:
  "cleaning e p w p' w' \<Longrightarrow> same_base p' p'' \<Longrightarrow> prefix (hist w') (hist w'') \<Longrightarrow> cleaning e p w p'' w''"
  by (auto simp: cleaning_def same_base_def intro: content_version_mono prefix_order.trans)

abbreviation cleaned_version :: "env \<Rightarrow> (err + unit) \<times> prov \<Rightarrow> world \<Rightarrow> bool" where
  "cleaned_version e \<equiv> \<lambda>(r, p') w'. r = Inr () \<longrightarrow> content_version e (hist w') (p_rp p')"


section \<open>The interface of a provisioner\<close>



lemma within_computeSourceToDelete: "KRead \<in> S \<Longrightarrow> within S (computeSourceToDelete e rp)"
  unfolding computeSourceToDelete_def source_to_delete_def by (auto intro!: issues_rules within_reads)

text \<open>The interface \<^verbatim>\<open>Provisioner\<close> of the source, as the shared part relies on it.\<close>

locale provisioner_contract =
  fixes self :: provisioner
  assumes VolumeKeys_framed: "framed backend_kinds (VolumeKeys self e sc)"
    and ProvisionVolumeCb_framed: "framed backend_kinds (ProvisionVolumeCb self e vrc rest sc)"
    and CleanVolumeCb_framed: "framed backend_kinds (CleanVolumeCb self e vrc rest sc)"
begin

lemma hasVolume_framed: "framed backend_kinds (hasVolume self e sc vol)"
  unfolding hasVolume_def by (intro framed_rules VolumeKeys_framed)

lemma mirror_loop_wp:
  assumes "\<forall>(src, pv) \<in> set pairs. source_read e (hist w) src pv \<and> \<not> own_class (p_rp p) (src, pv)" "vrc_SyncPVCPV (p_rp p)"
  shows "wp (mirror_request e (p_rp p) sc) (mirror_loop self e sc pairs errs p) (\<lambda>(r, p') _. same_base p p') w"
  using assms
proof (induction pairs arbitrary: errs p w)
  case Nil
  then show ?case by (auto intro!: wp_errS simp: same_base_refl)
next
  case (Cons pair pairs)
  obtain src pv where pair: "pair = (src, pv)" by force
  let ?Q = "mirror_request e (p_rp p) sc"
  have backend: "allows backend_kinds ?Q"
    by (rule allows_mono[OF mirror_request_other]) (auto simp: backend_kinds_def)
  have ev: "?Q h (EventCall b r s)" for h b r s by (simp add: mirror_request_def)
  have rest: "wp ?Q (mirror_loop self e sc pairs errs' p') (\<lambda>(r, p'') _. same_base p p'') w'"
    if "same_base p p'" "prefix (hist w) (hist w')" for errs' p' w'
  proof -
    have "wp (mirror_request e (p_rp p') sc) (mirror_loop self e sc pairs errs' p') (\<lambda>(r, p'') _. same_base p' p'') w'"
      by (rule Cons.IH) (use Cons.prems that in \<open>auto simp: same_base_def intro: source_read_mono\<close>)
    then have "wp ?Q (mirror_loop self e sc pairs errs' p') (\<lambda>(r, p'') _. same_base p' p'') w'"
      using that(1) by (simp add: same_base_def)
    then show ?thesis by (rule wp_mono) (auto intro: same_base_trans that(1))
  qed
  have mirror: "wp ?Q (ensureMirrorPVCPV e (p_rp p) src pv sc) P w'"
    if "prefix (hist w) (hist w')" "\<And>r w''. prefix (hist w) (hist w'') \<Longrightarrow> P r w''" for P w'
    using Cons.prems pair
    by (intro wp_mono[OF wp_prefix[OF ensureMirrorPVCPV_wp]])
      (auto intro: that(2) prefix_order.trans[OF that(1)] source_read_mono[OF _ that(1)])
  show ?case
    unfolding pair mirror_loop.simps Let_def
    by (intro wp_getS wp_step_control wp_bindS wp_doS mirror wp_failS)
      (auto simp: same_base_refl split: sum.split
        intro!: wp_stepS wp_emit ev wp_framed[OF hasVolume_framed backend] mirror rest)
qed

lemma sync_mirrors_wp:
  assumes "claims_keyed e" "constellation_read e (p_rp p) (hist w) vrcs"
    and "classified e (hist w) (constellation_claims vrcs) unmanaged"
  shows "wp (mirror_request e (p_rp p) (p_sourceSc p)) (sync_mirrors self e unmanaged p) (\<lambda>_ _. True) w"
proof -
  let ?rp = "p_rp p" and ?sc = "p_sourceSc p" and ?Q = "mirror_request e (p_rp p) (p_sourceSc p)"
  let ?other = "filter (\<lambda>pair. \<not> own_class ?rp pair) unmanaged"
  have ensure: "wp ?Q (mirror_loop self e ?sc ?other [] p) (\<lambda>(r, p') _. same_base p p') w" if "vrc_SyncPVCPV ?rp"
    by (rule mirror_loop_wp) (use that assms(3) in \<open>auto simp: classified_def\<close>)
  have dropped: "source_dropped e ?rp h s"
    if "prefix (hist w) h" "s \<notin> set (map (\<lambda>pair. oName (fst pair)) ?other)" for h s
  proof -
    have "skipped e (hist w) ns n \<or> (\<exists>src pv. source_read e (hist w) src pv \<and> oName src = n \<and> own_class ?rp (src, pv))"
      if "(ns, n) \<in> set (constellation_claims vrcs)" "n = s" for ns n
    proof -
      from assms(3) that(1) consider "skipped e (hist w) ns n"
        | src pv where "(src, pv) \<in> set unmanaged" "oName src = n" "source_read e (hist w) src pv"
        unfolding classified_def by blast
      then show ?thesis
        using that(2) \<open>s \<notin> set (map (\<lambda>pair. oName (fst pair)) ?other)\<close> by cases force+
    qed
    then have "source_dropped e ?rp (hist w) s"
      unfolding source_dropped_def using assms(2) by (intro exI[of _ vrcs]) auto
    then show ?thesis by (rule source_dropped_mono) (rule that(1))
  qed
  have clean: "wp ?Q (cleanReplicaMirrorOrphans e ?rp ?rp ?sc (map (\<lambda>pair. oName (fst pair)) ?other)) (\<lambda>_ _. True) v"
    if "prefix (hist w) (hist v)" for v
    by (rule cleanReplicaMirrorOrphans_wp[OF allows_mono[OF mirror_request_other] assms(1)], auto simp: orphan_kinds_def)
      (use dropped prefix_order.trans[OF that] in \<open>fastforce simp: mirror_request_def orphaned_def\<close>)
  show ?thesis
    unfolding sync_mirrors_def Let_def ensureReplicaMirrors_def
    by (intro wp_getS wp_step_control wp_bindS wp_catchS wp_retS wp_mono[OF wp_prefix[OF ensure]] TrueI)
      (auto split: sum.split intro!: wp_bindS wp_doS wp_errS wp_mono[OF clean])
qed

text \<open>The provisioning of one content, whichever provisioner fills in the callbacks.\<close>

lemma ProvisionVolumes_wp:
  assumes "claims_keyed e"
  shows "wp (mirror_request e (p_rp p) (p_sourceSc p)) (ProvisionVolumes self e p) (\<lambda>_ _. True) w"
proof -
  let ?rp = "p_rp p" and ?Q = "mirror_request e (p_rp p) (p_sourceSc p)"
  have reads: "allows {KRead} ?Q" and backend: "allows backend_kinds ?Q"
    by (rule allows_mono[OF mirror_request_other], auto simp: backend_kinds_def)+
  have sources: "wp ?Q (computeSourceToDelete e ?rp) P v" if "\<And>r v'. prefix (hist v) (hist v') \<Longrightarrow> P r v'" for P v
    by (rule wp_within[OF within_computeSourceToDelete reads]) (auto intro: that)
  have sync: "wp ?Q (sync_mirrors self e unmanaged p') (\<lambda>_ _. True) v"
    if "constellation_read e ?rp (hist v) vrcs" "classified e (hist v) (constellation_claims vrcs) unmanaged" "same_base p p'"
    for v vrcs unmanaged p'
    using sync_mirrors_wp[OF assms, of p' v vrcs unmanaged] that by (simp add: same_base_def)
  show ?thesis
    unfolding ProvisionVolumes_def
  proof (intro wp_getS wp_bindS wp_liftS wp_mono[OF classifyConstellationPVCs_wp[OF reads assms]], goal_cases)
    case (1 r v)
    show ?case
    proof (cases r)
      case (Inr unmanaged)
      with 1 obtain vrcs where c: "constellation_read e ?rp (hist v) vrcs"
        "classified e (hist v) (constellation_claims vrcs) unmanaged" by blast
      show ?thesis
        unfolding Inr sum.case prod.case
        by (intro wp_bindS wp_modS)
          (auto split: sum.split intro!: wp_bindS wp_modS wp_liftS sources wp_framed[OF ProvisionVolumeCb_framed backend]
            sync[of _ vrcs] constellation_read_mono[OF c(1)] classified_mono[OF c(2)]
            simp: same_base_def, (metis prefix_order.trans)+)
    qed simp
  qed
qed

lemma clean_tail_wp:
  assumes "clean_allowed e (p_sourceSc p) w Q" "claims_keyed e" "cleaning e p w p' w'" "content_version e (hist w') rp"
  shows "wp Q (bindS (CleanVolumeCb self e rp rest (p_sourceSc p)) (\<lambda>_.
       bindS (liftS (cleanReplicaMirrorOrphans e rp rp (p_sourceSc p) [])) (\<lambda>_. liftS (CleanKubernetesResources e rp))) p')
       (cleaned_version e) w'"
proof (intro wp_bindS wp_framed[OF CleanVolumeCb_framed clean_allowedD(2)[OF assms(1)]], goal_cases)
  case (1 r p1 w1)
  note v = cleaning_step[OF assms(3) 1] content_version_mono[OF assms(4) 1(2)]
  have fin: "wp Q (CleanKubernetesResources e rp) P u" if "\<And>r u'. prefix (hist u) (hist u') \<Longrightarrow> P r u'" for P u
    by (rule wp_mono[OF wp_prefix[OF CleanKubernetesResources_wp[OF clean_allowedD(4)[OF assms(1)]]]])
      (use assms(1) that in \<open>auto simp: clean_allowed_def\<close>)
  have orphans: "wp Q (cleanReplicaMirrorOrphans e rp rp (p_sourceSc p) []) (\<lambda>_ _. True) w1"
    by (rule cleanReplicaMirrorOrphans_wp[OF clean_allowedD(3)[OF assms(1)] assms(2)])
      (use v assms(1) in \<open>auto simp: clean_allowed_def cleaning_def dest: content_version_mono prefix_order.trans\<close>)
  have "content_version e (hist w3) (p_rp p1)" if "prefix (hist w1) (hist w2)" "prefix (hist w2) (hist w3)" for w2 w3 :: world
    using v(1) that unfolding cleaning_def by (meson content_version_mono)
  then show ?case
    by (auto split: sum.split intro!: wp_bindS wp_liftS wp_mono[OF wp_prefix[OF orphans]] fin)
qed

lemma clean_waited_wp:
  assumes "clean_allowed e (p_sourceSc p) w Q" "claims_keyed e" "cleaning e p w p' w'"
  shows "wp Q (bindS (waitAfterPpathDisable e) (\<lambda>_. getS (\<lambda>p1.
        bindS (liftS (deleteSnapshots e rest (vrc_ReplicationPath (p_rp p1)) (vrc_ProtectionPolicyNames (p_rp p1)))) (\<lambda>_.
        bindS (case pp of None \<Rightarrow> retS () | Some pp \<Rightarrow> liftS (remove_ppath e rest pp)) (\<lambda>_.
        bindS (CleanVolumeCb self e (p_rp p1) rest (p_sourceSc p)) (\<lambda>_.
        bindS (liftS (cleanReplicaMirrorOrphans e (p_rp p1) (p_rp p1) (p_sourceSc p) [])) (\<lambda>_.
        liftS (CleanKubernetesResources e (p_rp p1)))))))) p') (cleaned_version e) w'"
proof -
  note all = clean_allowedD(1)[OF assms(1)]
  have io: "wp Q m P v" if "within clean_kinds m" "\<And>a v'. prefix (hist v) (hist v') \<Longrightarrow> P a v'" for m P v
    by (rule wp_within[OF that(1) all]) (rule that(2))
  have removed: "wp Q (bindS (liftS (deleteSnapshots e rest path names)) (\<lambda>_. bindS (case pp of None \<Rightarrow> retS ()
       | Some pp \<Rightarrow> liftS (remove_ppath e rest pp)) (\<lambda>_. k)) p1) P w1"
    if "\<And>w2. prefix (hist w1) (hist w2) \<Longrightarrow> wp Q (k p1) P w2" "\<And>x w2. prefix (hist w1) (hist w2) \<Longrightarrow> P (Inl x, p1) w2"
    for k P path names p1 w1
    by (intro wp_bindS wp_liftS io within_clean_path)
      (auto split: sum.split option.split intro!: wp_bindS wp_retS wp_liftS io within_clean_path that intro: prefix_order.trans)
  show ?thesis
  proof (intro wp_bindS wp_mono[OF wp_prefix[OF waitAfterPpathDisable_wp[OF all]]], goal_cases)
    case 1
    show ?case using assms(3) by (simp add: cleaning_def)
  next
    case (2 a w1)
    obtain r p1 where a: "a = (r, p1)" by force
    show ?case
    proof (cases r)
      case (Inr u)
      with 2 a assms(3) have v: "cleaning e p w p1 w1" by (auto simp: cleaning_def intro: prefix_order.trans)
      have "cleaning e p w p1 w2" if "prefix (hist w1) (hist w2)" for w2 by (rule cleaning_step[OF v same_base_refl that])
      then show ?thesis
        unfolding a Inr by (auto intro!: wp_getS removed clean_tail_wp[OF assms(1,2)] simp: cleaning_def)
    qed (simp add: a)
  qed
qed

text \<open>The clean-up of one content. A mirror goes only if the parent does not retain volumes, and the content
  that comes back is a version the API server answered.\<close>

lemma CleanVolumes_wp:
  assumes "clean_allowed e (p_sourceSc p) w Q" "claims_keyed e" "content_version e (hist w) (p_rp p)"
  shows "wp Q (CleanVolumes self e p) (cleaned_version e) w"
proof -
  note all = clean_allowedD(1)[OF assms(1)] and waited = clean_waited_wp[OF assms(1,2)]
  have getpp: "framed clean_kinds (getPPathForSource e)"
    unfolding getPPathForSource_def getPPath_def
    by (intro framed_rules) (auto simp: same_base_def intro!: issues_rules within_vms within_clients)
  show ?thesis
    unfolding CleanVolumes_def Let_def
  proof (intro wp_getS wp_bindS wp_catchS wp_framed[OF getpp all], goal_cases)
    case (1 r p1 w1)
    have "cleaning e p w p w" using assms(3) by (simp add: cleaning_def)
    from cleaning_step[OF this 1] have v: "cleaning e p w p1 w2" if "prefix (hist w1) (hist w2)" for w2
      by (rule cleaning_step[OF _ same_base_refl that])
    show ?case
    proof (cases r)
      case (Inl x)
      then show ?thesis
        by (cases "x = panic_nil"; cases "v_isNotFound (e_vms e) x")
          (auto intro!: wp_bindS[where m = "retS None"] wp_bindS[where m = "failS x"] wp_retS wp_failS
            waited[OF v, of _ _ None, simplified])
    next
      case (Inr pp)
      show ?thesis
        unfolding Inr
        by (simp, intro wp_bindS[where m = "bindS (liftS (disable_ppath e (p_sourceRest p) pp)) (\<lambda>_. retS (Some pp))"]
            wp_bindS[where m = "liftS (disable_ppath e (p_sourceRest p) pp)"] wp_liftS wp_within[OF _ all] within_clean_path)
          (auto split: sum.split intro!: wp_retS waited[OF v, of _ _ "Some pp", simplified])
    qed
  qed
qed

end

end
