(* ===== verification/BlockProvisioner.thy ===== *)
theory BlockProvisioner
  imports Mirrors
begin

text \<open>
  The provisioner of block volumes (internal/provisioner/block.go).
\<close>

definition StorageClassParameterQosPolicyId :: string where
  "StorageClassParameterQosPolicyId = ''qos_policy_id''"

definition ReasonVASTVolumeDeleted :: string where "ReasonVASTVolumeDeleted = ''VASTVolumeDeleted''"
definition ReasonVolumesEnsured :: string where "ReasonVolumesEnsured = ''VolumesEnsured''"

definition non_prefixed :: "StorageClass \<Rightarrow> smap" where
  "non_prefixed sc = ExtractNonPrefixedParams CSIParameterPrefix (sc_Parameters sc)"

definition source_group :: "prov \<Rightarrow> string" where
  "source_group p = TrimPrefix (lookup_str (non_prefixed (p_sourceSc p)) StorageClassParameterVolumeGroup) ''/''"

definition block_VolumeMapping :: "env \<Rightarrow> StorageClass \<Rightarrow> (string \<times> Volume) list pstep" where
  "block_VolumeMapping e sc = getS (\<lambda>p.
     let subsystemName = lookup_str (non_prefixed sc) StorageClassParameterSubsystem;
         filt = (if source_group p \<noteq> [] then Some (source_group p) else None) in
     lazyCache_get p_volumeCaches (\<lambda>c p. p\<lparr>p_volumeCaches := c\<rparr>) (sc_Name sc)
       (bindE (NewFromStorageClass e sc (e_sslVerify e)) (\<lambda>rest.
        bindE (vms e rest (VolumesList subsystemName filt)
                 (\<lambda>h. v_volumesList (e_vms e) h rest subsystemName filt))
          (\<lambda>result. ret (Inr (keyed vol_Name result))))))"

definition getVolume :: "env \<Rightarrow> StorageClass \<Rightarrow> string \<Rightarrow> Volume option pstep" where
  "getVolume e sc vol = bindS (block_VolumeMapping e sc) (\<lambda>m. retS (map_of m (TrimRight vol ''/'')))"

definition block_BackendObjectKey :: "prov \<Rightarrow> string \<Rightarrow> string" where
  "block_BackendObjectKey p volumeHandle =
     (if HasPrefix volumeHandle ''/'' then TrimPrefix volumeHandle ''/''
      else TrimRight (path_Join [source_group p, volumeHandle]) ''/'')"

definition block_hasVolume :: "env \<Rightarrow> StorageClass \<Rightarrow> string \<Rightarrow> bool pstep" where
  "block_hasVolume e sc vol =
     bindS (block_VolumeMapping e sc) (\<lambda>m. retS (map_of m (TrimRight vol ''/'') \<noteq> None))"

definition volume_body :: "string \<Rightarrow> int \<Rightarrow> int \<Rightarrow> string \<Rightarrow> err + VolumeParams" where
  "volume_body volumeName viewId bytes qosPolicyId =
     (let body = \<lparr>volp_Name = volumeName, volp_ViewId = viewId, volp_Size = bytes, volp_QosPolicyId = 0\<rparr> in
      if qosPolicyId = [] then Inr body
      else case parse_int ''Atoi'' qosPolicyId of
          Inl x \<Rightarrow> Inl (Errorf_w ''invalid qos_policy_id %q: '' [qosPolicyId] x)
        | Inr i \<Rightarrow> Inr (body\<lparr>volp_QosPolicyId := i\<rparr>))"

definition ensureBlockVastVolume ::
  "env \<Rightarrow> rest \<Rightarrow> StorageClass \<Rightarrow> string \<Rightarrow> int \<Rightarrow> VolumePair \<Rightarrow> unit pstep" where
  "ensureBlockVastVolume e rest sc qosPolicyId viewId = (\<lambda>(sourcePVC, sourcePV). getS (\<lambda>p.
     case pv_CSI sourcePV of
       None \<Rightarrow> failS panic_nil
     | Some csi \<Rightarrow>
         let volumeName = block_BackendObjectKey p (csi_VolumeHandle csi) in
         bindS (block_hasVolume e sc volumeName) (\<lambda>exist.
         if exist then retS ()
         else case map_of (pvc_Requests sourcePVC) ''storage'' of
             None \<Rightarrow> failS (Errorf ''PVC %s/%s has no storage request'' [oNamespace sourcePVC, oName sourcePVC])
           | Some bytes \<Rightarrow> (case volume_body volumeName viewId bytes qosPolicyId of
                 Inl x \<Rightarrow> failS x
               | Inr body \<Rightarrow>
                   bindS (liftS (wrapE (Errorf_w ''create VAST volume %s: '' [volumeName])
                      (vms e rest (VolumeCreate body) (\<lambda>h. s_volumeCreate (e_storage e) h rest body)))) (\<lambda>created.
                   bindS (modS (lazyCache_add p_volumeCaches (\<lambda>c p. p\<lparr>p_volumeCaches := c\<rparr>) (sc_Name sc)
                      volumeName created)) (\<lambda>_.
                   doS (emit_Normal e ReasonVolumesEnsured (Sprintf ''ensured VAST volume %q for PVC %s/%s''
                      [volumeName, oNamespace sourcePVC, oName sourcePVC]))))))))"

definition deleteVastVolumeByName :: "env \<Rightarrow> rest \<Rightarrow> StorageClass \<Rightarrow> string \<Rightarrow> unit pstep" where
  "deleteVastVolumeByName e rest sc volumeName = bindS (getVolume e sc volumeName) (\<lambda>vol. case vol of
       None \<Rightarrow> retS ()
     | Some v \<Rightarrow> bindS (doS (vms e rest (VolumeDelete (vol_Id v))
                    (\<lambda>h. v_act (e_vms e) h rest (VolumeDelete (vol_Id v))))) (\<lambda>r.
         case ignore_404 e r of
           None \<Rightarrow> retS ()
         | Some x \<Rightarrow> failS (Errorf_w ''delete VAST volume %s: '' [volumeName] x)))"

definition mirror_claim_selector :: "string \<Rightarrow> StorageClass \<Rightarrow> smap" where
  "mirror_claim_selector sourcePVCName sc = [(LabelManagedBy, LabelManagedByValue),
     (LabelSourcePVC, sourcePVCName), (LabelStorageClass, sc_Name sc)]"

definition deleteBlockVastVolume :: "env \<Rightarrow> rest \<Rightarrow> StorageClass \<Rightarrow> string \<Rightarrow> unit pstep" where
  "deleteBlockVastVolume e rest sc sourcePVCName = getS (\<lambda>p.
     bindS (liftS (ListPVCsByLabelSelector e (oNamespace (p_rp p)) (mirror_claim_selector sourcePVCName sc))) (\<lambda>pvcs.
     bindS (collectS (\<lambda>pvc. bindS (liftS (managedPVForPVC e pvc)) (\<lambda>pv.
         case (case pv of None \<Rightarrow> None | Some v \<Rightarrow> pv_CSI v) of
           None \<Rightarrow> retS ()
         | Some csi \<Rightarrow> if csi_VolumeHandle csi = [] then retS ()
             else deleteVastVolumeByName e rest sc (block_BackendObjectKey p (csi_VolumeHandle csi)))) pvcs [])
       errS))"

definition syncBlockObjects ::
  "env \<Rightarrow> rest \<Rightarrow> StorageClass \<Rightarrow> VRC \<Rightarrow> Ppath \<Rightarrow> VolumePair list \<Rightarrow> string list \<Rightarrow> unit pstep" where
  "syncBlockObjects e sibRest sibSc sibVRC ppath toEnsure toDelete =
     (let sibParams = non_prefixed sibSc;
          subsystemName = lookup_str sibParams StorageClassParameterSubsystem;
          qosPolicyId = lookup_str sibParams StorageClassParameterQosPolicyId in
      bindS (if toEnsure = [] then retS []
        else bindS (liftS (wrapE (Errorf_w ''get subsystem %s on %s: '' [subsystemName, oName sibVRC])
            (vms e sibRest (ViewGetIn subsystemName (pp_TenantId ppath))
               (\<lambda>h. s_viewGetIn (e_storage e) h sibRest subsystemName (pp_TenantId ppath))))) (\<lambda>subsystem.
          if \<not> HasPrefix (pp_SourceDir ppath) (view_Path subsystem) then
            failS (Errorf ''protected path source dir %q does not match subsystem path %q on %s''
              [pp_SourceDir ppath, view_Path subsystem, oName sibVRC])
          else collectS (\<lambda>pair. map_errS (Errorf_w ''sync VAST volume for %s: '' [oName (fst pair)])
                 (ensureBlockVastVolume e sibRest sibSc qosPolicyId (view_Id subsystem) pair)) toEnsure [])) (\<lambda>errs.
      bindS (if vrc_SyncPVCPV sibVRC then retS errs
        else collectS (\<lambda>pvcName. map_errS (Errorf_w ''delete VAST volume for source %s: '' [pvcName])
               (deleteBlockVastVolume e sibRest sibSc pvcName)) toDelete errs)
      errS))"

definition block_ProvisionVolumeCb :: "env \<Rightarrow> VRC \<Rightarrow> rest \<Rightarrow> StorageClass \<Rightarrow> unit pstep" where
  "block_ProvisionVolumeCb e sibVRC sibRest sibSc =
     bindS (getPPath e sibSc) (\<lambda>ppath.
     if isDestinationRole (pp_Role ppath) then retS ()
     else getS (\<lambda>p. syncBlockObjects e sibRest sibSc sibVRC ppath (p_toEnsure p) (p_toDelete p)))"

definition block_CleanVolumeCb :: "env \<Rightarrow> VRC \<Rightarrow> rest \<Rightarrow> StorageClass \<Rightarrow> unit pstep" where
  "block_CleanVolumeCb e vrc sibRest sibSc = getS (\<lambda>p.
     if vrc_SyncPVCPV vrc then retS ()
     else bindS (liftS (shouldRetainDestVolumes e (p_rp p))) (\<lambda>retain.
       if retain then retS ()
       else bindS (liftS (wrapE (Errorf_w ''list source PVCs from sibling VRCs: '' [])
              (sourcePairsFromSiblingVRCs e (p_rp p)))) (\<lambda>sourcePairs.
         bindS (collectS (\<lambda>(pvc, pv). case pv_CSI pv of
             None \<Rightarrow> failS panic_nil
           | Some csi \<Rightarrow>
               let volumeName = block_BackendObjectKey p (csi_VolumeHandle csi) in
               bindS (deleteVastVolumeByName e sibRest sibSc volumeName) (\<lambda>_.
               doS (emit_Normal e ReasonVASTVolumeDeleted
                 (Sprintf ''deleted VAST block volume %s for source PVC %s'' [volumeName, oName pvc]))))
             sourcePairs []) errS)))"

definition BlockProvisioner :: provisioner where
  "BlockProvisioner = \<lparr>VolumeKeys = \<lambda>e sc. bindS (block_VolumeMapping e sc) (\<lambda>m. retS (map fst m)),
     BackendObjectKey = block_BackendObjectKey, ProvisionVolumeCb = block_ProvisionVolumeCb,
     CleanVolumeCb = block_CleanVolumeCb\<rparr>"


section \<open>The contract\<close>

lemma block_VolumeMapping_framed: "framed backend_kinds (block_VolumeMapping e sc)"
  unfolding block_VolumeMapping_def Let_def
  by (intro framed_rules) (auto simp: same_base_def intro!: issues_rules within_vms within_clients)

lemma deleteVastVolumeByName_framed: "framed backend_kinds (deleteVastVolumeByName e rest sc name)"
  unfolding deleteVastVolumeByName_def getVolume_def
  by (intro framed_rules block_VolumeMapping_framed) (auto intro!: within_vms)

lemma ensureBlockVastVolume_framed: "framed backend_kinds (ensureBlockVastVolume e rest sc qos view pair)"
  unfolding ensureBlockVastVolume_def block_hasVolume_def Let_def
  by (intro framed_rules block_VolumeMapping_framed)
    (auto simp: same_base_def lazyCache_add_def split: option.split
      intro!: issues_rules within_vms)

lemma deleteBlockVastVolume_framed: "framed backend_kinds (deleteBlockVastVolume e rest sc name)"
  unfolding deleteBlockVastVolume_def
  by (intro framed_rules deleteVastVolumeByName_framed)
    (auto intro!: within_storage_reads within_parent)

lemma block_ProvisionVolumeCb_framed: "framed backend_kinds (block_ProvisionVolumeCb e vrc rest sc)"
  unfolding block_ProvisionVolumeCb_def getPPath_def syncBlockObjects_def Let_def
  by (intro framed_rules ensureBlockVastVolume_framed deleteBlockVastVolume_framed)
    (auto simp: same_base_def intro!: issues_rules within_vms within_clients)

lemma block_CleanVolumeCb_framed: "framed backend_kinds (block_CleanVolumeCb e vrc rest sc)"
  unfolding block_CleanVolumeCb_def Let_def
  by (intro framed_rules deleteVastVolumeByName_framed)
    (auto intro!: issues_rules within_parent)

interpretation blockp: provisioner_contract BlockProvisioner
proof
  fix e sc show "framed backend_kinds (VolumeKeys BlockProvisioner e sc)"
    by (simp add: BlockProvisioner_def framed_rules block_VolumeMapping_framed)
qed (simp_all add: BlockProvisioner_def block_ProvisionVolumeCb_framed block_CleanVolumeCb_framed)

end
