(* ===== verification/FileProvisioner.thy ===== *)
theory FileProvisioner
  imports BlockProvisioner
begin

text \<open>
  The provisioner of file volumes (internal/provisioner/file.go), and the choice between the two
  (NewProvisioner in internal/provisioner/provisioner.go).
\<close>

section \<open>Constants\<close>

definition resyncAnnotationMaxAge :: duration where "resyncAnnotationMaxAge = Minute"
definition resyncPathWaitTimeout :: duration where "resyncPathWaitTimeout = 30 * Second"
definition resyncPathWaitSleep :: duration where "resyncPathWaitSleep = 2 * Second"
definition pathNotReplicatedRetryAfter :: duration where "pathNotReplicatedRetryAfter = 5 * Minute"

definition ReasonViewCreated :: string where "ReasonViewCreated = ''ViewCreated''"
definition ReasonQuotaCreated :: string where "ReasonQuotaCreated = ''QuotaCreated''"


section \<open>Cached listings\<close>

definition source_root :: "prov \<Rightarrow> string" where
  "source_root p = lookup_str (non_prefixed (p_sourceSc p)) StorageClassParameterRootExport"

definition file_VolumeMapping :: "env \<Rightarrow> StorageClass \<Rightarrow> (string \<times> View) list pstep" where
  "file_VolumeMapping e sc = getS (\<lambda>p.
     let rootExport = source_root p in
     lazyCache_get p_viewCaches (\<lambda>c p. p\<lparr>p_viewCaches := c\<rparr>) (sc_Name sc)
       (bindE (NewFromStorageClass e sc (e_sslVerify e)) (\<lambda>rest.
        bindE (wrapE (Errorf_w ''failed to list views under %s: '' [rootExport])
                 (vms e rest (ViewsList rootExport) (\<lambda>h. v_viewsList (e_vms e) h rest rootExport)))
          (\<lambda>views. ret (Inr (keyed view_Path views))))))"

definition getView :: "env \<Rightarrow> StorageClass \<Rightarrow> string \<Rightarrow> View option pstep" where
  "getView e sc targetPath =
     bindS (file_VolumeMapping e sc) (\<lambda>m. retS (map_of m (TrimRight targetPath ''/'')))"

definition getQuota :: "env \<Rightarrow> rest \<Rightarrow> StorageClass \<Rightarrow> string \<Rightarrow> Quota option pstep" where
  "getQuota e rest sc targetPath = getS (\<lambda>p.
     let rootExport = source_root p in
     bindS (lazyCache_get p_quotaCaches (\<lambda>c p. p\<lparr>p_quotaCaches := c\<rparr>) (sc_Name sc)
       (bindE (wrapE (Errorf_w ''failed to list quotas under %s: '' [rootExport])
                 (vms e rest (QuotasList rootExport) (\<lambda>h. s_quotasList (e_storage e) h rest rootExport)))
          (\<lambda>quotas. ret (Inr (keyed quota_Path quotas)))))
       (\<lambda>m. retS (map_of m (TrimRight targetPath ''/''))))"

definition getViewPolicy :: "env \<Rightarrow> rest \<Rightarrow> StorageClass \<Rightarrow> string \<Rightarrow> (int \<times> int) pstep" where
  "getViewPolicy e rest sc policyName =
     lazyCache_get p_viewPolicyCaches (\<lambda>c p. p\<lparr>p_viewPolicyCaches := c\<rparr>) (sc_Name sc)
       (GetViewPolicy e rest policyName)"

definition file_BackendObjectKey :: "prov \<Rightarrow> string \<Rightarrow> string" where
  "file_BackendObjectKey p volumeHandle =
     (if HasPrefix volumeHandle ''/'' then volumeHandle
      else TrimRight (path_Join [source_root p, path_Base volumeHandle]) ''/'')"


section \<open>Views and quotas\<close>

definition resyncRecentlyRequested :: "VRC \<Rightarrow> int \<Rightarrow> bool" where
  "resyncRecentlyRequested rp now =
     (case map_of (oAnnotations rp) AnnotationResyncRequestedAt of
        None \<Rightarrow> False
      | Some raw \<Rightarrow> raw \<noteq> [] \<and> (case time_Parse_RFC3339 raw of
            None \<Rightarrow> False
          | Some t \<Rightarrow> now - t < resyncAnnotationMaxAge))"

definition waitForReplicatedPath :: "env \<Rightarrow> rest \<Rightarrow> string \<Rightarrow> int \<Rightarrow> (err + unit) io" where
  "waitForReplicatedPath e rest targetPath tenantId =
     WaitResource e resyncPathWaitTimeout resyncPathWaitSleep
       (Sprintf ''destination path %q to be replicated'' [targetPath])
       (bindE (PathExists e rest targetPath tenantId) (\<lambda>b. ret (Inr (if b then Some () else None))))"

definition view_body :: "string \<Rightarrow> int \<times> int \<Rightarrow> string list \<Rightarrow> string \<Rightarrow> string \<Rightarrow> err + ViewParams" where
  "view_body targetPath policy protocols qosPolicy qosPolicyIdStr =
     (let body = \<lparr>vp_Path = targetPath, vp_PolicyId = snd policy, vp_TenantId = fst policy,
            vp_Protocols = protocols, vp_QosPolicy = qosPolicy, vp_QosPolicyId = 0, vp_CreateDir = False\<rparr> in
      if qosPolicyIdStr = [] then Inr body
      else case parse_int ''ParseInt'' qosPolicyIdStr of
          Inl x \<Rightarrow> Inl (Errorf_w ''invalid qos_policy_id %q: '' [qosPolicyIdStr] x)
        | Inr i \<Rightarrow> Inr (body\<lparr>vp_QosPolicyId := i\<rparr>))"

definition path_replicated :: "env \<Rightarrow> rest \<Rightarrow> VRC \<Rightarrow> string \<Rightarrow> int \<Rightarrow> (err + bool) io" where
  "path_replicated e rest rp targetPath tenantId =
     bindE (wrapE (Errorf_w ''stat_path %s: '' [targetPath]) (PathExists e rest targetPath tenantId)) (\<lambda>exist.
     if exist then ret (Inr True)
     else time_Now \<bind> (\<lambda>now.
       if \<not> resyncRecentlyRequested rp now then ret (Inr False)
       else waitForReplicatedPath e rest targetPath tenantId \<bind> (\<lambda>r. ret (Inr (left_err r = None)))))"

definition ensureView ::
  "env \<Rightarrow> rest \<Rightarrow> StorageClass \<Rightarrow> string \<Rightarrow> string \<Rightarrow> string \<Rightarrow> string \<Rightarrow> View pstep" where
  "ensureView e rest sc targetPath viewPolicyName qosPolicy qosPolicyIdStr =
     bindS (getView e sc targetPath) (\<lambda>cached. case cached of
       Some v \<Rightarrow> retS v
     | None \<Rightarrow>
         if viewPolicyName = [] then
           failS (Errorf ''view_policy parameter not found in StorageClass %s'' [sc_Name sc])
         else bindS (getViewPolicy e rest sc viewPolicyName) (\<lambda>viewPolicy.
           case view_body targetPath viewPolicy (nfsProtocols (sc_MountOptions sc)) qosPolicy qosPolicyIdStr of
             Inl x \<Rightarrow> failS x
           | Inr viewBody \<Rightarrow> getS (\<lambda>p.
               bindS (liftS (path_replicated e rest (p_rp p) targetPath (fst viewPolicy))) (\<lambda>exist.
               if \<not> exist then failS (NewRetryAfterError
                   (Errorf ''destination path %s not yet replicated'' [targetPath]) pathNotReplicatedRetryAfter)
               else
                 bindS (liftS (wrapE (Errorf_w ''failed to create view %s: '' [targetPath])
                   (vms e rest (ViewCreate viewBody) (\<lambda>h. s_viewCreate (e_storage e) h rest viewBody)))) (\<lambda>view.
                 bindS (modS (lazyCache_add p_viewCaches (\<lambda>c p. p\<lparr>p_viewCaches := c\<rparr>) (sc_Name sc)
                   targetPath view)) (\<lambda>_.
                 bindS (doS (emit_Normal e ReasonViewCreated
                   (Sprintf ''created view %s on own cluster (StorageClass %s)'' [targetPath, sc_Name sc])))
                   (\<lambda>_. retS view)))))))"

definition ensureQuota ::
  "env \<Rightarrow> rest \<Rightarrow> StorageClass \<Rightarrow> string \<Rightarrow> string \<Rightarrow> int \<Rightarrow> int \<Rightarrow> unit pstep" where
  "ensureQuota e rest sc targetPath quotaName tenantId hardLimit =
     bindS (getQuota e rest sc targetPath) (\<lambda>cached.
     if cached \<noteq> None then retS ()
     else let body = \<lparr>qp_Name = quotaName, qp_Path = targetPath, qp_TenantId = tenantId,
                qp_HardLimit = hardLimit\<rparr> in
       bindS (liftS (wrapE (Errorf_w ''failed to create quota for view %s: '' [targetPath])
         (vms e rest (QuotaCreate body) (\<lambda>h. s_quotaCreate (e_storage e) h rest body)))) (\<lambda>created.
       bindS (modS (lazyCache_add p_quotaCaches (\<lambda>c p. p\<lparr>p_quotaCaches := c\<rparr>) (sc_Name sc)
         targetPath created)) (\<lambda>_.
       doS (emit_Normal e ReasonQuotaCreated (Sprintf ''created quota %s (hardLimit=%d) on own cluster''
         [targetPath, FormatInt hardLimit])))))"

definition ensureFileVastObject ::
  "env \<Rightarrow> rest \<Rightarrow> StorageClass \<Rightarrow> string \<Rightarrow> string \<Rightarrow> string \<Rightarrow> VolumePair \<Rightarrow> unit pstep" where
  "ensureFileVastObject e rest sc viewPolicyName qosPolicy qosPolicyIdStr = (\<lambda>(sourcePVC, sourcePV). getS (\<lambda>p.
     case pv_CSI sourcePV of
       None \<Rightarrow> failS panic_nil
     | Some csi \<Rightarrow>
         let rawVolumeName = path_Base (csi_VolumeHandle csi);
             targetPath = file_BackendObjectKey p (csi_VolumeHandle csi) in
         bindS (map_errS (Errorf_w ''ensure view at %s: '' [targetPath])
           (ensureView e rest sc targetPath viewPolicyName qosPolicy qosPolicyIdStr)) (\<lambda>view.
         case map_of (pvc_Requests sourcePVC) ''storage'' of
           None \<Rightarrow> retS ()
         | Some bytes \<Rightarrow> map_errS (Errorf_w ''ensure quota at %s: '' [targetPath])
             (ensureQuota e rest sc targetPath rawVolumeName (view_TenantId view) bytes))))"

definition deleteVastQuota :: "env \<Rightarrow> rest \<Rightarrow> StorageClass \<Rightarrow> string \<Rightarrow> unit pstep" where
  "deleteVastQuota e rest sc viewPath = bindS (getQuota e rest sc viewPath) (\<lambda>quota. case quota of
       None \<Rightarrow> retS ()
     | Some q \<Rightarrow> bindS (doS (vms e rest (QuotaDelete (quota_Id q))
                    (\<lambda>h. v_act (e_vms e) h rest (QuotaDelete (quota_Id q))))) (\<lambda>r.
         case ignore_404 e r of
           None \<Rightarrow> retS ()
         | Some x \<Rightarrow> failS (Errorf_w ''delete VAST quota at %s: '' [viewPath] x)))"

definition deleteVastView :: "env \<Rightarrow> rest \<Rightarrow> StorageClass \<Rightarrow> string \<Rightarrow> unit pstep" where
  "deleteVastView e rest sc viewPath = bindS (getView e sc viewPath) (\<lambda>view. case view of
       None \<Rightarrow> retS ()
     | Some v \<Rightarrow> bindS (doS (vms e rest (ViewDelete (view_Id v))
                    (\<lambda>h. v_act (e_vms e) h rest (ViewDelete (view_Id v))))) (\<lambda>r.
         case ignore_404 e r of
           None \<Rightarrow> retS ()
         | Some x \<Rightarrow> failS (Errorf_w ''delete VAST view %s: '' [viewPath] x)))"

text \<open>The loop of deleteFileVastObject: a failed lookup of a volume ends it and drops the errors so far;
  the errors of the two deletions are collected.\<close>

fun delete_file_loop :: "env \<Rightarrow> rest \<Rightarrow> StorageClass \<Rightarrow> PVC list \<Rightarrow> err list \<Rightarrow> err list pstep" where
  "delete_file_loop e rest sc [] errs = retS errs"
| "delete_file_loop e rest sc (pvc # pvcs) errs = bindS (liftS (managedPVForPVC e pvc)) (\<lambda>pv.
     case (case pv of None \<Rightarrow> None | Some v \<Rightarrow> pv_CSI v) of
       None \<Rightarrow> delete_file_loop e rest sc pvcs errs
     | Some csi \<Rightarrow> if csi_VolumeHandle csi = [] then delete_file_loop e rest sc pvcs errs
         else bindS (catchS (deleteVastQuota e rest sc (csi_VolumeHandle csi))) (\<lambda>r1.
              bindS (catchS (deleteVastView e rest sc (csi_VolumeHandle csi))) (\<lambda>r2.
              delete_file_loop e rest sc pvcs
                (DeferredError_Add (DeferredError_Add errs (left_err r1)) (left_err r2)))))"

definition deleteFileVastObject :: "env \<Rightarrow> rest \<Rightarrow> StorageClass \<Rightarrow> string \<Rightarrow> unit pstep" where
  "deleteFileVastObject e rest sc sourcePVCName = getS (\<lambda>p.
     bindS (liftS (ListPVCsByLabelSelector e (oNamespace (p_rp p)) (mirror_claim_selector sourcePVCName sc))) (\<lambda>pvcs.
     bindS (delete_file_loop e rest sc pvcs []) (\<lambda>errs.
     bindS (if DeferredError_IsEmpty errs
        then doS (emit_Normal e ReasonVASTVolumeDeleted
          (Sprintf ''deleted VAST view and quota for source PVC %s (StorageClass %s)'' [sourcePVCName, sc_Name sc]))
        else retS ()) (\<lambda>_. errS errs))))"

definition syncFileObjects ::
  "env \<Rightarrow> rest \<Rightarrow> StorageClass \<Rightarrow> bool \<Rightarrow> VolumePair list \<Rightarrow> string list \<Rightarrow> unit pstep" where
  "syncFileObjects e sibRest sibSc syncPVCPV toEnsure toDelete =
     (let sibParams = non_prefixed sibSc;
          viewPolicyName = lookup_str sibParams ''view_policy'';
          qosPolicy = lookup_str sibParams ''qos_policy'';
          qosPolicyIdStr = lookup_str sibParams StorageClassParameterQosPolicyId in
      bindS (collectS (\<lambda>pair. map_errS (Errorf_w ''sync view+quota for %s: '' [oName (fst pair)])
               (ensureFileVastObject e sibRest sibSc viewPolicyName qosPolicy qosPolicyIdStr pair)) toEnsure []) (\<lambda>errs.
      bindS (if syncPVCPV then retS errs
        else collectS (\<lambda>pvcName. map_errS (Errorf_w ''delete view+quota for source %s: '' [pvcName])
               (deleteFileVastObject e sibRest sibSc pvcName)) toDelete errs)
      errS))"

definition file_ProvisionVolumeCb :: "env \<Rightarrow> VRC \<Rightarrow> rest \<Rightarrow> StorageClass \<Rightarrow> unit pstep" where
  "file_ProvisionVolumeCb e vrc sibRest sibSc =
     getS (\<lambda>p. syncFileObjects e sibRest sibSc (vrc_SyncPVCPV vrc) (p_toEnsure p) (p_toDelete p))"

definition clean_file_pair :: "env \<Rightarrow> rest \<Rightarrow> StorageClass \<Rightarrow> VolumePair \<Rightarrow> unit pstep" where
  "clean_file_pair e rest sc = (\<lambda>(pvc, pv). getS (\<lambda>p. case pv_CSI pv of
       None \<Rightarrow> failS panic_nil
     | Some csi \<Rightarrow>
         let viewPath = file_BackendObjectKey p (csi_VolumeHandle csi) in
         bindS (catchS (map_errS (Errorf_w ''delete quota at %s: '' [viewPath])
           (deleteVastQuota e rest sc viewPath))) (\<lambda>r1.
         bindS (catchS (map_errS (Errorf_w ''delete view at %s: '' [viewPath])
           (deleteVastView e rest sc viewPath))) (\<lambda>r2.
         let pvcErrs = DeferredError_Add (DeferredError_Add [] (left_err r1)) (left_err r2) in
         if DeferredError_IsEmpty pvcErrs
         then doS (emit_Normal e ReasonVASTVolumeDeleted
           (Sprintf ''deleted VAST view+quota at %s for source PVC %s'' [viewPath, oName pvc]))
         else errS pvcErrs))))"

text \<open>Merging the errors of one pair into the errors of all appends them, so the loop collects lists.\<close>

fun clean_file_loop :: "env \<Rightarrow> rest \<Rightarrow> StorageClass \<Rightarrow> VolumePair list \<Rightarrow> err list \<Rightarrow> err list pstep" where
  "clean_file_loop e rest sc [] errs = retS errs"
| "clean_file_loop e rest sc (pair # pairs) errs =
     bindS (catchS (clean_file_pair e rest sc pair)) (\<lambda>r. clean_file_loop e rest sc pairs
       (case left_err r of Some (DeferredError xs) \<Rightarrow> DeferredError_Merge errs xs | _ \<Rightarrow> errs))"

definition file_CleanVolumeCb :: "env \<Rightarrow> VRC \<Rightarrow> rest \<Rightarrow> StorageClass \<Rightarrow> unit pstep" where
  "file_CleanVolumeCb e vrc sibRest sibSc = getS (\<lambda>p.
     if vrc_SyncPVCPV vrc then retS ()
     else bindS (liftS (shouldRetainDestVolumes e (p_rp p))) (\<lambda>retain.
       if retain then retS ()
       else bindS (liftS (wrapE (Errorf_w ''list source PVCs from sibling VRCs: '' [])
              (sourcePairsFromSiblingVRCs e (p_rp p)))) (\<lambda>sourcePairs.
         bindS (clean_file_loop e sibRest sibSc sourcePairs []) errS)))"

definition FileProvisioner :: provisioner where
  "FileProvisioner = \<lparr>VolumeKeys = \<lambda>e sc. bindS (file_VolumeMapping e sc) (\<lambda>m. retS (map fst m)),
     BackendObjectKey = file_BackendObjectKey, ProvisionVolumeCb = file_ProvisionVolumeCb,
     CleanVolumeCb = file_CleanVolumeCb\<rparr>"


section \<open>The choice of the provisioner\<close>

definition NewProvisioner :: "env \<Rightarrow> VRC \<Rightarrow> (err + provisioner \<times> prov) io" where
  "NewProvisioner e rp =
     (if vrc_ProvisionerType rp = ProvisionerTypeBlock
      then bindE (newBase e rp) (\<lambda>p. ret (Inr (BlockProvisioner, p)))
      else if vrc_ProvisionerType rp = ProvisionerTypeFile
      then bindE (newBase e rp) (\<lambda>p. ret (Inr (FileProvisioner, p)))
      else ret (Inl (Errorf ''unknown ProvisionerType %q in VastReplicationContent %s/%s''
        [vrc_ProvisionerType rp, oNamespace rp, oName rp])))"


section \<open>The contract\<close>

lemma file_VolumeMapping_framed: "framed backend_kinds (file_VolumeMapping e sc)"
  unfolding file_VolumeMapping_def Let_def
  by (intro framed_rules) (auto simp: same_base_def intro!: issues_rules within_vms within_clients)

lemma file_reads_framed:
  "framed backend_kinds (getView e sc t)" "framed backend_kinds (getQuota e rest sc t)"
  "framed backend_kinds (getViewPolicy e rest sc n)"
  unfolding getView_def getQuota_def getViewPolicy_def Let_def
  by (intro framed_rules file_VolumeMapping_framed; auto simp: same_base_def GetViewPolicy_def
      intro!: issues_rules within_vms)+

lemma within_path_replicated: "KVmsRead \<in> S \<Longrightarrow> KSleep \<in> S \<Longrightarrow> within S (path_replicated e rest rp t i)"
  unfolding path_replicated_def waitForReplicatedPath_def PathExists_def
  by (auto intro!: issues_rules within_WaitResource within_folders)

lemma ensureFileVastObject_framed: "framed backend_kinds (ensureFileVastObject e rest sc v q i pair)"
  unfolding ensureFileVastObject_def ensureView_def ensureQuota_def Let_def
  by (intro framed_rules file_reads_framed)
    (auto simp: same_base_def lazyCache_add_def split: option.split
      intro!: issues_rules within_vms within_path_replicated)

lemma file_deletes_framed:
  "framed backend_kinds (deleteVastQuota e rest sc t)" "framed backend_kinds (deleteVastView e rest sc t)"
  unfolding deleteVastQuota_def deleteVastView_def
  by (intro framed_rules file_reads_framed; auto intro!: within_vms)+

lemma file_loops_framed:
  "framed backend_kinds (delete_file_loop e rest sc pvcs errs)"
  "framed backend_kinds (clean_file_loop e rest sc pairs errs)"
proof (induction pvcs arbitrary: errs)
  case Nil
  {
    case 1 then show ?case by (simp add: framed_pure)
  next
    case 2
    show ?case
      by (induction pairs arbitrary: errs)
        (auto simp: clean_file_pair_def Let_def intro!: framed_rules file_deletes_framed issues_rules)
  }
next
  case (Cons pvc pvcs)
  {
    case 1
    show ?case
      using Cons by (auto intro!: framed_rules file_deletes_framed within_parent)
  next
    case 2
    show ?case by (rule Cons)
  }
qed

lemma file_Cbs_framed:
  "framed backend_kinds (file_ProvisionVolumeCb e vrc rest sc)" "framed backend_kinds (file_CleanVolumeCb e vrc rest sc)"
  unfolding file_ProvisionVolumeCb_def syncFileObjects_def deleteFileVastObject_def file_CleanVolumeCb_def Let_def
  by (intro framed_rules ensureFileVastObject_framed file_loops_framed;
      auto intro!: issues_rules within_storage_reads within_parent)+

interpretation filep: provisioner_contract FileProvisioner
proof
  fix e sc show "framed backend_kinds (VolumeKeys FileProvisioner e sc)"
    by (simp add: FileProvisioner_def framed_rules file_VolumeMapping_framed)
qed (simp_all add: FileProvisioner_def file_Cbs_framed)

end
