(* ===== verification/VrcController.thy ===== *)
theory VrcController
  imports FileProvisioner
begin

text \<open>
  The reconciler of VastReplicationContent objects
  (internal/controller/vastreplicationcontent_controller.go): it runs the provisioner while the
  parent VolumeReplication or VolumeGroupReplication lives, deletes the content once the parent is
  going away, and cleans up when the content itself is being deleted. The content is mutated in
  memory by the annotations the clean-up writes, so the handlers of the deletion pass it on.
  An event reported on the content and its parent is one request of the model.
\<close>

type_synonym 'a cstep = "(VRC, 'a) step"

definition ReasonProvisionFailed :: string where "ReasonProvisionFailed = ''ProvisionFailed''"
definition ReasonCleanupSucceeded :: string where "ReasonCleanupSucceeded = ''CleanupSucceeded''"
definition ReasonStatusUpdateFailed :: string where "ReasonStatusUpdateFailed = ''StatusUpdateFailed''"


section \<open>The parent\<close>

definition lookupVRCParent :: "env \<Rightarrow> VRC \<Rightarrow> (err + unit) io" where
  "lookupVRCParent e vrc =
     (let vvrName = lookup_str (oLabels vrc) LabelSourceVVR;
          vscrName = lookup_str (oLabels vrc) LabelSourceVSCR;
          vvrNS = ParentNamespace (oLabels vrc) LabelSourceVVRNamespace (oNamespace vrc);
          vscrNS = ParentNamespace (oLabels vrc) LabelSourceVSCRNamespace (oNamespace vrc) in
      if vvrName \<noteq> [] then
        bindE (wrapE (Errorf_w ''lookup parent VVR %s/%s: '' [vvrNS, vvrName])
                 (GetVastVolumeReplication e vvrName vvrNS)) (\<lambda>_. ret (Inr ()))
      else if vscrName \<noteq> [] then
        bindE (wrapE (Errorf_w ''lookup parent VSCR %s/%s: '' [vscrNS, vscrName])
                 (GetVastStorageClassReplication e vscrName vscrNS)) (\<lambda>_. ret (Inr ()))
      else ret (Inl (Errorf ''VastReplicationContent %s/%s has neither %s nor %s label''
        [oNamespace vrc, oName vrc, LabelSourceVVR, LabelSourceVSCR])))"

text \<open>The read of the mirrored object, which has the name of the content; its answer is the deletion
  mark. A content of another kind has no such object.\<close>

definition read_parent :: "env \<Rightarrow> VRC \<Rightarrow> (err + bool) io option" where
  "read_parent e vrc =
     (if vrc_Kind vrc = DestinationKindVolumeGroupReplication
      then Some (bindE (GetVolumeGroupReplication e (oName vrc) (oNamespace vrc)) (\<lambda>p. ret (Inr (oDeleting p))))
      else if vrc_Kind vrc = DestinationKindVolumeReplication
      then Some (bindE (GetVolumeReplication e (oName vrc) (oNamespace vrc)) (\<lambda>p. ret (Inr (oDeleting p))))
      else None)"

definition parentIsTerminating :: "env \<Rightarrow> VRC \<Rightarrow> (err + bool) io" where
  "parentIsTerminating e vrc = (case read_parent e vrc of
       None \<Rightarrow> ret (Inr False)
     | Some m \<Rightarrow> m \<bind> (\<lambda>r. ret (case r of
           Inl x \<Rightarrow> if IsNotFound x then Inr False else Inl x
         | Inr deleting \<Rightarrow> Inr deleting)))"

definition parentIsFullyGone :: "env \<Rightarrow> VRC \<Rightarrow> (err + bool) io" where
  "parentIsFullyGone e vrc = (case read_parent e vrc of
       None \<Rightarrow> ret (Inr True)
     | Some m \<Rightarrow> m \<bind> (\<lambda>r. ret (case r of
           Inl x \<Rightarrow> if IsNotFound x then Inr True else Inl x
         | Inr _ \<Rightarrow> Inr False)))"

definition parentIsGoneOrTerminating :: "env \<Rightarrow> VRC \<Rightarrow> (err + bool) io" where
  "parentIsGoneOrTerminating e vrc = (case read_parent e vrc of
       None \<Rightarrow> ret (Inr False)
     | Some m \<Rightarrow> m \<bind> (\<lambda>r. ret (case r of
           Inl x \<Rightarrow> if IsNotFound x then Inr True else Inl x
         | Inr deleting \<Rightarrow> Inr deleting)))"

definition blocks_owner :: "string \<Rightarrow> string \<Rightarrow> OwnerReference \<Rightarrow> bool" where
  "blocks_owner ownerKind ownerName ref =
     (ref_Kind ref = ownerKind \<and> ref_Name ref = ownerName \<and> ref_BlockOwnerDeletion ref \<noteq> Some False)"

definition clearParentBlockOwnerDeletion ::
  "OwnerReference list \<Rightarrow> string \<Rightarrow> string \<Rightarrow> OwnerReference list \<times> bool" where
  "clearParentBlockOwnerDeletion refs ownerKind ownerName =
     (map (\<lambda>ref. if blocks_owner ownerKind ownerName ref
                 then ref\<lparr>ref_BlockOwnerDeletion := Some False\<rparr> else ref) refs,
      list_ex (blocks_owner ownerKind ownerName) refs)"

text \<open>PatchWithRetry with a mutation that also reports whether it changed anything: the answer of the
  last attempt counts. The kind of the owner is read before the first attempt.\<close>

definition unblock_attempt ::
  "env \<Rightarrow> string \<Rightarrow> string \<Rightarrow> string \<Rightarrow> VRC \<times> bool \<Rightarrow> (err option \<times> VRC \<times> bool) io" where
  "unblock_attempt e ownerKind ns name = (\<lambda>(vrc, patched). get_VRC e ns name \<bind> (\<lambda>r. case r of
       Inl x \<Rightarrow> ret (Some x, vrc, patched)
     | Inr fresh \<Rightarrow>
         let (refs, changed) = clearParentBlockOwnerDeletion (oOwners fresh) ownerKind (oName fresh);
             mutated = fresh\<lparr>oOwners := refs\<rparr> in
         put_VRC e PatchVRC mutated \<bind> (\<lambda>r. ret (case r of
             Inl x \<Rightarrow> (Some x, mutated, changed)
           | Inr stored \<Rightarrow> (None, stored, changed)))))"

definition unblockParentDeletion :: "env \<Rightarrow> bool cstep" where
  "unblockParentDeletion e = getS (\<lambda>vrc.
     bindS (liftS (parentIsTerminating e vrc)) (\<lambda>terminating.
     if \<not> terminating then retS False
     else (\<lambda>v. RetryOnConflict e (unblock_attempt e (vrc_Kind v) (oNamespace v) (oName v)) (v, False)
            \<bind> (\<lambda>(r, v', patched). ret (case r of Some x \<Rightarrow> Inl x | None \<Rightarrow> Inr patched, v')))))"


section \<open>Provisioning\<close>

definition meta_attempt :: "env \<Rightarrow> VRC \<Rightarrow> unit \<Rightarrow> (err option \<times> unit) io" where
  "meta_attempt e vrc = (\<lambda>_. GetVastReplicationContent e (oName vrc) (oNamespace vrc) \<bind> (\<lambda>r. case r of
       Inl x \<Rightarrow> ret (Some x, ())
     | Inr fresh \<Rightarrow>
         let newPreview = DisplayableList_String (vrc_PVCs fresh) in
         if vrc_ObservedGeneration fresh = oGeneration fresh \<and> vrc_PVCsPreview fresh = newPreview
            \<and> DisplayableList_Equal (vrc_StatusPVCs fresh) (vrc_PVCs fresh)
         then ret (None, ())
         else UpdateVastReplicationContentStatus e (fresh\<lparr>vrc_ObservedGeneration := oGeneration fresh,
                vrc_PVCsPreview := newPreview, vrc_StatusPVCs := vrc_PVCs fresh\<rparr>)
              \<bind> (\<lambda>(r, _). ret (r, ()))))"

definition syncProvisionMeta :: "env \<Rightarrow> VRC \<Rightarrow> unit io" where
  "syncProvisionMeta e vrc = RetryOnConflict e (meta_attempt e vrc) () \<bind> (\<lambda>(r, _). case r of
       None \<Rightarrow> ret ()
     | Some x \<Rightarrow> emit_Warning e ReasonStatusUpdateFailed
         (Sprintf ''failed to sync VastReplicationContent metadata: %v'' [Error_string x]))"

definition mark_attempt :: "env \<Rightarrow> VRC \<Rightarrow> unit \<Rightarrow> (err option \<times> unit) io" where
  "mark_attempt e vrc = (\<lambda>_. GetVastReplicationContent e (oName vrc) (oNamespace vrc) \<bind> (\<lambda>r. case r of
       Inl x \<Rightarrow> ret (Some x, ())
     | Inr fresh \<Rightarrow>
         if vrc_Provisioned fresh then ret (None, ())
         else UpdateVastReplicationContentStatus e (fresh\<lparr>vrc_Provisioned := True\<rparr>)
              \<bind> (\<lambda>(r, _). ret (r, ()))))"

definition markProvisioned :: "env \<Rightarrow> VRC \<Rightarrow> unit io" where
  "markProvisioned e vrc = RetryOnConflict e (mark_attempt e vrc) () \<bind> (\<lambda>(r, _). case r of
       None \<Rightarrow> ret ()
     | Some x \<Rightarrow> emit_Warning e ReasonStatusUpdateFailed
         (Sprintf ''failed to mark VastReplicationContent as provisioned: %v'' [Error_string x]))"

definition provisionResources :: "env \<Rightarrow> VRC \<Rightarrow> (err + unit) io" where
  "provisionResources e vrc =
     bindE (NewProvisioner e vrc) (\<lambda>(prov, p).
     syncProvisionMeta e vrc \<bind> (\<lambda>_.
     ProvisionVolumes prov e p \<bind> (\<lambda>(r, _). case r of
         Inl x \<Rightarrow> ret (Inl x)
       | Inr _ \<Rightarrow> markProvisioned e vrc \<bind> (\<lambda>_. ret (Inr ())))))"


section \<open>Deletion\<close>

definition allVCRsDeleted :: "env \<Rightarrow> VRC \<Rightarrow> (err + bool) io" where
  "allVCRsDeleted e vrc =
     bindE (wrapE (Errorf_w ''list constellation VastReplicationContents: '' []) (GetConstellationVRCs e vrc))
       (\<lambda>vrcs. ret (Inr (list_all (\<lambda>other. oName other = oName vrc
          \<or> lookup_str (oAnnotations other) AnnotationCleanupDone = ''true'') vrcs)))"

definition cleanResources :: "env \<Rightarrow> unit cstep" where
  "cleanResources e = (\<lambda>vrc.
     emit_Normal e ReasonCleanupStarted
       (Sprintf ''cleaning %s resources for StorageClass %q (replicationPath=%q, protectionPolicies=%v)''
          [vrc_Kind vrc, vrc_StorageClass vrc, vrc_ReplicationPath vrc,
           ''['' @ Join (vrc_ProtectionPolicyNames vrc) '' '' @ '']'']) \<bind> (\<lambda>_.
     NewProvisioner e vrc \<bind> (\<lambda>r. case r of
         Inl x \<Rightarrow> ret (Inl x, vrc)
       | Inr (prov, p) \<Rightarrow> CleanVolumes prov e p \<bind> (\<lambda>(r, p'). ret (r, p_rp p')))))"

definition await_parent :: "env \<Rightarrow> key \<Rightarrow> Result cstep" where
  "await_parent e k = bindS (doS (bo_Next e k)) (\<lambda>delay. getS (\<lambda>vrc.
     bindS (map_errS (Errorf_w ''unblock parent deletion for VRC %s/%s: '' [oNamespace vrc, oName vrc])
              (unblockParentDeletion e)) (\<lambda>_.
     retS \<lparr>RequeueAfter = delay\<rparr>)))"

definition clean_own :: "env \<Rightarrow> key \<Rightarrow> unit cstep" where
  "clean_own e k = bindS (catchS (cleanResources e)) (\<lambda>r. case r of
       Inl x \<Rightarrow> bindS (doS (emit_Warning e ReasonCleanupFailed (Sprintf ''cleanup failed: %v'' [Error_string x])))
                  (\<lambda>_. failS (Errorf_w ''failed to clean resources: '' [] x))
     | Inr _ \<Rightarrow> bindS (doS (emit_Normal e ReasonCleanupSucceeded
                     (Sprintf ''resources for VastReplicationContent %q cleaned up'' [fst k @ ''/'' @ snd k])))
                  (\<lambda>_. putS (SetAnnotationAndUpdate e (get_VRC e) (put_VRC e PatchVRC) AnnotationCleanupDone ''true'')))"

definition finish_VRC :: "env \<Rightarrow> key \<Rightarrow> Result cstep" where
  "finish_VRC e k = getS (\<lambda>vrc.
     bindS (liftS (allVCRsDeleted e vrc)) (\<lambda>allDone.
     if \<not> allDone then bindS (doS (bo_Next e k)) (\<lambda>delay. retS \<lparr>RequeueAfter = delay\<rparr>)
     else bindS (putS (RemoveFinalizer e (get_VRC e) (put_VRC e UpdateVRC) FinalizerReplicationContent)) (\<lambda>_.
          bindS (doS (bo_Reset e k)) (\<lambda>_. retS no_requeue))))"

definition delete_VRC :: "env \<Rightarrow> key \<Rightarrow> Result cstep" where
  "delete_VRC e k = getS (\<lambda>vrc.
     if lookup_str (oAnnotations vrc) AnnotationCleanupDone = ''true'' then finish_VRC e k
     else bindS (liftS (parentIsFullyGone e vrc)) (\<lambda>parentGone.
       if \<not> parentGone then await_parent e k
       else bindS (clean_own e k) (\<lambda>_. finish_VRC e k)))"


section \<open>The handler\<close>

definition live_VRC :: "env \<Rightarrow> key \<Rightarrow> VRC \<Rightarrow> (err + Result) io" where
  "live_VRC e k vrc =
     bindE (parentIsGoneOrTerminating e vrc) (\<lambda>gone.
     if gone then
       DeleteVastReplicationContent e vrc \<bind> (\<lambda>r. ret (case r of
           None \<Rightarrow> Inr no_requeue
         | Some x \<Rightarrow> if IsNotFound x then Inr no_requeue
             else Inl (Errorf_w ''self-destruct VRC %s/%s: '' [oNamespace vrc, oName vrc] x)))
     else provisionResources e vrc \<bind> (\<lambda>r. case r of
         Inl x \<Rightarrow> if x = panic_nil then ret (Inl x)
           else emit_Warning e ReasonProvisionFailed (Sprintf ''provisioning failed: %v'' [Error_string x])
             \<bind> (\<lambda>_. maybeBackoffRetry e (Some k) (Some x))
       | Inr _ \<Rightarrow> bo_Reset e k \<bind> (\<lambda>_. ret (Inr no_requeue))))"

definition VRC_Reconcile :: "env \<Rightarrow> key \<Rightarrow> (err + Result) io" where
  "VRC_Reconcile e k =
     GetVastReplicationContent e (snd k) (fst k) \<bind> (\<lambda>r. case r of
         Inl x \<Rightarrow> ret (if IsNotFound x then Inr no_requeue else Inl x)
       | Inr vrc \<Rightarrow> EmitFor \<bind> (\<lambda>_. lookupVRCParent e vrc \<bind> (\<lambda>r. case r of
             Inl x \<Rightarrow> maybeBackoffRetry e (Some k) (Some (Errorf_w ''resolve VRC parent: '' [] x))
           | Inr _ \<Rightarrow> if oDeleting vrc then delete_VRC e k vrc \<bind> (\<lambda>(r, _). ret r)
               else live_VRC e k vrc)))"


section \<open>What the reconciler may request\<close>

definition class_read :: "env \<Rightarrow> history \<Rightarrow> string \<Rightarrow> StorageClass \<Rightarrow> bool" where
  "class_read e h n sc = earlier (\<lambda>h. k_getSC (e_k8s e) h n = Inr sc) h"

lemma class_read_mono: "class_read e h n sc \<Longrightarrow> prefix h h' \<Longrightarrow> class_read e h' n sc"
  unfolding class_read_def by (rule earlier_mono)

lemma class_read_later: "k_getSC (e_k8s e) h n = Inr sc \<Longrightarrow> prefix (h @ [c]) h' \<Longrightarrow> class_read e h' n sc"
  by (rule class_read_mono) (simp_all add: class_read_def earlier_simps)

text \<open>The VolumeReplication or VolumeGroupReplication of the content was reported as missing; a content of
  another kind has none.\<close>

definition parent_gone :: "env \<Rightarrow> VRC \<Rightarrow> history \<Rightarrow> bool" where
  "parent_gone e vrc h =
     (if vrc_Kind vrc = DestinationKindVolumeGroupReplication
      then earlier (\<lambda>h. \<exists>x. k_getVGR (e_k8s e) h (oNamespace vrc) (oName vrc) = Inl x \<and> IsNotFound x) h
      else vrc_Kind vrc = DestinationKindVolumeReplication \<longrightarrow>
        earlier (\<lambda>h. \<exists>x. k_getVR (e_k8s e) h (oNamespace vrc) (oName vrc) = Inl x \<and> IsNotFound x) h)"

lemma parent_gone_mono: "parent_gone e vrc h \<Longrightarrow> prefix h h' \<Longrightarrow> parent_gone e vrc h'"
  unfolding parent_gone_def by (auto split: if_splits elim: earlier_mono)

text \<open>Every other content of the constellation was listed as cleaned up.\<close>

definition siblings_done :: "env \<Rightarrow> history \<Rightarrow> bool" where
  "siblings_done e h = (\<exists>rp vrcs. content_version e h rp \<and> constellation_read e rp h vrcs
     \<and> (\<forall>other \<in> set vrcs. oName other \<noteq> oName rp \<longrightarrow> lookup_str (oAnnotations other) AnnotationCleanupDone = ''true''))"

lemma siblings_done_mono: "siblings_done e h \<Longrightarrow> prefix h h' \<Longrightarrow> siblings_done e h'"
  unfolding siblings_done_def by (blast intro: content_version_mono constellation_read_mono)

definition retired :: "env \<Rightarrow> VRC \<Rightarrow> history \<Rightarrow> string \<times> string \<Rightarrow> bool" where
  "retired e vrc h k = (\<exists>rp sc. parent_gone e vrc h \<and> content_version e h rp \<and> class_read e h (vrc_StorageClass vrc) sc
     \<and> orphaned e rp sc h (\<lambda>_. True) k)"

definition vrc_request :: "env \<Rightarrow> VRC \<Rightarrow> history \<Rightarrow> call \<Rightarrow> bool" where
  "vrc_request e vrc h c =
     (if kind_of c \<in> {KCreatePVC, KCreatePV} then
        \<not> oDeleting vrc \<and> (\<exists>sc. class_read e h (vrc_StorageClass vrc) sc \<and> mirror_request e vrc sc h c)
      else if kind_of c \<in> {KPpathDisable, KPpathDelete, KSnapshotDelete} then oDeleting vrc \<and> parent_gone e vrc h
      else if kind_of c = KUpdateVRC then oDeleting vrc \<and> siblings_done e h
      else case c of
        DeleteCall kind ns n \<Rightarrow> kind = ''PersistentVolumeClaim'' \<longrightarrow>
          (if oDeleting vrc then retired e vrc h (ns, n)
           else \<exists>sc. class_read e h (vrc_StorageClass vrc) sc \<and> orphaned e vrc sc h (source_dropped e vrc h) (ns, n))
      | _ \<Rightarrow> True)"

abbreviation gated_kinds :: "call_kind set" where
  "gated_kinds \<equiv> {KCreatePVC, KCreatePV, KPpathDisable, KPpathDelete, KSnapshotDelete, KUpdateVRC, KDelete}"

lemma vrc_request_other: "allows (- gated_kinds) (vrc_request e vrc)"
  unfolding allows_def vrc_request_def by (auto split: call.splits)

lemma vrc_request_delete: "kind \<noteq> ''PersistentVolumeClaim'' \<Longrightarrow> vrc_request e vrc h (DeleteCall kind ns n)"
  by (simp add: vrc_request_def)

lemma mirror_request_delete:
  "mirror_request e rp sc h (DeleteCall kind ns n) =
     (kind = ''PersistentVolumeClaim'' \<and> orphaned e rp sc h (source_dropped e rp h) (ns, n))"
  by (simp add: mirror_request_def)

lemma vrc_request_mirror:
  "\<not> oDeleting vrc \<Longrightarrow> class_read e h (vrc_StorageClass vrc) sc \<Longrightarrow> kind_of c \<in> {KCreatePVC, KCreatePV, KDelete} \<Longrightarrow>
     mirror_request e vrc sc h c \<Longrightarrow> vrc_request e vrc h c"
  by (cases c) (auto simp: vrc_request_def mirror_request_delete)

lemma within_lookupPrimary: "KRead \<in> S \<Longrightarrow> within S (lookupPrimaryStorageClass e rp)"
  unfolding lookupPrimaryStorageClass_def by (auto intro!: issues_rules within_parent split: option.split)

lemma NewProvisioner_wp:
  assumes "allows {KRead, KNewRest} Q"
  shows "wp Q (NewProvisioner e rp) (\<lambda>r w'. \<forall>prov p. r = Inr (prov, p) \<longrightarrow> provisioner_contract prov \<and> p_rp p = rp
     \<and> class_read e (hist w') (vrc_StorageClass rp) (p_sourceSc p)) w"
proof -
  note io = wp_within[OF _ assms]
  have client: "wp Q (NewFromStorageClass e sc v) P u" if "\<And>r u'. prefix (hist u) (hist u') \<Longrightarrow> P r u'" for sc v P u
    by (rule io[OF within_clients(2)]) (auto intro: that)
  have prim: "wp Q (lookupPrimaryStorageClass e rp) P u" if "\<And>r u'. prefix (hist u) (hist u') \<Longrightarrow> P r u'" for P u
    by (rule io[OF within_lookupPrimary]) (auto intro: that)
  have base: "wp Q (newBase e rp) (\<lambda>r w'. \<forall>p. r = Inr p \<longrightarrow> p_rp p = rp
     \<and> class_read e (hist w') (vrc_StorageClass rp) (p_sourceSc p)) w"
    unfolding newBase_def NewFromStorageClassName_def GetStorageClass_def
    by (intro wp_rules wp_ask allowsD[OF assms])
      (auto split: sum.split intro!: wp_rules client prim,
        erule class_read_later, erule prefix_order.trans, assumption)
  show ?thesis
    unfolding NewProvisioner_def
  proof (intro wp_control wp_bindE wp_mono[OF base], goal_cases)
    case (1 r w')
    then show ?case
      by (cases r) (simp, simp add: wp_ret blockp.provisioner_contract_axioms)
  next
    case (2 r w')
    then show ?case
      by (cases r) (simp, simp add: wp_ret filep.provisioner_contract_axioms)
  qed (rule wp_ret, simp)
qed

lemma within_status_writes:
  "KRead \<in> S \<Longrightarrow> KStatusVRC \<in> S \<Longrightarrow> KEvent \<in> S \<Longrightarrow> within S (syncProvisionMeta e vrc)"
  "KRead \<in> S \<Longrightarrow> KStatusVRC \<in> S \<Longrightarrow> KEvent \<in> S \<Longrightarrow> within S (markProvisioned e vrc)"
  unfolding syncProvisionMeta_def meta_attempt_def markProvisioned_def mark_attempt_def Let_def
  by (auto intro!: issues_rules within_retry within_reads within_VRC split: option.split)

lemma provisionResources_wp:
  assumes "\<not> oDeleting vrc" "claims_keyed e"
  shows "wp (vrc_request e vrc) (provisionResources e vrc) (\<lambda>_ _. True) w"
proof -
  let ?Q = "vrc_request e vrc"
  have al: "allows {KRead, KNewRest, KStatusVRC, KEvent} ?Q" by (rule allows_mono[OF vrc_request_other]) auto
  have meta: "wp ?Q (syncProvisionMeta e vrc) (\<lambda>_ u'. prefix (hist u) (hist u')) u" "wp ?Q (markProvisioned e vrc) (\<lambda>_ _. True) u" for u
    by (rule wp_within[OF within_status_writes(1) al] wp_within[OF within_status_writes(2) al]; simp)+
  have prov: "wp ?Q (ProvisionVolumes prov e p) (\<lambda>_ _. True) u"
    if "provisioner_contract prov" "p_rp p = vrc" "class_read e (hist u) (vrc_StorageClass vrc) (p_sourceSc p)" for prov p u
  proof (rule wp_weaken[OF provisioner_contract.ProvisionVolumes_wp[OF that(1) assms(2)]])
    fix h c assume h: "prefix (hist u) h" "mirror_request e (p_rp p) (p_sourceSc p) h c"
    show "?Q h c"
    proof (cases "kind_of c \<in> {KCreatePVC, KCreatePV, KDelete}")
      case True
      then show ?thesis using vrc_request_mirror[OF assms(1) class_read_mono[OF that(3) h(1)]] h(2) that(2) by simp
    next
      case False
      with h(2) have "kind_of c \<notin> gated_kinds"
        by (cases c) (auto simp: mirror_request_def backend_kinds_def orphan_kinds_def)
      then show ?thesis by (intro allowsD[OF vrc_request_other]) simp
    qed
  qed
  show ?thesis
    unfolding provisionResources_def
    by (intro wp_bindE wp_mono[OF NewProvisioner_wp[OF allows_mono[OF al]]])
      (auto split: sum.split intro!: wp_rules wp_mono[OF meta(1)] wp_mono[OF prov] wp_mono[OF meta(2)]
        intro: class_read_mono)
qed

lemma read_parent_gone_wp:
  assumes "allows {KRead} Q"
  shows "wp Q (parentIsFullyGone e vrc) (\<lambda>r w'. r = Inr True \<longrightarrow> parent_gone e vrc (hist w')) w"
proof -
  have rd: "Q h (GetCall kind ns n)" for h kind ns n using allowsD[OF assms] by simp
  show ?thesis
    unfolding parentIsFullyGone_def read_parent_def GetVolumeGroupReplication_def GetVolumeReplication_def
    by (auto split: sum.split intro!: wp_rules wp_ask rd simp: parent_gone_def earlier_simps)
qed

lemma cleanResources_wp:
  assumes "oDeleting vrc" "claims_keyed e" "content_version e (hist w) vrc" "parent_gone e vrc (hist w)"
  shows "wp (vrc_request e vrc) (cleanResources e vrc) (\<lambda>(r, v) w'. r = Inr () \<longrightarrow> content_version e (hist w') v) w"
proof (rule wp_from)
  let ?Q = "\<lambda>h c. prefix (hist w) h \<longrightarrow> vrc_request e vrc h c"
  have al: "allows (- {KCreatePVC, KCreatePV, KUpdateVRC, KDelete}) ?Q"
  proof (unfold allows_def, intro allI impI)
    fix h c assume c: "kind_of c \<in> - {KCreatePVC, KCreatePV, KUpdateVRC, KDelete}" "prefix (hist w) h"
    show "vrc_request e vrc h c"
    proof (cases "kind_of c \<in> gated_kinds")
      case True
      then show ?thesis using c assms(1) parent_gone_mono[OF assms(4) c(2)] by (auto simp: vrc_request_def)
    next
      case False
      then show ?thesis by (intro allowsD[OF vrc_request_other]) simp
    qed
  qed
  have claim: "vrc_request e vrc h (DeleteCall ''PersistentVolumeClaim'' ns n)"
    if "prefix (hist w) h" "class_read e h (vrc_StorageClass vrc) sc" "content_version e h rp" "orphaned e rp sc h (\<lambda>_. True) (ns, n)"
    for h ns n sc rp
    using that parent_gone_mono[OF assms(4) that(1)] assms(1) by (auto simp: vrc_request_def retired_def)
  have kinds: "clean_kinds \<subseteq> - {KCreatePVC, KCreatePV, KUpdateVRC, KDelete}"
    by (simp add: clean_kinds_def backend_kinds_def orphan_kinds_def)
  have ok: "clean_allowed e sc u ?Q" if "class_read e (hist u) (vrc_StorageClass vrc) sc" "prefix (hist w) (hist u)" for sc u
    unfolding clean_allowed_def
    by (intro conjI allI impI allows_mono[OF al kinds]) (auto intro: claim vrc_request_delete class_read_mono[OF that(1)])
  have clean: "wp ?Q (CleanVolumes prov e p) (cleaned_version e) u"
    if "provisioner_contract prov" "p_rp p = vrc" "class_read e (hist u) (vrc_StorageClass vrc) (p_sourceSc p)" "prefix (hist w) (hist u)"
    for prov p u
    by (rule provisioner_contract.CleanVolumes_wp[OF that(1) ok[OF that(3,4)] assms(2)])
      (use content_version_mono[OF assms(3) that(4)] that(2) in simp)
  have ev: "?Q h (EventCall b r s)" for h b r s by (simp add: vrc_request_def)
  show "wp ?Q (cleanResources e vrc) (\<lambda>(r, v) w'. r = Inr () \<longrightarrow> content_version e (hist w') v) w"
    unfolding cleanResources_def
  proof (intro wp_bind wp_emit ev wp_mono[OF wp_prefix[OF NewProvisioner_wp[OF allows_mono[OF al]]]], goal_cases)
    case (2 r u)
    then have pre: "prefix (hist w) (hist u)" by (auto dest: append_prefixD)
    show ?case
    proof (cases r)
      case (Inr pp)
      obtain prov p where pp: "pp = (prov, p)" by force
      with 2 Inr have p: "provisioner_contract prov" "p_rp p = vrc" "class_read e (hist u) (vrc_StorageClass vrc) (p_sourceSc p)"
        by simp_all
      show ?thesis
        unfolding Inr pp sum.case prod.case
        by (intro wp_bind wp_mono[OF clean[OF p pre]]) (auto intro!: wp_ret)
    qed (simp add: wp_ret)
  qed auto
qed

lemma finish_VRC_wp:
  assumes "oDeleting vrc" "content_version e (hist w) rp"
  shows "wp (vrc_request e vrc) (finish_VRC e k rp) (\<lambda>_ _. True) w"
proof -
  let ?Q = "vrc_request e vrc"
  have al: "allows {KRead} ?Q" by (rule allows_mono[OF vrc_request_other]) auto
  have bo: "?Q h (BackoffNext a b)" "?Q h (BackoffReset a b)" "?Q h (GetCall kind a b)" for h a b kind
    by (simp_all add: vrc_request_def)
  have fin: "wp ?Q (RemoveFinalizer e (get_VRC e) (put_VRC e UpdateVRC) FinalizerReplicationContent rp) (\<lambda>_ _. True) u"
    if "siblings_done e (hist u)" for u
  proof (rule wp_from, rule wp_within)
    show "within {KRead, KUpdateVRC} (RemoveFinalizer e (get_VRC e) (put_VRC e UpdateVRC) FinalizerReplicationContent rp)"
      by (intro within_finalizers within_storage_reads within_put) auto
    show "allows {KRead, KUpdateVRC} (\<lambda>h c. prefix (hist u) h \<longrightarrow> ?Q h c)"
      using assms(1) siblings_done_mono[OF that] by (auto simp: allows_def vrc_request_def split: call.splits)
  qed simp
  have all: "wp ?Q (allVCRsDeleted e rp) (\<lambda>r u. r = Inr True \<longrightarrow> siblings_done e (hist u)) w"
    unfolding allVCRsDeleted_def
    by (intro wp_rules wp_mono[OF wp_prefix[OF GetConstellationVRCs_wp[OF al]]])
      (auto split: sum.split intro!: wp_ret simp: siblings_done_def list_all_iff
        intro!: exI[of _ rp] content_version_mono[OF assms(2)])
  show ?thesis
    unfolding finish_VRC_def bo_Next_def bo_Reset_def
    by (intro wp_getS wp_bindS wp_liftS wp_mono[OF all])
      (auto split: sum.split intro!: wp_stepS wp_ask bo wp_mono[OF fin])
qed

lemma clean_own_wp:
  assumes "oDeleting vrc" "claims_keyed e" "content_version e (hist w) vrc" "parent_gone e vrc (hist w)"
  shows "wp (vrc_request e vrc) (clean_own e k vrc) (\<lambda>(r, v) w'. r = Inr () \<longrightarrow> content_version e (hist w') v) w"
proof -
  have ev: "vrc_request e vrc h (EventCall b r s)" for h b r s by (simp add: vrc_request_def)
  have an: "allows {KRead, KPatchVRC} (vrc_request e vrc)" by (rule allows_mono[OF vrc_request_other]) auto
  show ?thesis
    unfolding clean_own_def
    by (intro wp_bindS wp_catchS wp_mono[OF cleanResources_wp[OF assms]])
      (auto split: sum.split intro!: wp_bindS wp_doS wp_emit ev wp_failS wp_putS wp_mono[OF annotate_wp[OF an]]
        simp: optE_def split: option.splits)
qed

lemma within_read_parent: "read_parent e vrc = Some m \<Longrightarrow> KRead \<in> S \<Longrightarrow> within S m"
  unfolding read_parent_def by (auto split: if_splits intro!: issues_rules within_reads)

lemma within_parent_checks:
  "KRead \<in> S \<Longrightarrow> within S (parentIsTerminating e vrc)" "KRead \<in> S \<Longrightarrow> within S (parentIsGoneOrTerminating e vrc)"
  unfolding parentIsTerminating_def parentIsGoneOrTerminating_def
  by (auto intro!: issues_rules intro: within_read_parent)

lemma within_unblock_attempt:
  "KRead \<in> S \<Longrightarrow> KPatchVRC \<in> S \<Longrightarrow> within S (unblock_attempt e kind ns n x)"
  unfolding unblock_attempt_def by (auto intro!: issues_rules within_storage_reads within_put split: prod.split)

lemma within_await_parent:
  "KRead \<in> S \<Longrightarrow> KPatchVRC \<in> S \<Longrightarrow> KBackoff \<in> S \<Longrightarrow> within S (await_parent e k rp)"
  unfolding await_parent_def unblockParentDeletion_def
  by (auto intro!: issues_rules step_rules within_retry within_unblock_attempt within_backoff within_parent_checks
      split: prod.split)

lemma await_parent_wp: "wp (vrc_request e vrc) (await_parent e k rp) (\<lambda>_ _. True) w"
  by (rule wp_within[OF within_await_parent vrc_request_other]) auto

lemma delete_VRC_wp:
  assumes "oDeleting vrc" "claims_keyed e" "content_version e (hist w) vrc"
  shows "wp (vrc_request e vrc) (delete_VRC e k vrc) (\<lambda>_ _. True) w"
proof -
  have al: "allows {KRead} (vrc_request e vrc)" by (rule allows_mono[OF vrc_request_other]) auto
  show ?thesis
    unfolding delete_VRC_def
    by (intro wp_getS wp_step_control finish_VRC_wp assms wp_bindS wp_liftS
        wp_mono[OF wp_prefix[OF read_parent_gone_wp[OF al]]])
      (auto split: sum.split intro!: await_parent_wp wp_step_control wp_bindS wp_mono[OF clean_own_wp] finish_VRC_wp assms
        intro: content_version_mono[OF assms(3)])
qed

lemma live_VRC_wp:
  assumes "\<not> oDeleting vrc" "claims_keyed e"
  shows "wp (vrc_request e vrc) (live_VRC e k vrc) (\<lambda>_ _. True) w"
proof -
  let ?Q = "vrc_request e vrc"
  have al: "allows (- gated_kinds) ?Q" by (rule vrc_request_other)
  have gone: "within (- gated_kinds) (parentIsGoneOrTerminating e vrc)"
    by (rule within_parent_checks) simp
  have del: "wp ?Q (DeleteVastReplicationContent e vrc) (\<lambda>_ _. True) u" for u
    unfolding DeleteVastReplicationContent_def k8s_write_def by (intro wp_rules wp_ask vrc_request_delete) auto
  have bo: "within (- gated_kinds) (maybeBackoffRetry e (Some k) x)" "within (- gated_kinds) (bo_Reset e k)" for x
    by (rule within_backoff, simp)+
  have ev: "?Q h (EventCall b r s)" for h b r s by (simp add: vrc_request_def)
  show ?thesis
    unfolding live_VRC_def
    by (intro wp_bindE_within[OF gone al] wp_control wp_bind wp_mono[OF del] wp_ret wp_mono[OF provisionResources_wp[OF assms]]
        wp_emit ev wp_within[OF bo(1) al] wp_within[OF bo(2) al] TrueI)
qed

lemma within_lookupVRCParent: "KRead \<in> S \<Longrightarrow> within S (lookupVRCParent e vrc)"
  unfolding lookupVRCParent_def Let_def by (auto intro!: issues_rules within_reads within_storage_reads)

lemma VRC_Reconcile_wp:
  assumes "claims_keyed e" "k_getVRC (e_k8s e) (hist w) (fst k) (snd k) = Inr vrc"
  shows "wp (vrc_request e vrc) (VRC_Reconcile e k) (\<lambda>_ _. True) w"
proof -
  let ?Q = "vrc_request e vrc"
  have al: "allows (- gated_kinds) ?Q" by (rule vrc_request_other)
  have lookup: "within (- gated_kinds) (lookupVRCParent e vrc)" "within (- gated_kinds) (maybeBackoffRetry e (Some k) x)" for x
    by (rule within_lookupVRCParent within_backoff, simp)+
  have rd: "?Q h (GetCall kind a b)" for h kind a b by (simp add: vrc_request_def)
  have ver: "content_version e (hist u) vrc" if "prefix (hist w @ [c]) (hist u)" for u c
    by (rule content_version_mono[OF content_version_now(1)[OF assms(2), of "[c]"] that])
  show ?thesis
    unfolding VRC_Reconcile_def GetVastReplicationContent_def
    by (intro wp_bind wp_ask rd)
      (auto simp: assms(2) split: sum.split intro!: wp_bind wp_emit wp_control wp_ret wp_within[OF lookup(1) al]
        wp_within[OF lookup(2) al] live_VRC_wp assms(1) wp_mono[OF delete_VRC_wp] intro: ver)
qed

lemma VRC_Reconcile_request:
  assumes "run_state (VRC_Reconcile e k) w = (r, w')" "claims_keyed e" "length (hist w) \<le> i" "i < length (hist w')"
    and "kind_of (hist w' ! i) \<noteq> KRead"
  obtains vrc where "k_getVRC (e_k8s e) (hist w) (fst k) (snd k) = Inr vrc"
    "vrc_request e vrc (take i (hist w')) (hist w' ! i)"
proof (cases "k_getVRC (e_k8s e) (hist w) (fst k) (snd k)")
  case (Inl x)
  then have "hist w' = hist w @ [GetCall ''VastReplicationContent'' (fst k) (snd k)]"
    using assms(1) by (auto simp: VRC_Reconcile_def GetVastReplicationContent_def run_simps split: if_splits)
  then show thesis using assms(3-5) by (auto simp: nth_append split: if_splits)
next
  case (Inr vrc)
  from wp_nth[OF VRC_Reconcile_wp[OF assms(2) Inr] assms(1,3,4)] show thesis by (rule that[OF Inr])
qed

lemma mirror_PVC_oLabels:
  "oLabels (mirror_PVC n v rp src pv sc) = set_all (mirror_pvc_labels rp src sc) (set_all [(LabelManagedBy, LabelManagedByValue)] [])"
  by (simp add: mirror_PVC_def pvc_builder_defs Let_def new_meta_def ObjectMeta.defs split: option.split)

lemma label_keys_distinct:
  "distinct [LabelManagedBy, LabelStorageClass, LabelSourcePVC, LabelSourcePVCNamespace, LabelSourceVSCR,
     LabelSourceVSCRNamespace, LabelSourceVVR, LabelSourceVVRNamespace]"
  by code_simp

lemma parent_labels_other:
  "k \<noteq> nameKey \<Longrightarrow> k \<noteq> nsKey \<Longrightarrow> map_of (rev (parent_labels labels nameKey nsKey)) k = None"
  by (simp add: parent_labels_def Let_def)

lemma mirror_PVC_labels:
  "is_managed (mirror_PVC n v rp src pv sc)"
  "lookup_str (oLabels (mirror_PVC n v rp src pv sc)) LabelSourcePVC = oName src"
  "lookup_str (oLabels (mirror_PVC n v rp src pv sc)) LabelStorageClass = sc_Name sc"
  using label_keys_distinct
  by (simp_all add: is_managed_def mirror_PVC_oLabels mirror_pvc_labels_def lookup_str_def map_of_set_all
      parent_labels_other map_add_def)

text \<open>C7: A mirror claim is created only for a live content that synchronises claims, after its source, a claim
  of another StorageClass that is no mirror itself, and the source's volume were read and the mirror was
  reported as missing. The mirror is marked as managed and names its source and its StorageClass, so it never
  becomes the source of another mirror.\<close>

theorem mirror_claim_created:
  assumes "run_state (VRC_Reconcile e k) w = (r, w')" "claims_keyed e" "length (hist w) \<le> i" "i < length (hist w')"
    and "hist w' ! i = CreatePVC m"
  shows "\<exists>vrc sc src pv. k_getVRC (e_k8s e) (hist w) (fst k) (snd k) = Inr vrc \<and> \<not> oDeleting vrc \<and> vrc_SyncPVCPV vrc
     \<and> class_read e (take i (hist w')) (vrc_StorageClass vrc) sc
     \<and> source_read e (take i (hist w')) src pv \<and> pvc_StorageClassName src \<noteq> Some (vrc_StorageClass vrc)
     \<and> absent_claim e (take i (hist w')) (oNamespace src, oName m)
     \<and> is_managed m \<and> \<not> is_managed src \<and> oNamespace m = oNamespace src
     \<and> lookup_str (oLabels m) LabelSourcePVC = oName src \<and> lookup_str (oLabels m) LabelStorageClass = sc_Name sc"
proof -
  have "kind_of (hist w' ! i) \<noteq> KRead" using assms(5) by simp
  from VRC_Reconcile_request[OF assms(1-4) this] obtain vrc where
    vrc: "k_getVRC (e_k8s e) (hist w) (fst k) (snd k) = Inr vrc" "vrc_request e vrc (take i (hist w')) (CreatePVC m)"
    unfolding assms(5) by blast
  then obtain sc src pv v where "\<not> oDeleting vrc" "class_read e (take i (hist w')) (vrc_StorageClass vrc) sc" "vrc_SyncPVCPV vrc"
    "source_read e (take i (hist w')) src pv" "\<not> own_class vrc (src, pv)" and m: "m = mirror_PVC (oName m) v vrc src pv sc"
    and "absent_claim e (take i (hist w')) (okey m)"
    by (auto simp: vrc_request_def mirror_request_def)
  moreover have "oNamespace m = oNamespace src" "is_managed m" "lookup_str (oLabels m) LabelSourcePVC = oName src"
    "lookup_str (oLabels m) LabelStorageClass = sc_Name sc"
    by (subst m, simp add: mirror_PVC_labels mirror_names)+
  ultimately show ?thesis using vrc(1)
    by (intro exI[of _ vrc] exI[of _ sc] exI[of _ src] exI[of _ pv]) (simp add: own_class_def okey_def source_read_def)
qed


text \<open>C9: The protected path and the snapshots of a content are removed only when the content is being deleted and
  its VolumeReplication or VolumeGroupReplication was reported as missing.\<close>

theorem cleanup_waits_for_parent:
  assumes "run_state (VRC_Reconcile e k) w = (r, w')" "claims_keyed e" "length (hist w) \<le> i" "i < length (hist w')"
    and "kind_of (hist w' ! i) \<in> {KPpathDisable, KPpathDelete, KSnapshotDelete}"
  shows "\<exists>vrc. k_getVRC (e_k8s e) (hist w) (fst k) (snd k) = Inr vrc \<and> oDeleting vrc \<and> parent_gone e vrc (take i (hist w'))"
proof -
  have "kind_of (hist w' ! i) \<noteq> KRead" using assms(5) by auto
  from VRC_Reconcile_request[OF assms(1-4) this] obtain vrc where
    "k_getVRC (e_k8s e) (hist w) (fst k) (snd k) = Inr vrc" "vrc_request e vrc (take i (hist w')) (hist w' ! i)" .
  with assms(5) show ?thesis by (intro exI[of _ vrc] conjI) (auto simp: vrc_request_def)
qed



section \<open>Concrete runs\<close>

text \<open>A content of a block StorageClass with one source claim, and its cluster: a live content is mirrored, a
  deleted one loses its protected path, its mirror claim and its finalizer.\<close>

definition block_class :: StorageClass where
  "block_class = \<lparr>sc_Name = ''b'', sc_Provisioner = ''block.csi'', sc_Parameters =
     [(StorageClassParameterSubsystem, ''sub''), (CSIParameterPrefix @ ''provisioner-secret-name'', ''s''),
      (CSIParameterPrefix @ ''provisioner-secret-namespace'', ''ns'')], sc_MountOptions = []\<rparr>"

definition demo_content :: "bool \<Rightarrow> smap \<Rightarrow> VRC" where
  "demo_content deleting annotations = \<lparr>oName = ''c'', oNamespace = ''ns'', oLabels = [(LabelSourceVSCR, ''vs'')],
     oAnnotations = annotations, oFinalizers = [FinalizerReplicationContent], oOwners = [], oDeleting = deleting,
     oUID = ''u'', oGeneration = 1, vrc_StorageClass = ''b'', vrc_ProvisionerType = ProvisionerTypeBlock,
     vrc_Kind = DestinationKindVolumeReplication, vrc_SyncPVCPV = True, vrc_ReplicationPath = ''/k8s'',
     vrc_ProtectionPolicyNames = [], vrc_ProtectedPathName = ''p'', vrc_PVCs = [''data''],
     vrc_ReplicationState = [], vrc_Provisioned = True, vrc_ObservedGeneration = 1,
     vrc_PVCsPreview = DisplayableList_String [''data''], vrc_StatusPVCs = [''data'']\<rparr>"

definition demo_parent :: VSCR where
  "demo_parent = \<lparr>oName = ''vs'', oNamespace = ''ns'', oLabels = [], oAnnotations = [], oFinalizers = [], oOwners = [],
     oDeleting = False, oUID = ''u'', oGeneration = 1, vscr_Spec = example_vscr\<lparr>DestVolReclaimPolicy := ''Delete''\<rparr>,
     vscr_Status = \<lparr>LastFailoverType = [], CurrentPrimaryStorageClass = [], StorageClassesPreview = [],
       PpathDirMapping = [], TenantMapping = [], PpathName = [], SyncStatus = []\<rparr>\<rparr>"

definition demo_volume :: PV where
  "demo_volume = \<lparr>oName = ''pvc-1'', oNamespace = [], oLabels = [], oAnnotations = [], oFinalizers = [], oOwners = [],
     oDeleting = False, oUID = ''u'', oGeneration = 1, pv_CSI = Some \<lparr>csi_Driver = ''csi'', csi_VolumeHandle = ''/g/pvc-1'',
       csi_VolumeAttributes = [], csi_ControllerPublishSecretRef = None, csi_NodeStageSecretRef = None,
       csi_NodePublishSecretRef = None, csi_ControllerExpandSecretRef = None\<rparr>,
     pv_StorageClass = ''gold'', pv_ReclaimPolicy = ''Delete'', pv_VolumeMode = None, pv_AccessModes = [],
     pv_Capacity = [(''storage'', 1)]\<rparr>"

definition demo_mirror :: PVC where
  "demo_mirror = mirror_PVC ''old-b'' ''pv-b'' (demo_content False []) (demo_claim\<lparr>oName := ''old''\<rparr>) demo_volume block_class"

definition missing :: err where
  "missing = StatusError ''NotFound'' ''missing''"

definition demo_member :: VR where
  "demo_member = \<lparr>oName = ''c'', oNamespace = ''ns'', oLabels = [], oAnnotations = [], oFinalizers = [], oOwners = [],
     oDeleting = False, oUID = ''u'', oGeneration = 1, vr_ReplicationState = Primary, vr_ClassName = [],
     vr_AutoResync = False, vr_DataSource = ''data'', vr_State = PrimaryState\<rparr>"

definition content_env :: "VRC \<Rightarrow> Ppath option \<Rightarrow> env" where
  "content_env vrc ppath = idle_env\<lparr>
     e_k8s := idle_k8s\<lparr>k_getVRC := \<lambda>h ns n. Inr vrc, k_getVSCR := \<lambda>h ns n. Inr demo_parent,
       k_getVR := \<lambda>h ns n. if oDeleting vrc then Inl missing else Inr demo_member,
       k_getSC := \<lambda>h n. Inr block_class, k_getSecret := \<lambda>h ns n. Inr [(''endpoint'', ''e''), (''token'', ''t'')],
       k_listVRC := \<lambda>h ns sel. Inr [vrc],
       k_getPVC := \<lambda>h ns n. if (ns, n) = okey demo_claim then Inr demo_claim else Inl missing,
       k_getPV := \<lambda>h n. if n = pvc_VolumeName demo_claim then Inr demo_volume else Inl missing,
       k_write := \<lambda>h c. None, k_putVRC := \<lambda>h c. case c of UpdateVRC v \<Rightarrow> Inr v | PatchVRC v \<Rightarrow> Inr v | _ \<Rightarrow> Inl unavailable,
       k_putPVC := \<lambda>h c. case c of UpdatePVC v \<Rightarrow> Inr v | _ \<Rightarrow> Inl unavailable\<rparr>,
     e_vms := idle_vms\<lparr>v_newRest := \<lambda>h c. None,
       v_ppathGet := \<lambda>h r n. case ppath of None \<Rightarrow> Inl (VastError 404 ''gone'') | Some p \<Rightarrow> Inr p\<rparr>,
     e_storage := idle_storage\<lparr>s_listPVC := \<lambda>h ns sel. Inr (if oDeleting vrc then [demo_mirror] else []),
       s_listPods := \<lambda>h ns. Inr []\<rparr>\<rparr>"

definition demo_path :: "string \<Rightarrow> Ppath" where
  "demo_path role = \<lparr>pp_Id = 1, pp_Name = ''p'', pp_State = ''ACTIVE'', pp_FailureReason = [], pp_Role = role,
     pp_Enabled = True, pp_TenantId = 1, pp_SourceDir = ''/k8s'', pp_Streams = None, pp_FillError = None\<rparr>"

abbreviation content_run :: "env \<Rightarrow> (err + Result) \<times> world" where
  "content_run e \<equiv> run_state (VRC_Reconcile e (''ns'', ''c'')) start_world"


lemma content_env_sel:
  "k_getVRC (e_k8s (content_env v p)) = (\<lambda>h ns n. Inr v)"
  "k_getVSCR (e_k8s (content_env v p)) = (\<lambda>h ns n. Inr demo_parent)"
  "k_getVR (e_k8s (content_env v p)) = (\<lambda>h ns n. if oDeleting v then Inl missing else Inr demo_member)"
  "k_getSC (e_k8s (content_env v p)) = (\<lambda>h n. Inr block_class)"
  "k_getSecret (e_k8s (content_env v p)) = (\<lambda>h ns n. Inr [(''endpoint'', ''e''), (''token'', ''t'')])"
  "k_listVRC (e_k8s (content_env v p)) = (\<lambda>h ns sel. Inr [v])"
  "k_getPVC (e_k8s (content_env v p)) = (\<lambda>h ns n. if (ns, n) = okey demo_claim then Inr demo_claim else Inl missing)"
  "k_getPV (e_k8s (content_env v p)) = (\<lambda>h n. if n = pvc_VolumeName demo_claim then Inr demo_volume else Inl missing)"
  "k_write (e_k8s (content_env v p)) = (\<lambda>h c. None)"
  "k_putVRC (e_k8s (content_env v p)) = (\<lambda>h c. case c of UpdateVRC v \<Rightarrow> Inr v | PatchVRC v \<Rightarrow> Inr v | _ \<Rightarrow> Inl unavailable)"
  "k_putPVC (e_k8s (content_env v p)) = (\<lambda>h c. case c of UpdatePVC v \<Rightarrow> Inr v | _ \<Rightarrow> Inl unavailable)"
  "k_removeFinalizer (e_k8s (content_env v p)) = (\<lambda>fs f. (f \<in> set fs, filter (\<lambda>g. g \<noteq> f) fs))"
  "v_newRest (e_vms (content_env v p)) = (\<lambda>h c. None)"
  "v_ppathGet (e_vms (content_env v p)) = (\<lambda>h r n. case p of None \<Rightarrow> Inl (VastError 404 ''gone'') | Some p \<Rightarrow> Inr p)"
  "v_act (e_vms (content_env v p)) = (\<lambda>h r op. Some unavailable)"
  "v_isNotFound (e_vms (content_env v p)) = (\<lambda>x. as_vast x = Some 404)"
  "s_listPVC (e_storage (content_env v p)) = (\<lambda>h ns sel. Inr (if oDeleting v then [demo_mirror] else []))"
  "s_listPods (e_storage (content_env v p)) = (\<lambda>h ns. Inr [])"
  "s_listVR (e_storage (content_env v p)) = (\<lambda>h ns sel. Inl unavailable)"
  "e_retrySteps (content_env v p) = Suc (Suc (Suc (Suc 0)))" "e_sslVerify (content_env v p) = False" "e_urlHost (content_env v p) = (\<lambda>s. None)"
  "e_pvcNameFormat (content_env v p) = ''{pvc_name}-{sc_name}''" "e_pvNameFormat (content_env v p) = ''{pv_name}-{sc_name}''"
  by (simp_all add: content_env_def idle_simps numeral_eq_Suc)

lemma other_parent_key: "LabelSourceVVR \<noteq> LabelSourceVSCR"
  by code_simp

lemma demo_content_sel:
  "oName (demo_content d a) = ''c''" "oNamespace (demo_content d a) = ''ns''" "oAnnotations (demo_content d a) = a"
  "oFinalizers (demo_content d a) = [FinalizerReplicationContent]" "oDeleting (demo_content d a) = d"
  "lookup_str (oLabels (demo_content d a)) LabelSourceVSCR = ''vs''" "lookup_str (oLabels (demo_content d a)) LabelSourceVVR = []"
  "map_of (oLabels (demo_content d a)) LabelSourceVSCR = Some ''vs''" "map_of (oLabels (demo_content d a)) LabelSourceVVR = None"
  "vrc_StorageClass (demo_content d a) = ''b''" "vrc_ProvisionerType (demo_content d a) = ProvisionerTypeBlock"
  "vrc_Kind (demo_content d a) = DestinationKindVolumeReplication" "vrc_SyncPVCPV (demo_content d a)"
  "vrc_ProtectionPolicyNames (demo_content d a) = []" "vrc_PVCs (demo_content d a) = [''data'']"
  "vrc_StatusPVCs (demo_content d a) = [''data'']" "vrc_ProtectedPathName (demo_content d a) = ''p''"
  "vrc_Provisioned (demo_content d a)" "vrc_ObservedGeneration (demo_content d a) = 1" "oGeneration (demo_content d a) = 1"
  "vrc_PVCsPreview (demo_content d a) = DisplayableList_String [''data'']"
  by (simp_all add: demo_content_def lookup_str_def other_parent_key)

lemmas content_simps = content_env_sel demo_content_sel start_world_sel optE_def run_simps run_stepS run_bindS run_liftS run_doS Let_def
lemmas content_defs = VRC_Reconcile_def lookupVRCParent_def GetVastReplicationContent_def EmitFor_def
  GetVastStorageClassReplication_def delete_VRC_def finish_VRC_def allVCRsDeleted_def GetConstellationVRCs_def constellation_label_def
  ListVastReplicationContentsByLabelSelector_def RemoveFinalizer_def updateFinalizerWithRetry_def RetryOnConflict_def
  update_attempt_def put_VRC_def get_VRC_def bo_Reset_def get_VSCR_def getS_def

lemma block_class_eval:
  "lookup_str (ExtractPrefixedParams CSIParameterPrefix (sc_Parameters block_class)) ''provisioner-secret-name'' = ''s''"
  "lookup_str (ExtractPrefixedParams CSIParameterPrefix (sc_Parameters block_class)) ''provisioner-secret-namespace'' = ''ns''"
  "lookup_str (ExtractNonPrefixedParams CSIParameterPrefix (sc_Parameters block_class)) StorageClassParameterVolumeGroup = []"
  "IsBlockStorageClass block_class" "sc_Name block_class = ''b''"
  by code_simp+

lemma mirror_name_eval:
  "SanitizeK8sName (formatName (\<lambda>s. None) ''{pvc_name}-{sc_name}'' (no_values\<lparr>PVCName := ''data'', PVName := ''pvc-1'',
     Endpoint := ''e'', SCName := ''b''\<rparr>)) = ''data-b''"
  "SanitizeK8sName (formatName (\<lambda>s. None) ''{pv_name}-{sc_name}'' (no_values\<lparr>PVCName := ''data'', PVName := ''pvc-1'',
     Endpoint := ''e'', SCName := ''b''\<rparr>)) = ''pvc-1-b''"
  by code_simp+

definition demo_rest_b :: rest where
  "demo_rest_b = \<lparr>cfg_Host = ''e'', cfg_Username = [], cfg_Password = [], cfg_Tenant = [], cfg_Token = ''t'', cfg_SslVerify = False\<rparr>"

lemma run_client:
  "run_state (NewFromStorageClass (content_env v p) block_class False) w =
     (Inr demo_rest_b, record_call (content_env v p) (NewRestCall demo_rest_b) 0
        (record_call (content_env v p) (GetCall ''Secret'' ''ns'' ''s'') 0 w))"
  by (simp add: NewFromStorageClass_def block_class_eval GetSecret_def NewFromSecretData_def New_def content_env_sel run_simps
      lookup_str_list Let_def demo_rest_b_def)

lemma demo_parent_sel:
  "PrimaryStorageClass (vscr_Spec demo_parent) = ''b''" "DestVolReclaimPolicy (vscr_Spec demo_parent) = ''Delete''"
  by (simp_all add: demo_parent_def example_vscr_def)

lemmas clean_run_defs = read_parent_def parentIsFullyGone_def GetVolumeReplication_def clean_own_def cleanResources_def
  CleanVolumes_def getPPathForSource_def getPPath_def lazyCache_get_def vms_def disable_ppath_def catchS_def

lemma IsNotFound_missing: "IsNotFound missing"
  by (simp add: missing_def ReasonForError_def errors_As.simps as_status_def)

lemma kinds_other: "DestinationKindVolumeReplication \<noteq> DestinationKindVolumeGroupReplication" by code_simp

lemmas new_run_defs = NewProvisioner_def newBase_def NewFromStorageClassName_def lookupPrimaryStorageClass_def sourceVSCR_def
     GetStorageClass_def run_client demo_parent_sel kinds_other IsNotFound_missing block_class_eval wrapErr_def panic_nil_def Errorf_w_def

lemmas orphan_run_defs = waitAfterPpathDisable_def deleteSnapshots_def BlockProvisioner_def block_CleanVolumeCb_def
  cleanReplicaMirrorOrphans_def shouldRetainDestVolumes_def lookupDestVolReclaimPolicy_def or_retain_def DestVolReclaimPolicyRetain_def
  ListPVCsByLabelSelector_def clean_orphan_def delete_orphan_def IsPVCUsedByPod_def get_PVC_def put_PVC_def k8s_write_def
  CleanKubernetesResources_def cleanVolumeReplication_def ListVolumeReplicationsByLabelSelector_def
  forE.simps as_vast_def

lemma demo_mirror_sel: "oFinalizers demo_mirror = [FinalizerPVC]" "oName demo_mirror = ''old-b''" "oNamespace demo_mirror = ''ns''"
  by (simp_all add: demo_mirror_def mirror_PVC_def demo_volume_def pvc_builder_defs new_meta_def ObjectMeta.defs Let_def demo_claim_def)

lemma other_annotation: "AnnotationSnapshotCleanupWaitDone \<noteq> AnnotationCleanupDone" by code_simp

lemmas provision_run_defs = live_VRC_def parentIsGoneOrTerminating_def provisionResources_def syncProvisionMeta_def meta_attempt_def
  ProvisionVolumes_def classifyConstellationPVCs_def constellation_claims_def classify_claim_def GetPVCandPV_def GetPVC_def GetPVFromPVC_def GetPV_def
  computeSourceToDelete_def source_to_delete_def block_ProvisionVolumeCb_def sync_mirrors_def ensureReplicaMirrors_def
  own_class_def isVolumeGroup_def ensureMirrorPVCPV_def FormatPVCName_def FormatPVName_def endpointFromStorageClass_def GetSecretValue_def GetSecret_def
  mirrorVolumeHandle_def EnsurePV_def EnsurePVC_def ensure_object_def

lemma demo_source_sel:
  "oName demo_claim = ''data''" "oNamespace demo_claim = ''ns''" "pvc_StorageClassName demo_claim = Some ''gold''"
  "pvc_VolumeName demo_claim = ''pvc-1''" "okey demo_claim = (''ns'', ''data'')" "\<not> is_managed demo_claim" "oName demo_volume = ''pvc-1''"
  "pv_Capacity demo_volume = [(''storage'', 1)]"
  by (simp_all add: demo_claim_def okey_def is_managed_def lookup_str_list demo_volume_def LabelManagedBy_def LabelManagedByValue_def)

lemma demo_volume_CSI: "\<exists>c. pv_CSI demo_volume = Some c \<and> csi_VolumeHandle c = ''/g/pvc-1'' \<and> csi_Driver c = ''csi''"
  by (simp add: demo_volume_def)

lemma role_eval: "isDestinationRole ''destination''" by code_simp

lemmas run_defs = content_defs content_simps lookup_str_list new_run_defs clean_run_defs orphan_run_defs provision_run_defs

abbreviation released_env :: env where
  "released_env \<equiv> content_env (demo_content True [(AnnotationCleanupDone, ''true'')]) None"

abbreviation retired_env :: env where
  "retired_env \<equiv> content_env (demo_content True [(AnnotationSnapshotCleanupWaitDone, ''true'')]) None"

abbreviation disabled_env :: env where
  "disabled_env \<equiv> content_env (demo_content True []) (Some (demo_path ''source''))"

abbreviation mirrored_env :: env where
  "mirrored_env \<equiv> content_env (demo_content False []) (Some (demo_path ''destination''))"

lemma released_run:
  "map kind_of (hist (snd (content_run released_env))) = [KRead, KRead, KRead, KUpdateVRC, KBackoff]"
  by (simp add: content_defs content_simps lookup_str_list)

lemma disabled_run:
  "map kind_of (hist (snd (content_run disabled_env))) =
     [KRead, KRead, KRead, KEvent, KRead, KRead, KNewRest, KRead, KRead, KNewRest, KVmsRead, KPpathDisable, KEvent]"
  by (simp add: content_defs content_simps lookup_str_list clean_run_defs new_run_defs demo_path_def)

lemma retired_run:
  "length (hist (snd (content_run retired_env))) = 20"
  "hist (snd (content_run retired_env)) ! 15 = DeleteCall ''PersistentVolumeClaim'' ''ns'' ''old-b''"
  by (simp_all add: content_defs content_simps lookup_str_list clean_run_defs new_run_defs orphan_run_defs
      demo_mirror_sel other_annotation DeferredError_Err_def DeferredError_IsEmpty_def unavailable_def)

lemma mirrored_run:
  "map kind_of (hist (snd (content_run mirrored_env))) =
     [KRead, KRead, KRead, KRead, KRead, KNewRest, KRead, KRead, KRead, KRead, KRead, KRead, KNewRest, KVmsRead,
      KRead, KRead, KRead, KCreatePV, KRead, KCreatePVC, KEvent, KRead, KRead, KRead, KBackoff]"
proof -
  obtain c where "pv_CSI demo_volume = Some c" "csi_VolumeHandle c = ''/g/pvc-1''" "csi_Driver c = ''csi''"
    using demo_volume_CSI by blast
  then show ?thesis
    by (simp add: run_defs demo_path_def demo_source_sel mirror_name_eval demo_member_def DisplayableList_Equal_def
        mirror_names role_eval errS_def left_err_def DeferredError_Add_def DeferredError_Err_def DeferredError_IsEmpty_def
        markProvisioned_def mark_attempt_def)
qed

lemma content_env_keyed: "claims_keyed (content_env v p)"
  by (auto simp: claims_keyed_def content_env_sel split: if_splits)

theorem mirror_claim_created_witness:
  "\<exists>m. hist (snd (content_run mirrored_env)) ! 19 = CreatePVC m \<and> is_managed m
     \<and> class_read mirrored_env (take 19 (hist (snd (content_run mirrored_env)))) ''b'' block_class"
proof -
  have at: "19 < length (hist (snd (content_run mirrored_env)))" "kind_of (hist (snd (content_run mirrored_env)) ! 19) = KCreatePVC"
    using kind_at[OF mirrored_run, of 19] by simp_all
  from at(2) obtain m where m: "hist (snd (content_run mirrored_env)) ! 19 = CreatePVC m"
    by (blast dest: kind_call)
  from mirror_claim_created[OF prod.collapse[symmetric] content_env_keyed _ at(1) m] show ?thesis
    by (auto simp: m start_world_sel content_env_sel demo_content_sel class_read_def earlier_def)
qed


theorem cleanup_waits_for_parent_witness:
  "parent_gone disabled_env (demo_content True []) (take 11 (hist (snd (content_run disabled_env))))"
  using cleanup_waits_for_parent[OF prod.collapse[symmetric] content_env_keyed, where w = start_world and i = 11] kind_at[OF disabled_run, of 11]
  by (auto simp: start_world_sel content_env_sel demo_content_sel)


end
