(* ===== verification/MirrorStore.thy ===== *)
theory MirrorStore
  imports VrcController
begin

text \<open>
  The creation of a mirror claim and volume (ensureMirrorPVCPV of internal/provisioner/base.go) against an
  API server that keeps what it stores. The server is described by its laws: what a read answers, when a
  creation is accepted, and that reads and events change nothing. The abstract operation adds an object to a
  finite map unless its key is taken.
\<close>

definition put_absent :: "'k \<Rightarrow> 'v \<Rightarrow> ('k \<rightharpoonup> 'v) \<Rightarrow> 'k \<rightharpoonup> 'v" where
  "put_absent k v m = (if k \<in> dom m then m else m(k \<mapsto> v))"

lemma put_absent_idem: "put_absent k u (put_absent k v m) = put_absent k v m"
  by (simp add: put_absent_def)

lemma put_absent_keeps: "m k = Some u \<Longrightarrow> put_absent k' v m k = Some u" "k \<in> dom (put_absent k v m)"
  by (auto simp: put_absent_def)

definition answers :: "err + 'v \<Rightarrow> 'v option \<Rightarrow> bool" where
  "answers r v = (case v of Some x \<Rightarrow> r = Inr x | None \<Rightarrow> \<exists>x. r = Inl x \<and> IsNotFound x)"

text \<open>\<open>serves e vols claims\<close>: the volumes and claims the server of \<open>e\<close> holds after a history. It
  answers every read with what it holds and accepts the creation of an object whose name is free.\<close>

definition serves :: "env \<Rightarrow> (history \<Rightarrow> string \<rightharpoonup> PV) \<Rightarrow> (history \<Rightarrow> string \<times> string \<rightharpoonup> PVC) \<Rightarrow> bool" where
  "serves e vols claims =
     ((\<forall>h n. answers (k_getPV (e_k8s e) h n) (vols h n))
      \<and> (\<forall>h ns n. answers (k_getPVC (e_k8s e) h ns n) (claims h (ns, n)))
      \<and> (\<forall>h v. vols h (oName v) = None \<longrightarrow> k_write (e_k8s e) h (CreatePV v) = None)
      \<and> (\<forall>h v. claims h (okey v) = None \<longrightarrow> k_write (e_k8s e) h (CreatePVC v) = None)
      \<and> (\<forall>h v. vols (h @ [CreatePV v]) = put_absent (oName v) v (vols h) \<and> claims (h @ [CreatePV v]) = claims h)
      \<and> (\<forall>h v. claims (h @ [CreatePVC v]) = put_absent (okey v) v (claims h) \<and> vols (h @ [CreatePVC v]) = vols h)
      \<and> (\<forall>h c. kind_of c \<in> {KRead, KEvent} \<longrightarrow> vols (h @ [c]) = vols h \<and> claims (h @ [c]) = claims h))"

lemma serves_quiet:
  assumes "serves e vols claims" "\<forall>c \<in> set cs. kind_of c \<in> {KRead, KEvent}"
  shows "vols (h @ cs) = vols h \<and> claims (h @ cs) = claims h"
  using assms(2)
proof (induction cs rule: rev_induct)
  case (snoc c cs)
  have "vols ((h @ cs) @ [c]) = vols (h @ cs) \<and> claims ((h @ cs) @ [c]) = claims (h @ cs)"
    using assms(1) snoc.prems unfolding serves_def by (metis UnCI list.set_intros(1) set_append)
  then show ?case using snoc by simp
qed simp

lemma wp_quiet:
  assumes "serves e vols claims" "within {KRead, KEvent} m"
    and "\<And>a w'. vols (hist w') = vols (hist w) \<Longrightarrow> claims (hist w') = claims (hist w) \<Longrightarrow> P a w'"
  shows "wp anything m P w"
proof -
  obtain a w' where run: "run_state m w = (a, w')" by force
  from movesD[OF assms(2) run] obtain cs where "hist w' = hist w @ cs" "\<forall>c \<in> set cs. kind_of c \<in> {KRead, KEvent}"
    by (auto simp: issues_def list_all_iff)
  with serves_quiet[OF assms(1)] have "vols (hist w') = vols (hist w)" "claims (hist w') = claims (hist w)" by simp_all
  then show ?thesis using run assms(3) movesD[OF assms(2) run]
    by (auto simp: wp_def justified_def issues_def)
qed

lemma ensure_object_store:
  assumes "answers (get (hist w)) old" "old = None \<Longrightarrow> put (hist w @ [g]) = None"
    and "old \<noteq> None \<Longrightarrow> P (Inr False) (record_call e g 0 w)"
    and "old = None \<Longrightarrow> P (Inr True) (record_call e c 0 (record_call e g 0 w))"
  shows "wp anything (ensure_object what (ask e g get) (ask e c put)) P w"
  unfolding ensure_object_def using assms
  by (cases old) (auto simp: answers_def intro!: wp_rules wp_ask)

lemma Ensure_store:
  assumes "serves e vols claims"
  shows "(\<And>w'. vols (hist w') = put_absent (oName v) v (vols (hist w)) \<Longrightarrow> claims (hist w') = claims (hist w) \<Longrightarrow>
            P (Inr (oName v \<notin> dom (vols (hist w)))) w') \<Longrightarrow> wp anything (EnsurePV e v) P w"
    and "(\<And>w'. claims (hist w') = put_absent (okey c) c (claims (hist w)) \<Longrightarrow> vols (hist w') = vols (hist w) \<Longrightarrow>
            P (Inr (okey c \<notin> dom (claims (hist w)))) w') \<Longrightarrow> wp anything (EnsurePVC e c) P w"
proof -
  note quiet = serves_quiet[OF assms, of "[GetCall a b d]" for a b d, simplified]
  have laws: "answers (k_getPV (e_k8s e) h n) (vols h n)" "answers (k_getPVC (e_k8s e) h ns n) (claims h (ns, n))"
    "vols h (oName v) = None \<Longrightarrow> k_write (e_k8s e) h (CreatePV v) = None"
    "claims h (okey c) = None \<Longrightarrow> k_write (e_k8s e) h (CreatePVC c) = None"
    "vols (h @ [CreatePV v]) = put_absent (oName v) v (vols h)" "claims (h @ [CreatePV v]) = claims h"
    "claims (h @ [CreatePVC c]) = put_absent (okey c) c (claims h)" "vols (h @ [CreatePVC c]) = vols h" for h n ns
    using assms by (auto simp: serves_def)
  have after: "vols (h @ [GetCall a b d, CreatePV v]) = put_absent (oName v) v (vols h)"
    "claims (h @ [GetCall a b d, CreatePV v]) = claims h"
    "claims (h @ [GetCall a b d, CreatePVC c]) = put_absent (okey c) c (claims h)"
    "vols (h @ [GetCall a b d, CreatePVC c]) = vols h" for h a b d
    using laws(5-8)[of "h @ [GetCall a b d]"] quiet by simp_all
  show "wp anything (EnsurePV e v) P w"
    if "\<And>w'. vols (hist w') = put_absent (oName v) v (vols (hist w)) \<Longrightarrow> claims (hist w') = claims (hist w) \<Longrightarrow>
            P (Inr (oName v \<notin> dom (vols (hist w)))) w'"
    unfolding EnsurePV_def GetPV_def k8s_write_def
    by (rule ensure_object_store[where old = "vols (hist w) (oName v)"])
      (use that in \<open>auto simp: laws quiet after put_absent_def dom_def\<close>)
  show "wp anything (EnsurePVC e c) P w"
    if "\<And>w'. claims (hist w') = put_absent (okey c) c (claims (hist w)) \<Longrightarrow> vols (hist w') = vols (hist w) \<Longrightarrow>
            P (Inr (okey c \<notin> dom (claims (hist w)))) w'"
    unfolding EnsurePVC_def GetPVC_def k8s_write_def
    by (rule ensure_object_store[where old = "claims (hist w) (okey c)"])
      (use that in \<open>auto simp: laws quiet after put_absent_def dom_def okey_def\<close>)
qed

text \<open>The abstract operation: the mirror volume and the mirror claim are added unless their names are taken. The
  flag says whether anything was added; an error leaves the store as it was.\<close>

definition mirrored ::
  "VRC \<Rightarrow> PVC \<Rightarrow> PV \<Rightarrow> StorageClass \<Rightarrow> (string \<rightharpoonup> PV) \<Rightarrow> (string \<times> string \<rightharpoonup> PVC) \<Rightarrow> bool
     \<Rightarrow> (string \<rightharpoonup> PV) \<Rightarrow> (string \<times> string \<rightharpoonup> PVC) \<Rightarrow> bool" where
  "mirrored rp src pv sc vols claims created vols' claims' = (\<exists>n m hdl dr ref.
     vols' = put_absent n (mirror_PV n hdl dr ref src pv sc) vols
     \<and> claims' = put_absent (oNamespace src, m) (mirror_PVC m n rp src pv sc) claims
     \<and> created = (n \<notin> dom vols \<or> (oNamespace src, m) \<notin> dom claims))"

definition store_outcome ::
  "VRC \<Rightarrow> PVC \<Rightarrow> PV \<Rightarrow> StorageClass \<Rightarrow> (history \<Rightarrow> string \<rightharpoonup> PV) \<Rightarrow> (history \<Rightarrow> string \<times> string \<rightharpoonup> PVC)
     \<Rightarrow> history \<Rightarrow> err + bool \<Rightarrow> history \<Rightarrow> bool" where
  "store_outcome rp src pv sc vols claims h r h' = (case r of
     Inl _ \<Rightarrow> vols h' = vols h \<and> claims h' = claims h
   | Inr created \<Rightarrow> mirrored rp src pv sc (vols h) (claims h) created (vols h') (claims h'))"

lemma wp_bindE_quiet:
  assumes "serves e vols claims" "within {KRead} m"
    and "\<And>x w'. vols (hist w') = vols (hist w) \<Longrightarrow> claims (hist w') = claims (hist w) \<Longrightarrow> P (Inl x) w'"
    and "\<And>a w'. vols (hist w') = vols (hist w) \<Longrightarrow> claims (hist w') = claims (hist w) \<Longrightarrow> wp anything (f a) P w'"
  shows "wp anything (bindE m f) P w"
  by (intro wp_bindE wp_quiet[OF assms(1)] within_mono[OF assms(2)]) (auto split: sum.split intro: assms(3,4))

lemma ensureMirrorPVCPV_store:
  assumes "serves e vols claims"
  shows "wp anything (ensureMirrorPVCPV e rp src pv sc) (\<lambda>r w'. store_outcome rp src pv sc vols claims (hist w) r (hist w')) w"
proof -
  have finish: "wp anything
      (bindE (wrapE g1 (EnsurePV e (mirror_PV n hdl dr ref src pv sc))) (\<lambda>a.
       bindE (wrapE g2 (EnsurePVC e (mirror_PVC m n rp src pv sc))) (\<lambda>b.
       if a \<or> b then emit_Normal e rsn msg \<bind> (\<lambda>_. ret (Inr True)) else ret (Inr False))))
      (\<lambda>r w'. store_outcome rp src pv sc vols claims (hist w) r (hist w')) v"
    if "vols (hist v) = vols (hist w)" "claims (hist v) = claims (hist w)" for v g1 g2 n hdl dr ref m rsn msg
  proof (intro wp_bindE wp_wrapE Ensure_store(1)[OF assms], simp add: mirror_names, intro wp_bindE wp_wrapE Ensure_store(2)[OF assms], goal_cases)
    case (1 u u')
    have ev: "vols (hist u' @ [EventCall x y z]) = vols (hist u')" "claims (hist u' @ [EventCall x y z]) = claims (hist u')" for x y z
      using serves_quiet[OF assms, of "[EventCall x y z]"] by simp_all
    have "mirrored rp src pv sc (vols (hist w)) (claims (hist w))
        (n \<notin> dom (vols (hist w)) \<or> (oNamespace src, m) \<notin> dom (claims (hist w))) (vols (hist u')) (claims (hist u'))"
      unfolding mirrored_def using 1 that
      by (intro exI[of _ n] exI[of _ m] exI[of _ hdl] exI[of _ dr] exI[of _ ref]) (simp add: okey_def mirror_names)
    then show ?case
      using 1 that by (simp add: okey_def mirror_names) (intro conjI impI wp_rules; simp add: store_outcome_def ev)
  qed
  have same: "store_outcome rp src pv sc vols claims (hist w) (Inl x) (hist w')"
    if "vols (hist w') = vols (hist w)" "claims (hist w') = claims (hist w)" for x w'
    using that by (simp add: store_outcome_def)
  show ?thesis
    unfolding ensureMirrorPVCPV_def Let_def
    by (intro wp_control wp_ret wp_bindE_quiet[OF assms] finish same issues_rules within_names within_parent) auto
qed



section \<open>A concrete server\<close>

definition kept_volumes :: "history \<Rightarrow> string \<rightharpoonup> PV" where
  "kept_volumes h = fold (\<lambda>c m. case c of CreatePV v \<Rightarrow> put_absent (oName v) v m | _ \<Rightarrow> m) h Map.empty"

definition kept_claims :: "history \<Rightarrow> string \<times> string \<rightharpoonup> PVC" where
  "kept_claims h = fold (\<lambda>c m. case c of CreatePVC v \<Rightarrow> put_absent (okey v) v m | _ \<Rightarrow> m) h Map.empty"

definition kept :: "'v option \<Rightarrow> err + 'v" where
  "kept v = (case v of Some x \<Rightarrow> Inr x | None \<Rightarrow> Inl missing)"

definition store_env :: env where
  "store_env = (content_env (demo_content False []) None)\<lparr>
     e_k8s := (e_k8s (content_env (demo_content False []) None))\<lparr>k_getPV := \<lambda>h n. kept (kept_volumes h n),
       k_getPVC := \<lambda>h ns n. kept (kept_claims h (ns, n)), k_write := \<lambda>h c. None\<rparr>\<rparr>"

lemma store_env_sel:
  "k_getPV (e_k8s store_env) = (\<lambda>h n. kept (kept_volumes h n))" "k_write (e_k8s store_env) = (\<lambda>h c. None)"
  "k_getPVC (e_k8s store_env) = (\<lambda>h ns n. kept (kept_claims h (ns, n)))"
  "k_getSecret (e_k8s store_env) = (\<lambda>h ns n. Inr [(''endpoint'', ''e''), (''token'', ''t'')])"
  "e_pvcNameFormat store_env = ''{pvc_name}-{sc_name}''" "e_pvNameFormat store_env = ''{pv_name}-{sc_name}''"
  "e_urlHost store_env = (\<lambda>s. None)"
  by (simp_all add: store_env_def content_env_sel)

lemma kept_snoc:
  "kept_volumes (h @ [c]) = (case c of CreatePV v \<Rightarrow> put_absent (oName v) v (kept_volumes h) | _ \<Rightarrow> kept_volumes h)"
  "kept_claims (h @ [c]) = (case c of CreatePVC v \<Rightarrow> put_absent (okey v) v (kept_claims h) | _ \<Rightarrow> kept_claims h)"
  by (simp_all add: kept_volumes_def kept_claims_def split: call.split)

lemma store_env_serves: "serves store_env kept_volumes kept_claims"
  unfolding serves_def
  by (auto simp: store_env_sel kept_snoc kept_def answers_def IsNotFound_missing split: option.split call.split)

abbreviation store_run :: "(err + bool) \<times> world" where
  "store_run \<equiv> run_state (ensureMirrorPVCPV store_env (demo_content False []) demo_claim demo_volume block_class) start_world"

lemma store_run_created: "fst store_run = Inr True"
proof -
  obtain c where c: "pv_CSI demo_volume = Some c" "csi_VolumeHandle c = ''/g/pvc-1''" "csi_Driver c = ''csi''"
    using demo_volume_CSI by blast
  show ?thesis
    by (simp add: ensureMirrorPVCPV_def c FormatPVCName_def FormatPVName_def endpointFromStorageClass_def GetSecretValue_def
        GetSecret_def mirrorVolumeHandle_def EnsurePV_def EnsurePVC_def ensure_object_def GetPV_def GetPVC_def k8s_write_def
        store_env_sel run_simps Let_def block_class_eval demo_source_sel mirror_name_eval mirror_names start_world_sel
        kept_def kept_volumes_def kept_claims_def IsNotFound_missing)
qed


end
