(* ===== verification/VrcProgress.thy ===== *)
theory VrcProgress
  imports VrcController
begin

text \<open>
  Progress of the deletion of a VastReplicationContent
  (internal/controller/vastreplicationcontent_controller.go with the retry loop of
  internal/common/k8s_client/finalizers.go): a content that is cleaned up loses its finalizer as soon as the
  other contents of its constellation are done, even when the API server answers with conflicts at first.
\<close>

definition updates :: "history \<Rightarrow> nat" where
  "updates h = length (filter (\<lambda>c. kind_of c = KUpdateVRC) h)"

lemma updates_simps [simp]:
  "updates [] = 0" "updates (c # cs) = (if kind_of c = KUpdateVRC then 1 else 0) + updates cs" "updates (h @ cs) = updates h + updates cs"
  by (simp_all add: updates_def)

lemma updates_mono: "prefix h h' \<Longrightarrow> updates h \<le> updates h'"
  by (auto simp: prefix_def)

text \<open>A server that always reads the content and answers an update with a conflict at most until it has seen \<open>m\<close>
  updates.\<close>

definition settles :: "env \<Rightarrow> nat \<Rightarrow> bool" where
  "settles e m = ((\<forall>h ns n. \<exists>v. k_getVRC (e_k8s e) h ns n = Inr v)
     \<and> (\<forall>h u. (\<exists>s. k_putVRC (e_k8s e) h (UpdateVRC u) = Inr s)
          \<or> updates h < m \<and> (\<exists>x. k_putVRC (e_k8s e) h (UpdateVRC u) = Inl x \<and> IsConflict x)))"

text \<open>An update was accepted.\<close>

definition update_accepted :: "env \<Rightarrow> history \<Rightarrow> bool" where
  "update_accepted e h = (\<exists>g u s. prefix (g @ [UpdateVRC u]) h \<and> k_putVRC (e_k8s e) g (UpdateVRC u) = Inr s)"

lemma update_acceptedI: "k_putVRC (e_k8s e) h (UpdateVRC u) = Inr s \<Longrightarrow> update_accepted e (h @ [UpdateVRC u])"
  unfolding update_accepted_def by blast

lemma update_accepted_mono: "update_accepted e h \<Longrightarrow> prefix h h' \<Longrightarrow> update_accepted e h'"
  unfolding update_accepted_def by (meson prefix_order.trans)

lemma retry_settles:
  assumes "settles e m" "m \<le> updates (hist w) + n"
  shows "wp anything (retry_loop n (update_attempt (get_VRC e) (put_VRC e UpdateVRC)) obj)
           (\<lambda>(r, _) w'. r = None \<and> update_accepted e (hist w')) w"
  using assms(2)
proof (induction n arbitrary: obj w)
  case 0
  then obtain s where "k_putVRC (e_k8s e) (hist w) (UpdateVRC obj) = Inr s"
    using assms(1) unfolding settles_def by (metis add.right_neutral leD)
  then show ?case
    by (auto simp: update_attempt_def put_VRC_def intro!: wp_rules wp_ask update_acceptedI)
next
  case (Suc n)
  show ?case
  proof (cases "\<exists>s. k_putVRC (e_k8s e) (hist w) (UpdateVRC obj) = Inr s")
    case True
    then show ?thesis
      by (auto simp: update_attempt_def put_VRC_def intro!: wp_rules wp_ask update_acceptedI)
  next
    case False
    then obtain x where x: "k_putVRC (e_k8s e) (hist w) (UpdateVRC obj) = Inl x" "IsConflict x"
      using assms(1) unfolding settles_def by metis
    obtain v where v: "k_getVRC (e_k8s e) (hist w @ [UpdateVRC obj]) (oNamespace obj) (oName obj) = Inr v"
      using assms(1) unfolding settles_def by blast
    have "wp anything (update_attempt (get_VRC e) (put_VRC e UpdateVRC) obj)
        (\<lambda>(r, _) w'. r = Some x \<and> m \<le> updates (hist w') + n) w"
      unfolding update_attempt_def put_VRC_def get_VRC_def refreshObjectMetadata_def GetVastReplicationContent_def
      using x v Suc.prems by (auto intro!: wp_rules wp_ask)
    then show ?thesis unfolding retry_loop.simps
      by (intro wp_bind, elim wp_mono) (use x Suc.IH in \<open>auto intro!: wp_rules\<close>)
  qed
qed

lemma RemoveFinalizer_settles:
  assumes "settles e m" "m \<le> updates (hist w) + e_retrySteps e"
  shows "wp anything (RemoveFinalizer e (get_VRC e) (put_VRC e UpdateVRC) f vrc)
           (\<lambda>(r, _) w'. r = None \<and> (fst (k_removeFinalizer (e_k8s e) (oFinalizers vrc) f) \<longrightarrow> update_accepted e (hist w'))) w"
proof -
  obtain removed fins where "k_removeFinalizer (e_k8s e) (oFinalizers vrc) f = (removed, fins)" by force
  then show ?thesis
    unfolding RemoveFinalizer_def updateFinalizerWithRetry_def RetryOnConflict_def Let_def
    by (auto intro!: wp_rules wp_mono[OF retry_settles[OF assms]] split: option.split)
qed

lemma allVCRsDeleted_done:
  assumes "\<And>h l. constellation_label vrc = Some l \<Longrightarrow> \<exists>vrcs. k_listVRC (e_k8s e) h (oNamespace vrc) [l] = Inr vrcs
      \<and> (\<forall>other \<in> set vrcs. oName other = oName vrc \<or> lookup_str (oAnnotations other) AnnotationCleanupDone = ''true'')"
  shows "wp anything (allVCRsDeleted e vrc) (\<lambda>r w'. r = Inr True \<and> updates (hist w) \<le> updates (hist w')) w"
proof (cases "constellation_label vrc")
  case None
  then show ?thesis unfolding allVCRsDeleted_def GetConstellationVRCs_def by (auto intro!: wp_rules)
next
  case (Some l)
  from assms[OF Some, of "hist w"] obtain vrcs where "k_listVRC (e_k8s e) (hist w) (oNamespace vrc) [l] = Inr vrcs"
    "\<forall>other \<in> set vrcs. oName other = oName vrc \<or> lookup_str (oAnnotations other) AnnotationCleanupDone = ''true''" by blast
  with Some show ?thesis
    unfolding allVCRsDeleted_def GetConstellationVRCs_def ListVastReplicationContentsByLabelSelector_def
    by (auto intro!: wp_rules wp_ask simp: list_all_iff)
qed


lemma released_env_settles: "settles released_env 0"
  by (simp add: settles_def content_env_sel)


end
