(* ===== verification/ReplicationObject.thy ===== *)
theory ReplicationObject
  imports StorageObjects Policies Triples
begin

text \<open>
  The reconciler of VolumeReplication and VolumeGroupReplication objects
  (internal/controller/replication_object_controller.go): it creates the VastReplicationContent of
  such an object, keeps its list of claims and its replication state in step, and deletes it when the
  object is going away. Both kinds share one work queue; a prefix of the request's name tells them
  apart.
\<close>

definition vrPrefix :: string where "vrPrefix = ''vr/''"
definition vgrPrefix :: string where "vgrPrefix = ''vgr/''"

definition ReasonVRCCreated :: string where "ReasonVRCCreated = ''VRCCreated''"
definition ReasonVRCUpdated :: string where "ReasonVRCUpdated = ''VRCUpdated''"

type_synonym 'a ostep = "(VRC, 'a) step"


section \<open>Keeping a content in step\<close>

definition syncVRCPVCs :: "env \<Rightarrow> string list \<Rightarrow> bool ostep" where
  "syncVRCPVCs e pvcs = (\<lambda>vrc.
     if DisplayableList_Equal pvcs (vrc_PVCs vrc) then ret (Inr False, vrc)
     else emit_Normal e ReasonVRCUpdated (Sprintf ''VastReplicationContent %s/%s pvcs updated: %s''
            [oNamespace vrc, oName vrc, DisplayableList_String pvcs])
          \<bind> (\<lambda>_. ret (Inr True, vrc\<lparr>vrc_PVCs := pvcs\<rparr>)))"

definition syncVRCReplicationState :: "env \<Rightarrow> string \<Rightarrow> bool ostep" where
  "syncVRCReplicationState e state = (\<lambda>vrc.
     if state = [] \<or> vrc_ReplicationState vrc = state then ret (Inr False, vrc)
     else emit_Normal e ReasonVRCUpdated
            (Sprintf (''VastReplicationContent %s/%s replicationState %s '' @ [CHR 0xE2, CHR 0x86, CHR 0x92] @ '' %s'')
               [oNamespace vrc, oName vrc, vrc_ReplicationState vrc, state])
          \<bind> (\<lambda>_. ret (Inr True, vrc\<lparr>vrc_ReplicationState := state\<rparr>)))"

text \<open>The values of Status.State are Primary, Secondary, Unknown and the empty string.\<close>

fun currentStateStr :: "ObservedState \<Rightarrow> string" where
  "currentStateStr UnknownState = []"
| "currentStateStr PrimaryState = ''primary''"
| "currentStateStr SecondaryState = ''secondary''"
| "currentStateStr NoState = []"

definition initialStateFromPrimary :: "string \<Rightarrow> string \<Rightarrow> string \<Rightarrow> string" where
  "initialStateFromPrimary current sourceSCName primarySCName =
     (if current \<noteq> [] then current
      else if sourceSCName = primarySCName then ''primary'' else ''secondary'')"


section \<open>Creating a content\<close>

definition resolveSourcePPath :: "env \<Rightarrow> StorageClass \<Rightarrow> string \<Rightarrow> (err + Ppath) io" where
  "resolveSourcePPath e sourceSC ppathName =
     bindE (wrapE (Errorf_w ''failed to build VAST REST client from StorageClass %s: '' [sc_Name sourceSC])
              (NewFromStorageClass e sourceSC (e_sslVerify e))) (\<lambda>rest.
     vms e rest (PpathGet ppathName) (\<lambda>h. v_ppathGet (e_vms e) h rest ppathName) \<bind> (\<lambda>r. ret (case r of
         Inr ppath \<Rightarrow> Inr ppath
       | Inl x \<Rightarrow> Inl (if v_isNotFound (e_vms e) x then NewRetryAfterError x Minute
           else Errorf_w ''failed to query protected path %q on StorageClass %s: '' [ppathName, sc_Name sourceSC] x))))"

definition protectionPolicyNamesForVRC ::
  "string \<Rightarrow> string \<Rightarrow> ReplicationTarget list \<Rightarrow> string \<Rightarrow> err + string list" where
  "protectionPolicyNamesForVRC ownerName primarySC topology scName =
     (case map_of (ProtectionPolicyNamesByStorageClass ownerName primarySC topology) scName of
        Some (n # ns) \<Rightarrow> Inr (n # ns)
      | _ \<Rightarrow> Inl (Errorf ''no protection policies for StorageClass %q in topology of %q (primary %q)''
                  [scName, ownerName, primarySC]))"

definition handlePPathNetworkError :: "env \<Rightarrow> key \<Rightarrow> err \<Rightarrow> err option io" where
  "handlePPathNetworkError e k x =
     (if \<not> IsNetworkError (Some x) then ret None
      else bo_Next e k \<bind> (\<lambda>delay. ret (Some (NewRetryAfterError x delay))))"

definition buildContent :: "string \<Rightarrow> string \<Rightarrow> string \<Rightarrow> string \<Rightarrow> string list \<Rightarrow> smap \<Rightarrow> VRC" where
  "buildContent scName kind mirroredName mirroredNamespace pvcs labels =
     ObjectMeta.extend ((new_meta mirroredName mirroredNamespace)
         \<lparr>oLabels := labels, oFinalizers := [FinalizerReplicationContent]\<rparr>)
       \<lparr>vrc_StorageClass = scName, vrc_ProvisionerType = [], vrc_Kind = kind, vrc_SyncPVCPV = False,
        vrc_ReplicationPath = [], vrc_ProtectionPolicyNames = [], vrc_ProtectedPathName = [], vrc_PVCs = pvcs,
        vrc_ReplicationState = [], vrc_Provisioned = False, vrc_ObservedGeneration = 0, vrc_PVCsPreview = [],
        vrc_StatusPVCs = []\<rparr>"

definition prov_type :: "StorageClass \<Rightarrow> string" where
  "prov_type sc = (if IsBlockStorageClass sc then ProvisionerTypeBlock else ProvisionerTypeFile)"

definition complete_content ::
  "VRC \<Rightarrow> bool \<Rightarrow> StorageClass \<Rightarrow> string \<Rightarrow> Ppath \<Rightarrow> string list \<Rightarrow> VRC" where
  "complete_content vrc sync sourceSC state ppath policies =
     vrc\<lparr>vrc_SyncPVCPV := sync, vrc_ProvisionerType := prov_type sourceSC, vrc_ReplicationState := state,
         vrc_ProtectedPathName := pp_Name ppath, vrc_ReplicationPath := pp_SourceDir ppath,
         vrc_ProtectionPolicyNames := policies\<rparr>"

text \<open>The branch of both handlers for a content that does not exist yet: the protected path is looked
  up on the cluster of the StorageClass first, since the fields taken from it cannot change later.\<close>

definition create_content ::
  "env \<Rightarrow> key \<Rightarrow> string \<Rightarrow> string \<Rightarrow> ObjectMeta \<Rightarrow> StorageClass \<Rightarrow> string \<Rightarrow> bool \<Rightarrow> string
     \<Rightarrow> err + string list \<Rightarrow> VRC \<Rightarrow> (err + unit) io" where
  "create_content e k what ownerKind owner sourceSC ppathName sync state policies base =
     (let ns = oNamespace base; name = oName base in
      resolveSourcePPath e sourceSC ppathName \<bind> (\<lambda>r. case r of
        Inl x \<Rightarrow> handlePPathNetworkError e k x \<bind> (\<lambda>retryErr. ret (Inl (case retryErr of
            Some y \<Rightarrow> y
          | None \<Rightarrow> Errorf_w (what @ '' %s/%s: '') [ns, name] x)))
      | Inr ppath \<Rightarrow> (case policies of
          Inl x \<Rightarrow> ret (Inl (Errorf_w (what @ '' %s/%s: '') [ns, name] x))
        | Inr names \<Rightarrow>
            (let vrc = complete_content base sync sourceSC state ppath names in
             case s_setOwnerRef (e_storage e) ownerKind owner (oNamespace vrc) (oOwners vrc) of
               Inl x \<Rightarrow> ret (Inl (Errorf_w ''failed to set owner reference on VRC %s: '' [oName vrc] x))
             | Inr refs \<Rightarrow>
                 CreateVastReplicationContent e (vrc\<lparr>oOwners := refs\<rparr>) \<bind> (\<lambda>c. case c of
                     Some x \<Rightarrow> ret (Inl (Errorf_w (''failed to create VRC for '' @ what @ '' %s/%s: '') [ns, name] x))
                   | None \<Rightarrow> emit_Normal e ReasonVRCCreated
                       (Sprintf ''created VastReplicationContent %s/%s (pvcs=%s)''
                          [oNamespace vrc, oName vrc, DisplayableList_String (vrc_PVCs vrc)])
                       \<bind> (\<lambda>_. bo_Reset e k \<bind> (\<lambda>_. ret (Inr ()))))))))"


section \<open>The handlers\<close>

text \<open>An object with a deletion mark takes its content with it.\<close>

definition delete_content :: "env \<Rightarrow> string \<Rightarrow> string \<Rightarrow> string \<Rightarrow> (err + unit) io" where
  "delete_content e what name ns =
     GetVastReplicationContent e name ns \<bind> (\<lambda>r. case r of
         Inl x \<Rightarrow> ret (if IsNotFound x then Inr ()
           else Inl (Errorf_w (''get VRC for terminating '' @ what @ '' %s/%s: '') [ns, name] x))
       | Inr vrc \<Rightarrow> if oDeleting vrc then ret (Inr ())
           else DeleteVastReplicationContent e vrc \<bind> (\<lambda>d. ret (case d of
               None \<Rightarrow> Inr ()
             | Some x \<Rightarrow> Inl (Errorf_w (''delete VRC for terminating '' @ what @ '' %s/%s: '') [ns, name] x))))"

definition content_terminating :: "string \<Rightarrow> string \<Rightarrow> err" where
  "content_terminating ns name = Wrap [] ErrVastReplicationContentTerminating ('': '' @ ns @ ''/'' @ name)"

definition patch_content :: "env \<Rightarrow> string \<Rightarrow> string \<Rightarrow> string \<Rightarrow> unit ostep" where
  "patch_content e what ns name =
     map_errS (Errorf_w (''failed to patch VRC for '' @ what @ '' %s/%s: '') [ns, name])
       (putS (PatchVastReplicationContentSpec e))"

definition VVR_labels :: "VVR \<Rightarrow> smap" where
  "VVR_labels vvr = [(LabelManagedBy, LabelManagedByValue), (LabelSourceVVR, oName vvr),
     (LabelSourceVVRNamespace, oNamespace vvr)]"

definition VSCR_labels :: "VSCR \<Rightarrow> smap" where
  "VSCR_labels vscr = [(LabelManagedBy, LabelManagedByValue), (LabelSourceVSCR, oName vscr),
     (LabelSourceVSCRNamespace, oNamespace vscr)]"

text \<open>The update of an existing content. The VolumeReplication handler joins the two steps with a
  short-circuit or, so a change of the state leaves the claims for the next reconcile.\<close>

definition update_VR_content :: "env \<Rightarrow> key \<Rightarrow> string \<Rightarrow> string \<Rightarrow> string \<Rightarrow> string list \<Rightarrow> unit ostep" where
  "update_VR_content e k ns name newState pvcs =
     bindS (syncVRCReplicationState e newState) (\<lambda>stateChanged.
     bindS (if stateChanged then retS True else syncVRCPVCs e pvcs) (\<lambda>changed.
     bindS (if changed then patch_content e ''VR'' ns name else retS ()) (\<lambda>_.
     doS (bo_Reset e k))))"

definition update_VGR_content ::
  "env \<Rightarrow> key \<Rightarrow> string \<Rightarrow> string \<Rightarrow> VSCR \<Rightarrow> string \<Rightarrow> string \<Rightarrow> string list \<Rightarrow> unit ostep" where
  "update_VGR_content e k ns name vscr sourceSCName newState pvcs =
     bindS (syncVRCPVCs e pvcs) (\<lambda>pvcChanged.
     bindS (syncVRCReplicationState e newState) (\<lambda>stateChanged.
     bindS (if stateChanged \<or> pvcChanged then patch_content e ''VGR'' ns name else retS ()) (\<lambda>_.
     bindS (if pvcChanged \<and> sourceSCName = PrimaryStorageClass (vscr_Spec vscr)
            then bindS (liftS (wrapE (Errorf_w (''touch secondary VRCs after primary PVC list change on ''
                     @ ''VGR %s/%s: '') [ns, name]) (TouchSecondaryVRCs e vscr))) (\<lambda>_. retS ())
            else retS ()) (\<lambda>_.
     doS (bo_Reset e k)))))"

definition reconcileVR :: "env \<Rightarrow> key \<Rightarrow> string \<Rightarrow> string \<Rightarrow> (err + unit) io" where
  "reconcileVR e k name ns =
     GetVolumeReplication e name ns \<bind> (\<lambda>r. case r of
         Inl x \<Rightarrow> ret (if IsNotFound x then Inr () else Inl x)
       | Inr vr \<Rightarrow> EmitFor \<bind> (\<lambda>_.
           if oDeleting vr then delete_content e ''VR'' name ns
           else
             let pvcs = [vr_DataSource vr]; newState = currentStateStr (vr_State vr);
                 sourceSCName = lookup_str (oLabels vr) LabelStorageClass;
                 (vvrName, vvrNS) = ParentCRFromObject vr LabelSourceVVR LabelSourceVVRNamespace ''VastVolumeReplication'' in
             if sourceSCName = [] then
               ret (Inl (Errorf ''VolumeReplication %s/%s is missing required label %q'' [ns, name, LabelStorageClass]))
             else bindE (wrapE (Errorf_w ''failed to get StorageClass %s: '' [sourceSCName])
                    (GetStorageClass e sourceSCName)) (\<lambda>sourceSC.
               if vvrName = [] then
                 ret (Inl (Errorf ''VolumeReplication %s/%s has no VastVolumeReplication owner'' [ns, name]))
               else bindE (wrapE (Errorf_w ''failed to get VastVolumeReplication %s/%s: '' [vvrNS, vvrName])
                      (GetVastVolumeReplication e vvrName vvrNS)) (\<lambda>vvr.
                 GetVastReplicationContent e name ns \<bind> (\<lambda>r. case r of
                     Inl x \<Rightarrow> if \<not> IsNotFound x
                       then ret (Inl (Errorf_w ''failed to get VRC for VR %s/%s: '' [ns, name] x))
                       else create_content e k ''VR'' ''VolumeReplication'' (ObjectMeta.truncate vr) sourceSC
                              (PpathName (vvr_Status vvr)) True
                              (initialStateFromPrimary newState sourceSCName (v_PrimaryStorageClass (vvr_Spec vvr)))
                              (protectionPolicyNamesForVRC (oName vvr) (v_PrimaryStorageClass (vvr_Spec vvr))
                                 (v_ProtectionTopology (vvr_Spec vvr)) sourceSCName)
                              (buildContent sourceSCName DestinationKindVolumeReplication name ns pvcs (VVR_labels vvr))
                   | Inr existing \<Rightarrow> if oDeleting existing then ret (Inl (content_terminating ns name))
                       else update_VR_content e k ns name newState pvcs existing \<bind> (\<lambda>(r, _). ret r))))))"

definition reconcileVGR :: "env \<Rightarrow> key \<Rightarrow> string \<Rightarrow> string \<Rightarrow> (err + unit) io" where
  "reconcileVGR e k name ns =
     GetVolumeGroupReplication e name ns \<bind> (\<lambda>r. case r of
         Inl x \<Rightarrow> ret (if IsNotFound x then Inr () else Inl x)
       | Inr vgr \<Rightarrow> EmitFor \<bind> (\<lambda>_.
           if oDeleting vgr then delete_content e ''VGR'' name ns
           else
             let (vscrName, vscrNS) = ParentCRFromObject vgr LabelSourceVSCR LabelSourceVSCRNamespace
                     ''VastStorageClassReplication'';
                 sourceSCName = (case vgr_Selector vgr of None \<Rightarrow> [] | Some sel \<Rightarrow> lookup_str sel LabelStorageClass);
                 pvcs = sort (vgr_PVCs vgr); newState = currentStateStr (vgr_State vgr) in
             if vscrName = [] then
               ret (Inl (Errorf ''VolumeGroupReplication %s/%s has no VastStorageClassReplication owner'' [ns, name]))
             else bindE (wrapE (Errorf_w ''failed to get VastStorageClassReplication %s/%s: '' [vscrNS, vscrName])
                    (GetVastStorageClassReplication e vscrName vscrNS)) (\<lambda>vscr.
               if sourceSCName = [] then
                 ret (Inl (Errorf ''VolumeGroupReplication %s/%s is missing required label selector %q''
                   [ns, name, LabelStorageClass]))
               else bindE (wrapE (Errorf_w ''failed to get StorageClass %s: '' [sourceSCName])
                      (GetStorageClass e sourceSCName)) (\<lambda>sourceSC.
                 GetVastReplicationContent e name ns \<bind> (\<lambda>r. case r of
                     Inl x \<Rightarrow> if \<not> IsNotFound x
                       then ret (Inl (Errorf_w ''failed to get VRC for VGR %s/%s: '' [ns, name] x))
                       else create_content e k ''VGR'' ''VolumeGroupReplication'' (ObjectMeta.truncate vgr) sourceSC
                              (PpathName (vscr_Status vscr)) (SyncPVCPV (vscr_Spec vscr))
                              (initialStateFromPrimary newState sourceSCName (PrimaryStorageClass (vscr_Spec vscr)))
                              (protectionPolicyNamesForVRC (oName vscr) (PrimaryStorageClass (vscr_Spec vscr))
                                 (ProtectionTopology (vscr_Spec vscr)) sourceSCName)
                              (buildContent sourceSCName DestinationKindVolumeGroupReplication name ns pvcs
                                 (VSCR_labels vscr))
                   | Inr existing \<Rightarrow> if oDeleting existing then ret (Inl (content_terminating ns name))
                       else update_VGR_content e k ns name vscr sourceSCName newState pvcs existing
                              \<bind> (\<lambda>(r, _). ret r))))))"

definition RO_Reconcile :: "env \<Rightarrow> key \<Rightarrow> (err + Result) io" where
  "RO_Reconcile e k =
     (let ns = fst k; name = snd k in
      if HasPrefix name vrPrefix then
        reconcileVR e k (TrimPrefix name vrPrefix) ns \<bind> (\<lambda>r. maybeBackoffRetry e (Some k) (left_err r))
      else if HasPrefix name vgrPrefix then
        reconcileVGR e k (TrimPrefix name vgrPrefix) ns \<bind> (\<lambda>r. maybeBackoffRetry e (Some k) (left_err r))
      else ret (Inr no_requeue))"

text \<open>The requests the watches put in the queue.\<close>

definition VR_request :: "VR \<Rightarrow> key" where
  "VR_request vr = (oNamespace vr, vrPrefix @ oName vr)"

definition VGR_request :: "VGR \<Rightarrow> key" where
  "VGR_request vgr = (oNamespace vgr, vgrPrefix @ oName vgr)"


section \<open>Which contents are created\<close>

text \<open>A well-formed content: its kind and its provisioner are ones its reconciler knows, it is labelled with the
  parent its kind requires, and it has the finalizer that keeps it until it is cleaned up.\<close>

definition content_typed :: "VRC \<Rightarrow> bool" where
  "content_typed v = (vrc_ProvisionerType v \<in> {ProvisionerTypeBlock, ProvisionerTypeFile}
     \<and> (vrc_Kind v = DestinationKindVolumeReplication \<and> lookup_str (oLabels v) LabelSourceVVR \<noteq> []
        \<or> vrc_Kind v = DestinationKindVolumeGroupReplication \<and> lookup_str (oLabels v) LabelSourceVSCR \<noteq> [])
     \<and> lookup_str (oLabels v) LabelManagedBy = LabelManagedByValue
     \<and> oFinalizers v = [FinalizerReplicationContent])"

text \<open>A read of a parent returns the object of that name.\<close>

definition parents_keyed :: "env \<Rightarrow> bool" where
  "parents_keyed e = ((\<forall>h ns n v. k_getVVR (e_k8s e) h ns n = Inr v \<longrightarrow> oName v = n)
     \<and> (\<forall>h ns n v. k_getVSCR (e_k8s e) h ns n = Inr v \<longrightarrow> oName v = n))"

definition created_ok :: "env \<Rightarrow> key \<Rightarrow> history \<Rightarrow> VRC \<Rightarrow> bool" where
  "created_ok e k h v = (content_typed v \<and> oNamespace v = fst k
     \<and> snd k = (if vrc_Kind v = DestinationKindVolumeReplication then vrPrefix else vgrPrefix) @ oName v
     \<and> earlier (\<lambda>h. \<exists>x. k_getVRC (e_k8s e) h (oNamespace v) (oName v) = Inl x \<and> IsNotFound x) h
     \<and> (\<exists>sc. earlier (\<lambda>h. k_getSC (e_k8s e) h (vrc_StorageClass v) = Inr sc) h \<and> vrc_ProvisionerType v = prov_type sc))"

definition content_request :: "env \<Rightarrow> key \<Rightarrow> history \<Rightarrow> call \<Rightarrow> bool" where
  "content_request e k h c = (case c of CreateVRC v \<Rightarrow> created_ok e k h v | _ \<Rightarrow> True)"

lemma content_request_other: "kind_of c \<noteq> KCreateVRC \<Longrightarrow> content_request e k h c"
  by (auto simp: content_request_def split: call.split)

lemma content_request_allows: "KCreateVRC \<notin> S \<Longrightarrow> allows S (content_request e k)"
  unfolding allows_def using content_request_other by metis

lemma created_ok_mono: "created_ok e k h v \<Longrightarrow> prefix h h' \<Longrightarrow> created_ok e k h' v"
  unfolding created_ok_def by (blast intro: earlier_mono)

lemma within_resolve_ppath:
  "{KRead, KNewRest, KVmsRead} \<subseteq> S \<Longrightarrow> within S (resolveSourcePPath e sc n)"
  "KBackoff \<in> S \<Longrightarrow> within S (handlePPathNetworkError e k x)"
  unfolding resolveSourcePPath_def handlePPathNetworkError_def
  by (auto intro!: issues_rules within_clients within_vms within_backoff)

lemma create_content_wp:
  assumes "\<And>pp names refs. created_ok e k (hist w) ((complete_content base sync sc state pp names)\<lparr>oOwners := refs\<rparr>)"
  shows "wp (content_request e k) (create_content e k what okind owner sc pname sync state policies base) (\<lambda>_ _. True) w"
proof (rule wp_from)
  let ?Q = "\<lambda>h c. prefix (hist w) h \<longrightarrow> content_request e k h c"
  have Q: "KCreateVRC \<notin> S \<Longrightarrow> allows S ?Q" for S unfolding allows_def using content_request_other by metis
  have create: "?Q h (CreateVRC ((complete_content base sync sc state pp names)\<lparr>oOwners := refs\<rparr>))" for h pp names refs
    using created_ok_mono[OF assms] by (simp add: content_request_def)
  have other: "?Q h c" if "kind_of c \<noteq> KCreateVRC" for h c using content_request_other[OF that] by simp
  show "wp ?Q (create_content e k what okind owner sc pname sync state policies base) (\<lambda>_ _. True) w"
    unfolding create_content_def Let_def CreateVastReplicationContent_def k8s_write_def bo_Reset_def
    by (intro wp_bind wp_within[OF within_resolve_ppath(1)[where S = "{KRead, KNewRest, KVmsRead}"]] Q)
      (auto intro!: wp_rules wp_ask create other Q wp_within[OF within_resolve_ppath(2)[where S = "{KBackoff}"]])
qed

lemma within_content_updates:
  "{KRead, KPatchVRC, KEvent, KBackoff} \<subseteq> S \<Longrightarrow> within S (update_VR_content e k ns n st pvcs vrc)"
  "{KRead, KPatchVRC, KEvent, KBackoff} \<subseteq> S \<Longrightarrow> within S (update_VGR_content e k ns n vscr sc st pvcs vrc)"
  "{KRead, KDelete} \<subseteq> S \<Longrightarrow> within S (delete_content e what n ns)"
  unfolding update_VR_content_def update_VGR_content_def delete_content_def syncVRCPVCs_def syncVRCReplicationState_def
    patch_content_def GetVastReplicationContent_def TouchSecondaryVRCs_def
  by (auto intro!: issues_rules moves_step_control within_map_errS within_VRC within_backoff within_touch)

lemma prov_type_known: "prov_type sc \<in> {ProvisionerTypeBlock, ProvisionerTypeFile}"
  by (simp add: prov_type_def)

lemma parent_label_keys:
  "LabelSourceVVR \<noteq> LabelManagedBy" "LabelSourceVSCR \<noteq> LabelManagedBy"
  "DestinationKindVolumeGroupReplication \<noteq> DestinationKindVolumeReplication"
  by code_simp+

lemma created_okI:
  assumes "earlier (\<lambda>h. k_getSC (e_k8s e) h scn = Inr sc) h"
    and "earlier (\<lambda>h. \<exists>x. k_getVRC (e_k8s e) h (fst k) n = Inl x \<and> IsNotFound x) h"
  shows "snd k = vrPrefix @ n \<Longrightarrow> oName vvr \<noteq> [] \<Longrightarrow> created_ok e k h
      ((complete_content (buildContent scn DestinationKindVolumeReplication n (fst k) pvcs (VVR_labels vvr)) sync sc st pp names)\<lparr>oOwners := refs\<rparr>)"
    and "snd k = vgrPrefix @ n \<Longrightarrow> oName vscr \<noteq> [] \<Longrightarrow> created_ok e k h
      ((complete_content (buildContent scn DestinationKindVolumeGroupReplication n (fst k) pvcs (VSCR_labels vscr)) sync sc st pp names)\<lparr>oOwners := refs\<rparr>)"
  using assms prov_type_known[of sc] parent_label_keys
  by (auto simp: created_ok_def content_typed_def complete_content_def buildContent_def VVR_labels_def VSCR_labels_def
      new_meta_def ObjectMeta.defs lookup_str_def)

lemma reconcileVR_wp:
  assumes "parents_keyed e" "snd k = vrPrefix @ name"
  shows "wp (content_request e k) (reconcileVR e k name (fst k)) (\<lambda>_ _. True) w"
proof -
  have Q: "kind_of c = KRead \<Longrightarrow> content_request e k h c" for h c by (simp add: content_request_other)
  have vvr: "oName v \<noteq> []" if "k_getVVR (e_k8s e) h ns n = Inr v" "n \<noteq> []" for h ns n v
    using assms(1) that unfolding parents_keyed_def by metis
  show ?thesis
    unfolding reconcileVR_def GetVolumeReplication_def GetStorageClass_def GetVastVolumeReplication_def get_VVR_def
      GetVastReplicationContent_def Let_def
    by (intro wp_bindE_read wp_ret wp_bind wp_emit wp_control wp_ask Q create_content_wp created_okI(1) assms(2)
        wp_within[OF within_content_updates(1)[where S = "{KRead, KPatchVRC, KEvent, KBackoff}"]]
        wp_within[OF within_content_updates(3)[where S = "{KRead, KDelete}"]] content_request_allows)
      (auto dest: vvr simp: earlier_simps)
qed

lemma reconcileVGR_wp:
  assumes "parents_keyed e" "snd k = vgrPrefix @ name"
  shows "wp (content_request e k) (reconcileVGR e k name (fst k)) (\<lambda>_ _. True) w"
proof -
  have Q: "kind_of c = KRead \<Longrightarrow> content_request e k h c" for h c by (simp add: content_request_other)
  have vscr: "oName v \<noteq> []" if "k_getVSCR (e_k8s e) h ns n = Inr v" "n \<noteq> []" for h ns n v
    using assms(1) that unfolding parents_keyed_def by metis
  show ?thesis
    unfolding reconcileVGR_def GetVolumeGroupReplication_def GetStorageClass_def GetVastStorageClassReplication_def
      get_VSCR_def GetVastReplicationContent_def Let_def
    by (intro wp_bindE_read wp_ret wp_bind wp_emit wp_control wp_ask Q create_content_wp created_okI(2) assms(2)
        wp_within[OF within_content_updates(2)[where S = "{KRead, KPatchVRC, KEvent, KBackoff}"]]
        wp_within[OF within_content_updates(3)[where S = "{KRead, KDelete}"]] content_request_allows)
      (auto dest: vscr simp: earlier_simps)
qed

lemma RO_Reconcile_wp:
  assumes "parents_keyed e"
  shows "wp (content_request e k) (RO_Reconcile e k) (\<lambda>_ _. True) w"
  unfolding RO_Reconcile_def Let_def
  by (intro wp_rules wp_mono[OF reconcileVR_wp[OF assms]] wp_mono[OF reconcileVGR_wp[OF assms]] TrimPrefix_split
      wp_within[OF within_backoff(3)[where S = "{KBackoff}"]] content_request_allows) auto



section \<open>A concrete group\<close>

definition group_vscr :: "string \<Rightarrow> VSCR" where
  "group_vscr n = ObjectMeta.extend (new_meta n ''ns'')
     \<lparr>vscr_Spec = example_vscr\<lparr>ProtectionTopology := [(example_entry ''a'' ''b'')\<lparr>PeerName := ''ab''\<rparr>]\<rparr>,
      vscr_Status = \<lparr>LastFailoverType = [], CurrentPrimaryStorageClass = [], StorageClassesPreview = [],
       PpathDirMapping = [], TenantMapping = [], PpathName = ''p'', SyncStatus = []\<rparr>\<rparr>"

definition group_vgr :: VGR where
  "group_vgr = ObjectMeta.extend ((new_meta ''vs-b'' ''ns'')\<lparr>oLabels := [(LabelSourceVSCR, ''vs'')]\<rparr>)
     \<lparr>vgr_ReplicationState = Primary, vgr_VGRClassName = [], vgr_VRClassName = [], vgr_AutoResync = False,
      vgr_Selector = Some [(LabelStorageClass, ''b'')], vgr_VolumeReplicationName = [], vgr_ContentName = [],
      vgr_External = False, vgr_State = PrimaryState, vgr_PVCs = [''data'']\<rparr>"

definition group_class :: StorageClass where
  "group_class = \<lparr>sc_Name = ''b'', sc_Provisioner = ''csi'', sc_Parameters =
     [(CSIParameterPrefix @ ''provisioner-secret-name'', ''s''), (CSIParameterPrefix @ ''provisioner-secret-namespace'', ''ns'')],
     sc_MountOptions = []\<rparr>"

definition group_path :: Ppath where
  "group_path = \<lparr>pp_Id = 1, pp_Name = ''p'', pp_State = ''ACTIVE'', pp_FailureReason = [], pp_Role = ''source'',
     pp_Enabled = True, pp_TenantId = 1, pp_SourceDir = ''/k8s'', pp_Streams = None, pp_FillError = None\<rparr>"

definition group_env :: env where
  "group_env = idle_env\<lparr>
     e_k8s := idle_k8s\<lparr>k_getVSCR := \<lambda>h ns n. Inr (group_vscr n), k_getVGR := \<lambda>h ns n. Inr group_vgr,
       k_getVRC := \<lambda>h ns n. Inl (StatusError ''NotFound'' ''missing''), k_getSC := \<lambda>h n. Inr group_class,
       k_getSecret := \<lambda>h ns n. Inr [(''endpoint'', ''e''), (''token'', ''t'')], k_write := \<lambda>h c. None\<rparr>,
     e_vms := idle_vms\<lparr>v_newRest := \<lambda>h c. None, v_ppathGet := \<lambda>h r n. Inr group_path\<rparr>\<rparr>"

lemma group_env_sel:
  "k_getVSCR (e_k8s group_env) = (\<lambda>h ns n. Inr (group_vscr n))" "k_getVGR (e_k8s group_env) = (\<lambda>h ns n. Inr group_vgr)"
  "k_getVVR (e_k8s group_env) = (\<lambda>h ns n. Inl unavailable)"
  "k_getVRC (e_k8s group_env) = (\<lambda>h ns n. Inl (StatusError ''NotFound'' ''missing''))"
  "k_getSC (e_k8s group_env) = (\<lambda>h n. Inr group_class)" "k_write (e_k8s group_env) = (\<lambda>h c. None)"
  "k_getSecret (e_k8s group_env) = (\<lambda>h ns n. Inr [(''endpoint'', ''e''), (''token'', ''t'')])"
  "v_newRest (e_vms group_env) = (\<lambda>h c. None)" "v_ppathGet (e_vms group_env) = (\<lambda>h r n. Inr group_path)"
  "s_setOwnerRef (e_storage group_env) kind owner ns refs = Inr (refs @ [\<lparr>ref_Kind = kind, ref_Name = oName owner,
       ref_UID = oUID owner, ref_Controller = None, ref_BlockOwnerDeletion = None\<rparr>])"
  by (simp_all add: group_env_def idle_simps idle_storage_def)

lemma group_eval:
  "lookup_str (ExtractPrefixedParams CSIParameterPrefix (sc_Parameters group_class)) ''provisioner-secret-name'' = ''s''"
  "lookup_str (ExtractPrefixedParams CSIParameterPrefix (sc_Parameters group_class)) ''provisioner-secret-namespace'' = ''ns''"
  "isl (protectionPolicyNamesForVRC ''vs'' ''b'' [(example_entry ''a'' ''b'')\<lparr>PeerName := ''ab''\<rparr>] ''b'') = False"
  "ParentCRFromObject group_vgr LabelSourceVSCR LabelSourceVSCRNamespace ''VastStorageClassReplication'' = (''vs'', ''ns'')"
  "HasPrefix ''vgr/vs-b'' vrPrefix = False" "HasPrefix ''vgr/vs-b'' vgrPrefix = True" "TrimPrefix ''vgr/vs-b'' vgrPrefix = ''vs-b''"
  by code_simp+

lemma group_policies:
  obtains names where "protectionPolicyNamesForVRC ''vs'' ''b'' [(example_entry ''a'' ''b'')\<lparr>PeerName := ''ab''\<rparr>] ''b'' = Inr names"
  using group_eval(3) by (cases "protectionPolicyNamesForVRC ''vs'' ''b'' [(example_entry ''a'' ''b'')\<lparr>PeerName := ''ab''\<rparr>] ''b''") auto

abbreviation group_run :: "(err + Result) \<times> world" where
  "group_run \<equiv> run_state (RO_Reconcile group_env (''ns'', ''vgr/vs-b'')) start_world"

lemma group_vgr_sel:
  "oDeleting group_vgr = False" "vgr_Selector group_vgr = Some [(LabelStorageClass, ''b'')]" "vgr_PVCs group_vgr = [''data'']"
  "vgr_State group_vgr = PrimaryState"
  by (simp_all add: group_vgr_def new_meta_def ObjectMeta.defs)

lemma group_vscr_sel:
  "oName (group_vscr n) = n" "PrimaryStorageClass (vscr_Spec (group_vscr n)) = ''b''"
  "ProtectionTopology (vscr_Spec (group_vscr n)) = [(example_entry ''a'' ''b'')\<lparr>PeerName := ''ab''\<rparr>]"
  by (simp_all add: group_vscr_def new_meta_def ObjectMeta.defs example_vscr_def)

lemma group_run_kinds:
  "map kind_of (hist (snd group_run)) = [KRead, KRead, KRead, KRead, KRead, KNewRest, KVmsRead, KCreateVRC, KEvent, KBackoff]"
proof -
  obtain names where "protectionPolicyNamesForVRC ''vs'' ''b'' [(example_entry ''a'' ''b'')\<lparr>PeerName := ''ab''\<rparr>] ''b'' = Inr names"
    by (rule group_policies)
  then show ?thesis
    by (simp add: RO_Reconcile_def group_eval reconcileVGR_def GetVolumeGroupReplication_def GetVastStorageClassReplication_def
        get_VSCR_def GetStorageClass_def GetVastReplicationContent_def group_env_sel group_vgr_sel group_vscr_sel run_simps Let_def
        create_content_def resolveSourcePPath_def NewFromStorageClass_def GetSecret_def NewFromSecretData_def New_def lookup_str_list
        vms_def CreateVastReplicationContent_def k8s_write_def bo_Reset_def maybeBackoffRetry_def left_err_def start_world_sel
        ReasonForError_def errors_As.simps as_status_def)
qed

lemma group_env_keyed: "parents_keyed group_env"
  by (simp add: parents_keyed_def group_env_sel group_vscr_sel)


end
