(* ===== verification/Predicates.thy ===== *)
theory Predicates
  imports StorageObjects
begin

text \<open>
  The event filters of the watches (internal/controller/predicates.go): which creations, updates and
  deletions of an object put a request in a reconciler's queue. A filter is a record of four
  predicates, as in controller-runtime; a watch that accepts any client object sees a
  VolumeReplication or a VolumeGroupReplication, and a type assertion that fails rejects the event.
\<close>

datatype rep_object = VRObj VR | VGRObj VGR

fun rep_meta :: "rep_object \<Rightarrow> ObjectMeta" where
  "rep_meta (VRObj vr) = ObjectMeta.truncate vr"
| "rep_meta (VGRObj vgr) = ObjectMeta.truncate vgr"

record 'o Funcs =
  CreateFunc :: "'o \<Rightarrow> bool"
  UpdateFunc :: "'o \<Rightarrow> 'o \<Rightarrow> bool"
  DeleteFunc :: "'o \<Rightarrow> bool"
  GenericFunc :: "'o \<Rightarrow> bool"

definition isOwnedByVSCROrVVR :: "'a ObjectMeta_scheme \<Rightarrow> bool" where
  "isOwnedByVSCROrVVR obj =
     (OwnerByKind (oOwners obj) ''VastStorageClassReplication'' \<noteq> None
      \<or> OwnerByKind (oOwners obj) ''VastVolumeReplication'' \<noteq> None
      \<or> lookup_str (oLabels obj) LabelSourceVSCR \<noteq> [] \<or> lookup_str (oLabels obj) LabelSourceVVR \<noteq> [])"

definition triggerAnnotationChanged :: "string \<Rightarrow> VRC \<Rightarrow> VRC \<Rightarrow> bool" where
  "triggerAnnotationChanged key old new =
     (lookup_str (oAnnotations new) key \<noteq> []
      \<and> lookup_str (oAnnotations new) key \<noteq> lookup_str (oAnnotations old) key)"

definition VastReplicationContentPredicate :: "VRC Funcs" where
  "VastReplicationContentPredicate = \<lparr>
     CreateFunc = \<lambda>_. True,
     UpdateFunc = \<lambda>old new. oDeleting new \<or> oGeneration new \<noteq> oGeneration old
       \<or> triggerAnnotationChanged AnnotationResyncRequestedAt old new
       \<or> triggerAnnotationChanged AnnotationMirrorSyncRequestedAt old new,
     DeleteFunc = \<lambda>_. True,
     GenericFunc = \<lambda>_. False\<rparr>"

text \<open>Two status lists count as the same when they are equally long and every new name is an old one.\<close>

definition vgrPVCListChanged :: "string list \<Rightarrow> string list \<Rightarrow> bool" where
  "vgrPVCListChanged old new = (length old \<noteq> length new \<or> \<not> set new \<subseteq> set old)"

definition volumeReplicationPredicate :: "rep_object Funcs" where
  "volumeReplicationPredicate = \<lparr>
     CreateFunc = \<lambda>obj. isOwnedByVSCROrVVR (rep_meta obj),
     UpdateFunc = \<lambda>old new. isOwnedByVSCROrVVR (rep_meta new)
       \<and> (oDeleting (rep_meta new)
          \<or> (case (old, new) of (VRObj vrOld, VRObj vrNew) \<Rightarrow> vr_State vrNew \<noteq> vr_State vrOld | _ \<Rightarrow> False)),
     DeleteFunc = \<lambda>obj. isOwnedByVSCROrVVR (rep_meta obj),
     GenericFunc = \<lambda>_. False\<rparr>"

definition volumeGroupReplicationPredicate :: "rep_object Funcs" where
  "volumeGroupReplicationPredicate = \<lparr>
     CreateFunc = \<lambda>obj. isOwnedByVSCROrVVR (rep_meta obj),
     UpdateFunc = \<lambda>old new. isOwnedByVSCROrVVR (rep_meta new)
       \<and> (oDeleting (rep_meta new)
          \<or> (case (old, new) of (VGRObj vgrOld, VGRObj vgrNew) \<Rightarrow>
                if vgrPVCListChanged (vgr_PVCs vgrOld) (vgr_PVCs vgrNew) then True
                else if vgr_VolumeReplicationName vgrNew = [] then False
                else vgr_State vgrNew \<noteq> vgr_State vgrOld
              | _ \<Rightarrow> False)),
     DeleteFunc = \<lambda>obj. isOwnedByVSCROrVVR (rep_meta obj),
     GenericFunc = \<lambda>_. False\<rparr>"

definition ownedVRPredicate :: "rep_object Funcs" where
  "ownedVRPredicate = \<lparr>
     CreateFunc = \<lambda>_. False,
     UpdateFunc = \<lambda>old new. \<not> oDeleting (rep_meta old) \<and> oDeleting (rep_meta new)
       \<or> (case (old, new) of (VRObj vrOld, VRObj vrNew) \<Rightarrow>
             IsVRConfirmedPrimary vrNew \<and> \<not> IsVRConfirmedPrimary vrOld
           | _ \<Rightarrow> False),
     DeleteFunc = \<lambda>_. False,
     GenericFunc = \<lambda>_. False\<rparr>"

definition ownedVGRPredicate :: "rep_object Funcs" where
  "ownedVGRPredicate = \<lparr>
     CreateFunc = \<lambda>_. False,
     UpdateFunc = \<lambda>old new. \<not> oDeleting (rep_meta old) \<and> oDeleting (rep_meta new)
       \<or> (case (old, new) of (VGRObj vgrOld, VGRObj vgrNew) \<Rightarrow>
             IsVGRConfirmedPrimary vgrNew \<and> \<not> IsVGRConfirmedPrimary vgrOld
           | _ \<Rightarrow> False),
     DeleteFunc = \<lambda>_. False,
     GenericFunc = \<lambda>_. False\<rparr>"

fun isConfirmed :: "rep_object \<Rightarrow> bool" where
  "isConfirmed (VRObj vr) = IsVRConfirmedPrimary vr"
| "isConfirmed (VGRObj vgr) = IsVGRConfirmedPrimary vgr"

definition confirmedPrimaryTransitionPredicate :: "rep_object Funcs" where
  "confirmedPrimaryTransitionPredicate = \<lparr>
     CreateFunc = \<lambda>obj. isOwnedByVSCROrVVR (rep_meta obj) \<and> isConfirmed obj,
     UpdateFunc = \<lambda>old new. isOwnedByVSCROrVVR (rep_meta new)
       \<and> (if \<not> isConfirmed old \<and> isConfirmed new then True
          else if isConfirmed new then
            (case (old, new) of (VGRObj vgrOld, VGRObj vgrNew) \<Rightarrow>
                vgrPVCListChanged (vgr_PVCs vgrOld) (vgr_PVCs vgrNew)
              | _ \<Rightarrow> False)
          else False),
     DeleteFunc = \<lambda>_. False,
     GenericFunc = \<lambda>_. False\<rparr>"

end
