(* ===== verification/PvcRemap.thy ===== *)
theory PvcRemap
  imports StorageObjects Triples
begin

text \<open>
  The reconciler that moves workloads to the claims of the new primary after a failover
  (internal/controller/pvcremap_controller.go). It builds a table from claims to the primary claim
  of their group and patches the pod templates of the workloads whose pods use a claim of the table.
  The payload of a patch is the list of volumes with their new claims. Marshalling such a list cannot
  fail, and the owner of a pod is of one of the four kinds topLevelOwner returns, so the two error
  branches of patchOwnerVolumes for other cases are left out.
\<close>

definition vscrRemapPrefix :: string where "vscrRemapPrefix = ''vscr/''"
definition vvrRemapPrefix :: string where "vvrRemapPrefix = ''vvr/''"


section \<open>The table\<close>

definition sibling_selector :: "string \<Rightarrow> smap" where
  "sibling_selector sourcePVCName = [(LabelManagedBy, LabelManagedByValue), (LabelSourcePVC, sourcePVCName)]"

definition add_siblings :: "string \<Rightarrow> PVC list \<Rightarrow> smap \<Rightarrow> smap" where
  "add_siblings primary siblings table =
     fold (\<lambda>s t. if oName s \<noteq> primary then AList.update (oName s) primary t else t) siblings table"

definition remap_primary :: "env \<Rightarrow> string \<Rightarrow> smap \<Rightarrow> string \<Rightarrow> (err + smap) io" where
  "remap_primary e ns table ref =
     GetPVC e ref ns \<bind> (\<lambda>r. case r of
         Inl x \<Rightarrow> ret (if IsNotFound x then Inr table else Inl (Errorf_w ''get primary PVC %s: '' [ref] x))
       | Inr primaryPVC \<Rightarrow>
           let label = lookup_str (oLabels primaryPVC) LabelSourcePVC;
               sourcePVCName = (if label = [] then oName primaryPVC else label) in
           bindE (wrapE (Errorf_w ''list sibling PVCs for source %s: '' [sourcePVCName])
                    (ListPVCsByLabelSelector e ns (sibling_selector sourcePVCName))) (\<lambda>siblings.
             let t = add_siblings (oName primaryPVC) siblings table in
             ret (Inr (if label \<noteq> [] then AList.update sourcePVCName (oName primaryPVC) t else t))))"

definition buildSiblingRemapTable :: "env \<Rightarrow> string \<Rightarrow> string list \<Rightarrow> (err + smap) io" where
  "buildSiblingRemapTable e ns primaryRefs = foldE (remap_primary e ns) [] primaryRefs"


section \<open>Workloads\<close>

definition volumesNeedingRemap :: "PodVolume list \<Rightarrow> smap \<Rightarrow> smap" where
  "volumesNeedingRemap volumes remapTable =
     fold (\<lambda>(name, claim) out. case claim of
         None \<Rightarrow> out
       | Some c \<Rightarrow> (case map_of remapTable c of None \<Rightarrow> out | Some newName \<Rightarrow> AList.update name newName out))
       volumes []"

definition get_workload :: "env \<Rightarrow> string \<Rightarrow> string \<Rightarrow> string \<Rightarrow> (err + Workload) io" where
  "get_workload e kind ns name =
     ask e (GetCall kind ns name) (\<lambda>h. s_getWorkload (e_storage e) h kind ns name)"

definition controls :: "OwnerReference \<Rightarrow> bool" where
  "controls ref = (ref_Controller ref = Some True)"

text \<open>The owner is the workload with the kind it was read as. A ReplicaSet stands for the first
  Deployment that controls it.\<close>

fun owner_of :: "env \<Rightarrow> string \<Rightarrow> OwnerReference list \<Rightarrow> (err + (string \<times> Workload) option) io" where
  "owner_of e ns [] = ret (Inr None)"
| "owner_of e ns (ref # refs) =
     (if \<not> controls ref then owner_of e ns refs
      else if ref_Kind ref = ''ReplicaSet'' then
        bindE (get_workload e ''ReplicaSet'' ns (ref_Name ref)) (\<lambda>rs.
          case filter (\<lambda>rsRef. controls rsRef \<and> ref_Kind rsRef = ''Deployment'') (oOwners rs) of
            [] \<Rightarrow> ret (Inr (Some (''ReplicaSet'', rs)))
          | rsRef # _ \<Rightarrow> bindE (get_workload e ''Deployment'' ns (ref_Name rsRef))
                           (\<lambda>dep. ret (Inr (Some (''Deployment'', dep)))))
      else if ref_Kind ref \<in> {''Deployment'', ''StatefulSet'', ''DaemonSet''} then
        bindE (get_workload e (ref_Kind ref) ns (ref_Name ref)) (\<lambda>w. ret (Inr (Some (ref_Kind ref, w))))
      else owner_of e ns refs)"

definition topLevelOwner :: "env \<Rightarrow> Pod \<Rightarrow> (err + (string \<times> Workload) option) io" where
  "topLevelOwner e pod = owner_of e (oNamespace pod) (oOwners pod)"

fun volume_patches :: "PodVolume list \<Rightarrow> smap \<Rightarrow> smap" where
  "volume_patches [] remapTable = []"
| "volume_patches ((name, claim) # vs) remapTable =
     (case claim of
        None \<Rightarrow> volume_patches vs remapTable
      | Some c \<Rightarrow> (case map_of remapTable c of
          None \<Rightarrow> volume_patches vs remapTable
        | Some newName \<Rightarrow> (name, newName) # volume_patches vs remapTable))"

definition patchOwnerVolumes :: "env \<Rightarrow> string \<times> Workload \<Rightarrow> smap \<Rightarrow> err option io" where
  "patchOwnerVolumes e owner remapTable =
     (let (kind, w) = owner; toUpdate = volume_patches (wl_Volumes w) remapTable in
      if toUpdate = [] then ret None
      else k8s_write e (PatchWorkload kind (oNamespace w) (oName w) toUpdate))"

fun remap_pods :: "env \<Rightarrow> smap \<Rightarrow> string list \<Rightarrow> Pod list \<Rightarrow> unit io" where
  "remap_pods e remapTable patched [] = ret ()"
| "remap_pods e remapTable patched (pod # pods) =
     (if volumesNeedingRemap (pod_Volumes pod) remapTable = [] then remap_pods e remapTable patched pods
      else topLevelOwner e pod \<bind> (\<lambda>r. case r of
          Inl _ \<Rightarrow> remap_pods e remapTable patched pods
        | Inr None \<Rightarrow> remap_pods e remapTable patched pods
        | Inr (Some owner) \<Rightarrow>
            if oUID (snd owner) \<in> set patched then remap_pods e remapTable patched pods
            else patchOwnerVolumes e owner remapTable
                   \<bind> (\<lambda>_. remap_pods e remapTable (oUID (snd owner) # patched) pods)))"

definition remapPodsInNamespace :: "env \<Rightarrow> string \<Rightarrow> smap \<Rightarrow> (err + unit) io" where
  "remapPodsInNamespace e namespace remapTable =
     bindE (wrapE (Errorf_w ''list pods in namespace %s: '' [namespace])
              (ask e (ListCall ''Pod'' namespace []) (\<lambda>h. s_listPods (e_storage e) h namespace)))
       (\<lambda>pods. remap_pods e remapTable [] pods \<bind> (\<lambda>_. ret (Inr ())))"

definition doRemap :: "env \<Rightarrow> string \<Rightarrow> (err + smap) io \<Rightarrow> (err + Result) io" where
  "doRemap e namespace buildRemapTable =
     bindE buildRemapTable (\<lambda>remapTable.
     if remapTable = [] then ret (Inr no_requeue)
     else bindE (remapPodsInNamespace e namespace remapTable) (\<lambda>_. ret (Inr no_requeue)))"


section \<open>The handlers\<close>

definition remap_VSCR :: "env \<Rightarrow> string \<Rightarrow> string \<Rightarrow> (err + Result) io" where
  "remap_VSCR e name ns =
     GetVastStorageClassReplication e name ns \<bind> (\<lambda>r. case r of
         Inl x \<Rightarrow> ret (if IsNotFound x then Inr no_requeue else Inl x)
       | Inr vscr \<Rightarrow>
           if \<not> PVCRemap (vscr_Spec vscr) \<or> oDeleting vscr then ret (Inr no_requeue)
           else
             let newPrimary = PrimaryStorageClass (vscr_Spec vscr); pvcNS = vscr_PVCNamespace vscr in
             GetVolumeGroupReplication e (vgrNameForSC name newPrimary) pvcNS \<bind> (\<lambda>r. case r of
                 Inl x \<Rightarrow> ret (if IsNotFound x then Inr no_requeue else Inl x)
               | Inr vgr \<Rightarrow>
                   if vgr_ReplicationState vgr \<noteq> Primary \<or> vgr_State vgr \<noteq> PrimaryState then ret (Inr no_requeue)
                   else doRemap e pvcNS (buildSiblingRemapTable e pvcNS (vgr_PVCs vgr))))"

definition primary_mirror_selector :: "string \<Rightarrow> string \<Rightarrow> smap" where
  "primary_mirror_selector newPrimary name =
     [(LabelManagedBy, LabelManagedByValue), (LabelStorageClass, newPrimary), (LabelSourceVVR, name)]"

definition VVR_table :: "env \<Rightarrow> string \<Rightarrow> VVR \<Rightarrow> (err + smap) io" where
  "VVR_table e name vvr =
     (let newPrimary = v_PrimaryStorageClass (vvr_Spec vvr); pvcNS = vvr_PVCNamespace vvr in
      bindE (wrapE (Errorf_w ''list primary mirror PVC for VVR %s: '' [name])
               (ListPVCsByLabelSelector e pvcNS (primary_mirror_selector newPrimary name))) (\<lambda>mirrors.
      buildSiblingRemapTable e pvcNS
        [case mirrors of m # _ \<Rightarrow> oName m | [] \<Rightarrow> v_VolumeName (vvr_Spec vvr)]))"

definition remap_VVR :: "env \<Rightarrow> string \<Rightarrow> string \<Rightarrow> (err + Result) io" where
  "remap_VVR e name ns =
     GetVastVolumeReplication e name ns \<bind> (\<lambda>r. case r of
         Inl x \<Rightarrow> ret (if IsNotFound x then Inr no_requeue else Inl x)
       | Inr vvr \<Rightarrow>
           if \<not> v_PVCRemap (vvr_Spec vvr) \<or> oDeleting vvr then ret (Inr no_requeue)
           else
             let newPrimary = v_PrimaryStorageClass (vvr_Spec vvr); pvcNS = vvr_PVCNamespace vvr in
             GetVolumeReplication e (vrNameForSC name newPrimary) pvcNS \<bind> (\<lambda>r. case r of
                 Inl x \<Rightarrow> ret (if IsNotFound x then Inr no_requeue else Inl x)
               | Inr vr \<Rightarrow>
                   if vr_ReplicationState vr \<noteq> Primary \<or> vr_State vr \<noteq> PrimaryState then ret (Inr no_requeue)
                   else doRemap e pvcNS (VVR_table e name vvr)))"

definition Remap_Reconcile :: "env \<Rightarrow> key \<Rightarrow> (err + Result) io" where
  "Remap_Reconcile e k =
     (let ns = fst k; name = snd k in
      if HasPrefix name vscrRemapPrefix then remap_VSCR e (TrimPrefix name vscrRemapPrefix) ns
      else if HasPrefix name vvrRemapPrefix then remap_VVR e (TrimPrefix name vvrRemapPrefix) ns
      else ret (Inr no_requeue))"

text \<open>The requests the watches put in the queue.\<close>

definition vgrMapper :: "VGR \<Rightarrow> key list" where
  "vgrMapper vgr =
     (let (name, ns) = ParentCRFromObject vgr LabelSourceVSCR LabelSourceVSCRNamespace ''VastStorageClassReplication'' in
      if name = [] then [] else [(ns, vscrRemapPrefix @ name)])"

definition vrMapper :: "VR \<Rightarrow> key list" where
  "vrMapper vr =
     (let (name, ns) = ParentCRFromObject vr LabelSourceVVR LabelSourceVVRNamespace ''VastVolumeReplication'' in
      if name = [] then [] else [(ns, vvrRemapPrefix @ name)])"


section \<open>Which workloads are patched\<close>

text \<open>A claim \<open>c\<close> is replaced by a claim \<open>p\<close> of the same source: \<open>p\<close> was read as a primary, and \<open>c\<close> is the source
  \<open>p\<close> is labelled with or was listed among the mirrors of that source.\<close>

definition remap_source :: "PVC \<Rightarrow> string" where
  "remap_source p = (if lookup_str (oLabels p) LabelSourcePVC = [] then oName p else lookup_str (oLabels p) LabelSourcePVC)"

definition same_source :: "env \<Rightarrow> string \<Rightarrow> history \<Rightarrow> string \<Rightarrow> string \<Rightarrow> bool" where
  "same_source e ns h c p = (\<exists>primary. oName primary = p
     \<and> earlier (\<lambda>h. \<exists>ref. k_getPVC (e_k8s e) h ns ref = Inr primary) h
     \<and> (c = lookup_str (oLabels primary) LabelSourcePVC \<and> c \<noteq> []
        \<or> c \<noteq> p \<and> earlier (\<lambda>h. \<exists>siblings. s_listPVC (e_storage e) h ns (sibling_selector (remap_source primary)) = Inr siblings
            \<and> c \<in> oName ` set siblings) h))"

definition remapped :: "env \<Rightarrow> string \<Rightarrow> history \<Rightarrow> smap \<Rightarrow> bool" where
  "remapped e ns h table = (\<forall>c p. map_of table c = Some p \<longrightarrow> same_source e ns h c p)"

lemma same_source_mono: "same_source e ns h c p \<Longrightarrow> prefix h h' \<Longrightarrow> same_source e ns h' c p"
  unfolding same_source_def by (elim exE conjE disjE) (blast intro: earlier_mono)+

lemma remapped_mono: "remapped e ns h t \<Longrightarrow> prefix h h' \<Longrightarrow> remapped e ns h' t"
  unfolding remapped_def by (blast intro: same_source_mono)

lemma map_of_add_siblings:
  "map_of (add_siblings p siblings t) c = (if c \<noteq> p \<and> c \<in> oName ` set siblings then Some p else map_of t c)"
  unfolding add_siblings_def by (induction siblings arbitrary: t) (auto simp: update_conv')

lemma remapped_step:
  assumes "remapped e ns h t" "earlier (\<lambda>h. \<exists>ref. k_getPVC (e_k8s e) h ns ref = Inr primary) h"
    and "earlier (\<lambda>h. s_listPVC (e_storage e) h ns (sibling_selector (remap_source primary)) = Inr siblings) h"
  shows "remapped e ns h (add_siblings (oName primary) siblings t)"
    and "lookup_str (oLabels primary) LabelSourcePVC \<noteq> [] \<Longrightarrow>
      remapped e ns h (AList.update (remap_source primary) (oName primary) (add_siblings (oName primary) siblings t))"
proof -
  have "same_source e ns h c (oName primary)" if "c \<noteq> oName primary" "c \<in> oName ` set siblings" for c
    unfolding same_source_def
    by (rule exI[of _ primary]) (use assms(2) that in \<open>auto intro!: earlier_weaken[OF assms(3)]\<close>)
  then show *: "remapped e ns h (add_siblings (oName primary) siblings t)"
    using assms(1) unfolding remapped_def map_of_add_siblings by auto
  assume "lookup_str (oLabels primary) LabelSourcePVC \<noteq> []"
  then have "same_source e ns h (remap_source primary) (oName primary)"
    unfolding same_source_def using assms(2) by (auto simp: remap_source_def)
  with * show "remapped e ns h (AList.update (remap_source primary) (oName primary) (add_siblings (oName primary) siblings t))"
    unfolding remapped_def by (auto simp: update_conv')
qed

lemma remap_primary_wp:
  assumes "allows {KRead} Q" "remapped e ns (hist w) t"
  shows "wp Q (remap_primary e ns t ref) (\<lambda>r w'. case r of Inl _ \<Rightarrow> True | Inr t' \<Rightarrow> remapped e ns (hist w') t') w"
proof -
  have Q: "kind_of c = KRead \<Longrightarrow> Q h c" for h c using assms(1) by (simp add: allows_def)
  show ?thesis
    unfolding remap_primary_def GetPVC_def ListPVCsByLabelSelector_def Let_def remap_source_def[symmetric]
  proof (intro wp_rules wp_ask Q, goal_cases)
    case (4 p)
    have t: "remapped e ns (hist w @ cs) t" for cs by (rule remapped_mono[OF assms(2)]) simp
    have read: "earlier (\<lambda>h. \<exists>ref. k_getPVC (e_k8s e) h ns ref = Inr p) (hist w @ cs)" for cs
      by (rule earlier_append) (use 4 in blast)
    show ?case
    proof (simp split: sum.split, intro allI impI wp_ret, goal_cases)
      case (1 siblings)
      with 4 show ?case
        by (auto intro!: wp_ret remapped_step t read earlier_append2)
    qed
  qed (auto intro: remapped_mono[OF assms(2)])
qed

lemma buildSiblingRemapTable_wp:
  assumes "allows {KRead} Q" "\<And>x w'. P (Inl x) w'" "\<And>t w'. remapped e ns (hist w') t \<Longrightarrow> P (Inr t) w'"
  shows "wp Q (buildSiblingRemapTable e ns refs) P w"
  unfolding buildSiblingRemapTable_def
  by (rule wp_foldE[where I = "\<lambda>t w. remapped e ns (hist w) t"], simp add: remapped_def)
    (auto intro!: wp_mono[OF remap_primary_wp[OF assms(1)]] assms(2,3) split: sum.splits)

text \<open>A workload is read as the owner of a pod, or of the ReplicaSet that owns the pod.\<close>

definition workload_read :: "env \<Rightarrow> string \<Rightarrow> history \<Rightarrow> string \<Rightarrow> Workload \<Rightarrow> bool" where
  "workload_read e ns h kind wl = earlier (\<lambda>h. \<exists>n. s_getWorkload (e_storage e) h kind ns n = Inr wl) h"

lemma workload_readI:
  "s_getWorkload (e_storage e) h kind ns n = Inr wl \<Longrightarrow> workload_read e ns (h @ cs) kind wl"
  "s_getWorkload (e_storage e) (h @ [a]) kind ns n = Inr wl \<Longrightarrow> workload_read e ns (h @ a # cs) kind wl"
  unfolding workload_read_def by (rule earlier_append earlier_append2, blast)+

lemma owner_of_wp:
  assumes "allows {KRead} Q"
  shows "wp Q (owner_of e ns refs) (\<lambda>r w'. \<forall>kind wl. r = Inr (Some (kind, wl)) \<longrightarrow> workload_read e ns (hist w') kind wl) w"
proof -
  have Q: "kind_of c = KRead \<Longrightarrow> Q h c" for h c using assms(1) by (simp add: allows_def)
  show ?thesis
  proof (induction refs arbitrary: w)
    case (Cons ref refs)
    then show ?case
      by (auto simp: get_workload_def intro!: wp_rules wp_ask Q split: sum.splits list.splits) (erule workload_readI)+
  qed (simp add: wp_ret)
qed

lemma volume_patches_iff:
  "(v, p) \<in> set (volume_patches volumes t) \<longleftrightarrow> (\<exists>c. (v, Some c) \<in> set volumes \<and> map_of t c = Some p)"
  by (induction volumes t rule: volume_patches.induct) (auto split: option.splits)

text \<open>A patch of a workload in namespace \<open>ns\<close>: a listed pod uses a claim that has to be replaced, the workload
  was read as its owner, and the patch moves volumes of the workload to claims of the same source.\<close>

definition patch_ok :: "env \<Rightarrow> string \<Rightarrow> history \<Rightarrow> string \<Rightarrow> string \<Rightarrow> string \<Rightarrow> smap \<Rightarrow> bool" where
  "patch_ok e ns h kind wns n ups = (\<exists>pods pod wl. earlier (\<lambda>h. s_listPods (e_storage e) h ns = Inr pods) h \<and> pod \<in> set pods
     \<and> workload_read e (oNamespace pod) h kind wl \<and> wns = oNamespace wl \<and> n = oName wl \<and> ups \<noteq> []
     \<and> (\<forall>(v, p) \<in> set ups. \<exists>c. (v, Some c) \<in> set (wl_Volumes wl) \<and> same_source e ns h c p))"

lemma remap_pods_wp:
  assumes "allows {KRead} Q" "remapped e ns (hist w) t" "earlier (\<lambda>h. s_listPods (e_storage e) h ns = Inr listed) (hist w)"
    and "set pods \<subseteq> set listed" "\<And>h kind wns n ups. patch_ok e ns h kind wns n ups \<Longrightarrow> Q h (PatchWorkload kind wns n ups)"
    and "\<And>w'. P () w'"
  shows "wp Q (remap_pods e t patched pods) P w"
  using assms(2,3,4)
proof (induction pods arbitrary: patched w)
  case Nil
  then show ?case by (simp add: wp_ret assms(6))
next
  case (Cons pod pods)
  have again: "wp Q (remap_pods e t ps pods) P v" if "prefix (hist w) (hist v)" for ps v
    by (rule Cons.IH) (use Cons.prems that in \<open>auto intro: remapped_mono earlier_mono\<close>)
  have patch: "Q (hist v) (PatchWorkload kind (oNamespace wl) (oName wl) (volume_patches (wl_Volumes wl) t))"
    if "prefix (hist w) (hist v)" "workload_read e (oNamespace pod) (hist v) kind wl" "volume_patches (wl_Volumes wl) t \<noteq> []"
    for v :: world and kind wl
  proof (rule assms(5), unfold patch_ok_def, intro exI[of _ listed] exI[of _ pod] exI[of _ wl] conjI)
    have "remapped e ns (hist v) t" using Cons.prems(1) that(1) by (rule remapped_mono)
    then show "\<forall>(va, p) \<in> set (volume_patches (wl_Volumes wl) t).
        \<exists>c. (va, Some c) \<in> set (wl_Volumes wl) \<and> same_source e ns (hist v) c p"
      unfolding remapped_def by (fastforce simp: volume_patches_iff)
  qed (use Cons.prems that in \<open>auto intro: earlier_mono\<close>)
  show ?case
    unfolding remap_pods.simps topLevelOwner_def patchOwnerVolumes_def k8s_write_def Let_def
    by (intro wp_rules wp_mono[OF wp_prefix[OF owner_of_wp[OF assms(1)]]])
      (auto intro!: again patch wp_rules wp_ask split: sum.split option.split elim: prefix_order.trans)
qed

text \<open>The failover of the resource in the request is complete: remapping is on, the resource is not being
  deleted, and the replication object of its primary StorageClass was read as primary in spec and status.\<close>

definition failover_done :: "env \<Rightarrow> key \<Rightarrow> history \<Rightarrow> string \<Rightarrow> bool" where
  "failover_done e k h ns =
     ((\<exists>name vscr vgr. snd k = vscrRemapPrefix @ name \<and> earlier (\<lambda>h. k_getVSCR (e_k8s e) h (fst k) name = Inr vscr) h
        \<and> PVCRemap (vscr_Spec vscr) \<and> \<not> oDeleting vscr \<and> ns = vscr_PVCNamespace vscr
        \<and> earlier (\<lambda>h. k_getVGR (e_k8s e) h ns (vgrNameForSC name (PrimaryStorageClass (vscr_Spec vscr))) = Inr vgr) h
        \<and> vgr_ReplicationState vgr = Primary \<and> vgr_State vgr = PrimaryState)
      \<or> (\<exists>name vvr vr. snd k = vvrRemapPrefix @ name \<and> earlier (\<lambda>h. k_getVVR (e_k8s e) h (fst k) name = Inr vvr) h
        \<and> v_PVCRemap (vvr_Spec vvr) \<and> \<not> oDeleting vvr \<and> ns = vvr_PVCNamespace vvr
        \<and> earlier (\<lambda>h. k_getVR (e_k8s e) h ns (vrNameForSC name (v_PrimaryStorageClass (vvr_Spec vvr))) = Inr vr) h
        \<and> vr_ReplicationState vr = Primary \<and> vr_State vr = PrimaryState))"

lemma failover_done_mono: "failover_done e k h ns \<Longrightarrow> prefix h h' \<Longrightarrow> failover_done e k h' ns"
  unfolding failover_done_def by (elim disjE exE conjE) (blast intro: earlier_mono)+

lemma failover_doneI:
  "snd k = vscrRemapPrefix @ name \<Longrightarrow> k_getVSCR (e_k8s e) h (fst k) name = Inr vscr \<Longrightarrow> PVCRemap (vscr_Spec vscr) \<Longrightarrow>
     \<not> oDeleting vscr \<Longrightarrow> k_getVGR (e_k8s e) (h @ [c]) (vscr_PVCNamespace vscr)
       (vgrNameForSC name (PrimaryStorageClass (vscr_Spec vscr))) = Inr vgr \<Longrightarrow> vgr_ReplicationState vgr = Primary \<Longrightarrow>
     vgr_State vgr = PrimaryState \<Longrightarrow> failover_done e k (h @ [c, d]) (vscr_PVCNamespace vscr)"
  "snd k = vvrRemapPrefix @ name \<Longrightarrow> k_getVVR (e_k8s e) h (fst k) name = Inr vvr \<Longrightarrow> v_PVCRemap (vvr_Spec vvr) \<Longrightarrow>
     \<not> oDeleting vvr \<Longrightarrow> k_getVR (e_k8s e) (h @ [c]) (vvr_PVCNamespace vvr)
       (vrNameForSC name (v_PrimaryStorageClass (vvr_Spec vvr))) = Inr vr \<Longrightarrow> vr_ReplicationState vr = Primary \<Longrightarrow>
     vr_State vr = PrimaryState \<Longrightarrow> failover_done e k (h @ [c, d]) (vvr_PVCNamespace vvr)"
  unfolding failover_done_def by (rule disjI1 disjI2, blast intro: earlier_append earlier_append2)+

definition remap_request :: "env \<Rightarrow> key \<Rightarrow> history \<Rightarrow> call \<Rightarrow> bool" where
  "remap_request e k h c = (case c of
     PatchWorkload kind wns n ups \<Rightarrow> \<exists>ns. failover_done e k h ns \<and> patch_ok e ns h kind wns n ups | _ \<Rightarrow> True)"

lemma remap_request_reads: "allows {KRead} (remap_request e k)"
  by (auto simp: allows_def remap_request_def split: call.split)

lemma doRemap_wp:
  assumes "failover_done e k (hist w) ns"
    and "\<And>P. (\<And>x w'. P (Inl x) w') \<Longrightarrow> (\<And>t w'. remapped e ns (hist w') t \<Longrightarrow> P (Inr t) w') \<Longrightarrow> wp (remap_request e k) m P w"
  shows "wp (remap_request e k) (doRemap e ns m) (\<lambda>_ _. True) w"
proof (rule wp_from)
  let ?Q = "\<lambda>h c. prefix (hist w) h \<longrightarrow> remap_request e k h c"
  have Q: "kind_of c = KRead \<Longrightarrow> ?Q h c" for h c using remap_request_reads[of e k] by (simp add: allows_def)
  have pods: "wp ?Q (remap_pods e t [] pods) P (record_call e (ListCall ''Pod'' ns []) 0 v)"
    if "remapped e ns (hist v) t" "s_listPods (e_storage e) (hist v) ns = Inr pods" "\<And>w'. P () w'" for t pods P v
    by (rule remap_pods_wp[where ns = ns and listed = pods], simp add: allows_def Q)
      (use that in \<open>auto simp: remap_request_def intro: remapped_mono earlier_append failover_done_mono[OF assms(1)]\<close>)
  have table: "wp ?Q m (\<lambda>r w'. case r of Inl _ \<Rightarrow> True | Inr t \<Rightarrow> remapped e ns (hist w') t) w"
    by (rule wp_weaken[OF assms(2)]) simp_all
  show "wp ?Q (doRemap e ns m) (\<lambda>_ _. True) w"
    unfolding doRemap_def remapPodsInNamespace_def
    by (intro wp_bindE wp_mono[OF table]) (auto intro!: wp_rules wp_ask Q pods split: sum.splits)
qed

lemma VVR_table_wp:
  assumes "allows {KRead} Q" "\<And>x w'. P (Inl x) w'" "\<And>t w'. remapped e (vvr_PVCNamespace vvr) (hist w') t \<Longrightarrow> P (Inr t) w'"
  shows "wp Q (VVR_table e name vvr) P w"
  unfolding VVR_table_def Let_def ListPVCsByLabelSelector_def
  by (intro wp_rules wp_ask)
    (use assms in \<open>auto simp: allows_def intro: buildSiblingRemapTable_wp split: sum.split\<close>)

lemma remap_handlers_wp:
  "snd k = vscrRemapPrefix @ name \<Longrightarrow> wp (remap_request e k) (remap_VSCR e name (fst k)) (\<lambda>_ _. True) w"
  "snd k = vvrRemapPrefix @ name \<Longrightarrow> wp (remap_request e k) (remap_VVR e name (fst k)) (\<lambda>_ _. True) w"
proof -
  have Q: "kind_of c = KRead \<Longrightarrow> remap_request e k h c" for h c using remap_request_reads[of e k] by (simp add: allows_def)
  show "wp (remap_request e k) (remap_VSCR e name (fst k)) (\<lambda>_ _. True) w" if "snd k = vscrRemapPrefix @ name"
    unfolding remap_VSCR_def GetVastStorageClassReplication_def get_VSCR_def GetVolumeGroupReplication_def Let_def
    by (intro wp_rules wp_ask Q doRemap_wp buildSiblingRemapTable_wp remap_request_reads)
      (auto intro!: failover_doneI(1)[OF that] split: sum.splits)
  show "wp (remap_request e k) (remap_VVR e name (fst k)) (\<lambda>_ _. True) w" if "snd k = vvrRemapPrefix @ name"
    unfolding remap_VVR_def GetVastVolumeReplication_def get_VVR_def GetVolumeReplication_def Let_def
    by (intro wp_rules wp_ask Q doRemap_wp VVR_table_wp remap_request_reads)
      (auto intro!: failover_doneI(2)[OF that] split: sum.splits)
qed

lemma Remap_Reconcile_wp: "wp (remap_request e k) (Remap_Reconcile e k) (\<lambda>_ _. True) w"
  unfolding Remap_Reconcile_def Let_def by (intro wp_rules remap_handlers_wp TrimPrefix_split) simp_all



section \<open>A concrete failover\<close>

definition remap_vscr :: VSCR where
  "remap_vscr = ObjectMeta.extend (new_meta ''vs'' ''ns'')
     \<lparr>vscr_Spec = example_vscr\<lparr>PVCRemap := True\<rparr>, vscr_Status = \<lparr>LastFailoverType = [], CurrentPrimaryStorageClass = [],
       StorageClassesPreview = [], PpathDirMapping = [], TenantMapping = [], PpathName = [], SyncStatus = []\<rparr>\<rparr>"

definition remap_vgr :: VGR where
  "remap_vgr = ObjectMeta.extend (new_meta ''vs-b'' ''ns'')
     \<lparr>vgr_ReplicationState = Primary, vgr_VGRClassName = [], vgr_VRClassName = [], vgr_AutoResync = False, vgr_Selector = None,
      vgr_VolumeReplicationName = [], vgr_ContentName = [], vgr_External = False, vgr_State = PrimaryState,
      vgr_PVCs = [''data-b'']\<rparr>"

definition remap_claim :: PVC where
  "remap_claim = ObjectMeta.extend ((new_meta ''data-b'' ''ns'')\<lparr>oLabels := [(LabelSourcePVC, ''data'')]\<rparr>)
     \<lparr>pvc_StorageClassName = Some ''b'', pvc_VolumeName = ''pv'', pvc_VolumeMode = None, pvc_AccessModes = [], pvc_Requests = []\<rparr>"

definition remap_pod :: Pod where
  "remap_pod = ObjectMeta.extend ((new_meta ''db-0'' ''ns'')\<lparr>oOwners := [\<lparr>ref_Kind = ''StatefulSet'', ref_Name = ''db'', ref_UID = ''u'',
      ref_Controller = Some True, ref_BlockOwnerDeletion = None\<rparr>]\<rparr>)
     \<lparr>pod_Phase = ''Running'', pod_Volumes = [(''v'', Some ''data'')]\<rparr>"

definition remap_workload :: Workload where
  "remap_workload = ObjectMeta.extend (new_meta ''db'' ''ns'') \<lparr>wl_Kind = ''StatefulSet'', wl_Volumes = [(''v'', Some ''data'')]\<rparr>"

definition remap_env :: env where
  "remap_env = idle_env\<lparr>
     e_k8s := idle_k8s\<lparr>k_getVSCR := \<lambda>h ns n. Inr remap_vscr, k_getVGR := \<lambda>h ns n. Inr remap_vgr,
       k_getPVC := \<lambda>h ns n. Inr remap_claim, k_write := \<lambda>h c. None\<rparr>,
     e_storage := idle_storage\<lparr>s_listPVC := \<lambda>h ns sel. Inr [], s_listPods := \<lambda>h ns. Inr [remap_pod],
       s_getWorkload := \<lambda>h kind ns n. Inr remap_workload\<rparr>\<rparr>"

lemma remap_env_sel:
  "k_getVSCR (e_k8s remap_env) = (\<lambda>h ns n. Inr remap_vscr)" "k_getVGR (e_k8s remap_env) = (\<lambda>h ns n. Inr remap_vgr)"
  "k_getPVC (e_k8s remap_env) = (\<lambda>h ns n. Inr remap_claim)" "k_write (e_k8s remap_env) = (\<lambda>h c. None)"
  "s_listPVC (e_storage remap_env) = (\<lambda>h ns sel. Inr [])" "s_listPods (e_storage remap_env) = (\<lambda>h ns. Inr [remap_pod])"
  "s_getWorkload (e_storage remap_env) = (\<lambda>h kind ns n. Inr remap_workload)"
  by (simp_all add: remap_env_def idle_simps)

abbreviation remap_run :: "(err + Result) \<times> world" where
  "remap_run \<equiv> run_state (Remap_Reconcile remap_env (''ns'', ''vscr/vs'')) start_world"

lemma remap_run_hist:
  "hist (snd remap_run) ! 6 = PatchWorkload ''StatefulSet'' ''ns'' ''db'' [(''v'', ''data-b'')]"
  "length (hist (snd remap_run)) = 7"
  by (simp_all add: Remap_Reconcile_def remap_VSCR_def vscrRemapPrefix_def HasPrefix_def TrimPrefix_def
    GetVastStorageClassReplication_def get_VSCR_def remap_env_sel run_simps Let_def remap_vscr_def new_meta_def ObjectMeta.defs
    GetVolumeGroupReplication_def remap_vgr_def doRemap_def buildSiblingRemapTable_def remap_primary_def GetPVC_def
    ListPVCsByLabelSelector_def remap_claim_def lookup_str_def add_siblings_def remapPodsInNamespace_def remap_pod_def
    volumesNeedingRemap_def topLevelOwner_def controls_def get_workload_def patchOwnerVolumes_def remap_workload_def k8s_write_def start_world_sel)


end
