(* ===== verification/PvcWebhook.thy ===== *)
theory PvcWebhook
  imports Admission Triples
begin

text \<open>
  The mutating webhook for claims (internal/webhook/pvc_label_webhook.go) and the check of its flags
  (internal/cmd/webhook/module.go). The injector keeps a cache of StorageClass data and the compiled
  filters; it is the object the handler's steps thread. Compiling and matching a regular expression
  given by the user are arguments of the model, and so is the decoder.
\<close>

record WebhookConfig =
  c_PvcLabelWebhookEnabled :: bool
  c_StorageClassName :: string
  c_StorageClassNameRegex :: string
  c_PVCNameRegex :: string
  c_CSIDriverName :: string
  c_CSIDriverNameRegex :: string

record webhook_api =
  w_decodePVC :: "json \<Rightarrow> err + PVC"
  w_marshalPVC :: "PVC \<Rightarrow> err option"
  w_Compile :: "string \<Rightarrow> err option"
  w_MatchString :: "string \<Rightarrow> string \<Rightarrow> bool"

definition bad_regex :: "string \<Rightarrow> string \<Rightarrow> err \<Rightarrow> err" where
  "bad_regex flag pattern = Errorf_w (''invalid '' @ flag @ '' %q: '') [pattern]"

definition regex_flag :: "webhook_api \<Rightarrow> string \<Rightarrow> string \<Rightarrow> err option" where
  "regex_flag a flag pattern =
     (if pattern = [] then None else map_option (bad_regex flag pattern) (w_Compile a pattern))"

definition first_error :: "err option list \<Rightarrow> err option" where
  "first_error rs = (case filter (\<lambda>r. r \<noteq> None) rs of [] \<Rightarrow> None | r # _ \<Rightarrow> r)"

definition PreRunE :: "webhook_api \<Rightarrow> WebhookConfig \<Rightarrow> err option" where
  "PreRunE a cfg = first_error
     [if c_StorageClassName cfg \<noteq> [] \<and> c_StorageClassNameRegex cfg \<noteq> []
      then Some (Errorf ''--storage-class-name and --storage-class-name-regex are mutually exclusive'' []) else None,
      if c_CSIDriverName cfg \<noteq> [] \<and> c_CSIDriverNameRegex cfg \<noteq> []
      then Some (Errorf ''--csi-driver-name and --csi-driver-name-regex are mutually exclusive'' []) else None,
      regex_flag a ''--storage-class-name-regex'' (c_StorageClassNameRegex cfg),
      regex_flag a ''--pvc-name-regex'' (c_PVCNameRegex cfg),
      regex_flag a ''--csi-driver-name-regex'' (c_CSIDriverNameRegex cfg),
      if c_PvcLabelWebhookEnabled cfg \<and> c_CSIDriverName cfg = [] \<and> c_CSIDriverNameRegex cfg = []
      then Some (Errorf ''PVC label webhook requires --csi-driver-name or --csi-driver-name-regex'' []) else None]"


section \<open>The injector\<close>

record scInfo =
  provisioner :: string
  subsystem :: string

text \<open>A compiled expression is its pattern; \<open>regexOnce\<close> is set once the patterns were compiled.\<close>

record PVCLabelInjector =
  storageClassNameRegex :: "string option"
  pvcNameRegex :: "string option"
  csiDriverNameRegex :: "string option"
  regexOnce :: bool
  scCache :: "(string \<times> scInfo) list"

type_synonym 'a istep = "(PVCLabelInjector, 'a) step"

definition cachedSCInfo :: "env \<Rightarrow> string \<Rightarrow> scInfo istep" where
  "cachedSCInfo e scName = (\<lambda>p. case map_of (scCache p) scName of
       Some info \<Rightarrow> ret (Inr info, p)
     | None \<Rightarrow> GetStorageClass e scName \<bind> (\<lambda>r. ret (case r of
           Inl x \<Rightarrow> (Inl x, p)
         | Inr sc \<Rightarrow>
             let info = \<lparr>provisioner = sc_Provisioner sc,
                         subsystem = lookup_str (sc_Parameters sc) StorageClassParameterSubsystem\<rparr> in
             (Inr info, p\<lparr>scCache := AList.update scName info (scCache p)\<rparr>))))"

text \<open>\<^verbatim>\<open>MustCompile\<close> panics on a pattern that does not compile; the once-guard stays set and the
  patterns after it stay nil.\<close>

definition MustCompile :: "webhook_api \<Rightarrow> string \<Rightarrow> (string option \<Rightarrow> PVCLabelInjector \<Rightarrow> PVCLabelInjector) \<Rightarrow> unit istep" where
  "MustCompile a pattern put = (\<lambda>p.
     if pattern = [] then ret (Inr (), p)
     else case w_Compile a pattern of
         Some x \<Rightarrow> ret (Inl (Errorf_w ''regexp: Compile(%q): '' [pattern] x), p)
       | None \<Rightarrow> ret (Inr (), put (Some pattern) p))"

definition compileRegexes :: "webhook_api \<Rightarrow> WebhookConfig \<Rightarrow> unit istep" where
  "compileRegexes a cfg = (\<lambda>p.
     if regexOnce p then ret (Inr (), p)
     else bindS (MustCompile a (c_StorageClassNameRegex cfg) (\<lambda>r p. p\<lparr>storageClassNameRegex := r\<rparr>)) (\<lambda>_.
          bindS (MustCompile a (c_PVCNameRegex cfg) (\<lambda>r p. p\<lparr>pvcNameRegex := r\<rparr>)) (\<lambda>_.
          MustCompile a (c_CSIDriverNameRegex cfg) (\<lambda>r p. p\<lparr>csiDriverNameRegex := r\<rparr>)))
            (p\<lparr>regexOnce := True\<rparr>))"

definition matches :: "webhook_api \<Rightarrow> bool \<Rightarrow> string option \<Rightarrow> string \<Rightarrow> bool" where
  "matches a absent regex value = (case regex of Some r \<Rightarrow> w_MatchString a r value | None \<Rightarrow> absent)"

definition matchesCSIDriverFilter :: "webhook_api \<Rightarrow> WebhookConfig \<Rightarrow> string \<Rightarrow> bool istep" where
  "matchesCSIDriverFilter a cfg name =
     bindS (compileRegexes a cfg) (\<lambda>_. getS (\<lambda>p.
       retS (if c_CSIDriverName cfg \<noteq> [] then name = c_CSIDriverName cfg
             else matches a False (csiDriverNameRegex p) name)))"

definition matchesStorageClassFilter :: "webhook_api \<Rightarrow> WebhookConfig \<Rightarrow> string \<Rightarrow> bool istep" where
  "matchesStorageClassFilter a cfg scName =
     bindS (compileRegexes a cfg) (\<lambda>_. getS (\<lambda>p.
       retS (if c_StorageClassName cfg \<noteq> [] then scName = c_StorageClassName cfg
             else matches a True (storageClassNameRegex p) scName)))"

definition matchesPVCNameFilter :: "webhook_api \<Rightarrow> WebhookConfig \<Rightarrow> string \<Rightarrow> bool istep" where
  "matchesPVCNameFilter a cfg pvcName =
     bindS (compileRegexes a cfg) (\<lambda>_. getS (\<lambda>p. retS (matches a True (pvcNameRegex p) pvcName)))"


section \<open>Replication state\<close>

definition state_selector :: "string \<Rightarrow> smap" where
  "state_selector scName = [(LabelManagedBy, LabelManagedByValue), (LabelStorageClass, scName)]"

definition read_only_class :: "string \<Rightarrow> string" where
  "read_only_class scName =
     Sprintf (''StorageClass %q is currently a replication secondary (read-only). ''
        @ ''PVC creation is not allowed on a read-only cluster. ''
        @ ''Promote this cluster to primary first.'') [scName]"

definition VGR_read_only :: "VGR \<Rightarrow> bool" where
  "VGR_read_only v = (vgr_State v = SecondaryState \<and> vgr_ReplicationState v \<noteq> ResyncState)"

definition VR_read_only :: "VR \<Rightarrow> bool" where
  "VR_read_only v = (vr_State v = SecondaryState \<and> vr_ReplicationState v \<noteq> ResyncState)"

text \<open>The message of the denial, or None. A list that fails counts as empty.\<close>

definition checkReplicationState :: "env \<Rightarrow> string \<Rightarrow> string \<Rightarrow> string option io" where
  "checkReplicationState e namespace scName =
     ListVolumeGroupReplicationsByLabelSelector e namespace (state_selector scName) \<bind> (\<lambda>vgrs.
       if (case vgrs of Inl _ \<Rightarrow> False | Inr vs \<Rightarrow> list_ex VGR_read_only vs)
       then ret (Some (read_only_class scName))
       else ListVolumeReplicationsByLabelSelector e namespace (state_selector scName) \<bind> (\<lambda>vrs.
         ret (if (case vrs of Inl _ \<Rightarrow> False | Inr vs \<Rightarrow> list_ex VR_read_only vs)
              then Some (read_only_class scName) else None)))"

definition state_denial :: "env \<Rightarrow> string \<Rightarrow> PVC \<Rightarrow> string option io" where
  "state_denial e scName pvc =
     (if map_of (oLabels pvc) LabelManagedBy = Some LabelManagedByValue then ret None
      else checkReplicationState e (oNamespace pvc) scName)"


section \<open>The handler\<close>

definition inject_labels :: "string \<Rightarrow> scInfo \<Rightarrow> PVC \<Rightarrow> bool \<times> PVC" where
  "inject_labels scName info pvc =
     (let put1 = \<not> HasLabel pvc LabelStorageClass;
          pvc1 = (if put1 then SetLabel LabelStorageClass scName pvc else pvc);
          put2 = subsystem info \<noteq> [] \<and> \<not> HasLabel pvc1 LabelSubsystem;
          pvc2 = (if put2 then SetLabel LabelSubsystem (subsystem info) pvc1 else pvc1) in
      (put1 \<or> put2, pvc2))"

definition inject_response :: "webhook_api \<Rightarrow> string \<Rightarrow> scInfo \<Rightarrow> PVC \<Rightarrow> PVC Response" where
  "inject_response a scName info pvc =
     (case inject_labels scName info pvc of
        (False, _) \<Rightarrow> Allowed ''labels already present''
      | (True, pvc') \<Rightarrow> (case w_marshalPVC a pvc' of
            Some _ \<Rightarrow> Allowed ''marshal error, skipping''
          | None \<Rightarrow> Patched pvc'))"

definition PVC_inject ::
  "env \<Rightarrow> webhook_api \<Rightarrow> WebhookConfig \<Rightarrow> PVC \<Rightarrow> string \<Rightarrow> scInfo \<Rightarrow> PVC Response istep" where
  "PVC_inject e a cfg pvc scName info =
     bindS (matchesCSIDriverFilter a cfg (provisioner info)) (\<lambda>driver.
       if \<not> driver then retS (Allowed ''provisioner does not match CSI driver filter'')
       else bindS (doS (state_denial e scName pvc)) (\<lambda>denied. case denied of
           Some msg \<Rightarrow> retS (Denied msg)
         | None \<Rightarrow>
             bindS (matchesStorageClassFilter a cfg scName) (\<lambda>class.
               if \<not> class then retS (Allowed ''storageClass does not match filter'')
               else bindS (matchesPVCNameFilter a cfg (oName pvc)) (\<lambda>name.
                 if \<not> name then retS (Allowed ''PVC name does not match filter'')
                 else retS (inject_response a scName info pvc)))))"

text \<open>The left side of the result is a panic.\<close>

definition PVC_Handle :: "env \<Rightarrow> webhook_api \<Rightarrow> WebhookConfig \<Rightarrow> AdmissionRequest \<Rightarrow> PVC Response istep" where
  "PVC_Handle e a cfg req = (\<lambda>p.
     case w_decodePVC a (req_Object req) of
       Inl _ \<Rightarrow> ret (Inr (Allowed ''decode error, skipping''), p)
     | Inr pvc \<Rightarrow>
         let scName = (case pvc_StorageClassName pvc of Some s \<Rightarrow> s | None \<Rightarrow> []) in
         if scName = [] then ret (Inr (Allowed ''no storageClassName''), p)
         else cachedSCInfo e scName p \<bind> (\<lambda>(r, p'). case r of
             Inl x \<Rightarrow> ret (Inr (Allowed (if IsNotFound x then ''storageClass not found''
                                         else ''failed to get storageClass'')), p')
           | Inr info \<Rightarrow> PVC_inject e a cfg pvc scName info p'))"


section \<open>Decisions\<close>

text \<open>A listing of the replication objects of the class showed a secondary that is not resynchronising.\<close>

definition read_only_listed :: "env \<Rightarrow> history \<Rightarrow> string \<Rightarrow> string \<Rightarrow> bool" where
  "read_only_listed e h ns sc =
     (earlier (\<lambda>h. \<exists>vs. s_listVGR (e_storage e) h ns (state_selector sc) = Inr vs \<and> list_ex VGR_read_only vs) h
      \<or> earlier (\<lambda>h. \<exists>vs. s_listVR (e_storage e) h ns (state_selector sc) = Inr vs \<and> list_ex VR_read_only vs) h)"

lemma read_only_listed_mono: "read_only_listed e h ns sc \<Longrightarrow> prefix h h' \<Longrightarrow> read_only_listed e h' ns sc"
  unfolding read_only_listed_def by (blast intro: earlier_mono)

lemma state_denial_wp:
  "wp anything (state_denial e sc pvc) (\<lambda>r w'. \<forall>msg. r = Some msg \<longrightarrow>
     map_of (oLabels pvc) LabelManagedBy \<noteq> Some LabelManagedByValue \<and> read_only_listed e (hist w') (oNamespace pvc) sc) w"
  unfolding state_denial_def checkReplicationState_def ListVolumeGroupReplicationsByLabelSelector_def
    ListVolumeReplicationsByLabelSelector_def read_only_listed_def
  by (intro wp_rules wp_ask) (auto simp: earlier_simps split: sum.splits if_splits)

lemma PreRunE_compiles:
  assumes "PreRunE a cfg = None" "pattern \<in> {c_StorageClassNameRegex cfg, c_PVCNameRegex cfg, c_CSIDriverNameRegex cfg}" "pattern \<noteq> []"
  shows "w_Compile a pattern = None"
  using assms by (auto simp: PreRunE_def first_error_def regex_flag_def split: if_splits list.splits option.splits)

lemma compileRegexes_wp:
  assumes "PreRunE a cfg = None" "\<And>p' w'. P (Inr (), p') w'"
  shows "wp anything (compileRegexes a cfg p) P w"
  unfolding compileRegexes_def MustCompile_def
  by (intro wp_rules wp_bindS) (auto simp: assms(2) PreRunE_compiles[OF assms(1)] intro!: wp_rules wp_bindS)

lemma inject_labels_adds:
  assumes "inject_labels sc info pvc = (b, u)"
  shows "map_of (oLabels pvc) \<subseteq>\<^sub>m map_of (oLabels u)" "u\<lparr>oLabels := oLabels pvc\<rparr> = pvc" "HasLabel u LabelStorageClass"
  using assms
  by (auto simp: inject_labels_def Let_def HasLabel_def SetLabel_def map_le_def update_conv' split: if_splits)

definition decision_ok :: "env \<Rightarrow> history \<Rightarrow> PVC \<Rightarrow> string \<Rightarrow> PVC Response \<Rightarrow> bool" where
  "decision_ok e h pvc sc resp = (case resp of
     Allowed _ \<Rightarrow> True
   | Denied _ \<Rightarrow> map_of (oLabels pvc) LabelManagedBy \<noteq> Some LabelManagedByValue \<and> read_only_listed e h (oNamespace pvc) sc
   | Patched u \<Rightarrow> map_of (oLabels pvc) \<subseteq>\<^sub>m map_of (oLabels u) \<and> u\<lparr>oLabels := oLabels pvc\<rparr> = pvc \<and> HasLabel u LabelStorageClass
   | _ \<Rightarrow> False)"

lemma inject_response_ok: "decision_ok e h pvc sc (inject_response a sc info pvc)"
  by (auto simp: inject_response_def decision_ok_def split: prod.splits bool.splits option.splits dest: inject_labels_adds)

lemma decision_ok_Allowed [simp]: "decision_ok e h pvc sc (Allowed s)"
  by (simp add: decision_ok_def)

lemma matches_wp:
  assumes "PreRunE a cfg = None" "\<And>b p' w'. P (Inr b, p') w'"
  shows "wp anything (matchesCSIDriverFilter a cfg n p) P w" "wp anything (matchesStorageClassFilter a cfg n p) P w"
    "wp anything (matchesPVCNameFilter a cfg n p) P w"
  unfolding matchesCSIDriverFilter_def matchesStorageClassFilter_def matchesPVCNameFilter_def
  by (auto intro!: wp_bindS wp_getS wp_retS compileRegexes_wp[OF assms(1)] assms(2))

lemma PVC_inject_wp:
  assumes "PreRunE a cfg = None"
  shows "wp anything (PVC_inject e a cfg pvc sc info p) (\<lambda>(r, _) w'. \<exists>resp. r = Inr resp \<and> decision_ok e (hist w') pvc sc resp) w"
proof -
  let ?post = "\<lambda>(r, _) w'. \<exists>resp. r = Inr resp \<and> decision_ok e (hist w') pvc sc resp"
  have filtered: "wp anything (bindS (matchesStorageClassFilter a cfg sc) (\<lambda>class.
       if \<not> class then retS (Allowed s1)
       else bindS (matchesPVCNameFilter a cfg (oName pvc)) (\<lambda>name.
         if \<not> name then retS (Allowed s2) else retS (inject_response a sc info pvc))) q) ?post v" for q v s1 s2
    by (auto intro!: wp_bindS matches_wp[OF assms] wp_retS inject_response_ok)
  show ?thesis
    unfolding PVC_inject_def
  proof (intro wp_bindS matches_wp[OF assms], simp, intro conjI impI wp_bindS wp_doS wp_retS wp_mono[OF state_denial_wp], goal_cases)
    case (2 b q v denied u)
    show ?case
    proof (cases denied)
      case None
      then show ?thesis using filtered by simp
    next
      case (Some msg)
      then show ?thesis using 2 by (auto intro!: wp_retS simp: decision_ok_def)
    qed
  qed simp
qed

lemma PVC_Handle_wp:
  assumes "PreRunE a cfg = None"
  shows "wp anything (PVC_Handle e a cfg req p) (\<lambda>(r, _) w'. \<exists>resp. r = Inr resp \<and> ((\<exists>s. resp = Allowed s)
     \<or> (\<exists>pvc sc. w_decodePVC a (req_Object req) = Inr pvc \<and> pvc_StorageClassName pvc = Some sc \<and> decision_ok e (hist w') pvc sc resp))) w"
  unfolding PVC_Handle_def Let_def cachedSCInfo_def GetStorageClass_def
  by (auto intro!: wp_rules wp_ask wp_mono[OF PVC_inject_wp[OF assms]] split: sum.split option.split)



section \<open>A concrete claim\<close>

definition demo_hook :: webhook_api where
  "demo_hook = \<lparr>w_decodePVC = \<lambda>j. Inr demo_claim, w_marshalPVC = \<lambda>p. None, w_Compile = \<lambda>r. None,
     w_MatchString = \<lambda>r s. True\<rparr>"

definition demo_flags :: WebhookConfig where
  "demo_flags = \<lparr>c_PvcLabelWebhookEnabled = True, c_StorageClassName = [], c_StorageClassNameRegex = [],
     c_PVCNameRegex = [], c_CSIDriverName = ''csi'', c_CSIDriverNameRegex = []\<rparr>"

definition hook_env :: env where
  "hook_env = idle_env\<lparr>e_k8s := idle_k8s\<lparr>k_getSC := \<lambda>h n. Inr file_sc\<rparr>,
     e_storage := idle_storage\<lparr>s_listVGR := \<lambda>h ns sel. Inr [], s_listVR := \<lambda>h ns sel. Inr []\<rparr>\<rparr>"

definition hook_request :: AdmissionRequest where
  "hook_request = \<lparr>req_Operation = Create, req_Namespace = ''ns'', req_Name = ''data'', req_Object = JNull, req_OldObject = JNull\<rparr>"

definition fresh_injector :: PVCLabelInjector where
  "fresh_injector = \<lparr>storageClassNameRegex = None, pvcNameRegex = None, csiDriverNameRegex = None, regexOnce = False, scCache = []\<rparr>"

abbreviation hook_run :: "((err + PVC Response) \<times> PVCLabelInjector) \<times> world" where
  "hook_run \<equiv> run_state (PVC_Handle hook_env demo_hook demo_flags hook_request fresh_injector) start_world"

lemma hook_run_patched: "\<exists>u. fst (fst hook_run) = Inr (Patched u)"
  by (simp add: PVC_Handle_def demo_hook_def demo_claim_def cachedSCInfo_def fresh_injector_def GetStorageClass_def hook_env_def
      idle_simps run_simps Let_def PVC_inject_def run_bindS run_stepS run_doS matchesCSIDriverFilter_def compileRegexes_def
      MustCompile_def demo_flags_def file_sc_def state_denial_def checkReplicationState_def ListVolumeGroupReplicationsByLabelSelector_def
      ListVolumeReplicationsByLabelSelector_def LabelManagedBy_def matchesStorageClassFilter_def matchesPVCNameFilter_def
      matches_def inject_response_def inject_labels_def HasLabel_def SetLabel_def LabelStorageClass_def Domain_def hook_request_def
      split: prod.splits)


end
