(* ===== verification/Cosi.thy ===== *)
theory Cosi
  imports Admission Triples
begin

text \<open>
  The COSI side (internal/common/cosi/*, internal/webhook/bucket_params_webhook.go,
  internal/controller/credentials_flattener_controller.go and ba_secret_resync_controller.go): claim
  annotations merged into bucket parameters, BucketInfo documents flattened into a Secret and a
  ConfigMap owned by their BucketAccess, and the poke that makes the sidecar grant access again.
  The API replies, the parsers of \<^verbatim>\<open>encoding/json\<close> and \<^verbatim>\<open>net/url\<close> and SetControllerReference of
  controller-runtime are arguments.
\<close>

record Bucket =
  bkt_Name :: string
  bkt_DriverName :: string
  bkt_BucketClaim :: "(string \<times> string) option"
  bkt_Parameters :: smap

record BucketClaim =
  bc_Annotations :: smap
  bc_BucketReady :: bool
  bc_BucketName :: string

record URL =
  url_Scheme :: string
  url_Host :: string
  url_Hostname :: string
  url_Port :: string

record cosi_api =
  o_getBA :: "history \<Rightarrow> string \<Rightarrow> string \<Rightarrow> err + BucketAccess"
  o_listBA :: "history \<Rightarrow> string \<Rightarrow> string \<Rightarrow> string \<Rightarrow> err + BucketAccess list"
  o_getClaim :: "history \<Rightarrow> string \<Rightarrow> string \<Rightarrow> err + BucketClaim"
  o_getData :: "history \<Rightarrow> string \<Rightarrow> string \<Rightarrow> string \<Rightarrow> err + DataObject"
  o_listData :: "history \<Rightarrow> string \<Rightarrow> string \<Rightarrow> smap \<Rightarrow> err + DataObject list"
  o_putData :: "history \<Rightarrow> call \<Rightarrow> err + DataObject"
  o_putBA :: "history \<Rightarrow> call \<Rightarrow> err + BucketAccess"
  o_setControllerRef :: "BucketAccess \<Rightarrow> bool \<Rightarrow> OwnerReference list \<Rightarrow> err + OwnerReference list"
  o_parseJSON :: "string \<Rightarrow> err + json"
  o_parseURL :: "string \<Rightarrow> err + URL"
  o_decodeBucket :: "json \<Rightarrow> err + Bucket"
  o_marshalBucket :: "Bucket \<Rightarrow> err option"

definition AnnotationFlatten :: string where "AnnotationFlatten = ''cosi.vastdata.com/flatten-credentials''"
definition LabelBucketAccessUID :: string where "LabelBucketAccessUID = ''cosi.vastdata.com/bucketaccess-uid''"
definition BucketInfoKey :: string where "BucketInfoKey = ''BucketInfo''"
definition SecretProtectionFinalizer :: string where
  "SecretProtectionFinalizer = ''cosi.objectstorage.k8s.io/secret-protection''"
definition AnnotationPrefix :: string where "AnnotationPrefix = ''cosi.vastdata.com/''"
definition SecretNameParam :: string where "SecretNameParam = ''vastdata.com/secret-name''"
definition SecretNamespaceParam :: string where "SecretNamespaceParam = ''vastdata.com/secret-namespace''"


section \<open>Parameters of a bucket\<close>

definition ParamsFromClaimAnnotations :: "smap \<Rightarrow> smap" where
  "ParamsFromClaimAnnotations annotations =
     filter (\<lambda>(k, v). HasPrefix k AnnotationPrefix \<and> v \<noteq> []) annotations"

definition MergeParameters :: "smap \<Rightarrow> smap \<Rightarrow> smap" where
  "MergeParameters classParams claimParams =
     fold (\<lambda>(k, v). AList.update k v) claimParams (fold (\<lambda>(k, v). AList.update k v) classParams [])"

definition SecretRefFromParameters :: "smap \<Rightarrow> (string \<times> string) option" where
  "SecretRefFromParameters params =
     (let name = lookup_str params SecretNameParam; namespace = lookup_str params SecretNamespaceParam in
      if name = [] \<and> namespace = [] then None else Some (name, namespace))"

text \<open>\<^verbatim>\<open>maps.Equal\<close>.\<close>

definition maps_Equal :: "smap \<Rightarrow> smap \<Rightarrow> bool" where
  "maps_Equal m n =
     (length (remdups (map fst m)) = length (remdups (map fst n))
      \<and> list_all (\<lambda>k. map_of n k = map_of m k) (map fst m))"

definition merge_response :: "cosi_api \<Rightarrow> Bucket \<Rightarrow> BucketClaim \<Rightarrow> Bucket Response" where
  "merge_response a bucket claim =
     (let claimParams = ParamsFromClaimAnnotations (bc_Annotations claim);
          merged = MergeParameters (bkt_Parameters bucket) claimParams in
      if claimParams = [] then Allowed ''no cosi claim parameters''
      else if maps_Equal (bkt_Parameters bucket) merged then Allowed ''parameters unchanged''
      else let bucket' = bucket\<lparr>bkt_Parameters := merged\<rparr> in
           case o_marshalBucket a bucket' of
             Some x \<Rightarrow> Errored StatusInternalServerError x
           | None \<Rightarrow> Patched bucket')"

definition Bucket_Handle :: "env \<Rightarrow> cosi_api \<Rightarrow> string \<Rightarrow> AdmissionRequest \<Rightarrow> Bucket Response io" where
  "Bucket_Handle e a driverName req =
     (case o_decodeBucket a (req_Object req) of
        Inl x \<Rightarrow> ret (Errored StatusBadRequest x)
      | Inr bucket \<Rightarrow>
          if bkt_DriverName bucket = [] then ret (Allowed ''no driverName'')
          else if bkt_DriverName bucket \<noteq> driverName then ret (Allowed ''not a VAST COSI bucket'')
          else case bkt_BucketClaim bucket of
              None \<Rightarrow> ret (Allowed ''no bucketClaim reference'')
            | Some (ns, name) \<Rightarrow>
                let ns' = (if ns = [] then req_Namespace req else ns) in
                ask e (GetCall ''BucketClaim'' ns' name) (\<lambda>h. o_getClaim a h ns' name) \<bind> (\<lambda>r. ret (case r of
                    Inl x \<Rightarrow> if IsNotFound x then Denied (Sprintf ''BucketClaim %q not found'' [ns' @ ''/'' @ name])
                             else Errored StatusInternalServerError x
                  | Inr claim \<Rightarrow> merge_response a bucket claim)))"


section \<open>BucketInfo\<close>

record FlatData =
  AccessKeyID :: string
  SecretAccessKey :: string
  BucketName :: string
  Endpoint :: string
  Host :: string
  Port :: string

record bucketInfo =
  bi_BucketName :: string
  bi_AccessKeyID :: string
  bi_AccessSecretKey :: string
  bi_Endpoint :: string

text \<open>\<^verbatim>\<open>json.Unmarshal\<close> into a struct: the keys of an object are matched with the fields up to case
  (the long s and the Kelvin sign count as s and k), each occurrence is stored, null stores
  nothing, and the first value of a wrong kind is the error returned in the end.\<close>

fun fold_name :: "string \<Rightarrow> string" where
  "fold_name (a # b # c # cs) =
     (if a = CHR 0xC5 \<and> b = CHR 0xBF then CHR ''s'' # fold_name (c # cs)
      else if a = CHR 0xE2 \<and> b = CHR 0x84 \<and> c = CHR 0xAA then CHR ''k'' # fold_name cs
      else lower_char a # fold_name (b # c # cs))"
| "fold_name [a, b] = (if a = CHR 0xC5 \<and> b = CHR 0xBF then ''s'' else [lower_char a, lower_char b])"
| "fold_name cs = map lower_char cs"

definition field_error :: "json \<Rightarrow> string \<Rightarrow> string \<Rightarrow> err" where
  "field_error j field t =
     (if field = [] then unmarshal_type_error j t
      else Sentinel (''json: cannot unmarshal '' @ json_kind j @ '' into Go struct field '' @ field @ '' of type '' @ t))"

type_synonym decoded = "err option \<times> bucketInfo"

definition keep_first :: "err option \<Rightarrow> err \<Rightarrow> err option" where
  "keep_first eo x = (case eo of None \<Rightarrow> Some x | Some y \<Rightarrow> Some y)"

fun decode_string :: "(string \<Rightarrow> bucketInfo \<Rightarrow> bucketInfo) \<Rightarrow> string \<Rightarrow> json \<Rightarrow> decoded \<Rightarrow> decoded" where
  "decode_string put field (JStr s) (eo, bi) = (eo, put s bi)"
| "decode_string put field JNull (eo, bi) = (eo, bi)"
| "decode_string put field j (eo, bi) = (keep_first eo (field_error j field ''string''), bi)"

fun decode_struct :: "(string \<Rightarrow> json \<Rightarrow> decoded \<Rightarrow> decoded) \<Rightarrow> string \<Rightarrow> string \<Rightarrow> json \<Rightarrow> decoded \<Rightarrow> decoded" where
  "decode_struct fld field t (JObj m) d = fold (\<lambda>(k, j). fld (fold_name k) j) m d"
| "decode_struct fld field t JNull d = d"
| "decode_struct fld field t j (eo, bi) = (keep_first eo (field_error j field t), bi)"

definition secretS3_fields :: "string \<Rightarrow> json \<Rightarrow> decoded \<Rightarrow> decoded" where
  "secretS3_fields k j d =
     (if k = fold_name ''accessKeyID'' then decode_string (\<lambda>s b. b\<lparr>bi_AccessKeyID := s\<rparr>) ''.spec.secretS3.accessKeyID'' j d
      else if k = fold_name ''accessSecretKey'' then
        decode_string (\<lambda>s b. b\<lparr>bi_AccessSecretKey := s\<rparr>) ''.spec.secretS3.accessSecretKey'' j d
      else if k = fold_name ''endpoint'' then decode_string (\<lambda>s b. b\<lparr>bi_Endpoint := s\<rparr>) ''.spec.secretS3.endpoint'' j d
      else d)"

definition spec_fields :: "string \<Rightarrow> json \<Rightarrow> decoded \<Rightarrow> decoded" where
  "spec_fields k j d =
     (if k = fold_name ''bucketName'' then decode_string (\<lambda>s b. b\<lparr>bi_BucketName := s\<rparr>) ''.spec.bucketName'' j d
      else if k = fold_name ''secretS3'' then decode_struct secretS3_fields ''.spec.secretS3'' ''struct'' j d
      else d)"

definition info_fields :: "string \<Rightarrow> json \<Rightarrow> decoded \<Rightarrow> decoded" where
  "info_fields k j d =
     (if k = fold_name ''spec'' then decode_struct spec_fields ''bucketInfo.spec'' ''struct'' j d else d)"

definition unmarshal_bucketInfo :: "json \<Rightarrow> err + bucketInfo" where
  "unmarshal_bucketInfo j =
     (case decode_struct info_fields [] ''cosi.bucketInfo'' j
             (None, \<lparr>bi_BucketName = [], bi_AccessKeyID = [], bi_AccessSecretKey = [], bi_Endpoint = []\<rparr>) of
        (Some x, _) \<Rightarrow> Inl x
      | (None, bi) \<Rightarrow> Inr bi)"

definition WantFlatten :: "smap \<Rightarrow> bool" where
  "WantFlatten annotations = (lookup_str annotations AnnotationFlatten = ''true'')"

definition FlatName :: "string \<Rightarrow> string" where
  "FlatName credentialsSecretName = credentialsSecretName @ ''-flat''"

definition normalizeEndpoint :: "string \<Rightarrow> string" where
  "normalizeEndpoint endpoint0 =
     (let endpoint = TrimSpace endpoint0 in
      if HasPrefix endpoint ''://'' then ''http'' @ endpoint
      else if \<not> Contains endpoint ''://'' then ''http://'' @ endpoint
      else endpoint)"

definition missing_host :: "string \<Rightarrow> err" where
  "missing_host endpoint = Errorf ''endpoint missing host: %q'' [endpoint]"

definition SplitEndpoint :: "cosi_api \<Rightarrow> string \<Rightarrow> err + string \<times> string" where
  "SplitEndpoint a endpoint =
     (case o_parseURL a (normalizeEndpoint endpoint) of
        Inl x \<Rightarrow> Inl (Errorf_w ''parse endpoint: '' [] x)
      | Inr u \<Rightarrow>
          if url_Host u = [] \<or> url_Hostname u = [] then Inl (missing_host endpoint)
          else if url_Port u \<noteq> [] then Inr (url_Hostname u, url_Port u)
          else if ToLower (url_Scheme u) = ''https'' then Inr (url_Hostname u, ''443'')
          else if ToLower (url_Scheme u) \<in> {''http'', []} then Inr (url_Hostname u, ''80'')
          else Inl (Errorf ''endpoint missing port for scheme %q'' [url_Scheme u]))"

definition incomplete_info :: err where
  "incomplete_info = Errorf (''BucketInfo incomplete: need spec.bucketName and ''
     @ ''spec.secretS3.{accessKeyID,accessSecretKey,endpoint}'') []"

definition ParseBucketInfo :: "cosi_api \<Rightarrow> string \<Rightarrow> err + FlatData" where
  "ParseBucketInfo a raw =
     (case (case o_parseJSON a raw of Inl x \<Rightarrow> Inl x | Inr j \<Rightarrow> unmarshal_bucketInfo j) of
        Inl x \<Rightarrow> Inl (Errorf_w ''parse BucketInfo: '' [] x)
      | Inr bi \<Rightarrow>
          if bi_BucketName bi = [] \<or> bi_AccessKeyID bi = [] \<or> bi_AccessSecretKey bi = [] \<or> bi_Endpoint bi = []
          then Inl incomplete_info
          else let endpoint = normalizeEndpoint (bi_Endpoint bi) in
               case SplitEndpoint a endpoint of
                 Inl x \<Rightarrow> Inl x
               | Inr (host, port) \<Rightarrow>
                   Inr \<lparr>AccessKeyID = bi_AccessKeyID bi, SecretAccessKey = bi_AccessSecretKey bi,
                        BucketName = bi_BucketName bi, Endpoint = endpoint, Host = host, Port = port\<rparr>)"


section \<open>Objects owned by a BucketAccess\<close>

definition IsOwnedByBucketAccess :: "'a ObjectMeta_scheme \<Rightarrow> BucketAccess \<Rightarrow> bool" where
  "IsOwnedByBucketAccess obj ba =
     list_ex (\<lambda>ref. ref_UID ref = oUID ba \<and> ref_Controller ref = Some True) (oOwners obj)"

definition get_BA :: "env \<Rightarrow> cosi_api \<Rightarrow> string \<Rightarrow> string \<Rightarrow> (err + BucketAccess) io" where
  "get_BA e a ns name = ask e (GetCall ''BucketAccess'' ns name) (\<lambda>h. o_getBA a h ns name)"

definition get_data :: "env \<Rightarrow> cosi_api \<Rightarrow> string \<Rightarrow> string \<Rightarrow> string \<Rightarrow> (err + DataObject) io" where
  "get_data e a kind ns name = ask e (GetCall kind ns name) (\<lambda>h. o_getData a h kind ns name)"

definition put_data :: "env \<Rightarrow> cosi_api \<Rightarrow> (DataObject \<Rightarrow> call) \<Rightarrow> DataObject \<Rightarrow> (err + DataObject) io" where
  "put_data e a c obj = ask e (c obj) (\<lambda>h. o_putData a h (c obj))"

definition put_BA :: "env \<Rightarrow> cosi_api \<Rightarrow> (BucketAccess \<Rightarrow> call) \<Rightarrow> BucketAccess \<Rightarrow> (err + BucketAccess) io" where
  "put_BA e a c ba = ask e (c ba) (\<lambda>h. o_putBA a h (c ba))"

definition delete_data :: "env \<Rightarrow> string \<Rightarrow> DataObject \<Rightarrow> (err + unit) io" where
  "delete_data e kind obj =
     k8s_write e (DeleteCall kind (oNamespace obj) (oName obj)) \<bind> (\<lambda>r. ret (case r of
         Some x \<Rightarrow> if IsNotFound x then Inr () else Inl x
       | None \<Rightarrow> Inr ()))"

definition uid_selector :: "BucketAccess \<Rightarrow> smap" where
  "uid_selector ba = [(LabelBucketAccessUID, oUID ba)]"

definition delete_owned :: "env \<Rightarrow> cosi_api \<Rightarrow> BucketAccess \<Rightarrow> string \<Rightarrow> string \<Rightarrow> (err + unit) io" where
  "delete_owned e a ba keepName kind =
     bindE (ask e (ListCall kind (oNamespace ba) (uid_selector ba))
              (\<lambda>h. o_listData a h kind (oNamespace ba) (uid_selector ba)))
       (\<lambda>objs. forE objs (\<lambda>obj.
          if \<not> IsOwnedByBucketAccess obj ba \<or> (keepName \<noteq> [] \<and> oName obj = keepName) then ret (Inr ())
          else delete_data e kind obj))"

definition DeleteOwnedFlatPair :: "env \<Rightarrow> cosi_api \<Rightarrow> BucketAccess \<Rightarrow> string \<Rightarrow> (err + unit) io" where
  "DeleteOwnedFlatPair e a ba keepName =
     bindE (delete_owned e a ba keepName ''Secret'') (\<lambda>_. delete_owned e a ba keepName ''ConfigMap'')"

definition discard_secret :: "env \<Rightarrow> cosi_api \<Rightarrow> DataObject option \<Rightarrow> (err + unit) io" where
  "discard_secret e a sec =
     (case sec of
        None \<Rightarrow> ret (Inr ())
      | Some s \<Rightarrow>
          RemoveFinalizer e (get_data e a ''Secret'') (put_data e a (UpdateData ''Secret'')) SecretProtectionFinalizer s
            \<bind> (\<lambda>(r, s'). case r of Some x \<Rightarrow> ret (Inl x) | None \<Rightarrow> delete_data e ''Secret'' s'))"

definition PokeSidecarRegrant :: "env \<Rightarrow> cosi_api \<Rightarrow> BucketAccess \<Rightarrow> DataObject option \<Rightarrow> (err + unit) io" where
  "PokeSidecarRegrant e a ba sec =
     bindE (DeleteOwnedFlatPair e a ba []) (\<lambda>_.
     bindE (discard_secret e a sec) (\<lambda>_.
       if \<not> ba_AccessGranted ba \<and> ba_AccountID ba = [] then ret (Inr ())
       else UpdateStatusWithRetry e (get_BA e a) (put_BA e a UpdateBucketAccessStatus)
              (ba\<lparr>ba_AccessGranted := False, ba_AccountID := []\<rparr>)
              \<bind> (\<lambda>(r, _). ret (case r of
                   Some x \<Rightarrow> if IsNotFound x then Inr () else Inl x
                 | None \<Rightarrow> Inr ()))))"


section \<open>Re-granting access after a bucket was recreated\<close>

definition eventReasonBucketSecretMismatch :: string where
  "eventReasonBucketSecretMismatch = ''BucketSecretMismatch''"
definition eventReasonBucketInfoParseError :: string where
  "eventReasonBucketInfoParseError = ''BucketInfoParseError''"

definition Recorder_Event :: "env \<Rightarrow> bool \<Rightarrow> string \<Rightarrow> string \<Rightarrow> unit io" where
  "Recorder_Event e warning reason msg = ask e (EventCall warning reason msg) (\<lambda>_. ())"

definition not_found_ok :: "(err + 'a) io \<Rightarrow> ('a \<Rightarrow> (err + Result) io) \<Rightarrow> (err + Result) io" where
  "not_found_ok m f = m \<bind> (\<lambda>r. case r of
       Inl x \<Rightarrow> ret (if IsNotFound x then Inr no_requeue else Inl x)
     | Inr y \<Rightarrow> f y)"

definition compare_secret :: "env \<Rightarrow> cosi_api \<Rightarrow> BucketAccess \<Rightarrow> BucketClaim \<Rightarrow> DataObject \<Rightarrow> (err + Result) io" where
  "compare_secret e a ba claim sec =
     (case map_of (do_Data sec) BucketInfoKey of
        None \<Rightarrow> ret (Inr no_requeue)
      | Some raw \<Rightarrow> (case ParseBucketInfo a raw of
            Inl x \<Rightarrow> Recorder_Event e True eventReasonBucketInfoParseError (Error_string x)
                       \<bind> (\<lambda>_. ret (Inr no_requeue))
          | Inr info \<Rightarrow>
              if BucketName info = bc_BucketName claim then ret (Inr no_requeue)
              else bindE (PokeSidecarRegrant e a ba (Some sec)) (\<lambda>_.
                     Recorder_Event e True eventReasonBucketSecretMismatch
                       (Sprintf (''Secret %q bucket %q != claim bucket %q; poked sidecar re-grant ''
                           @ ''(invalidated credentials bundle, cleared accessGranted)'')
                          [ba_CredentialsSecretName ba, BucketName info, bc_BucketName claim])
                     \<bind> (\<lambda>_. ret (Inr no_requeue)))))"

definition Resync_Reconcile :: "env \<Rightarrow> cosi_api \<Rightarrow> string \<Rightarrow> string \<Rightarrow> (err + Result) io" where
  "Resync_Reconcile e a ns name =
     not_found_ok (get_BA e a ns name) (\<lambda>ba.
       if oDeleting ba \<or> \<not> ba_AccessGranted ba \<or> ba_AccountID ba = []
          \<or> ba_BucketClaimName ba = [] \<or> ba_CredentialsSecretName ba = []
       then ret (Inr no_requeue)
       else not_found_ok (ask e (GetCall ''BucketClaim'' (oNamespace ba) (ba_BucketClaimName ba))
                            (\<lambda>h. o_getClaim a h (oNamespace ba) (ba_BucketClaimName ba))) (\<lambda>claim.
         if \<not> bc_BucketReady claim \<or> bc_BucketName claim = [] then ret (Inr no_requeue)
         else get_data e a ''Secret'' (oNamespace ba) (ba_CredentialsSecretName ba) \<bind> (\<lambda>r. case r of
             Inl x \<Rightarrow> if IsNotFound x
                      then bindE (PokeSidecarRegrant e a ba None) (\<lambda>_. ret (Inr no_requeue))
                      else ret (Inl x)
           | Inr sec \<Rightarrow> compare_secret e a ba claim sec)))"

text \<open>The watches map an object to the BucketAccesses that name it.\<close>

definition baResyncBucketClaimIndex :: string where
  "baResyncBucketClaimIndex = ''baSecretResync.spec.bucketClaimName''"
definition credentialsSecretNameIndex :: string where
  "credentialsSecretNameIndex = ''spec.credentialsSecretName''"

definition claim_index :: "BucketAccess \<Rightarrow> string list" where
  "claim_index ba = (if ba_BucketClaimName ba = [] then [] else [ba_BucketClaimName ba])"

definition secret_index :: "BucketAccess \<Rightarrow> string list" where
  "secret_index ba = (if ba_CredentialsSecretName ba = [] then [] else [ba_CredentialsSecretName ba])"

definition mapToBA :: "env \<Rightarrow> cosi_api \<Rightarrow> string \<Rightarrow> string \<Rightarrow> string \<Rightarrow> key list io" where
  "mapToBA e a index ns name =
     ask e (ListCall ''BucketAccess'' ns [(index, name)]) (\<lambda>h. o_listBA a h ns index name) \<bind> (\<lambda>r. ret (case r of
         Inl _ \<Rightarrow> []
       | Inr bas \<Rightarrow> map (\<lambda>ba. (oNamespace ba, oName ba)) bas))"

definition ignoreFlatSecrets :: "string \<Rightarrow> bool" where
  "ignoreFlatSecrets name = (\<not> HasSuffix name ''-flat'')"


section \<open>The credentials flattener\<close>

definition requeueAfter :: duration where "requeueAfter = 15 * Second"
definition eventReasonFlattenError :: string where "eventReasonFlattenError = ''FlattenError''"
definition eventReasonForeignClash :: string where "eventReasonForeignClash = ''FlattenForeignClash''"
definition eventReasonMissingSecret :: string where "eventReasonMissingSecret = ''FlattenWaitingSecret''"

definition errForeignFlat :: err where "errForeignFlat = Sentinel ''foreign flat object''"

definition is_foreign :: "err \<Rightarrow> bool" where
  "is_foreign x = (errors_As (\<lambda>y. if y = errForeignFlat then Some () else None) x \<noteq> None)"

text \<open>The reconciler's own state: the last event of each BucketAccess.\<close>

record Flattener =
  eventOnce :: "(key \<times> string) list"

type_synonym 'a fstep = "(Flattener, 'a) step"

definition eventDeduped :: "env \<Rightarrow> BucketAccess \<Rightarrow> bool \<Rightarrow> string \<Rightarrow> string \<Rightarrow> unit fstep" where
  "eventDeduped e ba warning reason msg = (\<lambda>f.
     let k = (oNamespace ba, oName ba); stamp = reason @ ''|'' @ msg in
     if map_of (eventOnce f) k = Some stamp then ret (Inr (), f)
     else Recorder_Event e warning reason msg
            \<bind> (\<lambda>_. ret (Inr (), f\<lparr>eventOnce := AList.update k stamp (eventOnce f)\<rparr>)))"

definition clearEventOnce :: "BucketAccess \<Rightarrow> unit fstep" where
  "clearEventOnce ba = modS (\<lambda>f. f\<lparr>eventOnce := AList.delete (oNamespace ba, oName ba) (eventOnce f)\<rparr>)"

definition reconcileForeignClash :: "env \<Rightarrow> BucketAccess \<Rightarrow> string \<Rightarrow> Result fstep" where
  "reconcileForeignClash e ba flatName =
     bindS (eventDeduped e ba True eventReasonForeignClash
              (Sprintf ''%q already exists and is not owned by this BucketAccess'' [flatName]))
       (\<lambda>_. retS \<lparr>RequeueAfter = requeueAfter\<rparr>)"

text \<open>\<^verbatim>\<open>controllerutil.CreateOrUpdate\<close>: the object is read; one that is not there is filled in and
  created, one that is there is filled in and updated if that changed it.\<close>

definition CreateOrUpdate ::
  "env \<Rightarrow> cosi_api \<Rightarrow> string \<Rightarrow> (DataObject \<Rightarrow> err + DataObject) \<Rightarrow> DataObject \<Rightarrow> (err + unit) io" where
  "CreateOrUpdate e a kind mutate obj =
     get_data e a kind (oNamespace obj) (oName obj) \<bind> (\<lambda>r. case r of
         Inl x \<Rightarrow>
           if \<not> IsNotFound x then ret (Inl x)
           else (case mutate obj of
               Inl y \<Rightarrow> ret (Inl y)
             | Inr obj' \<Rightarrow> bindE (put_data e a (CreateData kind) obj') (\<lambda>_. ret (Inr ())))
       | Inr existing \<Rightarrow> (case mutate existing of
             Inl y \<Rightarrow> ret (Inl y)
           | Inr obj' \<Rightarrow>
               if obj' = existing then ret (Inr ())
               else bindE (put_data e a (UpdateData kind) obj') (\<lambda>_. ret (Inr ()))))"

definition setFlatOwner :: "cosi_api \<Rightarrow> BucketAccess \<Rightarrow> DataObject \<Rightarrow> err + DataObject" where
  "setFlatOwner a ba obj =
     (case o_setControllerRef a ba False (oOwners obj) of
        Inl x \<Rightarrow> Inl x
      | Inr refs \<Rightarrow> Inr (obj\<lparr>oOwners := refs\<rparr>))"

definition fill_flat :: "cosi_api \<Rightarrow> BucketAccess \<Rightarrow> smap \<Rightarrow> DataObject \<Rightarrow> err + DataObject" where
  "fill_flat a ba kvs obj =
     (if oUID obj \<noteq> [] \<and> \<not> IsOwnedByBucketAccess obj ba then Inl errForeignFlat
      else case setFlatOwner a ba obj of
          Inl x \<Rightarrow> Inl x
        | Inr obj' \<Rightarrow> Inr ((SetLabel LabelBucketAccessUID (oUID ba) obj')\<lparr>do_Data := kvs\<rparr>))"

definition new_flat :: "BucketAccess \<Rightarrow> string \<Rightarrow> DataObject" where
  "new_flat ba flatName =
     \<lparr>oName = flatName, oNamespace = oNamespace ba, oLabels = [], oAnnotations = [], oFinalizers = [],
      oOwners = [], oDeleting = False, oUID = [], oGeneration = 0, do_Data = []\<rparr>"

definition ensureFlatSecret :: "env \<Rightarrow> cosi_api \<Rightarrow> BucketAccess \<Rightarrow> string \<Rightarrow> FlatData \<Rightarrow> (err + unit) io" where
  "ensureFlatSecret e a ba flatName kv =
     CreateOrUpdate e a ''Secret''
       (fill_flat a ba [(''AWS_ACCESS_KEY_ID'', AccessKeyID kv), (''AWS_SECRET_ACCESS_KEY'', SecretAccessKey kv)])
       (new_flat ba flatName)"

definition ensureFlatConfigMap :: "env \<Rightarrow> cosi_api \<Rightarrow> BucketAccess \<Rightarrow> string \<Rightarrow> FlatData \<Rightarrow> (err + unit) io" where
  "ensureFlatConfigMap e a ba flatName kv =
     CreateOrUpdate e a ''ConfigMap''
       (fill_flat a ba [(''BUCKET_NAME'', BucketName kv), (''BUCKET_HOST'', Host kv),
                        (''BUCKET_PORT'', Port kv), (''BUCKET_ENDPOINT'', Endpoint kv)])
       (new_flat ba flatName)"

definition rollbackFlatSecret :: "env \<Rightarrow> cosi_api \<Rightarrow> BucketAccess \<Rightarrow> string \<Rightarrow> (err + unit) io" where
  "rollbackFlatSecret e a ba flatName =
     get_data e a ''Secret'' (oNamespace ba) flatName \<bind> (\<lambda>r. case r of
         Inl x \<Rightarrow> ret (if IsNotFound x then Inr () else Inl x)
       | Inr sec \<Rightarrow> if \<not> IsOwnedByBucketAccess sec ba then ret (Inr ()) else delete_data e ''Secret'' sec)"

definition ensureFlatPair :: "env \<Rightarrow> cosi_api \<Rightarrow> BucketAccess \<Rightarrow> string \<Rightarrow> FlatData \<Rightarrow> (err + unit) io" where
  "ensureFlatPair e a ba flatName kv =
     bindE (ensureFlatSecret e a ba flatName kv) (\<lambda>_.
       ensureFlatConfigMap e a ba flatName kv \<bind> (\<lambda>r. case r of
           Inr _ \<Rightarrow> ret (Inr ())
         | Inl x \<Rightarrow> rollbackFlatSecret e a ba flatName \<bind> (\<lambda>rb. ret (case rb of
               Inl rbErr \<Rightarrow> Inl (Wrap ''ensure flat ConfigMap: '' x ('' (rollback Secret: '' @ Error_string rbErr @ '')''))
             | Inr _ \<Rightarrow> Inl x))))"

definition wait_flat :: "env \<Rightarrow> BucketAccess \<Rightarrow> bool \<Rightarrow> string \<Rightarrow> string \<Rightarrow> Result fstep" where
  "wait_flat e ba warning reason msg =
     bindS (eventDeduped e ba warning reason msg) (\<lambda>_. retS \<lparr>RequeueAfter = requeueAfter\<rparr>)"

definition write_flat :: "env \<Rightarrow> cosi_api \<Rightarrow> BucketAccess \<Rightarrow> string \<Rightarrow> FlatData \<Rightarrow> Result fstep" where
  "write_flat e a ba flatName kv =
     bindS (doS (ensureFlatPair e a ba flatName kv)) (\<lambda>r. case r of
         Inl x \<Rightarrow> if is_foreign x then reconcileForeignClash e ba flatName else failS x
       | Inr _ \<Rightarrow> bindS (clearEventOnce ba) (\<lambda>_. retS no_requeue))"

definition flatten_source :: "env \<Rightarrow> cosi_api \<Rightarrow> BucketAccess \<Rightarrow> string \<Rightarrow> DataObject \<Rightarrow> Result fstep" where
  "flatten_source e a ba flatName src =
     (case map_of (do_Data src) BucketInfoKey of
        None \<Rightarrow> wait_flat e ba True eventReasonFlattenError ''Secret missing BucketInfo key''
      | Some raw \<Rightarrow> (case ParseBucketInfo a raw of
            Inl x \<Rightarrow> wait_flat e ba True eventReasonFlattenError (Error_string x)
          | Inr kv \<Rightarrow> write_flat e a ba flatName kv))"

definition flatten_access :: "env \<Rightarrow> cosi_api \<Rightarrow> BucketAccess \<Rightarrow> Result fstep" where
  "flatten_access e a ba =
     (let credName = ba_CredentialsSecretName ba; flatName = FlatName credName in
      if \<not> WantFlatten (oAnnotations ba) then
        bindS (liftS (DeleteOwnedFlatPair e a ba [])) (\<lambda>_. bindS (clearEventOnce ba) (\<lambda>_. retS no_requeue))
      else if credName = [] then
        wait_flat e ba True eventReasonFlattenError ''credentialsSecretName is empty''
      else bindS (liftS (DeleteOwnedFlatPair e a ba flatName)) (\<lambda>_.
           bindS (doS (get_data e a ''Secret'' (oNamespace ba) credName)) (\<lambda>r. case r of
               Inl x \<Rightarrow> if IsNotFound x
                        then wait_flat e ba False eventReasonMissingSecret (Sprintf ''waiting for Secret %q'' [credName])
                        else failS x
             | Inr src \<Rightarrow> flatten_source e a ba flatName src)))"

definition Flattener_Reconcile :: "env \<Rightarrow> cosi_api \<Rightarrow> string \<Rightarrow> string \<Rightarrow> Result fstep" where
  "Flattener_Reconcile e a ns name =
     bindS (doS (get_BA e a ns name)) (\<lambda>r. case r of
         Inl x \<Rightarrow> if IsNotFound x then retS no_requeue else failS x
       | Inr ba \<Rightarrow> flatten_access e a ba)"


section \<open>Only owned objects are touched\<close>

definition data_seen :: "cosi_api \<Rightarrow> string \<Rightarrow> DataObject \<Rightarrow> history \<Rightarrow> bool" where
  "data_seen a kind obj h =
     (earlier (\<lambda>h. \<exists>ns sel objs. o_listData a h kind ns sel = Inr objs \<and> obj \<in> set objs) h
      \<or> earlier (\<lambda>h. \<exists>ns n. o_getData a h kind ns n = Inr obj) h)"

definition flat_write :: "cosi_api \<Rightarrow> BucketAccess \<Rightarrow> history \<Rightarrow> call \<Rightarrow> bool" where
  "flat_write a ba h c = (case c of
       DeleteCall kind ns n \<Rightarrow>
         \<exists>obj. data_seen a kind obj h \<and> IsOwnedByBucketAccess obj ba \<and> oNamespace obj = ns \<and> oName obj = n
     | UpdateData kind obj \<Rightarrow> map_of (oLabels obj) LabelBucketAccessUID = Some (oUID ba)
         \<and> (\<exists>old. earlier (\<lambda>h. o_getData a h kind (oNamespace ba) (FlatName (ba_CredentialsSecretName ba)) = Inr old) h
               \<and> (oUID old = [] \<or> IsOwnedByBucketAccess old ba))
     | CreateData kind obj \<Rightarrow> map_of (oLabels obj) LabelBucketAccessUID = Some (oUID ba)
         \<and> (\<exists>x. earlier (\<lambda>h. o_getData a h kind (oNamespace ba) (FlatName (ba_CredentialsSecretName ba)) = Inl x) h
               \<and> IsNotFound x)
     | _ \<Rightarrow> True)"

lemma data_seen_mono: "data_seen a kind obj h \<Longrightarrow> prefix h h' \<Longrightarrow> data_seen a kind obj h'"
  unfolding data_seen_def by (auto intro: earlier_mono)

lemma data_listed:
  "o_listData a h kind ns sel = Inr objs \<Longrightarrow> obj \<in> set objs \<Longrightarrow> data_seen a kind obj (h @ cs)"
  unfolding data_seen_def by (rule disjI1, rule earlier_append) blast

lemma data_read: "o_getData a h kind ns n = Inr obj \<Longrightarrow> data_seen a kind obj (h @ cs)"
  unfolding data_seen_def by (rule disjI2, rule earlier_append) blast

lemma flat_write_other [simp]:
  "flat_write a ba h (GetCall k ns n)" "flat_write a ba h (ListCall k ns sel)" "flat_write a ba h (EventCall b r s)"
  by (simp_all add: flat_write_def)

lemma flat_write_delete:
  "data_seen a kind obj h \<Longrightarrow> IsOwnedByBucketAccess obj ba \<Longrightarrow>
     flat_write a ba h (DeleteCall kind (oNamespace obj) (oName obj))"
  by (auto simp: flat_write_def)

lemma delete_data_wp:
  assumes "data_seen a kind obj (hist w)" "IsOwnedByBucketAccess obj ba"
    and "\<And>r w'. prefix (hist w) (hist w') \<Longrightarrow> P r w'"
  shows "wp (flat_write a ba) (delete_data e kind obj) P w"
  unfolding delete_data_def k8s_write_def
  by (intro wp_rules wp_ask assms(3) flat_write_delete assms(1,2)) simp

lemma delete_owned_wp:
  assumes "\<And>r w'. prefix (hist w) (hist w') \<Longrightarrow> P r w'"
  shows "wp (flat_write a ba) (delete_owned e a ba keep kind) P w"
  unfolding delete_owned_def
proof (intro wp_bindE wp_ask flat_write_other, simp only: split: sum.split, intro conjI allI impI)
  fix objs
  let ?w = "record_call e (ListCall kind (oNamespace ba) (uid_selector ba)) 0 w"
  let ?I = "\<lambda>v :: world. prefix (hist w) (hist v) \<and> (\<forall>obj \<in> set objs. data_seen a kind obj (hist v))"
  assume "o_listData a (hist w) kind (oNamespace ba) (uid_selector ba) = Inr objs"
  then have "?I ?w" by (auto intro: data_listed)
  then show "wp (flat_write a ba) (forE objs (\<lambda>obj. if \<not> IsOwnedByBucketAccess obj ba \<or>
        keep \<noteq> [] \<and> oName obj = keep then ret (Inr ()) else delete_data e kind obj)) P ?w"
  proof (rule wp_forE)
    fix obj and v :: world
    assume I: "?I v" and "obj \<in> set objs"
    then show "wp (flat_write a ba) (if \<not> IsOwnedByBucketAccess obj ba \<or> keep \<noteq> [] \<and> oName obj = keep
        then ret (Inr ()) else delete_data e kind obj)
        (\<lambda>r w'. case r of Inl y \<Rightarrow> P (Inl y) w' | Inr _ \<Rightarrow> ?I w') v"
      by (intro wp_control wp_ret delete_data_wp)
        (auto split: sum.split intro: assms data_seen_mono prefix_order.trans)
  qed (rule assms, simp)
qed (rule assms, simp)


lemma DeleteOwnedFlatPair_wp:
  assumes "\<And>r w'. prefix (hist w) (hist w') \<Longrightarrow> P r w'"
  shows "wp (flat_write a ba) (DeleteOwnedFlatPair e a ba keep) P w"
  unfolding DeleteOwnedFlatPair_def
  by (intro wp_rules delete_owned_wp) (auto split: sum.split intro!: delete_owned_wp assms intro: prefix_order.trans)

lemma fill_flat_Inr:
  "fill_flat a ba kvs obj = Inr obj' \<Longrightarrow>
     (oUID obj = [] \<or> IsOwnedByBucketAccess obj ba)
     \<and> map_of (oLabels obj') LabelBucketAccessUID = Some (oUID ba)"
  by (auto simp: fill_flat_def setFlatOwner_def SetLabel_def update_conv' split: if_splits sum.splits)

lemma CreateOrUpdate_wp:
  assumes "\<And>r w'. P r w'" "oNamespace obj = oNamespace ba" "oName obj = FlatName (ba_CredentialsSecretName ba)"
  shows "wp (flat_write a ba) (CreateOrUpdate e a kind (fill_flat a ba kvs) obj) P w"
  unfolding CreateOrUpdate_def get_data_def put_data_def
  by (intro wp_rules wp_ask assms(1) flat_write_other)
    (auto split: sum.split intro!: wp_ret assms(1) earlier_append
      simp: flat_write_def assms(2,3) dest!: fill_flat_Inr)


lemma ensureFlatPair_wp:
  assumes "\<And>r w'. P r w'" "flatName = FlatName (ba_CredentialsSecretName ba)"
  shows "wp (flat_write a ba) (ensureFlatPair e a ba flatName kv) P w"
  unfolding ensureFlatPair_def ensureFlatSecret_def ensureFlatConfigMap_def rollbackFlatSecret_def get_data_def
  by (intro wp_rules CreateOrUpdate_wp)
    (auto simp: assms(2) new_flat_def split: sum.split
      intro!: wp_rules wp_ask CreateOrUpdate_wp delete_data_wp assms(1) data_read flat_write_other)

lemma eventDeduped_wp:
  assumes "\<And>r w'. P r w'"
  shows "wp (flat_write a ba) (eventDeduped e ba' warning reason msg f) P w"
  unfolding eventDeduped_def Recorder_Event_def Let_def
  by (intro wp_rules wp_ask assms flat_write_other)

lemmas flatten_rules = wp_stepS wp_rules wp_ask eventDeduped_wp DeleteOwnedFlatPair_wp ensureFlatPair_wp flat_write_other

lemma flatten_access_wp: "wp (flat_write a ba) (flatten_access e a ba f) (\<lambda>_ _. True) w"
  unfolding flatten_access_def flatten_source_def write_flat_def wait_flat_def reconcileForeignClash_def
    clearEventOnce_def get_data_def Let_def
  by (intro flatten_rules) (auto split: sum.split prod.split intro!: flatten_rules)

text \<open>C4: The flattener touches only what belongs to the BucketAccess it reconciles: it deletes a Secret or
  ConfigMap only after the API server showed it with that BucketAccess as its controller, it
  overwrites the flat object only after reading it as owned (or without identity), it creates it only
  after it was reported missing, and what it writes carries the label of the BucketAccess.\<close>

theorem flattener_touches_only_owned:
  assumes "run_state (Flattener_Reconcile e a ns name f) w = (r, w')"
    and "length (hist w) < i" "i < length (hist w')"
  shows "\<exists>ba. o_getBA a (hist w) ns name = Inr ba \<and> flat_write a ba (take i (hist w')) (hist w' ! i)"
proof -
  let ?w = "record_call e (GetCall ''BucketAccess'' ns name) 0 w"
  show ?thesis
  proof (cases "o_getBA a (hist w) ns name")
    case (Inl x)
    then have "w' = ?w" using assms(1)
      by (auto simp: Flattener_Reconcile_def get_BA_def step_simps split: if_splits)
    then show ?thesis using assms(2,3) by simp
  next
    case (Inr ba)
    then have "run_state (flatten_access e a ba f) ?w = (r, w')"
      using assms(1) by (simp add: Flattener_Reconcile_def get_BA_def step_simps)
    from wp_nth[OF flatten_access_wp this] show ?thesis using assms(2,3) Inr by simp
  qed
qed


section \<open>A concrete access\<close>

definition demo_access :: BucketAccess where
  "demo_access = \<lparr>oName = ''ba'', oNamespace = ''ns'', oLabels = [], oAnnotations = [], oFinalizers = [],
     oOwners = [], oDeleting = False, oUID = ''u'', oGeneration = 1, ba_BucketClaimName = ''c'',
     ba_CredentialsSecretName = ''s'', ba_AccessGranted = True, ba_AccountID = ''a''\<rparr>"

definition demo_flat :: DataObject where
  "demo_flat = (new_flat demo_access ''s-flat'')\<lparr>oUID := ''v'', oOwners := [\<lparr>ref_Kind = ''BucketAccess'',
     ref_Name = ''ba'', ref_UID = ''u'', ref_Controller = Some True, ref_BlockOwnerDeletion = Some False\<rparr>]\<rparr>"

definition demo_cosi :: cosi_api where
  "demo_cosi = \<lparr>o_getBA = \<lambda>h ns n. Inr demo_access, o_listBA = \<lambda>h ns i v. Inr [],
     o_getClaim = \<lambda>h ns n. Inl unavailable, o_getData = \<lambda>h k ns n. Inl unavailable,
     o_listData = \<lambda>h k ns sel. Inr (if k = ''Secret'' then [demo_flat] else []),
     o_putData = \<lambda>h c. Inl unavailable, o_putBA = \<lambda>h c. Inl unavailable,
     o_setControllerRef = \<lambda>ba b refs. Inr refs, o_parseJSON = \<lambda>s. Inr JNull,
     o_parseURL = \<lambda>s. Inl unavailable, o_decodeBucket = \<lambda>j. Inl unavailable, o_marshalBucket = \<lambda>b. None\<rparr>"

abbreviation demo_flatten :: "((err + Result) \<times> Flattener) \<times> world" where
  "demo_flatten \<equiv> run_state (Flattener_Reconcile idle_env demo_cosi ''ns'' ''ba'' \<lparr>eventOnce = []\<rparr>) start_world"

lemma demo_flatten_hist:
  "hist (snd demo_flatten) = [GetCall ''BucketAccess'' ''ns'' ''ba'',
     ListCall ''Secret'' ''ns'' [(LabelBucketAccessUID, ''u'')], DeleteCall ''Secret'' ''ns'' ''s-flat'']"
  by (simp add: Flattener_Reconcile_def flatten_access_def DeleteOwnedFlatPair_def delete_owned_def
      delete_data_def k8s_write_def IsOwnedByBucketAccess_def get_BA_def uid_selector_def WantFlatten_def
      lookup_str_def demo_cosi_def demo_access_def demo_flat_def new_flat_def step_simps idle_simps
      ReasonForError_def errors_As.simps as_status_def)

theorem flattener_touches_only_owned_witness:
  "hist (snd demo_flatten) ! 2 = DeleteCall ''Secret'' ''ns'' ''s-flat''
   \<and> (\<exists>ba. o_getBA demo_cosi (hist start_world) ''ns'' ''ba'' = Inr ba
        \<and> flat_write demo_cosi ba (take 2 (hist (snd demo_flatten))) (hist (snd demo_flatten) ! 2))"
proof
  show "hist (snd demo_flatten) ! 2 = DeleteCall ''Secret'' ''ns'' ''s-flat''"
    by (simp add: demo_flatten_hist)
  show "\<exists>ba. o_getBA demo_cosi (hist start_world) ''ns'' ''ba'' = Inr ba
        \<and> flat_write demo_cosi ba (take 2 (hist (snd demo_flatten))) (hist (snd demo_flatten) ! 2)"
    by (rule flattener_touches_only_owned[OF prod.collapse[symmetric]])
      (simp_all add: demo_flatten_hist start_world_sel)
qed

end
