(* ===== verification/ExtensionsServer.thy ===== *)
theory ExtensionsServer
  imports Cosi Triples
begin

text \<open>
  The gRPC API of the controller: the listener (internal/server/server.go), the authentication of a
  TCP caller and its authorization to read a Secret (internal/server/auth/auth.go), and the handlers
  of the VastExtensions service (internal/server/extensions/service.go). The context of a call
  carries the identity the token review answered; a call over the unix socket carries none.
\<close>

datatype Code = InvalidArgument | NotFound | PermissionDenied | Unauthenticated | Internal

type_synonym Status = "Code \<times> string"
type_synonym call_context = "UserInfo option"
type_synonym metadata = "(string \<times> string list) list"

record server_api =
  x_tokenReview :: "history \<Rightarrow> string \<Rightarrow> err + UserInfo \<times> bool"
  x_accessReview :: "history \<Rightarrow> SubjectAccessReview \<Rightarrow> err + bool"
  x_listBuckets :: "history \<Rightarrow> string \<Rightarrow> err + Bucket list"

definition bearerPrefix :: string where "bearerPrefix = ''Bearer ''"
definition authorizationKey :: string where "authorizationKey = ''authorization''"
definition saUsernamePrefix :: string where "saUsernamePrefix = ''system:serviceaccount:''"
definition driverControllerSASuffix :: string where "driverControllerSASuffix = ''-vast-controller-sa''"


section \<open>Authentication\<close>

definition isDriverControllerSA :: "string \<Rightarrow> bool" where
  "isDriverControllerSA username =
     (HasPrefix username saUsernamePrefix
      \<and> (let parts = Split username '':'' in
         length parts = 4 \<and> parts ! 2 \<noteq> [] \<and> parts ! 3 \<noteq> [] \<and> HasSuffix (parts ! 3) driverControllerSASuffix))"

definition validateBearerToken :: "env \<Rightarrow> server_api \<Rightarrow> string \<Rightarrow> (err + UserInfo \<times> bool) io" where
  "validateBearerToken e x authHeader =
     (let token = TrimPrefix authHeader bearerPrefix in
      ask e (TokenReviewCall token) (\<lambda>h. x_tokenReview x h token))"

definition authorizeConnection :: "env \<Rightarrow> server_api \<Rightarrow> metadata option \<Rightarrow> (Status + call_context) io" where
  "authorizeConnection e x md =
     (case md of
        None \<Rightarrow> ret (Inl (Unauthenticated, ''missing metadata''))
      | Some headers \<Rightarrow> (case map_of headers authorizationKey of
            None \<Rightarrow> ret (Inl (Unauthenticated, ''missing authorization token''))
          | Some [] \<Rightarrow> ret (Inl (Unauthenticated, ''missing authorization token''))
          | Some (authHeader # _) \<Rightarrow>
              validateBearerToken e x authHeader \<bind> (\<lambda>r. ret (case r of
                  Inl y \<Rightarrow> Inl (Internal, Sprintf ''token review failed: %v'' [Error_string y])
                | Inr (user, authenticated) \<Rightarrow>
                    if \<not> authenticated then Inl (Unauthenticated, ''invalid token'')
                    else if \<not> isDriverControllerSA (user_Username user) then
                      Inl (PermissionDenied,
                           Sprintf ''identity %q is not an allowed VastExtensions caller'' [user_Username user])
                    else Inr (Some user)))))"

definition authorizationInterceptor ::
  "env \<Rightarrow> server_api \<Rightarrow> metadata option \<Rightarrow> (call_context \<Rightarrow> (Status + 'a) io) \<Rightarrow> (Status + 'a) io" where
  "authorizationInterceptor e x md handler =
     authorizeConnection e x md \<bind> (\<lambda>r. case r of Inl s \<Rightarrow> ret (Inl s) | Inr ctx \<Rightarrow> handler ctx)"

definition secret_review :: "UserInfo \<Rightarrow> string \<Rightarrow> string \<Rightarrow> SubjectAccessReview" where
  "secret_review user secretName secretNamespace =
     \<lparr>sar_User = user, sar_Namespace = secretNamespace, sar_Verb = ''get'', sar_Group = [],
      sar_Resource = ''secrets'', sar_Name = secretName\<rparr>"

definition CreateSubjectAccessReview :: "env \<Rightarrow> server_api \<Rightarrow> SubjectAccessReview \<Rightarrow> (err + bool) io" where
  "CreateSubjectAccessReview e x sar =
     wrapE (Errorf_w ''create SubjectAccessReview: '' [])
       (ask e (AccessReviewCall sar) (\<lambda>h. x_accessReview x h sar))"

definition AuthorizeSecretGet ::
  "env \<Rightarrow> server_api \<Rightarrow> call_context \<Rightarrow> string \<Rightarrow> string \<Rightarrow> (Status + unit) io" where
  "AuthorizeSecretGet e x ctx secretName secretNamespace =
     (case ctx of
        None \<Rightarrow> ret (Inr ())
      | Some user \<Rightarrow>
          CreateSubjectAccessReview e x (secret_review user secretName secretNamespace) \<bind> (\<lambda>r. ret (case r of
              Inl y \<Rightarrow> Inl (Internal, Sprintf ''subject access review failed: %v'' [Error_string y])
            | Inr allowed \<Rightarrow>
                if \<not> allowed then Inl (PermissionDenied,
                  Sprintf ''caller is not allowed to get secret %s/%s'' [secretNamespace, secretName])
                else Inr ())))"


section \<open>The listener\<close>

definition parseBindAddress :: "string \<Rightarrow> string \<times> string" where
  "parseBindAddress bindAddress =
     (if HasPrefix bindAddress ''unix://'' then (''unix'', TrimPrefix bindAddress ''unix://'')
      else if HasPrefix bindAddress ''/'' then (''unix'', bindAddress)
      else (''tcp'', bindAddress))"

definition dirOf :: "string \<Rightarrow> string" where
  "dirOf path =
     (case dropWhile (\<lambda>c. c \<noteq> CHR ''/'') (rev path) of [] \<Rightarrow> ''.'' | _ # cs \<Rightarrow> rev cs)"

text \<open>A listener on TCP runs the interceptor before the handler, one on a unix socket does not.\<close>

definition serve_call ::
  "env \<Rightarrow> server_api \<Rightarrow> string \<Rightarrow> metadata option \<Rightarrow> (call_context \<Rightarrow> (Status + 'a) io) \<Rightarrow> (Status + 'a) io" where
  "serve_call e x bindAddress md handler =
     (if fst (parseBindAddress bindAddress) = ''tcp'' then authorizationInterceptor e x md handler
      else handler None)"


section \<open>The service\<close>

definition GetSecretCredentials :: "env \<Rightarrow> string \<Rightarrow> string \<Rightarrow> (err + smap) io" where
  "GetSecretCredentials e name namespace = GetSecret e name namespace"

definition secret_reply :: "string \<Rightarrow> string \<Rightarrow> err + smap \<Rightarrow> Status + smap" where
  "secret_reply name namespace r =
     (case r of
        Inl y \<Rightarrow> if IsNotFound y then Inl (NotFound, Sprintf ''secret %s/%s not found'' [namespace, name])
                 else Inl (Internal, Sprintf ''failed to get secret %s/%s: %v'' [namespace, name, Error_string y])
      | Inr credentials \<Rightarrow> Inr credentials)"

definition ResolveSecret :: "env \<Rightarrow> server_api \<Rightarrow> string \<Rightarrow> string \<Rightarrow> call_context \<Rightarrow> (Status + smap) io" where
  "ResolveSecret e x secretName secretNamespace ctx =
     (if secretName = [] then ret (Inl (InvalidArgument, ''secret_name must not be empty''))
      else if secretNamespace = [] then ret (Inl (InvalidArgument, ''secret_namespace must not be empty''))
      else AuthorizeSecretGet e x ctx secretName secretNamespace \<bind> (\<lambda>r. case r of
          Inl s \<Rightarrow> ret (Inl s)
        | Inr _ \<Rightarrow> GetSecretCredentials e secretName secretNamespace
                     \<bind> (\<lambda>r. ret (secret_reply secretName secretNamespace r))))"

definition FindCOSIBucketByID :: "env \<Rightarrow> server_api \<Rightarrow> string \<Rightarrow> (err + Bucket) io" where
  "FindCOSIBucketByID e x bucketID =
     ask e (ListCall ''Bucket'' [] [(''status.bucketID'', bucketID)]) (\<lambda>h. x_listBuckets x h bucketID) \<bind> (\<lambda>r. ret
       (case r of
          Inl y \<Rightarrow> Inl (Errorf_w ''list COSI Buckets by bucketID: '' [] y)
        | Inr [] \<Rightarrow> Inl (Errorf ''COSI Bucket with bucketID %q not found'' [bucketID])
        | Inr [b] \<Rightarrow> Inr b
        | Inr _ \<Rightarrow> Inl (Errorf ''multiple COSI Buckets with bucketID %q'' [bucketID])))"

definition ResolveCOSIBucketAuth :: "env \<Rightarrow> server_api \<Rightarrow> string \<Rightarrow> call_context \<Rightarrow> (Status + smap) io" where
  "ResolveCOSIBucketAuth e x bucketID ctx =
     (if bucketID = [] then ret (Inl (InvalidArgument, ''bucket_id must not be empty''))
      else FindCOSIBucketByID e x bucketID \<bind> (\<lambda>r. case r of
          Inl y \<Rightarrow> ret (Inl (NotFound, Error_string y))
        | Inr bucket \<Rightarrow> (case SecretRefFromParameters (bkt_Parameters bucket) of
              None \<Rightarrow> ret (Inr [])
            | Some (name, namespace) \<Rightarrow>
                if name = [] \<or> namespace = []
                then ret (Inl (InvalidArgument, SecretNameParam @ '' and '' @ SecretNamespaceParam @ '' must both be set''))
                else ResolveSecret e x name namespace ctx)))"

definition mapped_guid :: "string \<Rightarrow> (string \<times> TenantInfo) list list \<Rightarrow> string option" where
  "mapped_guid scName mappings =
     (case filter (\<lambda>m. case map_of m scName of Some t \<Rightarrow> ten_Guid t \<noteq> [] | None \<Rightarrow> False) mappings of
        [] \<Rightarrow> None
      | m # _ \<Rightarrow> map_option ten_Guid (map_of m scName))"

definition tenantGUIDFromReplicationStatus :: "env \<Rightarrow> admission_api \<Rightarrow> string \<Rightarrow> string option io" where
  "tenantGUIDFromReplicationStatus e a scName =
     ListVastStorageClassReplications e a [] \<bind> (\<lambda>r.
       case (case r of Inl _ \<Rightarrow> None | Inr vs \<Rightarrow> mapped_guid scName (map (TenantMapping \<circ> vscr_Status) vs)) of
         Some guid \<Rightarrow> ret (Some guid)
       | None \<Rightarrow> ListVastVolumeReplications e a [] \<bind> (\<lambda>r. ret
           (case r of Inl _ \<Rightarrow> None | Inr vs \<Rightarrow> mapped_guid scName (map (TenantMapping \<circ> vvr_Status) vs))))"

definition GetReplicationTenant :: "env \<Rightarrow> admission_api \<Rightarrow> string \<Rightarrow> (Status + string \<times> string) io" where
  "GetReplicationTenant e a storageClass =
     (if storageClass = [] then ret (Inl (InvalidArgument, ''storage_class must not be empty''))
      else tenantGUIDFromReplicationStatus e a storageClass \<bind> (\<lambda>g. case g of
          Some guid \<Rightarrow> ret (Inr (storageClass, guid))
        | None \<Rightarrow> NewFromStorageClassName e storageClass (e_sslVerify e) \<bind> (\<lambda>r. case r of
              Inl y \<Rightarrow> ret (Inl (Internal, Sprintf ''failed to build VMS REST client from StorageClass %q: %v''
                               [storageClass, Error_string y]))
            | Inr (rest, sc) \<Rightarrow> ResolveTenant e rest sc \<bind> (\<lambda>r. ret (case r of
                  Inl y \<Rightarrow> Inl (Internal, Sprintf ''failed to resolve tenant GUID via VIP pool for StorageClass %q: %v''
                               [storageClass, Error_string y])
                | Inr tenant \<Rightarrow> Inr (storageClass, ten_Guid tenant))))))"

datatype FailoverProto = FAILOVER_TYPE_GRACEFUL | FAILOVER_TYPE_UNGRACEFUL

definition failoverTypeToProto :: "string \<Rightarrow> FailoverProto" where
  "failoverTypeToProto a = (if a = FailoverTypeGraceful then FAILOVER_TYPE_GRACEFUL else FAILOVER_TYPE_UNGRACEFUL)"

record GetReplicationInfoResponse =
  ri_ResourceName :: string
  ri_Namespace :: string
  ri_ResourceKind :: string
  ri_IsPrimary :: bool
  ri_StorageClasses :: "string list"
  ri_FailoverType :: FailoverProto

definition VSCR_info :: "string \<Rightarrow> VSCR \<Rightarrow> GetReplicationInfoResponse" where
  "VSCR_info scName v =
     \<lparr>ri_ResourceName = oName v, ri_Namespace = oNamespace v, ri_ResourceKind = ''VastStorageClassReplication'',
      ri_IsPrimary = (PrimaryStorageClass (vscr_Spec v) = scName),
      ri_StorageClasses = AllStorageClasses (vscr_Spec v),
      ri_FailoverType = failoverTypeToProto (FailoverType (vscr_Spec v))\<rparr>"

definition VVR_info :: "string \<Rightarrow> VVR \<Rightarrow> GetReplicationInfoResponse" where
  "VVR_info scName v =
     \<lparr>ri_ResourceName = oName v, ri_Namespace = oNamespace v, ri_ResourceKind = ''VastVolumeReplication'',
      ri_IsPrimary = (v_PrimaryStorageClass (vvr_Spec v) = scName),
      ri_StorageClasses = v_AllStorageClasses (vvr_Spec v),
      ri_FailoverType = failoverTypeToProto (v_FailoverType (vvr_Spec v))\<rparr>"

definition GetReplicationInfo ::
  "env \<Rightarrow> admission_api \<Rightarrow> string \<Rightarrow> string \<Rightarrow> (Status + GetReplicationInfoResponse) io" where
  "GetReplicationInfo e a storageClass namespace =
     (if storageClass = [] then ret (Inl (InvalidArgument, ''storage_class must not be empty''))
      else ListVastStorageClassReplications e a namespace \<bind> (\<lambda>r. case r of
          Inl y \<Rightarrow> ret (Inl (Internal, Error_string y))
        | Inr vscrs \<Rightarrow> (case filter (\<lambda>v. storageClass \<in> set (AllStorageClasses (vscr_Spec v))) vscrs of
              v # _ \<Rightarrow> ret (Inr (VSCR_info storageClass v))
            | [] \<Rightarrow> ListVastVolumeReplications e a namespace \<bind> (\<lambda>r. ret (case r of
                  Inl y \<Rightarrow> Inl (Internal, Sprintf ''failed to list VastVolumeReplications: %v'' [Error_string y])
                | Inr vvrs \<Rightarrow> (case filter (\<lambda>v. storageClass \<in> set (v_AllStorageClasses (vvr_Spec v))) vvrs of
                      v # _ \<Rightarrow> Inr (VVR_info storageClass v)
                    | [] \<Rightarrow> Inl (NotFound,
                        Sprintf (''StorageClass %q is not part of any VastStorageClassReplication ''
                          @ ''or VastVolumeReplication'') [storageClass])))))))"


section \<open>Who reads a Secret\<close>

text \<open>The caller presented a token the API server authenticated as a driver controller, and was allowed
  to get the Secret.\<close>

definition authenticated :: "server_api \<Rightarrow> metadata option \<Rightarrow> UserInfo \<Rightarrow> history \<Rightarrow> bool" where
  "authenticated x md user h =
     (\<exists>headers header more. md = Some headers \<and> map_of headers authorizationKey = Some (header # more)
        \<and> earlier (\<lambda>h. x_tokenReview x h (TrimPrefix header bearerPrefix) = Inr (user, True)) h
        \<and> isDriverControllerSA (user_Username user))"

definition may_get_secret :: "server_api \<Rightarrow> UserInfo \<Rightarrow> string \<Rightarrow> string \<Rightarrow> history \<Rightarrow> bool" where
  "may_get_secret x user name namespace h =
     earlier (\<lambda>h. x_accessReview x h (secret_review user name namespace) = Inr True) h"

definition reviewed_read :: "server_api \<Rightarrow> metadata option \<Rightarrow> history \<Rightarrow> call \<Rightarrow> bool" where
  "reviewed_read x md h c =
     (\<forall>ns n. c = GetCall ''Secret'' ns n \<longrightarrow>
        (\<exists>user. authenticated x md user h \<and> may_get_secret x user n ns h))"

lemma authenticated_mono: "authenticated x md user h \<Longrightarrow> prefix h h' \<Longrightarrow> authenticated x md user h'"
  unfolding authenticated_def by (auto intro: earlier_mono)

lemma authorizeConnection_wp:
  assumes "\<And>s w'. P (Inl s) w'"
    and "\<And>user w'. authenticated x md user (hist w') \<Longrightarrow> P (Inr (Some user)) w'"
  shows "wp (reviewed_read x md) (authorizeConnection e x md) P w"
  unfolding authorizeConnection_def validateBearerToken_def Let_def
  by (intro wp_rules wp_ask assms)
    (auto simp: reviewed_read_def authenticated_def split: sum.splits intro!: assms earlier_append)

lemma AuthorizeSecretGet_wp:
  assumes "\<And>s w'. P (Inl s) w'"
    and "\<And>w'. prefix (hist w) (hist w') \<Longrightarrow> may_get_secret x user n ns (hist w') \<Longrightarrow> P (Inr ()) w'"
  shows "wp (reviewed_read x md) (AuthorizeSecretGet e x (Some user) n ns) P w"
  unfolding AuthorizeSecretGet_def CreateSubjectAccessReview_def option.case
  by (intro wp_rules wp_ask)
    (auto simp: reviewed_read_def may_get_secret_def split: sum.splits intro!: assms earlier_append)

lemma ResolveSecret_wp:
  assumes "authenticated x md user (hist w)"
  shows "wp (reviewed_read x md) (ResolveSecret e x n ns (Some user)) (\<lambda>_ _. True) w"
  unfolding ResolveSecret_def GetSecretCredentials_def GetSecret_def
  by (intro wp_rules AuthorizeSecretGet_wp wp_ask)
    (use assms in \<open>auto simp: reviewed_read_def intro: authenticated_mono\<close>)

lemma ResolveCOSIBucketAuth_wp:
  assumes "authenticated x md user (hist w)"
  shows "wp (reviewed_read x md) (ResolveCOSIBucketAuth e x b (Some user)) (\<lambda>_ _. True) w"
  unfolding ResolveCOSIBucketAuth_def FindCOSIBucketByID_def
  by (intro wp_rules ResolveSecret_wp wp_ask)
    (use assms in \<open>auto simp: reviewed_read_def intro: authenticated_mono\<close>)



section \<open>A concrete call\<close>

definition demo_user :: UserInfo where
  "demo_user = \<lparr>user_Username = ''system:serviceaccount:a:v-vast-controller-sa'', user_UID = ''u'',
     user_Groups = [], user_Extra = []\<rparr>"

definition demo_server :: server_api where
  "demo_server = \<lparr>x_tokenReview = \<lambda>h t. Inr (demo_user, True), x_accessReview = \<lambda>h sar. Inr True,
     x_listBuckets = \<lambda>h b. Inr []\<rparr>"

abbreviation demo_metadata :: "metadata option" where
  "demo_metadata \<equiv> Some [(authorizationKey, [''Bearer t''])]"

abbreviation demo_call :: "(Status + smap) \<times> world" where
  "demo_call \<equiv> run_state (serve_call idle_env demo_server '':9090'' demo_metadata
     (ResolveSecret idle_env demo_server ''s'' ''ns'')) start_world"

lemma demo_user_driver: "isDriverControllerSA (user_Username demo_user)"
  by code_simp

lemma demo_call_hist:
  "hist (snd demo_call) = [TokenReviewCall ''t'', AccessReviewCall (secret_review demo_user ''s'' ''ns''),
     GetCall ''Secret'' ''ns'' ''s'']"
  by (simp add: serve_call_def parseBindAddress_def authorizationInterceptor_def authorizeConnection_def
      validateBearerToken_def demo_server_def demo_user_driver ResolveSecret_def AuthorizeSecretGet_def
      CreateSubjectAccessReview_def GetSecretCredentials_def GetSecret_def HasPrefix_def TrimPrefix_def
      bearerPrefix_def run_simps idle_simps)


end
