(* ===== verification/Spec2Isabelle.thy ===== *)
theory Spec2Isabelle
  imports KeyLock CommandLine EventReporter ReplicationCli MirrorStore VrcProgress ReplicationObject Predicates PvcRemap PvcWebhook
    ExtensionsServer
begin

text \<open>
  Verification of the VAST CSI extensions controller, the Kubernetes operator under
  src/extensions-controller/.
\<close>


section \<open>Contents from creation to provisioning\<close>

text \<open>The two custom resources a content may name as its source can be read.\<close>

definition sources_served :: "env \<Rightarrow> (string \<Rightarrow> string \<Rightarrow> VSCR) \<Rightarrow> (string \<Rightarrow> string \<Rightarrow> VVR) \<Rightarrow> bool" where
  "sources_served e vscr vvr = ((\<forall>h ns n. k_getVSCR (e_k8s e) h ns n = Inr (vscr ns n))
     \<and> (\<forall>h ns n. k_getVVR (e_k8s e) h ns n = Inr (vvr ns n)))"

text \<open>The primary StorageClass of the resource the labels of the content name.\<close>

definition source_primary :: "(string \<Rightarrow> string \<Rightarrow> VSCR) \<Rightarrow> (string \<Rightarrow> string \<Rightarrow> VVR) \<Rightarrow> VRC \<Rightarrow> string option" where
  "source_primary vscr vvr v = map_option (\<lambda>(l, n).
     if l = LabelSourceVSCR
     then PrimaryStorageClass (vscr_Spec (vscr (ParentNamespace (oLabels v) LabelSourceVSCRNamespace (oNamespace v)) n))
     else v_PrimaryStorageClass (vvr_Spec (vvr (ParentNamespace (oLabels v) LabelSourceVVRNamespace (oNamespace v)) n)))
     (constellation_label v)"

lemma source_labels_distinct: "LabelSourceVVR \<noteq> LabelSourceVSCR"
  by code_simp

lemma lookupPrimaryStorageClass_run:
  assumes "content_typed v" "sources_served e vscr vvr"
  shows "\<exists>n w'. source_primary vscr vvr v = Some n \<and> run_state (lookupPrimaryStorageClass e v) w = (Inr n, w')"
  using assms by (auto simp: content_typed_def sources_served_def source_primary_def constellation_label_def
      lookupPrimaryStorageClass_def sourceVSCR_def sourceVVR_def GetVastStorageClassReplication_def get_VSCR_def
      GetVastVolumeReplication_def get_VVR_def Let_def run_simps source_labels_distinct)

lemma NewProvisioner_run:
  assumes "content_typed v" "sources_served e vscr vvr"
    and "run_state (NewFromStorageClassName e (vrc_StorageClass v) (e_sslVerify e)) w = (Inr (rest, sc), w2)"
  shows "\<exists>p w'. run_state (NewProvisioner e v) w = (Inr (if vrc_ProvisionerType v = ProvisionerTypeBlock
       then BlockProvisioner else FileProvisioner, p), w')
     \<and> p_rp p = v \<and> p_sourceRest p = rest \<and> p_sourceSc p = sc \<and> source_primary vscr vvr v = Some (p_primaryStorageClass p)"
proof -
  obtain n w' where "source_primary vscr vvr v = Some n" "run_state (lookupPrimaryStorageClass e v) w2 = (Inr n, w')"
    using lookupPrimaryStorageClass_run[OF assms(1,2)] by blast
  then show ?thesis using assms(1,3)
    by (auto simp: NewProvisioner_def newBase_def run_simps content_typed_def)
qed


definition parents_env :: env where
  "parents_env = group_env\<lparr>e_k8s := (e_k8s group_env)\<lparr>k_getVVR := \<lambda>h ns n. Inr demo_vvr\<rparr>\<rparr>"

lemma parents_env_sel:
  "k_getSC (e_k8s parents_env) = (\<lambda>h n. Inr group_class)"
  "k_getSecret (e_k8s parents_env) = (\<lambda>h ns n. Inr [(''endpoint'', ''e''), (''token'', ''t'')])"
  "v_newRest (e_vms parents_env) = (\<lambda>h c. None)"
  by (simp_all add: parents_env_def group_env_sel)

lemma parents_env_served: "sources_served parents_env (\<lambda>ns n. group_vscr n) (\<lambda>ns n. demo_vvr)"
  by (simp add: sources_served_def parents_env_def group_env_sel)

lemma parents_env_class:
  "\<exists>rest w'. run_state (NewFromStorageClassName parents_env n ssl) w = (Inr (rest, group_class), w')"
  by (simp add: NewFromStorageClassName_def GetStorageClass_def NewFromStorageClass_def GetSecret_def NewFromSecretData_def New_def
      lookup_str_list vms_def group_eval parents_env_sel run_simps Let_def)

lemma group_class_file: "\<not> IsBlockStorageClass group_class"
  by code_simp


end
